(* ===== verification/Prelude.thy ===== *)
theory Prelude
  imports Main "HOL-Library.Char_ord" "HOL-Library.List_Lexorder"
begin

text \<open>
  Shared vocabulary of the development: Python exceptions as values, the state monad in which
  every operation that touches the database runs, dictionaries as association lists and the
  Python string methods the sources call.

  A Python \<open>str\<close> is the list of its UTF-8 bytes.  The case mappings act on ASCII letters
  only, which is what the identifiers, networks, assets and purposes of the sources consist of.
\<close>

named_theorems keeps_intros \<open>rules that show an operation keeps a state predicate\<close>

section \<open>Exceptions and results\<close>

datatype exn =
    KeyError string
  | LookupError string
  | PermissionError string
  | ValueError string
  | TypeError string
  | RuntimeError string
  | IntegrityError
  | OperationalError string
  | OverflowError
  | AttributeError string
  | InvalidOperation
  | InvalidSignature

type_synonym 'a res = "exn + 'a"

definition bindE :: "'a res \<Rightarrow> ('a \<Rightarrow> 'b res) \<Rightarrow> 'b res" where
  "bindE m f = (case m of Inl e \<Rightarrow> Inl e | Inr x \<Rightarrow> f x)"

lemma bindE_simps [simp]:
  "bindE (Inl e) f = Inl e"
  "bindE (Inr x) f = f x"
  by (simp_all add: bindE_def)

lemma bindE_Inr_iff: "bindE m f = Inr y \<longleftrightarrow> (\<exists>x. m = Inr x \<and> f x = Inr y)"
  by (cases m) auto

lemma bindE_Inl_iff:
  "bindE m f = Inl e \<longleftrightarrow> m = Inl e \<or> (\<exists>x. m = Inr x \<and> f x = Inl e)"
  by (cases m) auto

text \<open>\<open>if not b: raise e\<close>, and a sequence of such checks.\<close>

definition need :: "bool \<Rightarrow> exn \<Rightarrow> unit res" where
  "need b e = (if b then Inr () else Inl e)"

fun all_of :: "unit res list \<Rightarrow> unit res" where
  "all_of [] = Inr ()"
| "all_of (x # xs) = bindE x (\<lambda>_. all_of xs)"

lemma all_of_Inr: "all_of xs = Inr u \<longleftrightarrow> list_all (\<lambda>x. x = Inr ()) xs"
  by (induction xs) (auto simp: bindE_Inr_iff)

declare all_of.simps [simp del]

lemma need_Inr [simp]: "need b e = Inr u \<longleftrightarrow> b"
  by (auto simp: need_def)

section \<open>The state monad with exceptions\<close>

text \<open>
  An operation takes the state to a new state and either a value or the exception it raised.  The
  state is kept when an exception is raised, because Python does not undo what ran before a raise.
\<close>

type_synonym ('s, 'a) sm = "'s \<Rightarrow> 's \<times> 'a res"

definition returnS :: "'a \<Rightarrow> ('s, 'a) sm" where
  "returnS x = (\<lambda>s. (s, Inr x))"

definition raiseS :: "exn \<Rightarrow> ('s, 'a) sm" where
  "raiseS e = (\<lambda>s. (s, Inl e))"

definition bindS :: "('s, 'a) sm \<Rightarrow> ('a \<Rightarrow> ('s, 'b) sm) \<Rightarrow> ('s, 'b) sm" where
  "bindS m f = (\<lambda>s. case m s of (s', Inl e) \<Rightarrow> (s', Inl e) | (s', Inr x) \<Rightarrow> f x s')"

definition liftS :: "'a res \<Rightarrow> ('s, 'a) sm" where
  "liftS r = (\<lambda>s. (s, r))"

definition guardS :: "bool \<Rightarrow> exn \<Rightarrow> ('s, unit) sm" where
  "guardS b e = (if b then returnS () else raiseS e)"

text \<open>\<open>catchS m h\<close> is \<open>try: m except X: h\<close>, where \<open>h\<close> says for which exceptions it runs.\<close>

definition catchS :: "('s, 'a) sm \<Rightarrow> (exn \<Rightarrow> ('s, 'a) sm option) \<Rightarrow> ('s, 'a) sm" where
  "catchS m h = (\<lambda>s. case m s of
     (s', Inr x) \<Rightarrow> (s', Inr x)
   | (s', Inl e) \<Rightarrow> (case h e of None \<Rightarrow> (s', Inl e) | Some k \<Rightarrow> k s'))"

lemma returnS_apply [simp]: "returnS x s = (s, Inr x)"
  by (simp add: returnS_def)

lemma raiseS_apply [simp]: "raiseS e s = (s, Inl e)"
  by (simp add: raiseS_def)

lemma liftS_apply [simp]: "liftS r s = (s, r)"
  by (simp add: liftS_def)

lemma guardS_apply [simp]: "guardS b e s = (s, if b then Inr () else Inl e)"
  by (simp add: guardS_def)

lemma bindS_apply:
  "bindS m f s = (case m s of (s', Inl e) \<Rightarrow> (s', Inl e) | (s', Inr x) \<Rightarrow> f x s')"
  by (simp add: bindS_def)

lemma bindS_simps [simp]:
  "bindS (returnS x) f = f x"
  "bindS (raiseS e) f = raiseS e"
  "bindS (liftS (Inl e)) f = raiseS e"
  "bindS (liftS (Inr x)) f = f x"
  "bindS (bindS m f) g = bindS m (\<lambda>x. bindS (f x) g)"
  by (auto simp: bindS_def fun_eq_iff split: prod.splits sum.splits)

lemma bindS_Inr_iff:
  "bindS m f s = (t, Inr y) \<longleftrightarrow> (\<exists>s' x. m s = (s', Inr x) \<and> f x s' = (t, Inr y))"
  by (auto simp: bindS_def split: prod.splits sum.splits)

lemma bindS_Inl_iff:
  "bindS m f s = (t, Inl e) \<longleftrightarrow>
     m s = (t, Inl e) \<or> (\<exists>s' x. m s = (s', Inr x) \<and> f x s' = (t, Inl e))"
  by (auto simp: bindS_def split: prod.splits sum.splits)

lemma bindS_step: "m s = (s', Inr x) \<Longrightarrow> bindS m f s = f x s'"
  by (simp add: bindS_def)

lemma bindS_stop: "m s = (s', Inl e) \<Longrightarrow> bindS m f s = (s', Inl e)"
  by (simp add: bindS_def)

subsection \<open>Operations that keep a predicate of the state\<close>

definition keeps :: "('s \<Rightarrow> bool) \<Rightarrow> ('s, 'a) sm \<Rightarrow> bool" where
  "keeps P m \<longleftrightarrow> (\<forall>s. P s \<longrightarrow> P (fst (m s)))"

lemma keepsD: "keeps P m \<Longrightarrow> P s \<Longrightarrow> P (fst (m s))"
  by (simp add: keeps_def)

lemma keepsD_eq: "keeps P m \<Longrightarrow> P s \<Longrightarrow> m s = (t, r) \<Longrightarrow> P t"
  by (metis fst_conv keepsD)

lemma keeps_basic [keeps_intros]:
  "keeps P (returnS x)" "keeps P (raiseS e)" "keeps P (liftS r)" "keeps P (guardS b e)"
  by (simp_all add: keeps_def)

lemma keeps_bind [keeps_intros]:
  "keeps P m \<Longrightarrow> (\<And>x. keeps P (f x)) \<Longrightarrow> keeps P (bindS m f)"
  by (auto simp: keeps_def bindS_def split: prod.splits sum.splits)

lemma keeps_catch [keeps_intros]:
  assumes "keeps P m" and "\<And>e k. h e = Some k \<Longrightarrow> keeps P k"
  shows "keeps P (catchS m h)"
  unfolding keeps_def catchS_def
proof (intro allI impI)
  fix s assume "P s"
  obtain t r where mr: "m s = (t, r)" by fastforce
  with assms(1) \<open>P s\<close> have "P t" by (rule keepsD_eq)
  with assms(2) mr
  show "P (fst (case m s of (s', Inr x) \<Rightarrow> (s', Inr x)
      | (s', Inl e) \<Rightarrow> (case h e of None \<Rightarrow> (s', Inl e) | Some k \<Rightarrow> k s')))"
    by (auto split: sum.splits option.splits dest: keepsD)
qed

lemma keeps_if [keeps_intros]:
  "(b \<Longrightarrow> keeps P m) \<Longrightarrow> (\<not> b \<Longrightarrow> keeps P n) \<Longrightarrow> keeps P (if b then m else n)"
  by simp

lemma keeps_option [keeps_intros]:
  "keeps P n \<Longrightarrow> (\<And>x. keeps P (f x)) \<Longrightarrow>
     keeps P (case r of None \<Rightarrow> n | Some x \<Rightarrow> f x)"
  by (cases r) simp_all

lemma keeps_prod [keeps_intros]:
  "(\<And>x y. keeps P (f x y)) \<Longrightarrow> keeps P (case r of (x, y) \<Rightarrow> f x y)"
  by (cases r) simp

lemma keeps_let [keeps_intros]: "(\<And>x. keeps P (f x)) \<Longrightarrow> keeps P (let x = v in f x)"
  by simp

section \<open>Dictionaries\<close>

text \<open>
  A Python \<open>dict\<close> with string keys, in insertion order.  \<open>dget\<close> is \<open>d.get(k)\<close>, \<open>dset\<close> is
  \<open>d[k] = v\<close>, which keeps the position of a key that is already there.
\<close>

type_synonym 'v dict = "(string \<times> 'v) list"

abbreviation dget :: "'v dict \<Rightarrow> string \<Rightarrow> 'v option" where
  "dget d k \<equiv> map_of d k"

fun dset :: "'v dict \<Rightarrow> string \<Rightarrow> 'v \<Rightarrow> 'v dict" where
  "dset [] k v = [(k, v)]"
| "dset ((k', v') # d) k v = (if k = k' then (k, v) # d else (k', v') # dset d k v)"

definition dkeys :: "'v dict \<Rightarrow> string list" where
  "dkeys d = map fst d"

lemma dget_dset [simp]: "dget (dset d k v) = (dget d)(k \<mapsto> v)"
  by (induction d k v rule: dset.induct) auto

lemma dget_in: "dget d k = Some v \<Longrightarrow> (k, v) \<in> set d"
  by (rule map_of_SomeD)

lemma dget_dkeys: "k \<in> set (dkeys d) \<longleftrightarrow> dget d k \<noteq> None"
  by (simp add: dkeys_def map_of_eq_None_iff)

lemma length_filter_mono:
  "(\<And>x. P x \<Longrightarrow> Q x) \<Longrightarrow> length (filter P xs) \<le> length (filter Q xs)"
  by (induction xs) (simp_all add: le_SucI)

section \<open>String methods\<close>

definition lower_char :: "char \<Rightarrow> char" where
  "lower_char c = (let n = of_char c :: nat in
     if 65 \<le> n \<and> n \<le> 90 then char_of (n + 32) else c)"

definition upper_char :: "char \<Rightarrow> char" where
  "upper_char c = (let n = of_char c :: nat in
     if 97 \<le> n \<and> n \<le> 122 then char_of (n - 32) else c)"

definition str_lower :: "string \<Rightarrow> string" where
  "str_lower s = map lower_char s"

definition str_upper :: "string \<Rightarrow> string" where
  "str_upper s = map upper_char s"

definition is_space_char :: "char \<Rightarrow> bool" where
  "is_space_char c = (let n = of_char c :: nat in n = 32 \<or> (9 \<le> n \<and> n \<le> 13) \<or> (28 \<le> n \<and> n \<le> 31))"

definition str_strip :: "string \<Rightarrow> string" where
  "str_strip s = rev (dropWhile is_space_char (rev (dropWhile is_space_char s)))"

definition is_hex_char :: "char \<Rightarrow> bool" where
  "is_hex_char c = (let n = of_char c :: nat in (48 \<le> n \<and> n \<le> 57) \<or> (97 \<le> n \<and> n \<le> 102))"

text \<open>\<open>len(s) == 64 and all(c in "0123456789abcdef" for c in s)\<close>\<close>

definition is_sha256_hex :: "string \<Rightarrow> bool" where
  "is_sha256_hex s = (length s = 64 \<and> list_all is_hex_char s)"

text \<open>Membership in a list of strings up to case: \<open>x.lower() in {y.lower() for y in ys}\<close>.\<close>

definition lower_mem :: "string \<Rightarrow> string list \<Rightarrow> bool" where
  "lower_mem x ys = List.member (map str_lower ys) (str_lower x)"

definition upper_mem :: "string \<Rightarrow> string list \<Rightarrow> bool" where
  "upper_mem x ys = List.member (map str_upper ys) (str_upper x)"

lemma lower_mem_iff: "lower_mem x ys \<longleftrightarrow> (\<exists>y\<in>set ys. str_lower y = str_lower x)"
  by (simp add: lower_mem_def image_iff) metis

lemma upper_mem_iff: "upper_mem x ys \<longleftrightarrow> (\<exists>y\<in>set ys. str_upper y = str_upper x)"
  by (simp add: upper_mem_def image_iff) metis

lemma lower_mem_mono: "set xs \<subseteq> set ys \<Longrightarrow> lower_mem x xs \<Longrightarrow> lower_mem x ys"
  by (auto simp: lower_mem_iff)

lemma lower_char_idem [simp]: "lower_char (lower_char c) = lower_char c"
proof -
  have "of_char c < (256::nat)" using of_char_of [of "of_char c :: nat"] by simp
  then show ?thesis by (auto simp: lower_char_def Let_def)
qed

lemma str_lower_idem [simp]: "str_lower (str_lower s) = str_lower s"
  by (simp add: str_lower_def)

end
