(* ===== verification/Sqlite.thy ===== *)
theory Sqlite
  imports Prelude
begin

text \<open>
  The connection of \<open>core/storage.py\<close> to its SQLite file, for any database contents.  A connection
  has what is committed (\<open>disk\<close>) and, inside a transaction, the uncommitted contents (\<open>work\<close>).  The
  Python driver begins a transaction implicitly before an INSERT, UPDATE or DELETE; a failed
  statement changes nothing but leaves that transaction open.  The process-local lock makes every
  method one atomic step, so a method is a function on the connection.
\<close>

record 'db conn =
  disk :: 'db
  work :: "'db option"

definition cur :: "'db conn \<Rightarrow> 'db" where
  "cur c = (case work c of None \<Rightarrow> disk c | Some w \<Rightarrow> w)"

section \<open>Statements\<close>

definition query :: "('db \<Rightarrow> 'a) \<Rightarrow> ('db conn, 'a) sm" where
  "query f = (\<lambda>c. (c, Inr (f (cur c))))"

definition dml :: "('db \<Rightarrow> ('db \<times> 'a) res) \<Rightarrow> ('db conn, 'a) sm" where
  "dml f = (\<lambda>c. case f (cur c) of
     Inl e \<Rightarrow> (c\<lparr>work := Some (cur c)\<rparr>, Inl e)
   | Inr (w, a) \<Rightarrow> (c\<lparr>work := Some w\<rparr>, Inr a))"

definition commit :: "('db conn, unit) sm" where
  "commit = (\<lambda>c. (c\<lparr>disk := cur c, work := None\<rparr>, Inr ()))"

definition rollback :: "('db conn, unit) sm" where
  "rollback = (\<lambda>c. (c\<lparr>work := None\<rparr>, Inr ()))"

definition begin_immediate :: "('db conn, unit) sm" where
  "begin_immediate = (\<lambda>c. case work c of
     None \<Rightarrow> (c\<lparr>work := Some (disk c)\<rparr>, Inr ())
   | Some w \<Rightarrow> (c, Inl (OperationalError ''cannot start a transaction within a transaction'')))"

text \<open>\<open>Storage.transaction\<close>: commit on success, roll back and raise again on any exception.\<close>

definition transaction :: "('db conn, 'a) sm \<Rightarrow> ('db conn, 'a) sm" where
  "transaction body = catchS
     (bindS begin_immediate (\<lambda>_. bindS body (\<lambda>x. bindS commit (\<lambda>_. returnS x))))
     (\<lambda>e. Some (bindS rollback (\<lambda>_. raiseS e)))"

text \<open>
  \<open>try: m except sqlite3.IntegrityError: self._conn.rollback(); h\<close>
\<close>

definition on_integrity :: "('db conn, 'a) sm \<Rightarrow> ('db conn, 'a) sm \<Rightarrow> ('db conn, 'a) sm" where
  "on_integrity m h = catchS m (\<lambda>e. if e = IntegrityError
     then Some (bindS rollback (\<lambda>_. h)) else None)"

section \<open>What they do\<close>

lemma cur_simps [simp]:
  "cur \<lparr>disk = d, work = None\<rparr> = d"
  "cur \<lparr>disk = d, work = Some w\<rparr> = w"
  "cur (c\<lparr>work := Some w\<rparr>) = w"
  "cur (c\<lparr>disk := d, work := None\<rparr>) = d"
  "cur (c\<lparr>work := None\<rparr>) = disk c"
  by (simp_all add: cur_def)

lemma cur_idle: "work c = None \<Longrightarrow> cur c = disk c"
  by (simp add: cur_def)

lemma query_apply [simp]: "query f c = (c, Inr (f (cur c)))"
  by (simp add: query_def)

lemma commit_apply [simp]: "commit c = (c\<lparr>disk := cur c, work := None\<rparr>, Inr ())"
  by (simp add: commit_def)

lemma rollback_apply [simp]: "rollback c = (c\<lparr>work := None\<rparr>, Inr ())"
  by (simp add: rollback_def)

lemma transaction_ok:
  assumes "work c = None" and "body (c\<lparr>work := Some (disk c)\<rparr>) = (c', Inr x)"
  shows "transaction body c = (c'\<lparr>disk := cur c', work := None\<rparr>, Inr x)"
  using assms by (simp add: transaction_def catchS_def bindS_apply begin_immediate_def)

lemma transaction_fail:
  assumes "work c = None" and "body (c\<lparr>work := Some (disk c)\<rparr>) = (c', Inl e)"
  shows "transaction body c = (c'\<lparr>work := None\<rparr>, Inl e)"
  using assms by (simp add: transaction_def catchS_def bindS_apply begin_immediate_def)

lemma transaction_nested:
  assumes "work c = Some w"
  shows "transaction body c =
    (c\<lparr>work := None\<rparr>, Inl (OperationalError ''cannot start a transaction within a transaction''))"
  using assms by (simp add: transaction_def catchS_def bindS_apply begin_immediate_def)

lemma transaction_idle: "work (fst (transaction body c)) = None"
proof (cases "work c")
  case None
  obtain c' r where "body (c\<lparr>work := Some (disk c)\<rparr>) = (c', r)" by fastforce
  with None show ?thesis by (cases r) (simp_all add: transaction_ok transaction_fail)
qed (simp add: transaction_nested)

lemma on_integrity_Inr:
  "m c = (c', Inr x) \<Longrightarrow> on_integrity m h c = (c', Inr x)"
  by (simp add: on_integrity_def catchS_def)

lemma on_integrity_IntegrityError:
  "m c = (c', Inl IntegrityError) \<Longrightarrow> on_integrity m h c = h (c'\<lparr>work := None\<rparr>)"
  by (simp add: on_integrity_def catchS_def bindS_apply)

lemma on_integrity_other:
  "m c = (c', Inl e) \<Longrightarrow> e \<noteq> IntegrityError \<Longrightarrow> on_integrity m h c = (c', Inl e)"
  by (simp add: on_integrity_def catchS_def)

lemma keeps_query [keeps_intros]: "keeps P (query f)"
  by (simp add: keeps_def)

text \<open>
  Between two methods nothing is pending: what a reader sees is what is committed.  A statement
  that fails leaves a transaction open, but an unchanged one.
\<close>

definition quiet :: "'db conn \<Rightarrow> bool" where
  "quiet c \<longleftrightarrow> cur c = disk c"

lemma quiet_idle [simp]: "work c = None \<Longrightarrow> quiet c"
  by (simp add: quiet_def cur_def)

lemma quiet_transaction [keeps_intros]: "keeps quiet (transaction m)"
  by (simp add: keeps_def transaction_idle)

lemma quiet_rollback_commit [keeps_intros]: "keeps quiet commit" "keeps quiet rollback"
  by (simp_all add: keeps_def)

lemma quiet_dml_then:
  assumes "\<And>a c. quiet (fst (k a c))"
  shows "keeps quiet (bindS (dml f) k)"
  using assms by (auto simp: keeps_def bindS_apply dml_def quiet_def split: sum.splits)

lemma quiet_on_integrity [keeps_intros]:
  "keeps quiet m \<Longrightarrow> keeps quiet h \<Longrightarrow> keeps quiet (on_integrity m h)"
  unfolding on_integrity_def by (intro keeps_catch) (auto intro!: keeps_intros split: if_splits)

section \<open>The contract of a database whose contents only advance\<close>

text \<open>
  Fix a preorder on contents.  If every statement of an operation takes the contents forward, the
  operation takes the committed contents forward, whatever it commits, rolls back or leaves open.
\<close>

locale db_order =
  fixes R :: "'db \<Rightarrow> 'db \<Rightarrow> bool"
  assumes R_refl: "R d d"
    and R_trans: "R d e \<Longrightarrow> R e f \<Longrightarrow> R d f"
begin

definition conn_ok :: "'db conn \<Rightarrow> bool" where
  "conn_ok c \<longleftrightarrow> R (disk c) (cur c)"

definition advances :: "('db conn, 'a) sm \<Rightarrow> bool" where
  "advances m \<longleftrightarrow> (\<forall>c. conn_ok c \<longrightarrow> conn_ok (fst (m c)) \<and> R (disk c) (disk (fst (m c))))"

definition forward :: "('db \<Rightarrow> ('db \<times> 'a) res) \<Rightarrow> bool" where
  "forward f \<longleftrightarrow> (\<forall>d e a. f d = Inr (e, a) \<longrightarrow> R d e)"

lemma advancesD:
  "advances m \<Longrightarrow> conn_ok c \<Longrightarrow> m c = (c', r) \<Longrightarrow> conn_ok c' \<and> R (disk c) (disk c')"
  by (metis advances_def fst_conv)

lemma advances_pure [keeps_intros]:
  "advances (returnS x)" "advances (raiseS e)" "advances (liftS r)" "advances (guardS b e)"
  "advances (query f)"
  by (simp_all add: advances_def R_refl)

lemma advances_dml [keeps_intros]: "forward f \<Longrightarrow> advances (dml f)"
  by (auto simp: advances_def forward_def dml_def conn_ok_def R_refl
      split: sum.splits intro: R_trans)

lemma advances_commit [keeps_intros]: "advances commit"
  by (simp add: advances_def conn_ok_def R_refl)

lemma advances_rollback [keeps_intros]: "advances rollback"
  by (simp add: advances_def conn_ok_def R_refl)

lemma advances_begin [keeps_intros]: "advances begin_immediate"
  by (auto simp: advances_def begin_immediate_def conn_ok_def R_refl split: option.splits)

lemma advances_bind [keeps_intros]:
  assumes m: "advances m" and f: "\<And>x. advances (f x)"
  shows "advances (bindS m f)"
  unfolding advances_def
proof (intro allI impI)
  fix c assume c: "conn_ok c"
  obtain c' r where mr: "m c = (c', r)" by fastforce
  with m c have c': "conn_ok c'" "R (disk c) (disk c')" by (auto dest: advancesD)
  show "conn_ok (fst (bindS m f c)) \<and> R (disk c) (disk (fst (bindS m f c)))"
  proof (cases r)
    case (Inr x)
    have "conn_ok (fst (f x c')) \<and> R (disk c') (disk (fst (f x c')))"
      using f [of x] c'(1) by (simp add: advances_def)
    with mr Inr c'(2) show ?thesis by (auto simp: bindS_def intro: R_trans)
  qed (use mr c' in \<open>simp add: bindS_def\<close>)
qed

lemma advances_catch [keeps_intros]:
  assumes m: "advances m" and h: "\<And>e k. h e = Some k \<Longrightarrow> advances k"
  shows "advances (catchS m h)"
  unfolding advances_def
proof (intro allI impI)
  fix c assume c: "conn_ok c"
  obtain c' r where mr: "m c = (c', r)" by fastforce
  with m c have c': "conn_ok c'" "R (disk c) (disk c')" by (auto dest: advancesD)
  have "\<And>e k. h e = Some k \<Longrightarrow> conn_ok (fst (k c')) \<and> R (disk c) (disk (fst (k c')))"
    using h c' by (meson advances_def R_trans)
  with mr c' show "conn_ok (fst (catchS m h c)) \<and> R (disk c) (disk (fst (catchS m h c)))"
    by (auto simp: catchS_def split: sum.splits option.splits)
qed

lemma advances_transaction [keeps_intros]: "advances m \<Longrightarrow> advances (transaction m)"
  unfolding transaction_def
  by (intro advances_catch advances_bind advances_begin advances_commit advances_pure)
     (auto intro!: keeps_intros)

lemma advances_on_integrity [keeps_intros]:
  "advances m \<Longrightarrow> advances h \<Longrightarrow> advances (on_integrity m h)"
  unfolding on_integrity_def by (intro advances_catch) (auto intro!: keeps_intros split: if_splits)

lemma advances_if [keeps_intros]:
  "(b \<Longrightarrow> advances m) \<Longrightarrow> (\<not> b \<Longrightarrow> advances n) \<Longrightarrow> advances (if b then m else n)"
  by simp

lemma advances_option [keeps_intros]:
  "advances n \<Longrightarrow> (\<And>x. advances (f x)) \<Longrightarrow>
     advances (case r of None \<Rightarrow> n | Some x \<Rightarrow> f x)"
  by (cases r) simp_all

lemma advances_prod [keeps_intros]:
  "(\<And>x y. advances (f x y)) \<Longrightarrow> advances (case r of (x, y) \<Rightarrow> f x y)"
  by (cases r) simp

lemma advances_let [keeps_intros]: "(\<And>x. advances (f x)) \<Longrightarrow> advances (let x = v in f x)"
  by simp

text \<open>A preorder may rest on an invariant of the contents: what holds committed stays.\<close>

lemma advances_invariant:
  assumes "advances m" and "conn_ok c" and "m c = (c', r)" and "P (disk c)"
    and "\<And>d e. R d e \<Longrightarrow> P d \<Longrightarrow> P e"
  shows "P (disk c') \<and> P (cur c') \<and> conn_ok c'"
  using assms advancesD [OF assms(1-3)] by (auto simp: conn_ok_def)

end

section \<open>Tables with uniqueness constraints\<close>

text \<open>
  A table is the list of its rows in insertion order; \<open>clash r s\<close> says that the two rows agree on
  the primary key or on the columns of some UNIQUE constraint.
\<close>

definition insert_row :: "('r \<Rightarrow> 'r \<Rightarrow> bool) \<Rightarrow> 'r \<Rightarrow> 'r list \<Rightarrow> 'r list res" where
  "insert_row clash r tab = (if list_ex (clash r) tab then Inl IntegrityError else Inr (tab @ [r]))"

text \<open>\<open>UPDATE ... SET f WHERE p\<close>, with its row count.\<close>

definition update_rows :: "('r \<Rightarrow> bool) \<Rightarrow> ('r \<Rightarrow> 'r) \<Rightarrow> 'r list \<Rightarrow> 'r list \<times> nat" where
  "update_rows p f tab = (map (\<lambda>r. if p r then f r else r) tab, length (filter p tab))"

fun no_clash :: "('r \<Rightarrow> 'r \<Rightarrow> bool) \<Rightarrow> 'r list \<Rightarrow> bool" where
  "no_clash clash [] = True"
| "no_clash clash (r # rs) = (\<not> list_ex (clash r) rs \<and> no_clash clash rs)"

text \<open>\<open>SELECT ... WHERE key = k\<close> of at most one row.\<close>

definition select_one :: "('r \<Rightarrow> bool) \<Rightarrow> 'r list \<Rightarrow> 'r option" where
  "select_one p tab = find p tab"

lemma insert_row_Inr:
  "insert_row clash r tab = Inr tab' \<longleftrightarrow> tab' = tab @ [r] \<and> (\<forall>s\<in>set tab. \<not> clash r s)"
  by (auto simp: insert_row_def list_ex_iff)

lemma insert_row_Inl:
  "insert_row clash r tab = Inl e \<longleftrightarrow> e = IntegrityError \<and> (\<exists>s\<in>set tab. clash r s)"
  by (auto simp: insert_row_def list_ex_iff)

lemma select_one_Some: "select_one p tab = Some r \<Longrightarrow> r \<in> set tab \<and> p r"
  by (auto simp: select_one_def find_Some_iff)

lemma select_one_None: "select_one p tab = None \<longleftrightarrow> (\<forall>r\<in>set tab. \<not> p r)"
  by (auto simp: select_one_def find_None_iff)

lemma select_one_append:
  "select_one p (xs @ ys) = (case select_one p xs of None \<Rightarrow> select_one p ys | Some r \<Rightarrow> Some r)"
  by (induction xs) (simp_all add: select_one_def)

lemma no_clash_append:
  "no_clash clash (xs @ ys) \<longleftrightarrow> no_clash clash xs \<and> no_clash clash ys \<and>
     (\<forall>x\<in>set xs. \<forall>y\<in>set ys. \<not> clash x y)"
  by (induction xs) (auto simp: list_ex_iff)

lemma no_clash_map:
  "(\<And>r s. clash (f r) (f s) \<longleftrightarrow> clash r s) \<Longrightarrow> no_clash clash (map f tab) = no_clash clash tab"
  by (induction tab) (simp_all add: list_ex_iff)

locale unique_table =
  fixes clash :: "'r \<Rightarrow> 'r \<Rightarrow> bool"
    and key :: "'r \<Rightarrow> 'k"
  assumes clash_sym: "clash r s \<Longrightarrow> clash s r"
    and key_clash: "key r = key s \<Longrightarrow> clash r s"
begin

lemma insert_keeps:
  assumes "no_clash clash tab" and "insert_row clash r tab = Inr tab'"
  shows "no_clash clash tab'"
  using assms clash_sym by (auto simp: insert_row_Inr no_clash_append)

lemma insert_twice:
  assumes "insert_row clash r tab = Inr tab'" and "set tab' \<subseteq> set tab''" and "key s = key r"
  shows "insert_row clash s tab'' = Inl IntegrityError"
  using assms key_clash by (auto simp: insert_row_Inr insert_row_Inl)

lemma insert_then_select:
  assumes "insert_row clash r tab = Inr tab'"
  shows "select_one (\<lambda>s. key s = k) tab' =
    (if k = key r then Some r else select_one (\<lambda>s. key s = k) tab)"
proof (cases "k = key r")
  case True
  with assms key_clash have "select_one (\<lambda>s. key s = k) tab = None"
    by (auto simp: insert_row_Inr select_one_None)
  with True assms show ?thesis
    by (auto simp: insert_row_Inr select_one_append) (simp add: select_one_def)
next
  case False
  with assms show ?thesis
    by (auto simp: insert_row_Inr select_one_append split: option.split) (simp add: select_one_def)
qed

lemma select_unique:
  assumes "no_clash clash tab" and "r \<in> set tab"
  shows "select_one (\<lambda>s. key s = key r) tab = Some r"
  using assms
proof (induction tab)
  case (Cons a tab)
  show ?case
  proof (cases "a = r")
    case False
    with Cons.prems have "r \<in> set tab" by simp
    with Cons.prems key_clash have "key a \<noteq> key r" by (auto simp: list_ex_iff)
    with Cons \<open>r \<in> set tab\<close> show ?thesis by (simp add: select_one_def)
  qed (simp add: select_one_def)
qed simp

lemma update_keeps:
  assumes "no_clash clash tab" and "\<And>r s. clash (f r) (f s) \<longleftrightarrow> clash r s"
    and "\<And>r s. clash (f r) s \<longleftrightarrow> clash r s"
  shows "no_clash clash (fst (update_rows p f tab))"
proof -
  have "\<And>r s. clash r (f s) \<longleftrightarrow> clash r s" using assms(3) clash_sym by blast
  with assms have "\<And>r s. clash (if p r then f r else r) (if p s then f s else s) \<longleftrightarrow> clash r s"
    by simp
  with assms(1) show ?thesis by (simp add: update_rows_def no_clash_map)
qed

end

end
