(* ===== verification/Pynum.thy ===== *)
theory Pynum
  imports Prelude Complex_Main
begin

text \<open>
  Python numbers.  A \<open>float\<close> is an IEEE 754 binary64 value, a \<open>decimal.Decimal\<close> is computed with
  28 significant digits; both round to nearest, ties to even.  \<open>round64\<close> and \<open>dec_round\<close> are those
  roundings on exact rationals, and \<open>float_repr\<close> is the value of the shortest decimal that reads
  back as the same float, which is what \<open>repr\<close> prints and \<open>Decimal(repr(x))\<close> holds.

  Not modelled: the sign of a zero, the difference between signalling and quiet NaN, and the
  trailing zeros of a Decimal (only its value takes part in comparisons).
\<close>

section \<open>Extended numbers\<close>

datatype xnum = Fin rat | PosInf | NegInf | NaN

fun x_lt :: "xnum \<Rightarrow> xnum \<Rightarrow> bool" where
  "x_lt (Fin a) (Fin b) = (a < b)"
| "x_lt (Fin a) PosInf = True"
| "x_lt NegInf (Fin b) = True"
| "x_lt NegInf PosInf = True"
| "x_lt _ _ = False"

fun x_le :: "xnum \<Rightarrow> xnum \<Rightarrow> bool" where
  "x_le NaN _ = False"
| "x_le _ NaN = False"
| "x_le (Fin a) (Fin b) = (a \<le> b)"
| "x_le NegInf _ = True"
| "x_le _ PosInf = True"
| "x_le _ _ = False"

fun x_eq :: "xnum \<Rightarrow> xnum \<Rightarrow> bool" where
  "x_eq NaN _ = False"
| "x_eq a b = (a = b)"

fun x_finite :: "xnum \<Rightarrow> bool" where
  "x_finite (Fin _) = True"
| "x_finite _ = False"

lemma x_le_refl [simp]: "a \<noteq> NaN \<Longrightarrow> x_le a a"
  by (cases a) auto

lemma x_le_trans: "x_le a b \<Longrightarrow> x_le b c \<Longrightarrow> x_le a c"
  by (cases a; cases b; cases c) auto

lemma x_le_less_trans: "x_le a b \<Longrightarrow> x_lt b c \<Longrightarrow> x_lt a c"
  by (cases a; cases b; cases c) auto

lemma x_not_lt: "a \<noteq> NaN \<Longrightarrow> b \<noteq> NaN \<Longrightarrow> \<not> x_lt a b \<longleftrightarrow> x_le b a"
  by (cases a; cases b) auto

section \<open>Positional logarithm\<close>

function ilog :: "int \<Rightarrow> int \<Rightarrow> nat" where
  "ilog b n = (if b < 2 \<or> n < b then 0 else Suc (ilog b (n div b)))"
  by pat_completeness auto
termination
proof (relation "measure (\<lambda>(b, n). nat n)", simp)
  fix b n :: int
  assume "\<not> (b < 2 \<or> n < b)"
  then have "n div b < n" and "0 < n" by (auto intro: int_div_less_self)
  then show "((b, n div b), b, n) \<in> measure (\<lambda>(b, n). nat n)" by simp
qed

declare ilog.simps [simp del]

lemma ilog_bounds:
  assumes "2 \<le> b" and "0 < n"
  shows "b ^ ilog b n \<le> n \<and> n < b ^ Suc (ilog b n)"
  using assms
proof (induction b n rule: ilog.induct)
  case (1 b n)
  show ?case
  proof (cases "n < b")
    case True
    with "1.prems" show ?thesis by (simp add: ilog.simps [of b n])
  next
    case False
    with "1.prems" have div: "0 < n div b" by (simp add: pos_imp_zdiv_pos_iff)
    with "1.IH" False "1.prems"
    have IH: "b ^ ilog b (n div b) \<le> n div b" "n div b < b ^ Suc (ilog b (n div b))" by auto
    have "b * b ^ ilog b (n div b) \<le> b * (n div b)" using IH(1) "1.prems" by simp
    also have "\<dots> \<le> n" using "1.prems" pos_mod_sign [of b n] minus_mod_eq_mult_div [of n b] by linarith
    finally have lo: "b * b ^ ilog b (n div b) \<le> n" .
    have "n = b * (n div b) + n mod b" by simp
    moreover have "n mod b < b" using "1.prems" by simp
    ultimately have "n < b * (n div b) + b" by linarith
    then have "n < b * (n div b + 1)" by (simp add: distrib_left)
    also have "\<dots> \<le> b * b ^ Suc (ilog b (n div b))"
      using IH(2) "1.prems" by (intro mult_left_mono) auto
    finally show ?thesis using lo False "1.prems" by (simp add: ilog.simps [of b n])
  qed
qed

text \<open>\<open>flog b x\<close> is the largest \<open>k\<close> with \<open>b\<^sup>k \<le> x\<close>, for a positive \<open>x\<close>.\<close>

definition flog :: "int \<Rightarrow> rat \<Rightarrow> int" where
  "flog b x = (let (n, d) = quotient_of x;
                   k = int (ilog b n) - int (ilog b d)
               in if of_int b powi k \<le> x then k else k - 1)"

lemma powi_mono: "(2::int) \<le> b \<Longrightarrow> i \<le> j \<Longrightarrow> (of_int b :: rat) powi i \<le> of_int b powi j"
  by (rule power_int_increasing) auto

lemma powi_pos [simp]: "(2::int) \<le> b \<Longrightarrow> 0 < (of_int b :: rat) powi k"
  by (simp add: zero_less_power_int)

lemma powi_Suc: "(2::int) \<le> b \<Longrightarrow> (of_int b :: rat) powi (k + 1) = of_int b * of_int b powi k"
  by (simp add: power_int_add)

lemma flog_bounds:
  assumes b: "2 \<le> b" and x: "0 < x"
  shows "of_int b powi flog b x \<le> x \<and> x < of_int b powi (flog b x + 1)"
proof -
  obtain n d where q: "quotient_of x = (n, d)" by fastforce
  have d: "0 < d" using q by (rule quotient_of_denom_pos)
  have xnd: "x = of_int n / of_int d" using q by (rule quotient_of_div)
  with x d have n: "0 < n" by (simp add: zero_less_divide_iff)
  let ?B = "of_int b :: rat"
  have B: "1 < ?B" "0 < ?B" "?B \<noteq> 0" using b by auto
  define p where "p = ilog b n"
  define r where "r = ilog b d"
  have np: "b ^ p \<le> n" "n < b ^ Suc p" and dr: "b ^ r \<le> d" "d < b ^ Suc r"
    using ilog_bounds [OF b] n d by (auto simp: p_def r_def)
  have "rat_of_int (b ^ p) \<le> of_int n" "rat_of_int n < of_int (b ^ Suc p)"
       "rat_of_int (b ^ r) \<le> of_int d" "rat_of_int d < of_int (b ^ Suc r)"
    using np dr by (simp_all only: of_int_le_iff of_int_less_iff)
  then have N: "?B ^ p \<le> of_int n" "of_int n < ?B ^ Suc p"
       and D: "?B ^ r \<le> of_int d" "of_int d < ?B ^ Suc r"
    by simp_all
  define k where "k = int p - int r"
  have pk: "?B powi k = ?B ^ p / ?B ^ r"
    using B by (simp add: k_def power_int_diff)
  have "x < ?B ^ Suc p / ?B ^ r"
    unfolding xnd using N D B d n by (intro frac_less) auto
  then have up: "x < ?B powi (k + 1)"
    using b by (simp only: powi_Suc pk) simp
  have "?B ^ p / ?B ^ Suc r \<le> x"
    unfolding xnd using N D B d n by (intro frac_le) auto
  moreover have "?B powi (k - 1) = ?B ^ p / ?B ^ Suc r"
    using B by (simp add: power_int_diff pk)
  ultimately have lo: "?B powi (k - 1) \<le> x" by simp
  have "flog b x = (if ?B powi k \<le> x then k else k - 1)"
    by (simp add: flog_def q k_def p_def r_def)
  with up lo show ?thesis by (auto simp: not_le)
qed

lemma flog_mono:
  assumes "2 \<le> b" and "0 < x" and "x \<le> y"
  shows "flog b x \<le> flog b y"
proof (rule ccontr)
  assume "\<not> ?thesis"
  then have "flog b y + 1 \<le> flog b x" by simp
  then have "(of_int b :: rat) powi (flog b y + 1) \<le> of_int b powi flog b x"
    using assms(1) by (rule powi_mono [rotated])
  also have "\<dots> \<le> x" using flog_bounds [OF assms(1,2)] by simp
  also have "x \<le> y" by fact
  also have "y < of_int b powi (flog b y + 1)"
    using flog_bounds [OF assms(1), of y] assms(2,3) by auto
  finally show False by simp
qed

section \<open>Rounding to nearest, ties to even\<close>

definition rhe :: "rat \<Rightarrow> int" where
  "rhe x = (let f = \<lfloor>x\<rfloor>; d = x - of_int f in
     if d < 1/2 then f else if 1/2 < d then f + 1 else if even f then f else f + 1)"

lemma rhe_int [simp]: "rhe (of_int n) = n"
  by (simp add: rhe_def)

lemma rhe_bounds: "\<lfloor>x\<rfloor> \<le> rhe x" "rhe x \<le> \<lfloor>x\<rfloor> + 1"
  by (simp_all add: rhe_def Let_def)

lemma rhe_mono: "x \<le> y \<Longrightarrow> rhe x \<le> rhe y"
proof -
  assume le: "x \<le> y"
  then have fl: "\<lfloor>x\<rfloor> \<le> \<lfloor>y\<rfloor>" by (rule floor_mono)
  show ?thesis
  proof (cases "\<lfloor>x\<rfloor> = \<lfloor>y\<rfloor>")
    case True
    with le show ?thesis by (auto simp: rhe_def Let_def)
  next
    case False
    with fl have "\<lfloor>x\<rfloor> + 1 \<le> \<lfloor>y\<rfloor>" by simp
    with rhe_bounds(2) [of x] rhe_bounds(1) [of y] show ?thesis by linarith
  qed
qed

text \<open>Rounding to a multiple of \<open>b\<^sup>k\<close>, and to \<open>p\<close> digits in base \<open>b\<close> no finer than \<open>b\<^sup>l\<^sup>o\<close>.\<close>

definition round_at :: "int \<Rightarrow> int \<Rightarrow> rat \<Rightarrow> rat" where
  "round_at b k x = of_int (rhe (x / of_int b powi k)) * of_int b powi k"

definition rexp :: "int \<Rightarrow> int \<Rightarrow> int \<Rightarrow> rat \<Rightarrow> int" where
  "rexp b p lo x = max (flog b \<bar>x\<bar> - p + 1) lo"

definition round_sig :: "int \<Rightarrow> int \<Rightarrow> int \<Rightarrow> rat \<Rightarrow> rat" where
  "round_sig b p lo x = (if x = 0 then 0 else round_at b (rexp b p lo x) x)"

lemma round_at_mono: "2 \<le> b \<Longrightarrow> x \<le> y \<Longrightarrow> round_at b k x \<le> round_at b k y"
  unfolding round_at_def
  by (intro mult_right_mono of_int_le_iff [THEN iffD2] rhe_mono divide_right_mono)
     (auto simp: less_imp_le)

lemma round_at_fix:
  assumes "2 \<le> b" and "k \<le> j"
  shows "round_at b k (of_int b powi j) = of_int b powi j"
proof -
  have "(of_int b :: rat) powi j = of_int b powi (j - k) * of_int b powi k"
    using assms by (simp add: power_int_add [symmetric])
  moreover have "(of_int b :: rat) powi (j - k) = of_int (b ^ nat (j - k))"
    using assms by (simp add: power_int_def)
  ultimately show ?thesis
    using assms by (simp add: round_at_def del: of_int_power)
qed

lemma rhe_minus: "rhe (- x) = - rhe x"
proof (cases "x = of_int \<lfloor>x\<rfloor>")
  case True
  then have "- x = of_int (- \<lfloor>x\<rfloor>)" by simp
  then show ?thesis using True by (metis rhe_int)
next
  case False
  then have "\<lceil>x\<rceil> = \<lfloor>x\<rfloor> + 1" by (simp add: ceiling_altdef)
  then have fl: "\<lfloor>- x\<rfloor> = - \<lfloor>x\<rfloor> - 1" by (simp add: floor_minus)
  show ?thesis by (simp add: rhe_def Let_def fl)
qed

lemma round_at_minus: "round_at b k (- x) = - round_at b k x"
  by (simp add: round_at_def rhe_minus)

lemma round_sig_minus: "round_sig b p lo (- x) = - round_sig b p lo x"
  by (simp add: round_sig_def round_at_minus rexp_def)

lemma round_sig_nonneg: "2 \<le> b \<Longrightarrow> 0 \<le> x \<Longrightarrow> 0 \<le> round_sig b p lo x"
  using round_at_mono [of b 0 x "rexp b p lo x"]
  by (auto simp: round_sig_def round_at_def [of b _ 0] rhe_def)

lemma round_sig_mono_pos:
  assumes b: "2 \<le> b" and p: "1 \<le> p" and x: "0 < x" and xy: "x \<le> y"
  shows "round_sig b p lo x \<le> round_sig b p lo y"
proof -
  let ?k = "rexp b p lo x" and ?j = "rexp b p lo y"
  from x xy have y: "0 < y" by simp
  have fl: "flog b x \<le> flog b y" by (rule flog_mono [OF b x xy])
  then have kj: "?k \<le> ?j" using x y by (simp add: rexp_def)
  have sx: "round_sig b p lo x = round_at b ?k x" "round_sig b p lo y = round_at b ?j y"
    using x y by (simp_all add: round_sig_def)
  show ?thesis
  proof (cases "?k = ?j")
    case True
    then show ?thesis using round_at_mono [OF b xy] by (simp add: sx)
  next
    case False
    with kj have lt: "?k < ?j" by simp
    then have j: "?j = flog b y - p + 1" and less: "flog b x < flog b y"
      using x y by (auto simp: rexp_def max_def split: if_splits)
    let ?m = "of_int b powi flog b y :: rat"
    have "x \<le> of_int b powi (flog b x + 1)" using flog_bounds [OF b x] by simp
    also have "\<dots> \<le> ?m" using b less by (intro powi_mono) auto
    finally have "round_at b ?k x \<le> round_at b ?k ?m" by (rule round_at_mono [OF b])
    also have "\<dots> = ?m" using b lt j p by (intro round_at_fix) auto
    also have "\<dots> = round_at b ?j ?m" using b j p by (intro round_at_fix [symmetric]) auto
    also have "\<dots> \<le> round_at b ?j y" using flog_bounds [OF b y] by (intro round_at_mono [OF b]) simp
    finally show ?thesis by (simp add: sx)
  qed
qed

lemma round_sig_mono:
  assumes b: "2 \<le> b" and p: "1 \<le> p" and xy: "x \<le> y"
  shows "round_sig b p lo x \<le> round_sig b p lo y"
proof (cases "0 < x")
  case True
  then show ?thesis using assms by (intro round_sig_mono_pos)
next
  case x: False
  show ?thesis
  proof (cases "0 \<le> y")
    case True
    have "0 \<le> round_sig b p lo (- x)" using x by (intro round_sig_nonneg [OF b]) simp
    moreover have "0 \<le> round_sig b p lo y" using True by (intro round_sig_nonneg [OF b])
    ultimately show ?thesis by (simp add: round_sig_minus)
  next
    case False
    then have "round_sig b p lo (- y) \<le> round_sig b p lo (- x)"
      using xy by (intro round_sig_mono_pos [OF b p]) auto
    then show ?thesis by (simp add: round_sig_minus)
  qed
qed


section \<open>The interface of a rounding\<close>

text \<open>
  What the callers use of a rounding is that it is monotone and keeps zero: a product with a factor
  of at most one then never exceeds the other factor, once that factor is itself representable.
\<close>

locale rounding =
  fixes rnd :: "rat \<Rightarrow> xnum"
  assumes rnd_mono: "x \<le> y \<Longrightarrow> x_le (rnd x) (rnd y)"
    and rnd_zero: "rnd 0 = Fin 0"
begin

lemma rnd_not_nan: "rnd x \<noteq> NaN"
  using rnd_mono [of x x] by auto

lemma shrink:
  assumes "0 \<le> x" and "m \<le> 1" and "rnd x = Fin x"
  shows "x_le (rnd (x * m)) (Fin x)"
proof -
  have "x * m \<le> x" using assms(1,2) mult_left_mono [of m 1 x] by simp
  then have "x_le (rnd (x * m)) (rnd x)" by (rule rnd_mono)
  with assms(3) show ?thesis by simp
qed

lemma nonneg: "0 \<le> x \<Longrightarrow> x_le (Fin 0) (rnd x)"
  using rnd_mono [of 0 x] by (simp add: rnd_zero)

lemma reflect_less:
  assumes "rnd a = Fin x" and "rnd b = Fin y" and "x < y"
  shows "a < b"
proof (rule ccontr)
  assume "\<not> a < b"
  then have "x_le (rnd b) (rnd a)" by (intro rnd_mono) simp
  with assms show False by simp
qed

end

section \<open>binary64\<close>

definition overflow64 :: rat where
  "overflow64 = 2 ^ 1024"

definition clamp64 :: "rat \<Rightarrow> xnum" where
  "clamp64 r = (if overflow64 \<le> r then PosInf else if r \<le> - overflow64 then NegInf else Fin r)"

lemma overflow64_pos: "0 < overflow64"
  by (simp only: overflow64_def zero_less_power zero_less_numeral)

definition round64 :: "rat \<Rightarrow> xnum" where
  "round64 x = clamp64 (round_sig 2 53 (-1074) x)"

definition is_binary64 :: "rat \<Rightarrow> bool" where
  "is_binary64 x \<longleftrightarrow> round64 x = Fin x"

lemma clamp64_mono: "x \<le> y \<Longrightarrow> x_le (clamp64 x) (clamp64 y)"
  using overflow64_pos by (auto simp: clamp64_def)

lemma round64_zero [simp]: "round64 0 = Fin 0"
  using overflow64_pos by (simp add: round64_def round_sig_def clamp64_def not_le)

interpretation b64: rounding round64
  by unfold_locales (auto simp: round64_def intro!: clamp64_mono round_sig_mono round64_zero
      [unfolded round64_def])

text \<open>Integers of at most 53 bits, scaled by a power of two, are representable.\<close>

lemma round_at_scaled:
  assumes "2 \<le> b" and "k \<le> j"
  shows "round_at b k (of_int n * of_int b powi j) = of_int n * of_int b powi j"
proof -
  have "(of_int b :: rat) powi j = of_int b powi (j - k) * of_int b powi k"
    using assms by (simp add: power_int_add [symmetric])
  moreover have "(of_int b :: rat) powi (j - k) = of_int (b ^ nat (j - k))"
    using assms by (simp add: power_int_def)
  ultimately have e: "(of_int n :: rat) * of_int b powi j = of_int (n * b ^ nat (j - k)) * of_int b powi k"
    by simp
  show ?thesis unfolding e
    using assms by (simp add: round_at_def del: of_int_power of_int_mult)
qed

lemma round_sig_scaled:
  assumes b: "2 \<le> b" and p: "0 \<le> p" and n: "\<bar>n\<bar> < b ^ nat p" and lo: "lo \<le> j"
  shows "round_sig b p lo (of_int n * of_int b powi j) = of_int n * of_int b powi j"
proof (cases "n = 0")
  case True
  then show ?thesis by (simp add: round_sig_def)
next
  case False
  let ?x = "(of_int n :: rat) * of_int b powi j"
  have ax: "\<bar>?x\<bar> = of_int \<bar>n\<bar> * of_int b powi j" and pos: "0 < \<bar>?x\<bar>"
    using b False by (simp_all add: abs_mult)
  have "rat_of_int \<bar>n\<bar> < of_int (b ^ nat p)" using n by (simp only: of_int_less_iff)
  then have "rat_of_int \<bar>n\<bar> < of_int b powi p" using p by (simp add: power_int_def)
  then have "\<bar>?x\<bar> < of_int b powi p * of_int b powi j"
    unfolding ax using b by (intro mult_strict_right_mono) simp_all
  also have "\<dots> = of_int b powi (p + j)" using b by (simp add: power_int_add)
  finally have less: "\<bar>?x\<bar> < of_int b powi (p + j)" .
  have "flog b \<bar>?x\<bar> < p + j"
  proof (rule ccontr)
    assume "\<not> ?thesis"
    then have "(of_int b :: rat) powi (p + j) \<le> of_int b powi flog b \<bar>?x\<bar>"
      by (intro powi_mono [OF b]) simp
    also have "\<dots> \<le> \<bar>?x\<bar>" using flog_bounds [OF b pos] by simp
    finally show False using less by simp
  qed
  then have "rexp b p lo ?x \<le> j" using lo by (simp add: rexp_def)
  then show ?thesis using b False by (simp add: round_sig_def round_at_scaled)
qed

lemma round64_scaled:
  assumes "\<bar>n\<bar> < 2 ^ 53" and "-1074 \<le> j" and "j \<le> 0"
  shows "round64 (of_int n * 2 powi j) = Fin (of_int n * 2 powi j)"
proof -
  let ?x = "of_int n * 2 powi j :: rat"
  have "round_sig 2 53 (-1074) ?x = ?x"
    using assms round_sig_scaled [of 2 53 n "-1074" j] by simp
  moreover have "\<bar>?x\<bar> < overflow64"
  proof -
    have "\<bar>?x\<bar> \<le> of_int \<bar>n\<bar>"
      using assms powi_mono [of 2 j 0] by (simp add: abs_mult mult_left_le)
    also have "\<dots> < rat_of_int (2 ^ 53)" using assms(1) by (simp only: of_int_less_iff)
    also have "\<dots> \<le> overflow64"
      unfolding overflow64_def by (simp only: of_int_power of_int_numeral) (rule power_increasing, simp_all)
    finally show ?thesis .
  qed
  ultimately show ?thesis by (simp add: round64_def clamp64_def abs_less_iff not_le)
qed

lemma round64_int: "\<bar>n\<bar> < 2 ^ 53 \<Longrightarrow> round64 (of_int n) = Fin (of_int n)"
  using round64_scaled [of n 0] by simp

lemma round64_numeral:
  "numeral m < (2 ^ 53 :: int) \<Longrightarrow> round64 (numeral m) = Fin (numeral m)" "round64 1 = Fin 1"
  using round64_int [of "numeral m"] round64_int [of 1] by simp_all

text \<open>Float subtraction and multiplication, with the IEEE rules for the special values.\<close>

fun f_neg :: "xnum \<Rightarrow> xnum" where
  "f_neg (Fin a) = Fin (- a)"
| "f_neg PosInf = NegInf"
| "f_neg NegInf = PosInf"
| "f_neg NaN = NaN"

fun f_add :: "xnum \<Rightarrow> xnum \<Rightarrow> xnum" where
  "f_add (Fin a) (Fin b) = round64 (a + b)"
| "f_add NaN _ = NaN"
| "f_add _ NaN = NaN"
| "f_add PosInf NegInf = NaN"
| "f_add NegInf PosInf = NaN"
| "f_add PosInf _ = PosInf"
| "f_add _ PosInf = PosInf"
| "f_add NegInf _ = NegInf"
| "f_add _ NegInf = NegInf"

definition f_sub :: "xnum \<Rightarrow> xnum \<Rightarrow> xnum" where
  "f_sub a b = f_add a (f_neg b)"

definition x_sign :: "xnum \<Rightarrow> rat" where
  "x_sign a = (case a of Fin r \<Rightarrow> sgn r | PosInf \<Rightarrow> 1 | NegInf \<Rightarrow> - 1 | NaN \<Rightarrow> 0)"

fun f_mul :: "xnum \<Rightarrow> xnum \<Rightarrow> xnum" where
  "f_mul (Fin a) (Fin b) = round64 (a * b)"
| "f_mul NaN _ = NaN"
| "f_mul _ NaN = NaN"
| "f_mul a b = (let s = x_sign a * x_sign b in
     if s = 0 then NaN else if 0 < s then PosInf else NegInf)"

section \<open>repr and Decimal\<close>

text \<open>
  \<open>repr_try x n\<close> looks for an \<open>n\<close>-digit decimal that reads back as \<open>x\<close>, the nearest one when two
  do.  \<open>float_repr\<close> takes the first \<open>n\<close> that has one.  Seventeen digits always suffice for a
  binary64 value; the last branch keeps the function total without that fact.
\<close>

definition reads_back :: "rat \<Rightarrow> rat \<Rightarrow> bool" where
  "reads_back x c \<longleftrightarrow> round64 c = Fin x"

definition repr_try :: "rat \<Rightarrow> nat \<Rightarrow> rat option" where
  "repr_try x n = (let k = flog 10 \<bar>x\<bar> - int n + 1;
                       u = 10 powi k;
                       s = x / u;
                       near = of_int (rhe s) * u;
                       lo = of_int \<lfloor>s\<rfloor> * u;
                       hi = of_int \<lceil>s\<rceil> * u
     in if reads_back x near then Some near
        else if reads_back x lo then Some lo
        else if reads_back x hi then Some hi
        else None)"

fun repr_from :: "rat \<Rightarrow> nat list \<Rightarrow> rat" where
  "repr_from x [] = x"
| "repr_from x (n # ns) = (case repr_try x n of Some c \<Rightarrow> c | None \<Rightarrow> repr_from x ns)"

definition float_repr :: "rat \<Rightarrow> rat" where
  "float_repr x = (if x = 0 then 0 else repr_from x [1..<18])"

lemma repr_try_reads_back: "repr_try x n = Some c \<Longrightarrow> round64 c = Fin x"
  by (auto simp: repr_try_def Let_def reads_back_def split: if_splits)

lemma repr_from_reads_back: "is_binary64 x \<Longrightarrow> round64 (repr_from x ns) = Fin x"
  by (induction ns) (auto simp: is_binary64_def dest: repr_try_reads_back split: option.splits)

lemma float_repr_reads_back: "is_binary64 x \<Longrightarrow> round64 (float_repr x) = Fin x"
  by (simp add: float_repr_def repr_from_reads_back)

lemma float_repr_less_iff:
  assumes "is_binary64 x" and "is_binary64 y"
  shows "float_repr x < float_repr y \<longleftrightarrow> x < y"
proof
  assume "x < y"
  then show "float_repr x < float_repr y"
    using assms [THEN float_repr_reads_back] by (rule b64.reflect_less [rotated 2])
next
  assume less: "float_repr x < float_repr y"
  then have "x_le (round64 (float_repr x)) (round64 (float_repr y))"
    by (intro b64.rnd_mono) simp
  with assms have "x \<le> y" by (simp add: float_repr_reads_back)
  with less show "x < y" by (cases "x = y") auto
qed

text \<open>Addition in the default decimal context: exact, then rounded to 28 significant digits.\<close>

definition dec_round :: "rat \<Rightarrow> rat" where
  "dec_round x = round_sig 10 28 (-1000026) x"

lemma dec_round_zero [simp]: "dec_round 0 = 0"
  by (simp add: dec_round_def round_sig_def)

lemma dec_round_mono: "x \<le> y \<Longrightarrow> dec_round x \<le> dec_round y"
  unfolding dec_round_def by (rule round_sig_mono) simp_all

definition dec_add :: "xnum \<Rightarrow> xnum \<Rightarrow> xnum res" where
  "dec_add a b = (case (a, b) of
     (NaN, _) \<Rightarrow> Inr NaN
   | (_, NaN) \<Rightarrow> Inr NaN
   | (PosInf, NegInf) \<Rightarrow> Inl InvalidOperation
   | (NegInf, PosInf) \<Rightarrow> Inl InvalidOperation
   | (Fin x, Fin y) \<Rightarrow> Inr (Fin (dec_round (x + y)))
   | (Fin x, y) \<Rightarrow> Inr y
   | (x, _) \<Rightarrow> Inr x)"

definition dec_mul :: "rat \<Rightarrow> rat \<Rightarrow> rat" where
  "dec_mul a b = dec_round (a * b)"

text \<open>Ordering comparisons of Decimals raise InvalidOperation on a NaN.\<close>

definition dec_gt :: "xnum \<Rightarrow> xnum \<Rightarrow> bool res" where
  "dec_gt a b = (if a = NaN \<or> b = NaN then Inl InvalidOperation else Inr (x_lt b a))"

text \<open>\<open>float(d)\<close> of a Decimal \<open>d\<close>.\<close>

definition dec_to_float :: "xnum \<Rightarrow> xnum" where
  "dec_to_float d = (case d of Fin r \<Rightarrow> round64 r | _ \<Rightarrow> d)"

end
