(* ===== verification/Json.thy ===== *)
theory Json
  imports Pynum "HOL-Library.Multiset"
begin

text \<open>
  JSON-like Python values, Python's \<open>==\<close> and \<open>in\<close> on them, and the canonical serialisation
  \<open>json.dumps(v, sort_keys=True, separators=(",", ":"), ensure_ascii=False)\<close> that every digest and
  every signature of the sources is computed over.  Lists and tuples are both \<open>JList\<close>: they
  serialise alike and the sources compare only values of one kind.
\<close>

datatype json =
    JNull
  | JBool bool
  | JInt int
  | JFloat xnum
  | JStr string
  | JList "json list"
  | JObj "(string \<times> json) list"

type_synonym jdict = "json dict"

section \<open>Equality and membership\<close>

text \<open>Numbers compare by value across \<open>bool\<close>, \<open>int\<close> and \<open>float\<close>; dictionaries ignore order.\<close>

fun num_value :: "json \<Rightarrow> xnum option" where
  "num_value (JBool b) = Some (Fin (if b then 1 else 0))"
| "num_value (JInt i) = Some (Fin (of_int i))"
| "num_value (JFloat x) = Some x"
| "num_value _ = None"

fun py_eq :: "json \<Rightarrow> json \<Rightarrow> bool"
  and py_eq_list :: "json list \<Rightarrow> json list \<Rightarrow> bool"
  and py_eq_items :: "(string \<times> json) list \<Rightarrow> jdict \<Rightarrow> bool" where
  "py_eq JNull b = (b = JNull)"
| "py_eq (JStr s) b = (b = JStr s)"
| "py_eq (JList xs) b = (case b of JList ys \<Rightarrow> py_eq_list xs ys | _ \<Rightarrow> False)"
| "py_eq (JObj d) b = (case b of JObj d' \<Rightarrow> length d = length d' \<and> py_eq_items d d' | _ \<Rightarrow> False)"
| "py_eq (JBool x) b = (case num_value b of Some v \<Rightarrow> x_eq (Fin (if x then 1 else 0)) v | None \<Rightarrow> False)"
| "py_eq (JInt x) b = (case num_value b of Some v \<Rightarrow> x_eq (Fin (of_int x)) v | None \<Rightarrow> False)"
| "py_eq (JFloat x) b = (case num_value b of Some v \<Rightarrow> x_eq x v | None \<Rightarrow> False)"
| "py_eq_list [] ys = (ys = [])"
| "py_eq_list (x # xs) ys = (case ys of [] \<Rightarrow> False | y # ys' \<Rightarrow> py_eq x y \<and> py_eq_list xs ys')"
| "py_eq_items [] d = True"
| "py_eq_items ((k, v) # r) d =
     ((case dget d k of None \<Rightarrow> False | Some w \<Rightarrow> py_eq v w) \<and> py_eq_items r d)"

definition py_in :: "json \<Rightarrow> json list \<Rightarrow> bool" where
  "py_in x ys = list_ex (\<lambda>y. py_eq x y) ys"

fun truthy :: "json \<Rightarrow> bool" where
  "truthy JNull = False"
| "truthy (JBool b) = b"
| "truthy (JInt i) = (i \<noteq> 0)"
| "truthy (JFloat x) = (\<not> x_eq x (Fin 0))"
| "truthy (JStr s) = (s \<noteq> [])"
| "truthy (JList xs) = (xs \<noteq> [])"
| "truthy (JObj d) = (d \<noteq> [])"

fun is_list :: "json \<Rightarrow> bool" where
  "is_list (JList _) = True"
| "is_list _ = False"

fun is_obj :: "json \<Rightarrow> bool" where
  "is_obj (JObj _) = True"
| "is_obj _ = False"

fun is_str :: "json \<Rightarrow> bool" where
  "is_str (JStr _) = True"
| "is_str _ = False"

text \<open>\<open>d.get(k)\<close>: None for a missing key.\<close>

definition jget :: "jdict \<Rightarrow> string \<Rightarrow> json" where
  "jget d k = (case dget d k of None \<Rightarrow> JNull | Some v \<Rightarrow> v)"

text \<open>\<open>d.get(k, default)\<close>\<close>

definition jget_or :: "jdict \<Rightarrow> string \<Rightarrow> json \<Rightarrow> json" where
  "jget_or d k dflt = (case dget d k of None \<Rightarrow> dflt | Some v \<Rightarrow> v)"

text \<open>\<open>d[k]\<close>, which raises on a missing key.\<close>

definition jindex :: "jdict \<Rightarrow> string \<Rightarrow> json res" where
  "jindex d k = (case dget d k of None \<Rightarrow> Inl (KeyError k) | Some v \<Rightarrow> Inr v)"

lemma x_eq_sym: "x_eq a b = x_eq b a"
  by (cases a; cases b) auto

lemma x_eq_trans: "x_eq a b \<Longrightarrow> x_eq b c \<Longrightarrow> x_eq a c"
  by (cases a; cases b; cases c) auto

lemma x_eq_iff: "x_eq a b \<longleftrightarrow> a = b \<and> a \<noteq> NaN"
  by (cases a; cases b) auto

lemma py_eq_num:
  "num_value a = Some x \<Longrightarrow> py_eq a b = (\<exists>y. num_value b = Some y \<and> x_eq x y)"
  by (cases a) (auto split: option.splits)

lemma py_eq_items_dget:
  "py_eq_items es fs \<Longrightarrow> dget es k = Some x \<Longrightarrow> \<exists>y. dget fs k = Some y \<and> py_eq x y"
  by (induction es fs rule: py_eq_py_eq_list_py_eq_items.induct(3)
      [where P = "\<lambda>_ _. True" and Q = "\<lambda>_ _. True"])
     (auto split: if_splits option.splits)

lemma py_eq_trans:
  "py_eq a b \<Longrightarrow> py_eq b c \<Longrightarrow> py_eq a c"
  "py_eq_list as bs \<Longrightarrow> py_eq_list bs cs \<Longrightarrow> py_eq_list as cs"
  "py_eq_items ds es \<Longrightarrow> py_eq_items es fs \<Longrightarrow> py_eq_items ds fs"
proof (induction a b and as bs and ds es arbitrary: c and cs and fs
    rule: py_eq_py_eq_list_py_eq_items.induct)
  case (3 xs b)
  then show ?case by (auto split: json.splits)
next
  case (4 d b)
  then show ?case by (auto split: json.splits)
next
  case (9 x xs ys)
  then show ?case by (auto split: list.splits)
next
  case (11 k v r d)
  then show ?case
    by (auto split: option.splits dest: py_eq_items_dget)
qed (auto simp: py_eq_num x_eq_iff split: option.splits)

lemma py_in_iff: "py_in x ys \<longleftrightarrow> (\<exists>y\<in>set ys. py_eq x y)"
  by (simp add: py_in_def list_ex_iff)

text \<open>Elements of a \<open>set\<close> must be hashable.\<close>

fun hashable :: "json \<Rightarrow> bool" where
  "hashable (JList _) = False"
| "hashable (JObj _) = False"
| "hashable _ = True"

text \<open>\<open>set(xs).issubset(set(ys))\<close>\<close>

definition set_subset :: "json list \<Rightarrow> json list \<Rightarrow> bool res" where
  "set_subset xs ys = (if list_all hashable xs \<and> list_all hashable ys
     then Inr (list_all (\<lambda>x. py_in x ys) xs) else Inl (TypeError ''unhashable type''))"

section \<open>Canonical serialisation\<close>

definition hex_digit :: "int \<Rightarrow> char" where
  "hex_digit n = ''0123456789abcdef'' ! nat n"

function digits :: "int \<Rightarrow> string" where
  "digits n = (if n < 10 then [hex_digit n] else digits (n div 10) @ [hex_digit (n mod 10)])"
  by pat_completeness auto
termination
  by (relation "measure nat") auto

declare digits.simps [simp del]

definition int_str :: "int \<Rightarrow> string" where
  "int_str i = (if i < 0 then CHR ''-'' # digits (- i) else digits i)"

definition strip_zeros :: "string \<Rightarrow> string" where
  "strip_zeros ds = rev (dropWhile (\<lambda>c. c = CHR ''0'') (rev ds))"

text \<open>
  \<open>repr\<close> of a finite float: the shortest digits, laid out with a decimal point for exponents from
  -4 to 15 and in scientific notation otherwise.
\<close>

definition float_str :: "rat \<Rightarrow> string" where
  "float_str x = (if x = 0 then ''0.0'' else
     let c = \<bar>float_repr x\<bar>;
         f = flog 10 c;
         ds = strip_zeros (digits \<lfloor>c / 10 powi (f - 16)\<rfloor>);
         n = int (length ds);
         sg = (if x < 0 then ''-'' else [])
     in if f < - 4 \<or> 15 < f then
          sg @ take 1 ds @ (if n = 1 then [] else CHR ''.'' # drop 1 ds)
            @ (if f < 0 then ''e-'' else ''e+'')
            @ (if \<bar>f\<bar> < 10 then ''0'' else []) @ digits \<bar>f\<bar>
        else if f < 0 then
          sg @ ''0.'' @ replicate (nat (- f - 1)) CHR ''0'' @ ds
        else if n \<le> f + 1 then
          sg @ ds @ replicate (nat (f + 1 - n)) CHR ''0'' @ ''.0''
        else sg @ take (nat (f + 1)) ds @ CHR ''.'' # drop (nat (f + 1)) ds)"

definition json_float :: "xnum \<Rightarrow> string" where
  "json_float x = (case x of Fin r \<Rightarrow> float_str r | PosInf \<Rightarrow> ''Infinity'' | NegInf \<Rightarrow> ''-Infinity''
     | NaN \<Rightarrow> ''NaN'')"

definition escape_char :: "char \<Rightarrow> string" where
  "escape_char c = (let n = of_char c :: int in
     if n = 34 then [CHR 0x5C, CHR 0x22]
     else if n = 92 then [CHR 0x5C, CHR 0x5C]
     else if n = 8 then [CHR 0x5C, CHR ''b'']
     else if n = 9 then [CHR 0x5C, CHR ''t'']
     else if n = 10 then [CHR 0x5C, CHR ''n'']
     else if n = 12 then [CHR 0x5C, CHR ''f'']
     else if n = 13 then [CHR 0x5C, CHR ''r'']
     else if n < 32 then CHR 0x5C # ''u00'' @ [hex_digit (n div 16), hex_digit (n mod 16)]
     else [c])"

definition json_str :: "string \<Rightarrow> string" where
  "json_str s = CHR 0x22 # concat (map escape_char s) @ [CHR 0x22]"

fun join :: "string \<Rightarrow> string list \<Rightarrow> string" where
  "join sep [] = []"
| "join sep [x] = x"
| "join sep (x # y # ys) = x @ sep @ join sep (y # ys)"

definition json_item :: "string \<times> string \<Rightarrow> string" where
  "json_item kv = json_str (fst kv) @ '':'' @ snd kv"

fun canon :: "json \<Rightarrow> string"
  and canon_list :: "json list \<Rightarrow> string list"
  and canon_items :: "(string \<times> json) list \<Rightarrow> (string \<times> string) list" where
  "canon JNull = ''null''"
| "canon (JBool b) = (if b then ''true'' else ''false'')"
| "canon (JInt i) = int_str i"
| "canon (JFloat x) = json_float x"
| "canon (JStr s) = json_str s"
| "canon (JList xs) = ''['' @ join '','' (canon_list xs) @ '']''"
| "canon (JObj d) = ''{'' @ join '','' (map json_item (sort_key fst (canon_items d))) @ ''}''"
| "canon_list [] = []"
| "canon_list (x # xs) = canon x # canon_list xs"
| "canon_items [] = []"
| "canon_items ((k, v) # d) = (k, canon v) # canon_items d"

text \<open>
  \<open>hashlib.sha256(canonical).hexdigest()\<close>.  The hash itself is the argument \<open>H\<close> of the definitions
  that use it; a theorem that needs it to separate two inputs says so by exhibiting the collision.
\<close>

type_synonym hash = "string \<Rightarrow> string"

definition digest_json :: "hash \<Rightarrow> json \<Rightarrow> string" where
  "digest_json H v = H (canon v)"

definition collision :: "hash \<Rightarrow> bool" where
  "collision H \<longleftrightarrow> (\<exists>x y. x \<noteq> y \<and> H x = H y)"

lemma digest_eq_canon: "digest_json H v = digest_json H w \<Longrightarrow> canon v = canon w \<or> collision H"
  by (auto simp: digest_json_def collision_def)

text \<open>Two dictionaries with the same items in another order have the same canonical form.\<close>

lemma canon_items_map: "canon_items d = map (\<lambda>(k, v). (k, canon v)) d"
  by (induction d) auto

lemma canon_list_map: "canon_list xs = map canon xs"
  by (induction xs) auto

lemma filter_key_short:
  "distinct (map fst xs) \<Longrightarrow> length (filter (\<lambda>x. k = fst x) xs) \<le> 1"
proof (induction xs)
  case (Cons x xs)
  then have "filter (\<lambda>y. k = fst y) xs = []" if "k = fst x"
    using that by (force simp: filter_empty_conv)
  with Cons show ?case by auto
qed simp

lemma mset_eq_short: "mset xs = mset ys \<Longrightarrow> length ys \<le> 1 \<Longrightarrow> xs = ys"
  by (cases ys) auto

lemma sort_key_perm_distinct:
  fixes xs ys :: "('a::linorder \<times> 'b) list"
  assumes eq: "mset xs = mset ys" and dist: "distinct (map fst xs)"
  shows "sort_key fst xs = sort_key fst ys"
proof (rule properties_for_sort_key [symmetric])
  show "mset (sort_key fst xs) = mset ys" using eq by simp
  show "sorted (map fst (sort_key fst xs))" by simp
  fix k assume "k \<in> set (sort_key fst xs)"
  have "mset (filter (\<lambda>x. fst k = fst x) ys) = mset (filter (\<lambda>x. fst k = fst x) (sort_key fst xs))"
    using eq by (simp add: mset_filter)
  moreover have "length (filter (\<lambda>x. fst k = fst x) (sort_key fst xs)) \<le> 1"
    using dist by (intro filter_key_short) (simp add: distinct_map)
  ultimately show "filter (\<lambda>x. fst k = fst x) (sort_key fst xs) = filter (\<lambda>x. fst k = fst x) ys"
    by (metis mset_eq_short)
qed

lemma canon_perm:
  assumes "mset d = mset d'" and "distinct (dkeys d)"
  shows "canon (JObj d) = canon (JObj d')"
proof -
  have "mset (canon_items d) = mset (canon_items d')"
    using assms(1) by (simp add: canon_items_map)
  moreover have "distinct (map fst (canon_items d))"
    using assms(2) by (simp add: canon_items_map dkeys_def case_prod_beta comp_def)
  ultimately have "sort_key fst (canon_items d) = sort_key fst (canon_items d')"
    by (rule sort_key_perm_distinct)
  then show ?thesis by simp
qed

section \<open>The ASCII serialisation\<close>

text \<open>
  \<open>json.dumps\<close> without \<open>ensure_ascii=False\<close> escapes every character outside \<open>U+0020..U+007E\<close>: the
  canonical text with its UTF-8 sequences replaced by \<open>\u\<close> escapes, in surrogate pairs above \<open>U+FFFF\<close>.
\<close>

definition u_escape :: "int \<Rightarrow> string" where
  "u_escape n = CHR 0x5C # CHR ''u'' # [hex_digit (n div 4096 mod 16), hex_digit (n div 256 mod 16),
     hex_digit (n div 16 mod 16), hex_digit (n mod 16)]"

definition u_code :: "int \<Rightarrow> string" where
  "u_code n = (if n < 65536 then u_escape n
     else u_escape (55296 + (n - 65536) div 1024) @ u_escape (56320 + (n - 65536) mod 1024))"

definition byte :: "char \<Rightarrow> int" where
  "byte c = of_char c"

fun to_ascii :: "string \<Rightarrow> string" where
  "to_ascii [] = []"
| "to_ascii (a # r) =
     (if byte a < 127 then a # to_ascii r
      else if byte a = 127 then u_escape 127 @ to_ascii r
      else (case r of
          [] \<Rightarrow> [a]
        | b # r1 \<Rightarrow> if byte a < 224 then u_code ((byte a - 192) * 64 + (byte b - 128)) @ to_ascii r1
          else (case r1 of
              [] \<Rightarrow> [a, b]
            | c # r2 \<Rightarrow> if byte a < 240 then
                  u_code ((byte a - 224) * 4096 + (byte b - 128) * 64 + (byte c - 128)) @ to_ascii r2
              else (case r2 of
                  [] \<Rightarrow> [a, b, c]
                | d # r3 \<Rightarrow> u_code ((byte a - 240) * 262144 + (byte b - 128) * 4096
                    + (byte c - 128) * 64 + (byte d - 128)) @ to_ascii r3))))"

definition ascii_canon :: "json \<Rightarrow> string" where
  "ascii_canon v = to_ascii (canon v)"

definition digest_ascii :: "hash \<Rightarrow> json \<Rightarrow> string" where
  "digest_ascii H v = H (ascii_canon v)"

end
