(* ===== verification/Money.thy ===== *)
theory Money
  imports Json
begin

text \<open>
  \<open>core/money.py\<close>: validity of an amount, conversion to Decimal, the exact comparison against a cap
  and the Decimal sum.  \<open>num\<close> is an \<open>int\<close> or a \<open>float\<close>, as limits and timestamps are; \<open>pynum\<close>
  adds \<open>bool\<close> and \<open>Decimal\<close>.  A Decimal read from text is \<open>DFin c e\<close>, coefficient and
  exponent, because \<open>format(d, "f")\<close> prints its trailing zeros; \<open>DVal\<close> is a Decimal of which only
  the value is used (the conversion of a float, an infinity or a NaN).
\<close>

datatype num = NInt int | NFlt xnum

datatype dec = DFin int int | DVal xnum

datatype pynum = PBool bool | PNum num | PDec dec

section \<open>Values\<close>

fun dec_x :: "dec \<Rightarrow> xnum" where
  "dec_x (DFin c e) = Fin (of_int c * 10 powi e)"
| "dec_x (DVal x) = x"

fun num_x :: "num \<Rightarrow> xnum" where
  "num_x (NInt i) = Fin (of_int i)"
| "num_x (NFlt x) = x"

fun num_json :: "num \<Rightarrow> json" where
  "num_json (NInt i) = JInt i"
| "num_json (NFlt x) = JFloat x"

text \<open>Python comparisons of an int or a float with another, by exact value.\<close>

definition num_lt :: "num \<Rightarrow> num \<Rightarrow> bool" where
  "num_lt a b = x_lt (num_x a) (num_x b)"

definition num_le :: "num \<Rightarrow> num \<Rightarrow> bool" where
  "num_le a b = x_le (num_x a) (num_x b)"

section \<open>The functions of money.py\<close>

definition is_valid_amount :: "pynum \<Rightarrow> bool" where
  "is_valid_amount value = (case value of
     PBool _ \<Rightarrow> False
   | PNum (NInt i) \<Rightarrow> 0 \<le> i
   | PNum (NFlt x) \<Rightarrow> x_finite x \<and> x_le (Fin 0) x
   | PDec d \<Rightarrow> x_finite (dec_x d) \<and> x_le (Fin 0) (dec_x d))"

fun num_decimal :: "num \<Rightarrow> xnum" where
  "num_decimal (NInt i) = Fin (of_int i)"
| "num_decimal (NFlt (Fin r)) = Fin (float_repr r)"
| "num_decimal (NFlt x) = x"

fun to_decimal :: "pynum \<Rightarrow> xnum" where
  "to_decimal (PDec d) = dec_x d"
| "to_decimal (PNum n) = num_decimal n"
| "to_decimal (PBool b) = Fin (if b then 1 else 0)"

definition exceeds :: "pynum \<Rightarrow> pynum \<Rightarrow> bool res" where
  "exceeds amount cap =
     (if \<not> is_valid_amount amount then Inr True else dec_gt (to_decimal amount) (to_decimal cap))"

fun total_from :: "xnum \<Rightarrow> pynum list \<Rightarrow> xnum res" where
  "total_from acc [] = Inr acc"
| "total_from acc (v # vs) = bindE (dec_add acc (to_decimal v)) (\<lambda>t. total_from t vs)"

definition total :: "pynum list \<Rightarrow> xnum res" where
  "total values = total_from (Fin 0) values"

section \<open>Lemmas\<close>

lemma valid_decimal: "is_valid_amount a \<Longrightarrow> \<exists>r. to_decimal a = Fin r"
  by (auto simp: is_valid_amount_def split: pynum.splits num.splits)
     (metis x_finite.elims(2) num_decimal.simps(2) | metis x_finite.elims(2))+

lemma valid_not_nan: "is_valid_amount a \<Longrightarrow> to_decimal a \<noteq> NaN"
  using valid_decimal by fastforce

lemma exceeds_invalid: "\<not> is_valid_amount a \<Longrightarrow> exceeds a c = Inr True"
  by (simp add: exceeds_def)

lemma exceeds_False_iff:
  "exceeds a c = Inr False \<longleftrightarrow>
     is_valid_amount a \<and> to_decimal c \<noteq> NaN \<and> x_le (to_decimal a) (to_decimal c)"
proof (cases "is_valid_amount a")
  case True
  then have "to_decimal a \<noteq> NaN" by (rule valid_not_nan)
  with True show ?thesis by (auto simp: exceeds_def dec_gt_def x_not_lt)
qed (simp add: exceeds_def)

lemma exceeds_mono:
  assumes "exceeds a c = Inr False" and "x_le (to_decimal c) (to_decimal d)"
  shows "exceeds a d = Inr False"
  using assms by (auto simp: exceeds_False_iff intro: x_le_trans) (cases "to_decimal c"; auto)

text \<open>A float is at most another exactly when its shortest decimal is.\<close>

definition wf_float :: "xnum \<Rightarrow> bool" where
  "wf_float x = (case x of Fin r \<Rightarrow> is_binary64 r | _ \<Rightarrow> True)"

lemma float_decimal_le:
  assumes "wf_float x" and "wf_float y"
  shows "x_le (num_decimal (NFlt x)) (num_decimal (NFlt y)) \<longleftrightarrow> x_le x y"
  using assms float_repr_less_iff
  by (cases x; cases y) (auto simp: wf_float_def not_less [symmetric])

end
