(* ===== verification/Text_Format.thy ===== *)
theory Text_Format
  imports Money
begin

text \<open>
  Reading and printing numbers as Python does: \<open>Decimal(text)\<close>, \<open>str\<close> and \<open>repr\<close> of the amounts
  and \<open>format(d, "f")\<close>; and the messages of the rules, kept as the parts of their f-strings.
\<close>

section \<open>Decimal(text)\<close>

definition is_digit_char :: "char \<Rightarrow> bool" where
  "is_digit_char c = (let n = of_char c :: int in 48 \<le> n \<and> n \<le> 57)"

definition digit_value :: "char \<Rightarrow> int" where
  "digit_value c = of_char c - 48"

definition digits_value :: "string \<Rightarrow> int" where
  "digits_value ds = foldl (\<lambda>v c. 10 * v + digit_value c) 0 ds"

text \<open>The optional exponent: nothing, or \<open>e\<close> with an optional sign and at least one digit.\<close>

definition parse_exponent :: "string \<Rightarrow> int option" where
  "parse_exponent s = (case s of [] \<Rightarrow> Some 0
     | c # r \<Rightarrow>
        if lower_char c \<noteq> CHR ''e'' then None
        else (case r of [] \<Rightarrow> None
          | g # ds \<Rightarrow>
             if g = CHR ''-'' then (if ds \<noteq> [] \<and> list_all is_digit_char ds
               then Some (- digits_value ds) else None)
             else if g = CHR ''+'' then (if ds \<noteq> [] \<and> list_all is_digit_char ds
               then Some (digits_value ds) else None)
             else (if list_all is_digit_char r then Some (digits_value r) else None)))"

definition parse_unsigned :: "string \<Rightarrow> (int \<times> int) option" where
  "parse_unsigned s = (let ip = takeWhile is_digit_char s;
                           r = dropWhile is_digit_char s;
                           dot = (r \<noteq> [] \<and> hd r = CHR ''.'');
                           fp = (if dot then takeWhile is_digit_char (tl r) else []);
                           e = (if dot then dropWhile is_digit_char (tl r) else r)
     in if ip = [] \<and> fp = [] then None
        else map_option (\<lambda>k. (digits_value (ip @ fp), k - int (length fp))) (parse_exponent e))"

definition parse_special :: "string \<Rightarrow> xnum option" where
  "parse_special s = (let l = str_lower s in
     if l = ''inf'' \<or> l = ''infinity'' then Some PosInf
     else if (take 3 l = ''nan'' \<and> list_all is_digit_char (drop 3 l))
           \<or> (take 4 l = ''snan'' \<and> list_all is_digit_char (drop 4 l)) then Some NaN
     else None)"

definition parse_decimal :: "string \<Rightarrow> dec option" where
  "parse_decimal text = (let s = filter (\<lambda>c. c \<noteq> CHR ''_'') (str_strip text);
                             neg = (s \<noteq> [] \<and> hd s = CHR ''-'');
                             u = (if s \<noteq> [] \<and> (hd s = CHR ''-'' \<or> hd s = CHR ''+'') then tl s else s)
     in case parse_special u of
          Some x \<Rightarrow> Some (DVal (if neg then f_neg x else x))
        | None \<Rightarrow> map_option (\<lambda>(c, e). DFin (if neg then - c else c) e) (parse_unsigned u))"

section \<open>Printing\<close>

definition sign_str :: "int \<Rightarrow> string" where
  "sign_str c = (if c < 0 then ''-'' else [])"

definition special_str :: "xnum \<Rightarrow> string" where
  "special_str x = (case x of PosInf \<Rightarrow> ''Infinity'' | NegInf \<Rightarrow> ''-Infinity'' | NaN \<Rightarrow> ''NaN''
     | Fin r \<Rightarrow> float_str r)"

text \<open>\<open>format(d, "f")\<close>\<close>

definition format_f :: "dec \<Rightarrow> string" where
  "format_f d = (case d of
     DVal x \<Rightarrow> special_str x
   | DFin c e \<Rightarrow>
      let ds = digits \<bar>c\<bar> in
      if 0 \<le> e then (if c = 0 then ''0'' else sign_str c @ ds @ replicate (nat e) CHR ''0'')
      else let k = nat (- e);
               p = replicate (Suc k - length ds) CHR ''0'' @ ds
           in sign_str c @ take (length p - k) p @ CHR ''.'' # drop (length p - k) p)"

text \<open>\<open>str(d)\<close> of a Decimal: scientific notation only for a positive exponent or a tiny value.\<close>

definition dec_str :: "dec \<Rightarrow> string" where
  "dec_str d = (case d of
     DVal x \<Rightarrow> special_str x
   | DFin c e \<Rightarrow>
      let ds = digits \<bar>c\<bar>;
          n = int (length ds);
          left = e + n;
          dot = (if e \<le> 0 \<and> - 6 < left then left else 1);
          body = (if dot \<le> 0 then ''0.'' @ replicate (nat (- dot)) CHR ''0'' @ ds
                  else if n \<le> dot then ds @ replicate (nat (dot - n)) CHR ''0''
                  else take (nat dot) ds @ CHR ''.'' # drop (nat dot) ds);
          x = left - dot
      in sign_str c @ body @ (if x = 0 then []
           else (if x < 0 then ''E-'' else ''E+'') @ digits \<bar>x\<bar>))"

definition float_py_str :: "xnum \<Rightarrow> string" where
  "float_py_str x = (case x of Fin r \<Rightarrow> float_str r | PosInf \<Rightarrow> ''inf'' | NegInf \<Rightarrow> ''-inf''
     | NaN \<Rightarrow> ''nan'')"

fun num_str :: "num \<Rightarrow> string" where
  "num_str (NInt i) = int_str i"
| "num_str (NFlt x) = float_py_str x"

fun pynum_str :: "pynum \<Rightarrow> string" where
  "pynum_str (PBool b) = (if b then ''True'' else ''False'')"
| "pynum_str (PNum n) = num_str n"
| "pynum_str (PDec d) = dec_str d"

fun pynum_repr :: "pynum \<Rightarrow> string" where
  "pynum_repr (PDec d) = ''Decimal('' @ CHR 0x27 # dec_str d @ CHR 0x27 # '')''"
| "pynum_repr n = pynum_str n"

text \<open>\<open>format(d, ".2f")\<close> of a Decimal\<close>

definition format_2f :: "xnum \<Rightarrow> string" where
  "format_2f x = (case x of Fin r \<Rightarrow> format_f (DFin (rhe (r * 100)) (- 2)) | _ \<Rightarrow> special_str x)"

section \<open>Messages\<close>

datatype frag = Lit string | Str pynum | Repr pynum | Fixed2 xnum

fun render_frag :: "frag \<Rightarrow> string" where
  "render_frag (Lit s) = s"
| "render_frag (Str n) = pynum_str n"
| "render_frag (Repr n) = pynum_repr n"
| "render_frag (Fixed2 x) = format_2f x"

definition render :: "frag list \<Rightarrow> string" where
  "render m = concat (map render_frag m)"

definition quoted :: "string \<Rightarrow> string" where
  "quoted s = CHR 0x27 # s @ [CHR 0x27]"

end
