(* ===== verification/Models.thy ===== *)
theory Models
  imports Text_Format
begin

text \<open>
  \<open>core/models.py\<close>: the intents, the identity, the capability with its scope check, the decision,
  and the canonical payloads their digests are taken over.
\<close>

section \<open>Enumerations\<close>

datatype decision_kind = ALLOW | WARN | BLOCK

datatype severity = SevBlock | SevWarn

definition decision_str :: "decision_kind \<Rightarrow> string" where
  "decision_str d = (case d of ALLOW \<Rightarrow> ''ALLOW'' | WARN \<Rightarrow> ''WARN'' | BLOCK \<Rightarrow> ''BLOCK'')"

definition severity_str :: "severity \<Rightarrow> string" where
  "severity_str s = (case s of SevBlock \<Rightarrow> ''BLOCK'' | SevWarn \<Rightarrow> ''WARN'')"

lemma decision_str_inj [simp]: "decision_str a = decision_str b \<longleftrightarrow> a = b"
  by (cases a; cases b) (simp_all add: decision_str_def)

definition opt_str :: "string option \<Rightarrow> json" where
  "opt_str s = (case s of None \<Rightarrow> JNull | Some v \<Rightarrow> JStr v)"

definition opt_num :: "num option \<Rightarrow> json" where
  "opt_num n = (case n of None \<Rightarrow> JNull | Some v \<Rightarrow> num_json v)"

definition str_list :: "string list \<Rightarrow> json" where
  "str_list xs = JList (map JStr xs)"

definition num_dict :: "num dict \<Rightarrow> json" where
  "num_dict d = JObj (map (\<lambda>(k, v). (k, num_json v)) d)"

section \<open>Intents\<close>

record action_intent =
  ai_agent_id :: string
  ai_action_type :: string
  ai_target :: string
  ai_resource :: string
  ai_amount :: "pynum option"
  ai_amount_exact :: "string option"
  ai_asset :: "string option"
  ai_network :: "string option"
  ai_purpose :: string
  ai_declared_context :: jdict
  ai_input_provenance :: jdict
  ai_parent_intent_id :: "string option"
  ai_requested_capability :: "string option"
  ai_constraints :: jdict
  ai_metadata :: jdict
  ai_intent_id :: string
  ai_timestamp :: num

record payment_intent =
  pi_agent_id :: string
  pi_payee :: string
  pi_asset :: string
  pi_network :: string
  pi_amount :: num
  pi_resource :: string
  pi_metadata :: jdict
  pi_intent_id :: string
  pi_timestamp :: num

definition as_action_intent :: "payment_intent \<Rightarrow> action_intent" where
  "as_action_intent p = \<lparr>
     ai_agent_id = pi_agent_id p, ai_action_type = ''payment'', ai_target = pi_payee p,
     ai_resource = pi_resource p, ai_amount = Some (PNum (pi_amount p)), ai_amount_exact = None,
     ai_asset = Some (pi_asset p), ai_network = Some (pi_network p), ai_purpose = [],
     ai_declared_context = [], ai_input_provenance = [], ai_parent_intent_id = None,
     ai_requested_capability = None, ai_constraints = [], ai_metadata = pi_metadata p,
     ai_intent_id = pi_intent_id p, ai_timestamp = pi_timestamp p \<rparr>"

text \<open>
  \<open>ActionIntent.exact_amount\<close>.  \<open>Decimal(str(True))\<close> raises, a float goes through its repr.
\<close>

definition exact_amount :: "action_intent \<Rightarrow> dec option res" where
  "exact_amount a = (case ai_amount_exact a of
     Some text \<Rightarrow> (case parse_decimal text of
         None \<Rightarrow> Inl (ValueError ''amount_exact must be a valid decimal'')
       | Some v \<Rightarrow> if \<not> x_finite (dec_x v) \<or> x_lt (dec_x v) (Fin 0)
           then Inl (ValueError ''amount_exact must be finite and non-negative'')
           else Inr (Some v))
   | None \<Rightarrow> (case ai_amount a of
         None \<Rightarrow> Inr None
       | Some (PDec d) \<Rightarrow> Inr (Some d)
       | Some (PNum n) \<Rightarrow> Inr (Some (DVal (num_decimal n)))
       | Some (PBool _) \<Rightarrow> Inl InvalidOperation))"

definition context_payload :: "action_intent \<Rightarrow> json" where
  "context_payload a = JObj [
     (''purpose'', JStr (ai_purpose a)),
     (''declared_context'', JObj (ai_declared_context a)),
     (''input_provenance'', JObj (ai_input_provenance a)),
     (''parent_intent_id'', opt_str (ai_parent_intent_id a)),
     (''requested_capability'', opt_str (ai_requested_capability a)),
     (''constraints'', JObj (ai_constraints a))]"

definition context_digest :: "hash \<Rightarrow> action_intent \<Rightarrow> string" where
  "context_digest H a = digest_json H (context_payload a)"

definition amount_json :: "pynum option \<Rightarrow> json" where
  "amount_json v = (case v of
     None \<Rightarrow> JNull
   | Some (PDec d) \<Rightarrow> JStr (format_f d)
   | Some (PNum n) \<Rightarrow> num_json n
   | Some (PBool b) \<Rightarrow> JBool b)"

definition action_dict :: "action_intent \<Rightarrow> jdict" where
  "action_dict a = [
     (''intent_id'', JStr (ai_intent_id a)),
     (''agent_id'', JStr (ai_agent_id a)),
     (''action_type'', JStr (ai_action_type a)),
     (''target'', JStr (ai_target a)),
     (''resource'', JStr (ai_resource a)),
     (''amount'', amount_json (ai_amount a)),
     (''amount_exact'', opt_str (ai_amount_exact a)),
     (''asset'', opt_str (ai_asset a)),
     (''network'', opt_str (ai_network a)),
     (''purpose'', JStr (ai_purpose a)),
     (''declared_context'', JObj (ai_declared_context a)),
     (''input_provenance'', JObj (ai_input_provenance a)),
     (''parent_intent_id'', opt_str (ai_parent_intent_id a)),
     (''requested_capability'', opt_str (ai_requested_capability a)),
     (''constraints'', JObj (ai_constraints a)),
     (''metadata'', JObj (ai_metadata a)),
     (''timestamp'', num_json (ai_timestamp a))]"

section \<open>Identity\<close>

record agent_identity =
  id_agent_id :: string
  id_public_key_b64 :: string
  id_key_id :: string
  id_organization_id :: string
  id_version :: int
  id_reputation_ref :: "string option"
  id_issued_at :: num
  id_expires_at :: "num option"
  id_metadata :: jdict

definition identity_payload :: "agent_identity \<Rightarrow> json" where
  "identity_payload i = JObj [
     (''agent_id'', JStr (id_agent_id i)),
     (''public_key_b64'', JStr (id_public_key_b64 i)),
     (''key_id'', JStr (id_key_id i)),
     (''organization_id'', JStr (id_organization_id i)),
     (''identity_version'', JInt (id_version i)),
     (''reputation_ref'', opt_str (id_reputation_ref i)),
     (''issued_at'', num_json (id_issued_at i)),
     (''expires_at'', opt_num (id_expires_at i)),
     (''metadata'', JObj (id_metadata i))]"

definition identity_digest :: "hash \<Rightarrow> agent_identity \<Rightarrow> string" where
  "identity_digest H i = digest_json H (identity_payload i)"

section \<open>Capability\<close>

record capability =
  cap_id :: string
  cap_agent_id :: string
  cap_identity_id :: "string option"
  cap_delegated_from :: "string option"
  cap_delegated_by :: "string option"
  cap_depth :: int
  cap_actions :: "string list"
  cap_purposes :: "string list"
  cap_context :: jdict
  cap_targets :: "string list"
  cap_resources :: "string list"
  cap_networks :: "string list"
  cap_assets :: "string list"
  cap_max_per_action :: "num dict"
  cap_aggregate_limits :: "num dict"
  cap_conditions :: "string list"
  cap_version :: int
  cap_issued_at :: num
  cap_expires_at :: "num option"
  cap_metadata :: jdict

definition capability_payload :: "capability \<Rightarrow> json" where
  "capability_payload c = JObj [
     (''capability_id'', JStr (cap_id c)),
     (''agent_id'', JStr (cap_agent_id c)),
     (''identity_id'', opt_str (cap_identity_id c)),
     (''delegated_from'', opt_str (cap_delegated_from c)),
     (''delegated_by_identity_id'', opt_str (cap_delegated_by c)),
     (''delegation_depth'', JInt (cap_depth c)),
     (''allowed_actions'', str_list (cap_actions c)),
     (''allowed_purposes'', str_list (cap_purposes c)),
     (''context_constraints'', JObj (cap_context c)),
     (''allowed_targets'', str_list (cap_targets c)),
     (''allowed_resources'', str_list (cap_resources c)),
     (''allowed_networks'', str_list (cap_networks c)),
     (''allowed_assets'', str_list (cap_assets c)),
     (''max_per_action'', num_dict (cap_max_per_action c)),
     (''aggregate_limits'', num_dict (cap_aggregate_limits c)),
     (''conditions'', str_list (cap_conditions c)),
     (''version'', JInt (cap_version c)),
     (''issued_at'', num_json (cap_issued_at c)),
     (''expires_at'', opt_num (cap_expires_at c)),
     (''metadata'', JObj (cap_metadata c))]"

definition capability_digest :: "hash \<Rightarrow> capability \<Rightarrow> string" where
  "capability_digest H c = digest_json H (capability_payload c)"

text \<open>One entry of \<open>context_constraints\<close> against the declared context.\<close>

definition context_value_ok :: "json \<Rightarrow> json \<Rightarrow> bool" where
  "context_value_ok expected actual =
     (case expected of JList xs \<Rightarrow> py_in actual xs | _ \<Rightarrow> py_eq actual expected)"

fun context_violation :: "jdict \<Rightarrow> jdict \<Rightarrow> string option" where
  "context_violation [] ctx = None"
| "context_violation ((key, expected) # r) ctx =
     (if context_value_ok expected (jget ctx key) then context_violation r ctx else Some key)"

definition asset_key :: "action_intent \<Rightarrow> string" where
  "asset_key a = (case ai_asset a of None \<Rightarrow> [] | Some s \<Rightarrow> s)"

definition opt_mem :: "string option \<Rightarrow> string list \<Rightarrow> bool" where
  "opt_mem v xs = (case v of None \<Rightarrow> False | Some s \<Rightarrow> List.member xs s)"

definition permits :: "capability \<Rightarrow> action_intent \<Rightarrow> num \<Rightarrow> (bool \<times> string) res" where
  "permits c a now =
    (if ai_agent_id a \<noteq> cap_agent_id c then Inr (False, ''capability agent mismatch'')
     else if (case cap_expires_at c of None \<Rightarrow> False | Some e \<Rightarrow> num_le e now)
       then Inr (False, ''capability expired'')
     else if cap_actions c \<noteq> [] \<and> \<not> List.member (cap_actions c) (ai_action_type a)
       then Inr (False, ''action type outside capability'')
     else if cap_purposes c \<noteq> [] \<and> \<not> lower_mem (ai_purpose a) (cap_purposes c)
       then Inr (False, ''purpose outside capability'')
     else (case context_violation (cap_context c) (ai_declared_context a) of
       Some key \<Rightarrow> Inr (False, ''context '' @ quoted key @ '' outside capability'')
     | None \<Rightarrow>
     if cap_targets c \<noteq> [] \<and> \<not> List.member (cap_targets c) (ai_target a)
       then Inr (False, ''target outside capability'')
     else if cap_resources c \<noteq> [] \<and> \<not> List.member (cap_resources c) (ai_resource a)
       then Inr (False, ''resource outside capability'')
     else if cap_networks c \<noteq> [] \<and> \<not> opt_mem (ai_network a) (cap_networks c)
       then Inr (False, ''network outside capability'')
     else if cap_assets c \<noteq> [] \<and> \<not> opt_mem (ai_asset a) (cap_assets c)
       then Inr (False, ''asset outside capability'')
     else (case dget (cap_max_per_action c) (asset_key a) of
       None \<Rightarrow> Inr (True, ''capability permits action'')
     | Some limit \<Rightarrow>
         bindE (exact_amount a) (\<lambda>amt.
         bindE (case amt of None \<Rightarrow> Inr True | Some d \<Rightarrow> exceeds (PDec d) (PNum limit)) (\<lambda>over.
         if over then Inr (False, ''action exceeds capability limit'')
         else Inr (True, ''capability permits action''))))))"

section \<open>Authority edges, rule matches and decisions\<close>

record authority_edge =
  ae_edge_id :: string
  ae_source_type :: string
  ae_source_id :: string
  ae_relation :: string
  ae_target_type :: string
  ae_target_id :: string
  ae_created_at :: num
  ae_status :: string
  ae_revoked_at :: "num option"

record rule_match =
  rm_rule_id :: string
  rm_severity :: severity
  rm_message :: "frag list"

record guardrail_decision =
  gd_intent_id :: string
  gd_agent_id :: string
  gd_decision :: decision_kind
  gd_matched_rules :: "rule_match list"
  gd_context_digest :: string
  gd_evaluated_at :: num

definition match_dict :: "rule_match \<Rightarrow> json" where
  "match_dict m = JObj [
     (''rule'', JStr (rm_rule_id m)),
     (''severity'', JStr (severity_str (rm_severity m))),
     (''message'', JStr (render (rm_message m)))]"

definition decision_dict :: "guardrail_decision \<Rightarrow> jdict" where
  "decision_dict d = [
     (''intent_id'', JStr (gd_intent_id d)),
     (''agent_id'', JStr (gd_agent_id d)),
     (''decision'', JStr (decision_str (gd_decision d))),
     (''context_sha256'', JStr (gd_context_digest d)),
     (''matched_rules'', JList (map match_dict (gd_matched_rules d))),
     (''evaluated_at'', num_json (gd_evaluated_at d))]"

section \<open>What a permission means\<close>

text \<open>
  \<open>permits\<close> read as a predicate: every scope list is empty or holds the action's value, every
  context constraint holds, and the exact amount is within the limit of its asset.
\<close>

definition amount_within :: "num option \<Rightarrow> action_intent \<Rightarrow> bool" where
  "amount_within limit a = (case limit of None \<Rightarrow> True
     | Some l \<Rightarrow> (\<exists>d. exact_amount a = Inr (Some d) \<and> exceeds (PDec d) (PNum l) = Inr False))"

definition in_scope :: "capability \<Rightarrow> action_intent \<Rightarrow> num \<Rightarrow> bool" where
  "in_scope c a now \<longleftrightarrow>
     ai_agent_id a = cap_agent_id c \<and>
     (\<forall>e. cap_expires_at c = Some e \<longrightarrow> \<not> num_le e now) \<and>
     (cap_actions c \<noteq> [] \<longrightarrow> ai_action_type a \<in> set (cap_actions c)) \<and>
     (cap_purposes c \<noteq> [] \<longrightarrow> lower_mem (ai_purpose a) (cap_purposes c)) \<and>
     context_violation (cap_context c) (ai_declared_context a) = None \<and>
     (cap_targets c \<noteq> [] \<longrightarrow> ai_target a \<in> set (cap_targets c)) \<and>
     (cap_resources c \<noteq> [] \<longrightarrow> ai_resource a \<in> set (cap_resources c)) \<and>
     (cap_networks c \<noteq> [] \<longrightarrow> opt_mem (ai_network a) (cap_networks c)) \<and>
     (cap_assets c \<noteq> [] \<longrightarrow> opt_mem (ai_asset a) (cap_assets c)) \<and>
     amount_within (dget (cap_max_per_action c) (asset_key a)) a"

text \<open>A chain of early \<open>return False, reason\<close> returns True exactly when no guard fires.\<close>

definition accepts :: "(bool \<times> string) res \<Rightarrow> bool" where
  "accepts r \<longleftrightarrow> (\<exists>msg. r = Inr (True, msg))"

lemma accepts_simps [simp]:
  "accepts (Inr (True, m))" "\<not> accepts (Inr (False, m))" "\<not> accepts (Inl e)"
  "accepts (if b then Inr (False, m) else x) \<longleftrightarrow> \<not> b \<and> accepts x"
  "accepts (case v of None \<Rightarrow> x | Some k \<Rightarrow> Inr (False, f k)) \<longleftrightarrow> v = None \<and> accepts x"
  by (auto simp: accepts_def split: option.splits)

lemma accepts_bind: "accepts (bindE m f) \<longleftrightarrow> (\<exists>x. m = Inr x \<and> accepts (f x))"
  by (cases m) auto

lemma accepts_permits: "accepts (permits c a now) \<longleftrightarrow> in_scope c a now"
proof -
  have amount: "accepts (case dget (cap_max_per_action c) (asset_key a) of
       None \<Rightarrow> Inr (True, ''capability permits action'')
     | Some limit \<Rightarrow>
         bindE (exact_amount a) (\<lambda>amt.
         bindE (case amt of None \<Rightarrow> Inr True | Some d \<Rightarrow> exceeds (PDec d) (PNum limit)) (\<lambda>over.
         if over then Inr (False, ''action exceeds capability limit'')
         else Inr (True, ''capability permits action'')))) \<longleftrightarrow>
     amount_within (dget (cap_max_per_action c) (asset_key a)) a"
    by (auto simp: amount_within_def accepts_bind split: option.splits)
  show ?thesis
    unfolding permits_def in_scope_def
    by (simp only: accepts_simps amount) (auto split: option.splits)
qed

lemma permits_True_msg:
  "permits c a now = Inr (True, msg) \<Longrightarrow> in_scope c a now"
  using accepts_permits by (auto simp: accepts_def)

lemma context_violation_None_iff:
  "context_violation cs ctx = None \<longleftrightarrow> (\<forall>(k, e)\<in>set cs. context_value_ok e (jget ctx k))"
  by (induction cs ctx rule: context_violation.induct) auto

end
