(* ===== verification/Schema.thy ===== *)
theory Schema
  imports Sqlite Models
begin

text \<open>
  The tables of \<open>core/storage.py\<close>: one record per table, its UNIQUE constraints as a clash relation,
  and the order on database contents that every method of \<open>Storage\<close> respects.  A TEXT column that
  holds \<open>json.dumps\<close> of a value is kept as the value, and read back as it is: the round trip
  through the text is the standard library's.  A REAL column holds a float; SQLite stores a NaN
  as NULL.  The surrogate keys \<open>audit_log.id\<close> and \<open>authority_ledger.ledger_id\<close> are the position in
  the list.
\<close>

section \<open>Column conversions\<close>

text \<open>\<open>json.dumps\<close> of two values gives the same text exactly when their canonical forms agree.\<close>

definition same_text :: "json \<Rightarrow> json \<Rightarrow> bool" where
  "same_text a b \<longleftrightarrow> canon a = canon b"

definition int64_ok :: "int \<Rightarrow> bool" where
  "int64_ok i \<longleftrightarrow> - (2 ^ 63) \<le> i \<and> i < 2 ^ 63"

definition sql_int :: "int \<Rightarrow> int res" where
  "sql_int i = (if int64_ok i then Inr i else Inl OverflowError)"

text \<open>A number bound to a REAL column; \<open>None\<close> is NULL.\<close>

fun sql_real :: "num \<Rightarrow> xnum option res" where
  "sql_real (NInt i) = bindE (sql_int i) (\<lambda>j. Inr (Some (round64 (of_int j))))"
| "sql_real (NFlt NaN) = Inr None"
| "sql_real (NFlt x) = Inr (Some x)"

definition sql_opt_real :: "num option \<Rightarrow> xnum option res" where
  "sql_opt_real v = (case v of None \<Rightarrow> Inr None | Some n \<Rightarrow> sql_real n)"

definition not_null :: "'a option \<Rightarrow> 'a res" where
  "not_null v = (case v of None \<Rightarrow> Inl IntegrityError | Some x \<Rightarrow> Inr x)"

definition sql_real_nn :: "num \<Rightarrow> xnum res" where
  "sql_real_nn n = bindE (sql_real n) not_null"

text \<open>
  A JSON field bound to a column.  Fields of another type than the column's are reported as a
  TypeError here; the callers bind what their own builders produced.
\<close>

fun col_text :: "json \<Rightarrow> string option res" where
  "col_text (JStr s) = Inr (Some s)"
| "col_text JNull = Inr None"
| "col_text _ = Inl (TypeError ''column value'')"

fun col_text_nn :: "json \<Rightarrow> string res" where
  "col_text_nn (JStr s) = Inr s"
| "col_text_nn JNull = Inl IntegrityError"
| "col_text_nn _ = Inl (TypeError ''column value'')"

fun col_real :: "json \<Rightarrow> xnum option res" where
  "col_real (JInt i) = sql_real (NInt i)"
| "col_real (JFloat x) = sql_real (NFlt x)"
| "col_real JNull = Inr None"
| "col_real _ = Inl (TypeError ''column value'')"

definition col_real_nn :: "json \<Rightarrow> xnum res" where
  "col_real_nn v = bindE (col_real v) not_null"

fun col_int_nn :: "json \<Rightarrow> int res" where
  "col_int_nn (JInt i) = sql_int i"
| "col_int_nn (JBool b) = Inr (if b then 1 else 0)"
| "col_int_nn JNull = Inl IntegrityError"
| "col_int_nn _ = Inl (TypeError ''column value'')"

text \<open>\<open>d[k]\<close> where \<open>d\<close> must itself be a dictionary.\<close>

definition jindex_obj :: "jdict \<Rightarrow> string \<Rightarrow> jdict res" where
  "jindex_obj d k = bindE (jindex d k) (\<lambda>v. case v of JObj d1 \<Rightarrow> Inr d1 | _ \<Rightarrow> Inl (TypeError k))"

text \<open>\<open>ORDER BY\<close> a REAL column, ascending or descending; rows that tie keep the order of insertion.\<close>

fun insort_asc :: "('r \<Rightarrow> xnum) \<Rightarrow> 'r \<Rightarrow> 'r list \<Rightarrow> 'r list" where
  "insort_asc f r [] = [r]"
| "insort_asc f r (s # rs) = (if x_le (f r) (f s) then r # s # rs else s # insort_asc f r rs)"

definition order_asc :: "('r \<Rightarrow> xnum) \<Rightarrow> 'r list \<Rightarrow> 'r list" where
  "order_asc f rs = foldr (insort_asc f) rs []"

definition order_desc :: "('r \<Rightarrow> xnum) \<Rightarrow> 'r list \<Rightarrow> 'r list" where
  "order_desc f rs = order_asc (\<lambda>r. f_neg (f r)) rs"

text \<open>\<open>ORDER BY f DESC LIMIT 1\<close> on an INTEGER column.\<close>

fun max_row :: "('r \<Rightarrow> int) \<Rightarrow> 'r list \<Rightarrow> 'r option" where
  "max_row f [] = None"
| "max_row f (r # rs) = (case max_row f rs of None \<Rightarrow> Some r
     | Some s \<Rightarrow> if f s \<le> f r then Some r else Some s)"

lemma set_insort_asc [simp]: "set (insort_asc f r rs) = insert r (set rs)"
  by (induction rs) auto

lemma set_order_asc [simp]: "set (order_asc f rs) = set rs"
  by (induction rs) (simp_all add: order_asc_def)

lemma set_order_desc [simp]: "set (order_desc f rs) = set rs"
  by (simp add: order_desc_def)

lemma max_row_None [simp]: "max_row f rs = None \<longleftrightarrow> rs = []"
  by (cases rs) (auto split: option.splits)

lemma max_row_Some:
  "max_row f rs = Some r \<Longrightarrow> r \<in> set rs \<and> (\<forall>s\<in>set rs. f s \<le> f r)"
proof (induction rs arbitrary: r)
  case (Cons a rs)
  show ?case
  proof (cases "max_row f rs")
    case (Some s)
    with Cons.IH [of s] Cons.prems show ?thesis by (fastforce split: if_splits)
  qed (use Cons.prems in simp)
qed simp

section \<open>Rows\<close>

record audit_row =
  au_intent_id :: string
  au_agent_id :: string
  au_payee :: string
  au_asset :: string
  au_network :: string
  au_amount :: xnum
  au_decision :: string
  au_rules :: json
  au_intent :: json
  au_signature :: "string option"
  au_created_at :: xnum

record nonce_row =
  en_nonce :: string
  en_authorization_id :: string
  en_intent_id :: string
  en_agent_id :: string
  en_consumed_at :: xnum

record receipt_row =
  er_receipt_id :: string
  er_authorization_id :: string
  er_intent_id :: string
  er_agent_id :: string
  er_network :: string
  er_status :: string
  er_transaction_ref :: "string option"
  er_json :: json
  er_signature :: string
  er_created_at :: xnum

record artifact_row =
  aa_authorization_id :: string
  aa_intent_id :: string
  aa_agent_id :: string
  aa_decision :: json
  aa_execution :: "json option"
  aa_agent_signature :: "string option"
  aa_created_at :: xnum

record capability_row =
  cr_capability_id :: string
  cr_agent_id :: string
  cr_version :: int
  cr_capability :: capability
  cr_sha256 :: string
  cr_status :: string
  cr_issued_at :: xnum
  cr_expires_at :: "xnum option"
  cr_revoked_at :: "xnum option"
  cr_created_at :: xnum

record identity_row =
  ir_identity_id :: string
  ir_agent_id :: string
  ir_identity :: agent_identity
  ir_sha256 :: string
  ir_status :: string
  ir_issued_at :: xnum
  ir_expires_at :: "xnum option"
  ir_revoked_at :: "xnum option"
  ir_created_at :: xnum

record edge_row =
  eg_edge_id :: string
  eg_source_type :: string
  eg_source_id :: string
  eg_relation :: string
  eg_target_type :: string
  eg_target_id :: string
  eg_status :: string
  eg_created_at :: xnum
  eg_revoked_at :: "xnum option"

record delegation_row =
  dl_edge_id :: string
  dl_parent :: string
  dl_child :: string
  dl_delegator :: string
  dl_signature :: string
  dl_child_sha256 :: string
  dl_created_at :: xnum

record event_row =
  ev_event_id :: string
  ev_agent_id :: string
  ev_capability_id :: string
  ev_identity_id :: "string option"
  ev_event_type :: string
  ev_action_type :: "string option"
  ev_evidence_ref :: string
  ev_metadata :: json
  ev_occurred_at :: xnum

record ledger_row =
  lg_agent_id :: string
  lg_capability_id :: string
  lg_sequence :: int
  lg_event_id :: string
  lg_prev_hash :: string
  lg_event_hash :: string
  lg_event :: json
  lg_created_at :: xnum

record state_row =
  st_agent_id :: string
  st_capability_id :: string
  st_state :: string
  st_snapshot :: json
  st_updated_at :: xnum

record version_row =
  pv_policy_sha256 :: string
  pv_policy_id :: string
  pv_version :: int
  pv_source_ref :: string
  pv_signed_policy :: json
  pv_created_at :: xnum

record change_row =
  gc_policy_sha256 :: string
  gc_policy_id :: string
  gc_version :: int
  gc_parent_sha256 :: "string option"
  gc_action_id :: string
  gc_action_nonce :: string
  gc_governance_sha256 :: string
  gc_envelope :: json
  gc_created_at :: xnum

record control_row =
  pc_policy_id :: string
  pc_active_sha256 :: string
  pc_frozen :: bool
  pc_control :: json
  pc_updated_at :: xnum

record control_action_row =
  ca_action_id :: string
  ca_action_nonce :: string
  ca_policy_id :: string
  ca_action :: string
  ca_envelope :: json
  ca_created_at :: xnum

record reset_row =
  rs_reset_id :: string
  rs_agent_id :: string
  rs_capability_id :: string
  rs_governor_id :: string
  rs_epoch :: int
  rs_reason :: string
  rs_issued_at :: xnum
  rs_nonce :: string
  rs_signed :: json
  rs_created_at :: xnum

record approval_row =
  gv_approval_id :: string
  gv_action_digest :: string
  gv_governor_id :: string
  gv_role :: string
  gv_issued_at :: xnum
  gv_expires_at :: xnum
  gv_nonce :: string
  gv_signed :: json
  gv_created_at :: xnum

record attestor_row =
  oa_attestor_id :: string
  oa_key_id :: string
  oa_public_key_b64 :: string
  oa_attestor_type :: string
  oa_status :: string
  oa_created_at :: xnum
  oa_revoked_at :: "xnum option"
  oa_expires_at :: "xnum option"

record attestor_action_row =
  ag_action_id :: string
  ag_action_sha256 :: string
  ag_attestor_id :: string
  ag_action :: string
  ag_envelope :: json
  ag_created_at :: xnum

record claim_row =
  oc_claim_id :: string
  oc_authorization_id :: string
  oc_receipt_sha256 :: string
  oc_claim_sha256 :: string
  oc_claim :: json
  oc_created_at :: xnum

record attestation_row =
  ot_attestation_id :: string
  ot_claim_id :: string
  ot_attestor_id :: string
  ot_attestation_type :: string
  ot_attestation_sha256 :: string
  ot_attestation :: json
  ot_created_at :: xnum

record snapshot_row =
  sn_snapshot_id :: string
  sn_authorization_id :: string
  sn_graph_sha256 :: string
  sn_graph_version :: int
  sn_graph :: json
  sn_created_at :: xnum

record db =
  t_audit :: "audit_row list"
  t_nonces :: "nonce_row list"
  t_receipts :: "receipt_row list"
  t_artifacts :: "artifact_row list"
  t_capabilities :: "capability_row list"
  t_identities :: "identity_row list"
  t_edges :: "edge_row list"
  t_delegations :: "delegation_row list"
  t_events :: "event_row list"
  t_ledger :: "ledger_row list"
  t_states :: "state_row list"
  t_versions :: "version_row list"
  t_changes :: "change_row list"
  t_controls :: "control_row list"
  t_control_actions :: "control_action_row list"
  t_resets :: "reset_row list"
  t_approvals :: "approval_row list"
  t_attestors :: "attestor_row list"
  t_attestor_actions :: "attestor_action_row list"
  t_claims :: "claim_row list"
  t_attestations :: "attestation_row list"
  t_snapshots :: "snapshot_row list"

type_synonym 'a st = "(db conn, 'a) sm"

text \<open>The database that \<open>CREATE TABLE IF NOT EXISTS\<close> leaves in a fresh file.\<close>

definition empty_db :: db where
  "empty_db = \<lparr> t_audit = [],
     t_nonces = [],
     t_receipts = [],
     t_artifacts = [],
     t_capabilities = [],
     t_identities = [],
     t_edges = [],
     t_delegations = [],
     t_events = [],
     t_ledger = [],
     t_states = [],
     t_versions = [],
     t_changes = [],
     t_controls = [],
     t_control_actions = [],
     t_resets = [],
     t_approvals = [],
     t_attestors = [],
     t_attestor_actions = [],
     t_claims = [],
     t_attestations = [],
     t_snapshots = [] \<rparr>"

definition fresh :: "db conn" where
  "fresh = \<lparr> disk = empty_db, work = None \<rparr>"

section \<open>Uniqueness constraints\<close>

definition nonce_clash :: "nonce_row \<Rightarrow> nonce_row \<Rightarrow> bool" where
  "nonce_clash r s \<longleftrightarrow> en_nonce r = en_nonce s"

definition receipt_clash :: "receipt_row \<Rightarrow> receipt_row \<Rightarrow> bool" where
  "receipt_clash r s \<longleftrightarrow> er_receipt_id r = er_receipt_id s \<or> er_authorization_id r = er_authorization_id s"

definition artifact_clash :: "artifact_row \<Rightarrow> artifact_row \<Rightarrow> bool" where
  "artifact_clash r s \<longleftrightarrow> aa_authorization_id r = aa_authorization_id s \<or> aa_intent_id r = aa_intent_id s"

definition capability_clash :: "capability_row \<Rightarrow> capability_row \<Rightarrow> bool" where
  "capability_clash r s \<longleftrightarrow> cr_capability_id r = cr_capability_id s"

definition identity_clash :: "identity_row \<Rightarrow> identity_row \<Rightarrow> bool" where
  "identity_clash r s \<longleftrightarrow> ir_identity_id r = ir_identity_id s"

definition edge_clash :: "edge_row \<Rightarrow> edge_row \<Rightarrow> bool" where
  "edge_clash r s \<longleftrightarrow> eg_edge_id r = eg_edge_id s \<or> (eg_source_type r = eg_source_type s \<and> eg_source_id r = eg_source_id s \<and> eg_relation r = eg_relation s \<and> eg_target_type r = eg_target_type s \<and> eg_target_id r = eg_target_id s)"

definition delegation_clash :: "delegation_row \<Rightarrow> delegation_row \<Rightarrow> bool" where
  "delegation_clash r s \<longleftrightarrow> dl_edge_id r = dl_edge_id s \<or> dl_child r = dl_child s"

definition event_clash :: "event_row \<Rightarrow> event_row \<Rightarrow> bool" where
  "event_clash r s \<longleftrightarrow> ev_event_id r = ev_event_id s \<or> (ev_agent_id r = ev_agent_id s \<and> ev_capability_id r = ev_capability_id s \<and> ev_event_type r = ev_event_type s \<and> ev_evidence_ref r = ev_evidence_ref s)"

definition ledger_clash :: "ledger_row \<Rightarrow> ledger_row \<Rightarrow> bool" where
  "ledger_clash r s \<longleftrightarrow> lg_event_id r = lg_event_id s \<or> lg_event_hash r = lg_event_hash s \<or> (lg_agent_id r = lg_agent_id s \<and> lg_capability_id r = lg_capability_id s \<and> lg_sequence r = lg_sequence s)"

definition state_clash :: "state_row \<Rightarrow> state_row \<Rightarrow> bool" where
  "state_clash r s \<longleftrightarrow> (st_agent_id r = st_agent_id s \<and> st_capability_id r = st_capability_id s)"

definition version_clash :: "version_row \<Rightarrow> version_row \<Rightarrow> bool" where
  "version_clash r s \<longleftrightarrow> pv_policy_sha256 r = pv_policy_sha256 s"

definition change_clash :: "change_row \<Rightarrow> change_row \<Rightarrow> bool" where
  "change_clash r s \<longleftrightarrow> gc_policy_sha256 r = gc_policy_sha256 s \<or> gc_action_id r = gc_action_id s \<or> gc_action_nonce r = gc_action_nonce s"

definition control_clash :: "control_row \<Rightarrow> control_row \<Rightarrow> bool" where
  "control_clash r s \<longleftrightarrow> pc_policy_id r = pc_policy_id s"

definition control_action_clash :: "control_action_row \<Rightarrow> control_action_row \<Rightarrow> bool" where
  "control_action_clash r s \<longleftrightarrow> ca_action_id r = ca_action_id s \<or> ca_action_nonce r = ca_action_nonce s"

definition reset_clash :: "reset_row \<Rightarrow> reset_row \<Rightarrow> bool" where
  "reset_clash r s \<longleftrightarrow> rs_reset_id r = rs_reset_id s \<or> rs_nonce r = rs_nonce s \<or> (rs_agent_id r = rs_agent_id s \<and> rs_capability_id r = rs_capability_id s \<and> rs_epoch r = rs_epoch s)"

definition approval_clash :: "approval_row \<Rightarrow> approval_row \<Rightarrow> bool" where
  "approval_clash r s \<longleftrightarrow> gv_approval_id r = gv_approval_id s \<or> gv_nonce r = gv_nonce s \<or> (gv_action_digest r = gv_action_digest s \<and> gv_governor_id r = gv_governor_id s)"

definition attestor_clash :: "attestor_row \<Rightarrow> attestor_row \<Rightarrow> bool" where
  "attestor_clash r s \<longleftrightarrow> oa_attestor_id r = oa_attestor_id s \<or> oa_key_id r = oa_key_id s"

definition attestor_action_clash :: "attestor_action_row \<Rightarrow> attestor_action_row \<Rightarrow> bool" where
  "attestor_action_clash r s \<longleftrightarrow> ag_action_id r = ag_action_id s \<or> ag_action_sha256 r = ag_action_sha256 s"

definition claim_clash :: "claim_row \<Rightarrow> claim_row \<Rightarrow> bool" where
  "claim_clash r s \<longleftrightarrow> oc_claim_id r = oc_claim_id s \<or> oc_claim_sha256 r = oc_claim_sha256 s"

definition attestation_clash :: "attestation_row \<Rightarrow> attestation_row \<Rightarrow> bool" where
  "attestation_clash r s \<longleftrightarrow> ot_attestation_id r = ot_attestation_id s \<or> ot_attestation_sha256 r = ot_attestation_sha256 s"

definition snapshot_clash :: "snapshot_row \<Rightarrow> snapshot_row \<Rightarrow> bool" where
  "snapshot_clash r s \<longleftrightarrow> sn_snapshot_id r = sn_snapshot_id s \<or> sn_graph_sha256 r = sn_graph_sha256 s"

interpretation nonce_tab: unique_table nonce_clash en_nonce
  by unfold_locales (auto simp: nonce_clash_def)

interpretation receipt_tab: unique_table receipt_clash er_receipt_id
  by unfold_locales (auto simp: receipt_clash_def)

interpretation artifact_tab: unique_table artifact_clash aa_authorization_id
  by unfold_locales (auto simp: artifact_clash_def)

interpretation capability_tab: unique_table capability_clash cr_capability_id
  by unfold_locales (auto simp: capability_clash_def)

interpretation identity_tab: unique_table identity_clash ir_identity_id
  by unfold_locales (auto simp: identity_clash_def)

interpretation edge_tab: unique_table edge_clash eg_edge_id
  by unfold_locales (auto simp: edge_clash_def)

interpretation delegation_tab: unique_table delegation_clash dl_edge_id
  by unfold_locales (auto simp: delegation_clash_def)

interpretation event_tab: unique_table event_clash ev_event_id
  by unfold_locales (auto simp: event_clash_def)

interpretation ledger_tab: unique_table ledger_clash lg_event_id
  by unfold_locales (auto simp: ledger_clash_def)

interpretation state_tab: unique_table state_clash "\<lambda>r. (st_agent_id r, st_capability_id r)"
  by unfold_locales (auto simp: state_clash_def)

interpretation version_tab: unique_table version_clash pv_policy_sha256
  by unfold_locales (auto simp: version_clash_def)

interpretation change_tab: unique_table change_clash gc_policy_sha256
  by unfold_locales (auto simp: change_clash_def)

interpretation control_tab: unique_table control_clash pc_policy_id
  by unfold_locales (auto simp: control_clash_def)

interpretation controlaction_tab: unique_table control_action_clash ca_action_id
  by unfold_locales (auto simp: control_action_clash_def)

interpretation reset_tab: unique_table reset_clash rs_reset_id
  by unfold_locales (auto simp: reset_clash_def)

interpretation approval_tab: unique_table approval_clash gv_approval_id
  by unfold_locales (auto simp: approval_clash_def)

interpretation attestor_tab: unique_table attestor_clash oa_attestor_id
  by unfold_locales (auto simp: attestor_clash_def)

interpretation attestoraction_tab: unique_table attestor_action_clash ag_action_id
  by unfold_locales (auto simp: attestor_action_clash_def)

interpretation claim_tab: unique_table claim_clash oc_claim_id
  by unfold_locales (auto simp: claim_clash_def)

interpretation attestation_tab: unique_table attestation_clash ot_attestation_id
  by unfold_locales (auto simp: attestation_clash_def)

interpretation snapshot_tab: unique_table snapshot_clash sn_snapshot_id
  by unfold_locales (auto simp: snapshot_clash_def)

section \<open>How the contents may change\<close>

text \<open>
  \<open>grows Q xs ys\<close>: the rows of \<open>xs\<close> are still in \<open>ys\<close>, in place and each related to its new value by
  \<open>Q\<close>, and new rows only come after them.
\<close>

definition grows :: "('r \<Rightarrow> 'r \<Rightarrow> bool) \<Rightarrow> 'r list \<Rightarrow> 'r list \<Rightarrow> bool" where
  "grows Q xs ys \<longleftrightarrow> (\<exists>us vs. ys = us @ vs \<and> list_all2 Q xs us)"

lemma grows_refl [simp]: "(\<And>r. Q r r) \<Longrightarrow> grows Q xs xs"
  unfolding grows_def by (rule exI [of _ xs], rule exI [of _ "[]"]) (simp add: list_all2_refl)

lemma grows_trans:
  assumes Q: "\<And>a b c. Q a b \<Longrightarrow> Q b c \<Longrightarrow> Q a c" and "grows Q xs ys" and "grows Q ys zs"
  shows "grows Q xs zs"
proof -
  from assms(2) obtain us vs where ys: "ys = us @ vs" and xs: "list_all2 Q xs us"
    by (auto simp: grows_def)
  from assms(3) obtain ws ts where zs: "zs = ws @ ts" and "list_all2 Q (us @ vs) ws"
    by (auto simp: grows_def ys)
  then obtain us' vs' where ws: "ws = us' @ vs'" and us': "list_all2 Q us us'"
    by (auto simp: list_all2_append1)
  have "list_all2 Q xs us'" by (rule list_all2_trans [OF Q xs us'])
  with zs ws show ?thesis by (auto simp: grows_def)
qed

lemma grows_append [simp]: "(\<And>r. Q r r) \<Longrightarrow> grows Q xs (xs @ ys)"
  unfolding grows_def by (auto simp: list_all2_refl)

lemma grows_insert: "(\<And>r. Q r r) \<Longrightarrow> insert_row c r tab = Inr tab' \<Longrightarrow> grows Q tab tab'"
  by (auto simp: insert_row_Inr)

lemma grows_update:
  assumes "\<And>r. Q r r" and "\<And>r. p r \<Longrightarrow> Q r (f r)"
  shows "grows Q tab (fst (update_rows p f tab))"
proof -
  have "list_all2 Q tab (fst (update_rows p f tab))"
    unfolding update_rows_def by (induction tab) (use assms in simp_all)
  then show ?thesis unfolding grows_def
    by (intro exI [of _ "fst (update_rows p f tab)"] exI [of _ "[]"]) simp
qed

lemma grows_mem:
  assumes "grows Q xs ys" and "r \<in> set xs"
  shows "\<exists>s\<in>set ys. Q r s"
  using assms by (fastforce simp: grows_def list_all2_conv_all_nth in_set_conv_nth)

abbreviation only_grows :: "'r list \<Rightarrow> 'r list \<Rightarrow> bool" where
  "only_grows \<equiv> grows (=)"

lemma only_grows_iff: "only_grows xs ys \<longleftrightarrow> (\<exists>zs. ys = xs @ zs)"
  by (auto simp: grows_def list_all2_eq [symmetric])

lemma only_grows_mem: "only_grows xs ys \<Longrightarrow> r \<in> set xs \<Longrightarrow> r \<in> set ys"
  by (auto simp: only_grows_iff)

text \<open>What an UPDATE may do to a row that is already there.\<close>

definition audit_evolves :: "audit_row \<Rightarrow> audit_row \<Rightarrow> bool" where
  "audit_evolves r s \<longleftrightarrow> s = r\<lparr>au_signature := au_signature s\<rparr> \<and>
     (au_signature r \<noteq> None \<longrightarrow> s = r)"

definition receipt_evolves :: "receipt_row \<Rightarrow> receipt_row \<Rightarrow> bool" where
  "receipt_evolves r s \<longleftrightarrow> er_receipt_id s = er_receipt_id r \<and>
     er_authorization_id s = er_authorization_id r \<and> er_intent_id s = er_intent_id r \<and>
     er_agent_id s = er_agent_id r \<and> er_network s = er_network r"

definition capability_evolves :: "capability_row \<Rightarrow> capability_row \<Rightarrow> bool" where
  "capability_evolves r s \<longleftrightarrow> s = r \<or> (cr_status r = ''ACTIVE'' \<and>
     s = r\<lparr>cr_status := ''REVOKED'', cr_revoked_at := cr_revoked_at s\<rparr>)"

definition identity_evolves :: "identity_row \<Rightarrow> identity_row \<Rightarrow> bool" where
  "identity_evolves r s \<longleftrightarrow> s = r \<or> (ir_status r = ''ACTIVE'' \<and>
     s = r\<lparr>ir_status := ''REVOKED'', ir_revoked_at := ir_revoked_at s\<rparr>)"

definition edge_evolves :: "edge_row \<Rightarrow> edge_row \<Rightarrow> bool" where
  "edge_evolves r s \<longleftrightarrow> s = r \<or> (eg_status r = ''ACTIVE'' \<and>
     s = r\<lparr>eg_status := ''REVOKED'', eg_revoked_at := eg_revoked_at s\<rparr>)"

definition attestor_evolves :: "attestor_row \<Rightarrow> attestor_row \<Rightarrow> bool" where
  "attestor_evolves r s \<longleftrightarrow> oa_attestor_id s = oa_attestor_id r"

lemmas evolves_defs = audit_evolves_def receipt_evolves_def capability_evolves_def
  identity_evolves_def edge_evolves_def attestor_evolves_def

lemma evolves_refl [simp]:
  "audit_evolves a a" "receipt_evolves r r" "capability_evolves c c" "identity_evolves i i"
  "edge_evolves e e" "attestor_evolves t t"
  by (simp_all add: evolves_defs)

lemma audit_evolves_trans: "audit_evolves a b \<Longrightarrow> audit_evolves b c \<Longrightarrow> audit_evolves a c"
  by (cases a; cases b; cases c) (auto simp: audit_evolves_def)

lemma receipt_evolves_trans:
  "receipt_evolves a b \<Longrightarrow> receipt_evolves b c \<Longrightarrow> receipt_evolves a c"
  by (auto simp: receipt_evolves_def)

lemma capability_evolves_trans:
  "capability_evolves a b \<Longrightarrow> capability_evolves b c \<Longrightarrow> capability_evolves a c"
  by (cases a; cases b; cases c) (auto simp: capability_evolves_def)

lemma identity_evolves_trans:
  "identity_evolves a b \<Longrightarrow> identity_evolves b c \<Longrightarrow> identity_evolves a c"
  by (cases a; cases b; cases c) (auto simp: identity_evolves_def)

lemma edge_evolves_trans: "edge_evolves a b \<Longrightarrow> edge_evolves b c \<Longrightarrow> edge_evolves a c"
  by (cases a; cases b; cases c) (auto simp: edge_evolves_def)

lemma attestor_evolves_trans:
  "attestor_evolves a b \<Longrightarrow> attestor_evolves b c \<Longrightarrow> attestor_evolves a c"
  by (auto simp: attestor_evolves_def)

lemmas evolves_trans = audit_evolves_trans receipt_evolves_trans capability_evolves_trans
  identity_evolves_trans edge_evolves_trans attestor_evolves_trans

text \<open>
  The order: logs, consumed nonces, artifacts, evidence and governance records are append-only;
  receipts keep their binding; a revocation is final; every uniqueness constraint that held holds.
\<close>

definition db_unique :: "db \<Rightarrow> bool" where
  "db_unique d \<longleftrightarrow>
     no_clash nonce_clash (t_nonces d) \<and>
     no_clash receipt_clash (t_receipts d) \<and>
     no_clash artifact_clash (t_artifacts d) \<and>
     no_clash capability_clash (t_capabilities d) \<and>
     no_clash identity_clash (t_identities d) \<and>
     no_clash edge_clash (t_edges d) \<and>
     no_clash delegation_clash (t_delegations d) \<and>
     no_clash event_clash (t_events d) \<and>
     no_clash ledger_clash (t_ledger d) \<and>
     no_clash state_clash (t_states d) \<and>
     no_clash version_clash (t_versions d) \<and>
     no_clash change_clash (t_changes d) \<and>
     no_clash control_clash (t_controls d) \<and>
     no_clash control_action_clash (t_control_actions d) \<and>
     no_clash reset_clash (t_resets d) \<and>
     no_clash approval_clash (t_approvals d) \<and>
     no_clash attestor_clash (t_attestors d) \<and>
     no_clash attestor_action_clash (t_attestor_actions d) \<and>
     no_clash claim_clash (t_claims d) \<and>
     no_clash attestation_clash (t_attestations d) \<and>
     no_clash snapshot_clash (t_snapshots d)"

definition db_le :: "db \<Rightarrow> db \<Rightarrow> bool" where
  "db_le d e \<longleftrightarrow>
     grows audit_evolves (t_audit d) (t_audit e) \<and>
     only_grows (t_nonces d) (t_nonces e) \<and>
     grows receipt_evolves (t_receipts d) (t_receipts e) \<and>
     only_grows (t_artifacts d) (t_artifacts e) \<and>
     grows capability_evolves (t_capabilities d) (t_capabilities e) \<and>
     grows identity_evolves (t_identities d) (t_identities e) \<and>
     grows edge_evolves (t_edges d) (t_edges e) \<and>
     only_grows (t_delegations d) (t_delegations e) \<and>
     only_grows (t_events d) (t_events e) \<and>
     only_grows (t_ledger d) (t_ledger e) \<and>
     only_grows (t_changes d) (t_changes e) \<and>
     only_grows (t_control_actions d) (t_control_actions e) \<and>
     only_grows (t_resets d) (t_resets e) \<and>
     only_grows (t_approvals d) (t_approvals e) \<and>
     grows attestor_evolves (t_attestors d) (t_attestors e) \<and>
     only_grows (t_attestor_actions d) (t_attestor_actions e) \<and>
     only_grows (t_claims d) (t_claims e) \<and>
     only_grows (t_attestations d) (t_attestations e) \<and>
     only_grows (t_snapshots d) (t_snapshots e) \<and>
     (db_unique d \<longrightarrow> db_unique e)"

lemma grows_eq_trans: "only_grows xs ys \<Longrightarrow> only_grows ys zs \<Longrightarrow> only_grows xs zs"
  by (auto simp: only_grows_iff)

interpretation dbo: db_order db_le
proof
  show "db_le d d" for d by (simp add: db_le_def)
  show "db_le d f" if "db_le d e" "db_le e f" for d e f
    using that unfolding db_le_def
    by (elim conjE, intro conjI)
       ((erule (1) grows_eq_trans | rule grows_trans [rotated], assumption, assumption,
         erule (1) evolves_trans | blast)+)
qed

lemma empty_unique: "db_unique empty_db"
  by (simp add: db_unique_def empty_db_def)

section \<open>INSERT\<close>

text \<open>\<open>INSERT INTO tab VALUES row\<close>, where computing the row may itself fail.\<close>

definition ins :: "('r \<Rightarrow> 'r \<Rightarrow> bool) \<Rightarrow> (db \<Rightarrow> 'r list) \<Rightarrow> ('r list \<Rightarrow> db \<Rightarrow> db) \<Rightarrow> 'r res \<Rightarrow>
    db \<Rightarrow> (db \<times> unit) res" where
  "ins clash get put row d = bindE row (\<lambda>r. bindE (insert_row clash r (get d)) (\<lambda>tab.
     Inr (put tab d, ())))"

lemma dml_ins_Inr:
  "dml (ins clash get put (Inr r)) c =
    (if list_ex (clash r) (get (cur c)) then (c\<lparr>work := Some (cur c)\<rparr>, Inl IntegrityError)
     else (c\<lparr>work := Some (put (get (cur c) @ [r]) (cur c))\<rparr>, Inr ()))"
  by (simp add: dml_def ins_def insert_row_def)

lemma dml_ins_Inl:
  "dml (ins clash get put (Inl e)) c = (c\<lparr>work := Some (cur c)\<rparr>, Inl e)"
  by (simp add: dml_def ins_def)

definition no_constraint :: "audit_row \<Rightarrow> audit_row \<Rightarrow> bool" where
  "no_constraint r s \<longleftrightarrow> False"

definition insert_audit :: "audit_row res \<Rightarrow> unit st" where
  "insert_audit row = dml (ins no_constraint t_audit (\<lambda>tab d. d\<lparr>t_audit := tab\<rparr>) row)"

lemma insert_audit_advances [keeps_intros]: "dbo.advances (insert_audit row)"
  unfolding insert_audit_def by (rule dbo.advances_dml)
    (auto simp: dbo.forward_def ins_def bindE_Inr_iff db_le_def db_unique_def
      intro: grows_insert)

definition insert_nonce :: "nonce_row res \<Rightarrow> unit st" where
  "insert_nonce row = dml (ins nonce_clash t_nonces (\<lambda>tab d. d\<lparr>t_nonces := tab\<rparr>) row)"

lemma insert_nonce_advances [keeps_intros]: "dbo.advances (insert_nonce row)"
  unfolding insert_nonce_def by (rule dbo.advances_dml)
    (auto simp: dbo.forward_def ins_def bindE_Inr_iff db_le_def db_unique_def
      intro: grows_insert nonce_tab.insert_keeps)

definition insert_receipt :: "receipt_row res \<Rightarrow> unit st" where
  "insert_receipt row = dml (ins receipt_clash t_receipts (\<lambda>tab d. d\<lparr>t_receipts := tab\<rparr>) row)"

lemma insert_receipt_advances [keeps_intros]: "dbo.advances (insert_receipt row)"
  unfolding insert_receipt_def by (rule dbo.advances_dml)
    (auto simp: dbo.forward_def ins_def bindE_Inr_iff db_le_def db_unique_def
      intro: grows_insert receipt_tab.insert_keeps)

definition insert_artifact :: "artifact_row res \<Rightarrow> unit st" where
  "insert_artifact row = dml (ins artifact_clash t_artifacts (\<lambda>tab d. d\<lparr>t_artifacts := tab\<rparr>) row)"

lemma insert_artifact_advances [keeps_intros]: "dbo.advances (insert_artifact row)"
  unfolding insert_artifact_def by (rule dbo.advances_dml)
    (auto simp: dbo.forward_def ins_def bindE_Inr_iff db_le_def db_unique_def
      intro: grows_insert artifact_tab.insert_keeps)

definition insert_capability :: "capability_row res \<Rightarrow> unit st" where
  "insert_capability row = dml (ins capability_clash t_capabilities (\<lambda>tab d. d\<lparr>t_capabilities := tab\<rparr>) row)"

lemma insert_capability_advances [keeps_intros]: "dbo.advances (insert_capability row)"
  unfolding insert_capability_def by (rule dbo.advances_dml)
    (auto simp: dbo.forward_def ins_def bindE_Inr_iff db_le_def db_unique_def
      intro: grows_insert capability_tab.insert_keeps)

definition insert_identity :: "identity_row res \<Rightarrow> unit st" where
  "insert_identity row = dml (ins identity_clash t_identities (\<lambda>tab d. d\<lparr>t_identities := tab\<rparr>) row)"

lemma insert_identity_advances [keeps_intros]: "dbo.advances (insert_identity row)"
  unfolding insert_identity_def by (rule dbo.advances_dml)
    (auto simp: dbo.forward_def ins_def bindE_Inr_iff db_le_def db_unique_def
      intro: grows_insert identity_tab.insert_keeps)

definition insert_edge :: "edge_row res \<Rightarrow> unit st" where
  "insert_edge row = dml (ins edge_clash t_edges (\<lambda>tab d. d\<lparr>t_edges := tab\<rparr>) row)"

lemma insert_edge_advances [keeps_intros]: "dbo.advances (insert_edge row)"
  unfolding insert_edge_def by (rule dbo.advances_dml)
    (auto simp: dbo.forward_def ins_def bindE_Inr_iff db_le_def db_unique_def
      intro: grows_insert edge_tab.insert_keeps)

definition insert_delegation :: "delegation_row res \<Rightarrow> unit st" where
  "insert_delegation row = dml (ins delegation_clash t_delegations (\<lambda>tab d. d\<lparr>t_delegations := tab\<rparr>) row)"

lemma insert_delegation_advances [keeps_intros]: "dbo.advances (insert_delegation row)"
  unfolding insert_delegation_def by (rule dbo.advances_dml)
    (auto simp: dbo.forward_def ins_def bindE_Inr_iff db_le_def db_unique_def
      intro: grows_insert delegation_tab.insert_keeps)

definition insert_event :: "event_row res \<Rightarrow> unit st" where
  "insert_event row = dml (ins event_clash t_events (\<lambda>tab d. d\<lparr>t_events := tab\<rparr>) row)"

lemma insert_event_advances [keeps_intros]: "dbo.advances (insert_event row)"
  unfolding insert_event_def by (rule dbo.advances_dml)
    (auto simp: dbo.forward_def ins_def bindE_Inr_iff db_le_def db_unique_def
      intro: grows_insert event_tab.insert_keeps)

definition insert_ledger :: "ledger_row res \<Rightarrow> unit st" where
  "insert_ledger row = dml (ins ledger_clash t_ledger (\<lambda>tab d. d\<lparr>t_ledger := tab\<rparr>) row)"

lemma insert_ledger_advances [keeps_intros]: "dbo.advances (insert_ledger row)"
  unfolding insert_ledger_def by (rule dbo.advances_dml)
    (auto simp: dbo.forward_def ins_def bindE_Inr_iff db_le_def db_unique_def
      intro: grows_insert ledger_tab.insert_keeps)

definition insert_state :: "state_row res \<Rightarrow> unit st" where
  "insert_state row = dml (ins state_clash t_states (\<lambda>tab d. d\<lparr>t_states := tab\<rparr>) row)"

lemma insert_state_advances [keeps_intros]: "dbo.advances (insert_state row)"
  unfolding insert_state_def by (rule dbo.advances_dml)
    (auto simp: dbo.forward_def ins_def bindE_Inr_iff db_le_def db_unique_def
      intro: grows_insert state_tab.insert_keeps)

definition insert_version :: "version_row res \<Rightarrow> unit st" where
  "insert_version row = dml (ins version_clash t_versions (\<lambda>tab d. d\<lparr>t_versions := tab\<rparr>) row)"

lemma insert_version_advances [keeps_intros]: "dbo.advances (insert_version row)"
  unfolding insert_version_def by (rule dbo.advances_dml)
    (auto simp: dbo.forward_def ins_def bindE_Inr_iff db_le_def db_unique_def
      intro: grows_insert version_tab.insert_keeps)

definition insert_change :: "change_row res \<Rightarrow> unit st" where
  "insert_change row = dml (ins change_clash t_changes (\<lambda>tab d. d\<lparr>t_changes := tab\<rparr>) row)"

lemma insert_change_advances [keeps_intros]: "dbo.advances (insert_change row)"
  unfolding insert_change_def by (rule dbo.advances_dml)
    (auto simp: dbo.forward_def ins_def bindE_Inr_iff db_le_def db_unique_def
      intro: grows_insert change_tab.insert_keeps)

definition insert_control :: "control_row res \<Rightarrow> unit st" where
  "insert_control row = dml (ins control_clash t_controls (\<lambda>tab d. d\<lparr>t_controls := tab\<rparr>) row)"

lemma insert_control_advances [keeps_intros]: "dbo.advances (insert_control row)"
  unfolding insert_control_def by (rule dbo.advances_dml)
    (auto simp: dbo.forward_def ins_def bindE_Inr_iff db_le_def db_unique_def
      intro: grows_insert control_tab.insert_keeps)

definition insert_control_action :: "control_action_row res \<Rightarrow> unit st" where
  "insert_control_action row = dml (ins control_action_clash t_control_actions (\<lambda>tab d. d\<lparr>t_control_actions := tab\<rparr>) row)"

lemma insert_control_action_advances [keeps_intros]: "dbo.advances (insert_control_action row)"
  unfolding insert_control_action_def by (rule dbo.advances_dml)
    (auto simp: dbo.forward_def ins_def bindE_Inr_iff db_le_def db_unique_def
      intro: grows_insert controlaction_tab.insert_keeps)

definition insert_reset :: "reset_row res \<Rightarrow> unit st" where
  "insert_reset row = dml (ins reset_clash t_resets (\<lambda>tab d. d\<lparr>t_resets := tab\<rparr>) row)"

lemma insert_reset_advances [keeps_intros]: "dbo.advances (insert_reset row)"
  unfolding insert_reset_def by (rule dbo.advances_dml)
    (auto simp: dbo.forward_def ins_def bindE_Inr_iff db_le_def db_unique_def
      intro: grows_insert reset_tab.insert_keeps)

definition insert_approval :: "approval_row res \<Rightarrow> unit st" where
  "insert_approval row = dml (ins approval_clash t_approvals (\<lambda>tab d. d\<lparr>t_approvals := tab\<rparr>) row)"

lemma insert_approval_advances [keeps_intros]: "dbo.advances (insert_approval row)"
  unfolding insert_approval_def by (rule dbo.advances_dml)
    (auto simp: dbo.forward_def ins_def bindE_Inr_iff db_le_def db_unique_def
      intro: grows_insert approval_tab.insert_keeps)

definition insert_attestor :: "attestor_row res \<Rightarrow> unit st" where
  "insert_attestor row = dml (ins attestor_clash t_attestors (\<lambda>tab d. d\<lparr>t_attestors := tab\<rparr>) row)"

lemma insert_attestor_advances [keeps_intros]: "dbo.advances (insert_attestor row)"
  unfolding insert_attestor_def by (rule dbo.advances_dml)
    (auto simp: dbo.forward_def ins_def bindE_Inr_iff db_le_def db_unique_def
      intro: grows_insert attestor_tab.insert_keeps)

definition insert_attestor_action :: "attestor_action_row res \<Rightarrow> unit st" where
  "insert_attestor_action row = dml (ins attestor_action_clash t_attestor_actions (\<lambda>tab d. d\<lparr>t_attestor_actions := tab\<rparr>) row)"

lemma insert_attestor_action_advances [keeps_intros]: "dbo.advances (insert_attestor_action row)"
  unfolding insert_attestor_action_def by (rule dbo.advances_dml)
    (auto simp: dbo.forward_def ins_def bindE_Inr_iff db_le_def db_unique_def
      intro: grows_insert attestoraction_tab.insert_keeps)

definition insert_claim :: "claim_row res \<Rightarrow> unit st" where
  "insert_claim row = dml (ins claim_clash t_claims (\<lambda>tab d. d\<lparr>t_claims := tab\<rparr>) row)"

lemma insert_claim_advances [keeps_intros]: "dbo.advances (insert_claim row)"
  unfolding insert_claim_def by (rule dbo.advances_dml)
    (auto simp: dbo.forward_def ins_def bindE_Inr_iff db_le_def db_unique_def
      intro: grows_insert claim_tab.insert_keeps)

definition insert_attestation :: "attestation_row res \<Rightarrow> unit st" where
  "insert_attestation row = dml (ins attestation_clash t_attestations (\<lambda>tab d. d\<lparr>t_attestations := tab\<rparr>) row)"

lemma insert_attestation_advances [keeps_intros]: "dbo.advances (insert_attestation row)"
  unfolding insert_attestation_def by (rule dbo.advances_dml)
    (auto simp: dbo.forward_def ins_def bindE_Inr_iff db_le_def db_unique_def
      intro: grows_insert attestation_tab.insert_keeps)

definition insert_snapshot :: "snapshot_row res \<Rightarrow> unit st" where
  "insert_snapshot row = dml (ins snapshot_clash t_snapshots (\<lambda>tab d. d\<lparr>t_snapshots := tab\<rparr>) row)"

lemma insert_snapshot_advances [keeps_intros]: "dbo.advances (insert_snapshot row)"
  unfolding insert_snapshot_def by (rule dbo.advances_dml)
    (auto simp: dbo.forward_def ins_def bindE_Inr_iff db_le_def db_unique_def
      intro: grows_insert snapshot_tab.insert_keeps)

section \<open>UPDATE\<close>

definition upd :: "(db \<Rightarrow> 'r list) \<Rightarrow> ('r list \<Rightarrow> db \<Rightarrow> db) \<Rightarrow> ('r \<Rightarrow> bool) \<Rightarrow> ('r \<Rightarrow> 'r) \<Rightarrow>
    db \<Rightarrow> (db \<times> nat) res" where
  "upd get put p f d = (let tn = update_rows p f (get d) in Inr (put (fst tn) d, snd tn))"

text \<open>An UPDATE that leaves the key columns alone keeps the constraints of its table.\<close>

lemma no_clash_update_rows:
  assumes "\<And>r s r' s'. Q r r' \<Longrightarrow> Q s s' \<Longrightarrow> clash r' s' \<longleftrightarrow> clash r s"
    and "\<And>r. Q r r" and "\<And>r. p r \<Longrightarrow> Q r (f r)"
  shows "no_clash clash (fst (update_rows p f tab)) \<longleftrightarrow> no_clash clash tab"
proof -
  have "Q r (if p r then f r else r)" for r by (cases "p r") (simp_all add: assms(2,3))
  then have "\<And>r s. clash (if p r then f r else r) (if p s then f s else s) \<longleftrightarrow> clash r s"
    by (intro assms(1))
  then show ?thesis by (simp add: update_rows_def no_clash_map)
qed

lemma db_le_update:
  "(\<And>r. p1 r \<Longrightarrow> audit_evolves r (f1 r)) \<Longrightarrow>
     db_le d (d\<lparr>t_audit := fst (update_rows p1 f1 (t_audit d))\<rparr>)"
  "(\<And>r. p2 r \<Longrightarrow> receipt_evolves r (f2 r)) \<Longrightarrow>
     db_le d (d\<lparr>t_receipts := fst (update_rows p2 f2 (t_receipts d))\<rparr>)"
  "(\<And>r. p3 r \<Longrightarrow> capability_evolves r (f3 r)) \<Longrightarrow>
     db_le d (d\<lparr>t_capabilities := fst (update_rows p3 f3 (t_capabilities d))\<rparr>)"
  "(\<And>r. p4 r \<Longrightarrow> identity_evolves r (f4 r)) \<Longrightarrow>
     db_le d (d\<lparr>t_identities := fst (update_rows p4 f4 (t_identities d))\<rparr>)"
  "(\<And>r. p5 r \<Longrightarrow> edge_evolves r (f5 r)) \<Longrightarrow>
     db_le d (d\<lparr>t_edges := fst (update_rows p5 f5 (t_edges d))\<rparr>)"
proof -
  have rec: "receipt_evolves r r' \<Longrightarrow> er_receipt_id r' = er_receipt_id r \<and>
      er_authorization_id r' = er_authorization_id r" for r r'
    by (simp add: receipt_evolves_def)
  have cap: "capability_evolves r r' \<Longrightarrow> cr_capability_id r' = cr_capability_id r" for r r'
    by (cases r; cases r') (auto simp: capability_evolves_def)
  have idn: "identity_evolves r r' \<Longrightarrow> ir_identity_id r' = ir_identity_id r" for r r'
    by (cases r; cases r') (auto simp: identity_evolves_def)
  have edge: "edge_evolves r r' \<Longrightarrow> eg_edge_id r' = eg_edge_id r \<and> eg_source_type r' = eg_source_type r \<and>
      eg_source_id r' = eg_source_id r \<and> eg_relation r' = eg_relation r \<and>
      eg_target_type r' = eg_target_type r \<and> eg_target_id r' = eg_target_id r" for r r'
    by (cases r; cases r') (auto simp: edge_evolves_def)
  show "(\<And>r. p1 r \<Longrightarrow> audit_evolves r (f1 r)) \<Longrightarrow>
     db_le d (d\<lparr>t_audit := fst (update_rows p1 f1 (t_audit d))\<rparr>)"
    by (simp add: db_le_def db_unique_def grows_update)
  show "(\<And>r. p2 r \<Longrightarrow> receipt_evolves r (f2 r)) \<Longrightarrow>
     db_le d (d\<lparr>t_receipts := fst (update_rows p2 f2 (t_receipts d))\<rparr>)"
    by (simp add: db_le_def db_unique_def grows_update
        no_clash_update_rows [where Q = receipt_evolves] receipt_clash_def rec)
  show "(\<And>r. p3 r \<Longrightarrow> capability_evolves r (f3 r)) \<Longrightarrow>
     db_le d (d\<lparr>t_capabilities := fst (update_rows p3 f3 (t_capabilities d))\<rparr>)"
    by (simp add: db_le_def db_unique_def grows_update
        no_clash_update_rows [where Q = capability_evolves] capability_clash_def cap)
  show "(\<And>r. p4 r \<Longrightarrow> identity_evolves r (f4 r)) \<Longrightarrow>
     db_le d (d\<lparr>t_identities := fst (update_rows p4 f4 (t_identities d))\<rparr>)"
    by (simp add: db_le_def db_unique_def grows_update
        no_clash_update_rows [where Q = identity_evolves] identity_clash_def idn)
  show "(\<And>r. p5 r \<Longrightarrow> edge_evolves r (f5 r)) \<Longrightarrow>
     db_le d (d\<lparr>t_edges := fst (update_rows p5 f5 (t_edges d))\<rparr>)"
    by (simp add: db_le_def db_unique_def grows_update
        no_clash_update_rows [where Q = edge_evolves] edge_clash_def edge)
qed

lemma forward_upd:
  "(\<And>d. db_le d (put (fst (update_rows p f (get d))) d)) \<Longrightarrow> dbo.forward (upd get put p f)"
  by (auto simp: dbo.forward_def upd_def Let_def)

end
