(* ===== verification/Policy.thy ===== *)
theory Policy
  imports Models
begin

text \<open>
  \<open>core/policy.py\<close>: the policy document, its digest and its loading from the parsed YAML mapping.
  Reading the file and parsing YAML are outside the model; a field whose value does not have the
  declared type is reported as a TypeError, where Python would keep it and fail at its first use.
\<close>

record policy =
  pol_blocked_payees :: "string list"
  pol_allowed_payees :: "string list option"
  pol_allowed_action_types :: "string list option"
  pol_allowed_purposes :: "string list option"
  pol_context_constraints :: jdict
  pol_input_provenance :: jdict
  pol_execution_graph :: jdict
  pol_allowed_destinations :: "string list option"
  pol_blocked_destinations :: "string list"
  pol_require_external_state :: bool
  pol_external_state_requirements :: "json list"
  pol_allowed_targets :: "string list option"
  pol_allowed_networks :: "string list option"
  pol_allowed_assets :: "string list option"
  pol_per_tx_cap :: "num dict"
  pol_daily_cap :: "num dict"
  pol_new_payee_cap :: "num dict"
  pol_rate_limit :: int
  pol_confirmation_over :: "num dict"
  pol_raw :: jdict

definition default_policy :: policy where
  "default_policy = \<lparr> pol_blocked_payees = [], pol_allowed_payees = None,
     pol_allowed_action_types = None, pol_allowed_purposes = None, pol_context_constraints = [],
     pol_input_provenance = [], pol_execution_graph = [], pol_allowed_destinations = None,
     pol_blocked_destinations = [], pol_require_external_state = False,
     pol_external_state_requirements = [], pol_allowed_targets = None, pol_allowed_networks = None,
     pol_allowed_assets = None, pol_per_tx_cap = [], pol_daily_cap = [], pol_new_payee_cap = [],
     pol_rate_limit = 0, pol_confirmation_over = [], pol_raw = [] \<rparr>"

section \<open>The digest\<close>

definition dpop :: "'v dict \<Rightarrow> string \<Rightarrow> 'v dict" where
  "dpop d k = filter (\<lambda>kv. fst kv \<noteq> k) d"

lemma dget_dpop: "dget (dpop d k) j = (if j = k then None else dget d j)"
  by (induction d) (auto simp: dpop_def)

definition effective_raw :: "policy \<Rightarrow> jdict" where
  "effective_raw p =
     (let r1 = (if pol_require_external_state p
                then dset (pol_raw p) ''require_external_state_binding'' (JBool True)
                else dpop (pol_raw p) ''require_external_state_binding'')
      in if pol_external_state_requirements p \<noteq> []
         then dset r1 ''external_state_requirements'' (JList (pol_external_state_requirements p))
         else dpop r1 ''external_state_requirements'')"

definition policy_digest :: "hash \<Rightarrow> policy \<Rightarrow> string" where
  "policy_digest H p = digest_json H (JObj (effective_raw p))"

section \<open>Loading\<close>

definition type_error :: "string \<Rightarrow> 'a res" where
  "type_error k = Inl (TypeError k)"

fun strings_of :: "json list \<Rightarrow> string list option" where
  "strings_of [] = Some []"
| "strings_of (JStr s # r) = map_option ((#) s) (strings_of r)"
| "strings_of (_ # r) = None"

fun nums_of :: "jdict \<Rightarrow> num dict option" where
  "nums_of [] = Some []"
| "nums_of ((k, JInt i) # r) = map_option ((#) (k, NInt i)) (nums_of r)"
| "nums_of ((k, JFloat x) # r) = map_option ((#) (k, NFlt x)) (nums_of r)"
| "nums_of (_ # r) = None"

text \<open>\<open>raw.get(k)\<close> as \<open>list[str] | None\<close>, and \<open>raw.get(k, []) or []\<close> as the containers.\<close>

definition get_opt_strings :: "jdict \<Rightarrow> string \<Rightarrow> string list option res" where
  "get_opt_strings raw k = (case jget raw k of
     JNull \<Rightarrow> Inr None
   | JList xs \<Rightarrow> (case strings_of xs of Some ss \<Rightarrow> Inr (Some ss) | None \<Rightarrow> type_error k)
   | _ \<Rightarrow> type_error k)"

definition get_strings :: "jdict \<Rightarrow> string \<Rightarrow> string list res" where
  "get_strings raw k = (let v = jget raw k in if \<not> truthy v then Inr []
     else (case v of JList xs \<Rightarrow> (case strings_of xs of Some ss \<Rightarrow> Inr ss | None \<Rightarrow> type_error k)
        | _ \<Rightarrow> type_error k))"

definition get_list :: "jdict \<Rightarrow> string \<Rightarrow> json list res" where
  "get_list raw k = (let v = jget raw k in if \<not> truthy v then Inr []
     else (case v of JList xs \<Rightarrow> Inr xs | _ \<Rightarrow> type_error k))"

definition get_dict :: "jdict \<Rightarrow> string \<Rightarrow> jdict res" where
  "get_dict raw k = (let v = jget raw k in if \<not> truthy v then Inr []
     else (case v of JObj d \<Rightarrow> Inr d | _ \<Rightarrow> type_error k))"

definition get_nums :: "jdict \<Rightarrow> string \<Rightarrow> num dict res" where
  "get_nums raw k = bindE (get_dict raw k) (\<lambda>d.
     case nums_of d of Some n \<Rightarrow> Inr n | None \<Rightarrow> type_error k)"

text \<open>\<open>int(raw.get("rate_limit_per_minute", 0) or 0)\<close>\<close>

definition get_int :: "jdict \<Rightarrow> string \<Rightarrow> int res" where
  "get_int raw k = (let v = jget raw k in if \<not> truthy v then Inr 0
     else (case v of
         JInt i \<Rightarrow> Inr i
       | JBool b \<Rightarrow> Inr (if b then 1 else 0)
       | JFloat (Fin r) \<Rightarrow> Inr (if 0 \<le> r then \<lfloor>r\<rfloor> else \<lceil>r\<rceil>)
       | JFloat _ \<Rightarrow> Inl (ValueError k)
       | _ \<Rightarrow> type_error k))"

definition policy_load :: "jdict \<Rightarrow> policy res" where
  "policy_load raw =
     bindE (get_strings raw ''blocked_payees'') (\<lambda>bp.
     bindE (get_opt_strings raw ''allowed_payees'') (\<lambda>ap.
     bindE (get_opt_strings raw ''allowed_action_types'') (\<lambda>aat.
     bindE (get_opt_strings raw ''allowed_purposes'') (\<lambda>apu.
     bindE (get_dict raw ''context_constraints'') (\<lambda>cc.
     bindE (get_dict raw ''input_provenance_constraints'') (\<lambda>ipc.
     bindE (get_dict raw ''execution_graph'') (\<lambda>eg.
     bindE (get_opt_strings raw ''allowed_destinations'') (\<lambda>ad.
     bindE (get_strings raw ''blocked_destinations'') (\<lambda>bd.
     bindE (get_list raw ''external_state_requirements'') (\<lambda>esr.
     bindE (get_opt_strings raw ''allowed_targets'') (\<lambda>atg.
     bindE (get_opt_strings raw ''allowed_networks'') (\<lambda>an.
     bindE (get_opt_strings raw ''allowed_assets'') (\<lambda>aa.
     bindE (get_nums raw ''per_tx_cap'') (\<lambda>ptc.
     bindE (get_nums raw ''daily_cap'') (\<lambda>dc.
     bindE (get_nums raw ''new_payee_cap'') (\<lambda>npc.
     bindE (get_int raw ''rate_limit_per_minute'') (\<lambda>rl.
     bindE (get_nums raw ''confirmation_required_over'') (\<lambda>co.
     Inr \<lparr> pol_blocked_payees = bp, pol_allowed_payees = ap, pol_allowed_action_types = aat,
           pol_allowed_purposes = apu, pol_context_constraints = cc, pol_input_provenance = ipc,
           pol_execution_graph = eg, pol_allowed_destinations = ad, pol_blocked_destinations = bd,
           pol_require_external_state = truthy (jget raw ''require_external_state_binding''),
           pol_external_state_requirements = esr, pol_allowed_targets = atg,
           pol_allowed_networks = an, pol_allowed_assets = aa, pol_per_tx_cap = ptc,
           pol_daily_cap = dc, pol_new_payee_cap = npc, pol_rate_limit = rl,
           pol_confirmation_over = co, pol_raw = raw \<rparr>))))))))))))))))))"

lemma policy_load_raw: "policy_load raw = Inr p \<Longrightarrow> pol_raw p = raw"
  by (auto simp: policy_load_def bindE_Inr_iff)

text \<open>
  The digest does not see how \<open>require_external_state_binding\<close> was spelled in the document, only
  the value in force: loading a document that states the default is loading one that omits it.
\<close>

lemma effective_raw_flags:
  "dget (effective_raw p) ''require_external_state_binding'' =
     (if pol_require_external_state p then Some (JBool True) else None)"
  "dget (effective_raw p) ''external_state_requirements'' =
     (if pol_external_state_requirements p \<noteq> []
      then Some (JList (pol_external_state_requirements p)) else None)"
  by (simp_all add: effective_raw_def Let_def dget_dpop)

lemma effective_raw_other:
  "k \<noteq> ''require_external_state_binding'' \<Longrightarrow> k \<noteq> ''external_state_requirements'' \<Longrightarrow>
     dget (effective_raw p) k = dget (pol_raw p) k"
  by (simp add: effective_raw_def Let_def dget_dpop)

end
