(* ===== verification/Rules.thy ===== *)
theory Rules
  imports Policy
begin

text \<open>
  \<open>core/rules.py\<close>: one definition per check, each returning the rule match it raises, if any.
  \<open>action_rules\<close> and \<open>payment_rules\<close> are the sequences in which the engine runs them.
\<close>

type_synonym check = "rule_match option res"

definition hit :: "string \<Rightarrow> severity \<Rightarrow> frag list \<Rightarrow> rule_match option" where
  "hit rule sev msg = Some \<lparr> rm_rule_id = rule, rm_severity = sev, rm_message = msg \<rparr>"

definition quote_in :: "string \<Rightarrow> string \<Rightarrow> string \<Rightarrow> frag list" where
  "quote_in pre s post = [Lit (pre @ quoted s @ post)]"

section \<open>Checks of a generic action\<close>

definition check_action_type_allowed :: "action_intent \<Rightarrow> policy \<Rightarrow> check" where
  "check_action_type_allowed i p = Inr (case pol_allowed_action_types p of None \<Rightarrow> None
     | Some allowed \<Rightarrow> if lower_mem (ai_action_type i) allowed then None
         else hit ''action_type_not_allowed'' SevBlock
           (quote_in ''action type '' (ai_action_type i) '' is not allowed by policy''))"

definition check_purpose_allowed :: "action_intent \<Rightarrow> policy \<Rightarrow> check" where
  "check_purpose_allowed i p = Inr (case pol_allowed_purposes p of None \<Rightarrow> None
     | Some allowed \<Rightarrow> (let purpose = str_strip (ai_purpose i) in
         if lower_mem purpose (map str_strip allowed) then None
         else hit ''purpose_not_allowed'' SevBlock
           (quote_in ''purpose '' purpose '' is not allowed by policy'')))"

text \<open>
  \<open>str(v)\<close> of a parsed value, for the messages.  \<open>str_repr\<close> picks the quotes and the escapes as
  Python does for ASCII; bytes above 127 are printable text and stay.
\<close>

definition repr_char :: "char \<Rightarrow> char \<Rightarrow> string" where
  "repr_char q c = (let n = of_char c :: nat in
     if c = q \<or> n = 92 then [CHR 0x5C, c]
     else if n = 9 then [CHR 0x5C, CHR ''t'']
     else if n = 10 then [CHR 0x5C, CHR ''n'']
     else if n = 13 then [CHR 0x5C, CHR ''r'']
     else if n < 32 \<or> n = 127 then [CHR 0x5C, CHR ''x'', hex_digit (n div 16), hex_digit (n mod 16)]
     else [c])"

definition str_repr :: "string \<Rightarrow> string" where
  "str_repr s = (let q = (if List.member s (CHR 0x27) \<and> \<not> List.member s (CHR 0x22)
                          then CHR 0x22 else CHR 0x27)
     in [q] @ concat (map (repr_char q) s) @ [q])"

fun json_repr :: "json \<Rightarrow> string"
and json_repr_list :: "json list \<Rightarrow> string list"
and json_repr_items :: "jdict \<Rightarrow> string list" where
  "json_repr JNull = ''None''"
| "json_repr (JBool b) = (if b then ''True'' else ''False'')"
| "json_repr (JInt i) = int_str i"
| "json_repr (JFloat x) = pynum_str (PNum (NFlt x))"
| "json_repr (JStr s) = str_repr s"
| "json_repr (JList xs) = ''['' @ join '', '' (json_repr_list xs) @ '']''"
| "json_repr (JObj d) = ''{'' @ join '', '' (json_repr_items d) @ ''}''"
| "json_repr_list [] = []"
| "json_repr_list (x # xs) = json_repr x # json_repr_list xs"
| "json_repr_items [] = []"
| "json_repr_items ((k, v) # d) = (str_repr k @ '': '' @ json_repr v) # json_repr_items d"

definition json_text :: "json \<Rightarrow> string" where
  "json_text v = (case v of JStr s \<Rightarrow> s | _ \<Rightarrow> json_repr v)"

text \<open>The two loops over constraint dictionaries differ in their rule id and wording only.\<close>

fun constraint_loop :: "string \<Rightarrow> string \<Rightarrow> jdict \<Rightarrow> jdict \<Rightarrow> rule_match option" where
  "constraint_loop rule what ctx [] = None"
| "constraint_loop rule what ctx ((key, expected) # r) =
     (let actual = jget ctx key in
      case expected of
        JList xs \<Rightarrow> if py_in actual xs then constraint_loop rule what ctx r
          else hit rule SevBlock [Lit (what @ '' '' @ quoted key @ '' value '' @ quoted (json_text actual)
            @ '' is not allowed by policy'')]
      | _ \<Rightarrow> if py_eq actual expected then constraint_loop rule what ctx r
          else hit rule SevBlock [Lit (what @ '' '' @ quoted key
            @ '' does not match policy constraint'')])"

definition check_context_constraints :: "action_intent \<Rightarrow> policy \<Rightarrow> check" where
  "check_context_constraints i p = Inr (constraint_loop ''context_not_allowed'' ''context''
     (ai_declared_context i) (pol_context_constraints p))"

definition check_input_provenance :: "action_intent \<Rightarrow> policy \<Rightarrow> check" where
  "check_input_provenance i p = Inr (constraint_loop ''input_provenance_not_allowed''
     ''input provenance'' (ai_input_provenance i) (pol_input_provenance p))"

fun graph_loop :: "jdict \<Rightarrow> jdict \<Rightarrow> rule_match option" where
  "graph_loop actual [] = None"
| "graph_loop actual ((key, v) # r) =
     (if py_eq (jget actual key) v then graph_loop actual r
      else hit ''execution_graph_not_allowed'' SevBlock
        (quote_in ''execution graph field '' key '' is not allowed by policy''))"

definition check_execution_graph :: "action_intent \<Rightarrow> policy \<Rightarrow> check" where
  "check_execution_graph i p = Inr (if pol_execution_graph p = [] then None
     else (case jget (ai_metadata i) ''execution_graph'' of
         JObj actual \<Rightarrow> graph_loop actual (pol_execution_graph p)
       | _ \<Rightarrow> hit ''execution_graph_missing'' SevBlock
           [Lit ''execution graph is required by policy'']))"

definition nonblank :: "json \<Rightarrow> string option" where
  "nonblank v = (case v of JStr s \<Rightarrow> if str_strip s \<noteq> [] then Some (str_strip s) else None | _ \<Rightarrow> None)"

definition action_destination :: "action_intent \<Rightarrow> string option" where
  "action_destination i = (case nonblank (jget (ai_metadata i) ''destination'') of
     Some d \<Rightarrow> Some d
   | None \<Rightarrow> (case jget (ai_metadata i) ''tool_invocation'' of
       JObj invocation \<Rightarrow> nonblank (jget invocation ''destination'')
     | _ \<Rightarrow> None))"

definition check_destination_allowed :: "action_intent \<Rightarrow> policy \<Rightarrow> check" where
  "check_destination_allowed i p = Inr (
     if pol_allowed_destinations p = None \<and> pol_blocked_destinations p = [] then None
     else (case action_destination i of
       None \<Rightarrow> hit ''destination_missing'' SevBlock
         [Lit ''execution destination is required by policy'']
     | Some d \<Rightarrow>
         if lower_mem d (pol_blocked_destinations p) then hit ''destination_blocked'' SevBlock
           (quote_in ''destination '' d '' is blocked by policy'')
         else (case pol_allowed_destinations p of None \<Rightarrow> None
           | Some allowed \<Rightarrow> if lower_mem d allowed then None
               else hit ''destination_not_allowed'' SevBlock
                 (quote_in ''destination '' d '' is outside the allowed execution scope''))))"

definition check_target_allowed :: "action_intent \<Rightarrow> policy \<Rightarrow> check" where
  "check_target_allowed i p = Inr (
     if lower_mem (ai_target i) (pol_blocked_payees p) then hit ''target_blocked'' SevBlock
       (quote_in ''target '' (ai_target i) '' is blocked by policy'')
     else (case pol_allowed_targets p of None \<Rightarrow> None
       | Some allowed \<Rightarrow> if lower_mem (ai_target i) allowed then None
           else hit ''target_not_allowed'' SevBlock
             (quote_in ''target '' (ai_target i) '' is not allowed by policy'')))"

definition check_generic_network_allowed :: "action_intent \<Rightarrow> policy \<Rightarrow> check" where
  "check_generic_network_allowed i p = Inr (case (ai_network i, pol_allowed_networks p) of
     (Some n, Some allowed) \<Rightarrow> if lower_mem n allowed then None
       else hit ''network_not_allowed'' SevBlock
         (quote_in ''network '' n '' is not allowed by policy'')
   | _ \<Rightarrow> None)"

definition check_generic_asset_allowed :: "action_intent \<Rightarrow> policy \<Rightarrow> check" where
  "check_generic_asset_allowed i p = Inr (case (ai_asset i, pol_allowed_assets p) of
     (Some s, Some allowed) \<Rightarrow> if upper_mem s allowed then None
       else hit ''asset_not_allowed'' SevBlock
         (quote_in ''asset '' s '' is not allowed by policy'')
   | _ \<Rightarrow> None)"

definition opt_pynum_frag :: "pynum option \<Rightarrow> frag" where
  "opt_pynum_frag v = (case v of None \<Rightarrow> Lit ''None'' | Some n \<Rightarrow> Str n)"

definition check_generic_amount_cap :: "action_intent \<Rightarrow> policy \<Rightarrow> check" where
  "check_generic_amount_cap i p = bindE (exact_amount i) (\<lambda>amt. case (amt, ai_asset i) of
     (Some d, Some asset) \<Rightarrow>
        if \<not> is_valid_amount (PDec d) then Inr (hit ''invalid_amount'' SevBlock
          [Lit ''amount '', Repr (PDec d), Lit '' is not a finite non-negative number''])
        else (case dget (pol_per_tx_cap p) (str_upper asset) of
            None \<Rightarrow> Inr None
          | Some cap \<Rightarrow> bindE (exceeds (PDec d) (PNum cap)) (\<lambda>over. Inr (if over then
              hit ''per_tx_cap_exceeded'' SevBlock
                [Lit ''amount '', opt_pynum_frag (ai_amount i), Lit ('' '' @ asset
                  @ '' exceeds per-transaction cap ''), Str (PNum cap)]
              else None)))
   | _ \<Rightarrow> Inr None)"

section \<open>Checks of a payment\<close>

definition check_blocked_payee :: "payment_intent \<Rightarrow> policy \<Rightarrow> check" where
  "check_blocked_payee i p = Inr (if lower_mem (pi_payee i) (pol_blocked_payees p)
     then hit ''blocked_payee'' SevBlock (quote_in ''payee '' (pi_payee i) '' is on the blocklist'')
     else None)"

definition check_payee_allowlist :: "payment_intent \<Rightarrow> policy \<Rightarrow> check" where
  "check_payee_allowlist i p = Inr (case pol_allowed_payees p of None \<Rightarrow> None
     | Some allowed \<Rightarrow> if lower_mem (pi_payee i) allowed then None
         else hit ''payee_not_allowlisted'' SevBlock
           (quote_in ''payee '' (pi_payee i) '' is not on the allowlist''))"

definition check_network_allowed :: "payment_intent \<Rightarrow> policy \<Rightarrow> check" where
  "check_network_allowed i p = Inr (case pol_allowed_networks p of None \<Rightarrow> None
     | Some allowed \<Rightarrow> if lower_mem (pi_network i) allowed then None
         else hit ''network_not_allowed'' SevBlock
           (quote_in ''network '' (pi_network i) '' is not in allowed_networks''))"

definition check_asset_allowed :: "payment_intent \<Rightarrow> policy \<Rightarrow> check" where
  "check_asset_allowed i p = Inr (case pol_allowed_assets p of None \<Rightarrow> None
     | Some allowed \<Rightarrow> if upper_mem (pi_asset i) allowed then None
         else hit ''asset_not_allowed'' SevBlock
           (quote_in ''asset '' (pi_asset i) '' is not in allowed_assets''))"

definition amount_asset :: "payment_intent \<Rightarrow> frag list" where
  "amount_asset i = [Str (PNum (pi_amount i)), Lit ('' '' @ pi_asset i)]"

definition check_per_tx_cap :: "payment_intent \<Rightarrow> policy \<Rightarrow> check" where
  "check_per_tx_cap i p =
     (if \<not> is_valid_amount (PNum (pi_amount i)) then Inr (hit ''invalid_amount'' SevBlock
        [Lit ''amount '', Repr (PNum (pi_amount i)), Lit '' is not a finite non-negative number''])
      else (case dget (pol_per_tx_cap p) (str_upper (pi_asset i)) of
          None \<Rightarrow> Inr None
        | Some cap \<Rightarrow> bindE (exceeds (PNum (pi_amount i)) (PNum cap)) (\<lambda>over. Inr (if over then
            hit ''per_tx_cap_exceeded'' SevBlock (Lit ''amount '' # amount_asset i @
              [Lit '' exceeds per-transaction cap '', Str (PNum cap)])
            else None))))"

text \<open>U+2014 as its UTF-8 bytes.\<close>

definition em_dash :: string where
  "em_dash = [CHR 0xE2, CHR 0x80, CHR 0x94]"

definition check_new_payee_cap :: "payment_intent \<Rightarrow> policy \<Rightarrow> bool \<Rightarrow> check" where
  "check_new_payee_cap i p payee_seen_before =
     (if payee_seen_before then Inr None
      else (case dget (pol_new_payee_cap p) (str_upper (pi_asset i)) of
          None \<Rightarrow> Inr None
        | Some cap \<Rightarrow> bindE (exceeds (PNum (pi_amount i)) (PNum cap)) (\<lambda>over. Inr (if over then
            hit ''new_payee_cap_exceeded'' SevWarn
              (Lit (''first payment to '' @ quoted (pi_payee i) @ '': amount '') # amount_asset i @
               [Lit '' exceeds new-payee cap '', Str (PNum cap), Lit ('' '' @ em_dash @ '' needs confirmation'')])
            else None))))"

definition check_daily_cap :: "payment_intent \<Rightarrow> policy \<Rightarrow> num \<Rightarrow> check" where
  "check_daily_cap i p spent_today =
     (case dget (pol_daily_cap p) (str_upper (pi_asset i)) of
        None \<Rightarrow> Inr None
      | Some cap \<Rightarrow>
          (let both = [PNum spent_today, PNum (pi_amount i)] in
           bindE (if \<not> is_valid_amount (PNum (pi_amount i)) \<or> \<not> is_valid_amount (PNum spent_today)
                  then Inr True
                  else bindE (total both) (\<lambda>t. bindE (total [PNum cap]) (\<lambda>c. dec_gt t c)))
             (\<lambda>over. if over then
                bindE (total both) (\<lambda>t. Inr (hit ''daily_cap_exceeded'' SevWarn
                  [Lit (''would bring today'' @ [CHR 0x27] @ ''s total to ''), Fixed2 t,
                   Lit ('' '' @ pi_asset i @ '', exceeding daily cap ''), Str (PNum cap)]))
              else Inr None)))"

definition check_confirmation_threshold :: "payment_intent \<Rightarrow> policy \<Rightarrow> check" where
  "check_confirmation_threshold i p =
     (case dget (pol_confirmation_over p) (str_upper (pi_asset i)) of
        None \<Rightarrow> Inr None
      | Some threshold \<Rightarrow> bindE (exceeds (PNum (pi_amount i)) (PNum threshold)) (\<lambda>over.
          Inr (if over then hit ''confirmation_required'' SevWarn
            (Lit ''amount '' # amount_asset i @
             [Lit '' exceeds confirmation threshold '', Str (PNum threshold)])
          else None)))"

definition check_rate_limit :: "policy \<Rightarrow> int \<Rightarrow> check" where
  "check_rate_limit p calls_last_minute = Inr (
     if pol_rate_limit p \<noteq> 0 \<and> pol_rate_limit p \<le> calls_last_minute
     then hit ''rate_limit_exceeded'' SevBlock
       [Str (PNum (NInt calls_last_minute)), Lit '' payments in the last minute exceeds limit '',
        Str (PNum (NInt (pol_rate_limit p)))]
     else None)"

section \<open>Collecting matches\<close>

fun collect :: "check list \<Rightarrow> rule_match list res" where
  "collect [] = Inr []"
| "collect (c # cs) = bindE c (\<lambda>m. bindE (collect cs) (\<lambda>ms.
     Inr (case m of None \<Rightarrow> ms | Some r \<Rightarrow> r # ms)))"

definition final_decision :: "rule_match list \<Rightarrow> decision_kind" where
  "final_decision ms = (if list_ex (\<lambda>m. rm_severity m = SevBlock) ms then BLOCK
     else if list_ex (\<lambda>m. rm_severity m = SevWarn) ms then WARN else ALLOW)"

definition action_checks :: "action_intent \<Rightarrow> policy \<Rightarrow> check list" where
  "action_checks a p = [check_action_type_allowed a p, check_purpose_allowed a p,
     check_context_constraints a p, check_input_provenance a p, check_execution_graph a p,
     check_destination_allowed a p, check_target_allowed a p, check_generic_network_allowed a p,
     check_generic_asset_allowed a p, check_generic_amount_cap a p]"

definition payment_checks :: "payment_intent \<Rightarrow> policy \<Rightarrow> check list" where
  "payment_checks i p = [check_blocked_payee i p, check_payee_allowlist i p,
     check_network_allowed i p, check_asset_allowed i p, check_per_tx_cap i p]"

lemma collect_append:
  "collect (xs @ ys) = bindE (collect xs) (\<lambda>ms. bindE (collect ys) (\<lambda>ns. Inr (ms @ ns)))"
proof (induction xs)
  case Nil
  show ?case by (cases "collect ys") auto
next
  case (Cons c xs)
  then show ?case by (cases c; cases "collect xs"; cases "collect ys") (auto split: option.splits)
qed

lemma collect_Nil_iff: "collect cs = Inr [] \<longleftrightarrow> (\<forall>c\<in>set cs. c = Inr None)"
proof (induction cs)
  case (Cons c cs)
  then show ?case by (cases c; cases "collect cs") (auto split: option.splits)
qed simp

lemma collect_mem:
  assumes "collect cs = Inr ms"
  shows "m \<in> set ms \<longleftrightarrow> Inr (Some m) \<in> set cs"
  using assms
proof (induction cs arbitrary: ms)
  case (Cons c cs)
  then show ?case by (auto simp: bindE_Inr_iff split: option.splits)
qed simp

lemma final_decision_ALLOW: "final_decision ms = ALLOW \<longleftrightarrow> ms = []"
proof (cases ms)
  case (Cons m r)
  then show ?thesis
    by (cases "rm_severity m") (auto simp: final_decision_def list_ex_iff)
qed (simp add: final_decision_def)

lemma final_decision_BLOCK:
  "final_decision ms = BLOCK \<longleftrightarrow> (\<exists>m\<in>set ms. rm_severity m = SevBlock)"
  by (auto simp: final_decision_def list_ex_iff)

end
