(* ===== verification/Storage_Audit.thy ===== *)
theory Storage_Audit
  imports Schema Rules
begin

text \<open>
  \<open>core/storage.py\<close>, the audit log, the one-time execution nonces, the execution receipts and the
  authorization artifacts.  \<open>t\<close> is the reading of \<open>time.time()\<close> a method takes.
\<close>

section \<open>The audit log\<close>

text \<open>\<open>float(amount)\<close>\<close>

definition py_float :: "pynum \<Rightarrow> xnum res" where
  "py_float v = (case v of
     PBool b \<Rightarrow> Inr (Fin (if b then 1 else 0))
   | PNum (NInt i) \<Rightarrow> (case round64 (of_int i) of Fin r \<Rightarrow> Inr (Fin r) | _ \<Rightarrow> Inl OverflowError)
   | PNum (NFlt x) \<Rightarrow> Inr x
   | PDec d \<Rightarrow> Inr (dec_to_float (dec_x d)))"

definition opt_default :: "string option \<Rightarrow> string" where
  "opt_default s = (case s of None \<Rightarrow> [] | Some x \<Rightarrow> x)"

definition audit_rules :: "guardrail_decision \<Rightarrow> json" where
  "audit_rules d = JList (map (\<lambda>m. JObj [
     (''rule_id'', JStr (rm_rule_id m)),
     (''severity'', JStr (severity_str (rm_severity m))),
     (''message'', JStr (render (rm_message m)))]) (gd_matched_rules d))"

definition commit_if :: "bool \<Rightarrow> unit st" where
  "commit_if b = (if b then commit else returnS ())"

definition record_action ::
    "action_intent \<Rightarrow> guardrail_decision \<Rightarrow> string option \<Rightarrow> bool \<Rightarrow> xnum \<Rightarrow> unit st" where
  "record_action intent decision sig do_commit t =
     bindS (liftS (case ai_amount intent of None \<Rightarrow> Inr (Fin 0) | Some v \<Rightarrow> py_float v)) (\<lambda>amount.
     bindS (insert_audit (bindE (sql_real_nn (NFlt amount)) (\<lambda>a. Inr \<lparr>
        au_intent_id = ai_intent_id intent, au_agent_id = ai_agent_id intent,
        au_payee = ai_target intent, au_asset = opt_default (ai_asset intent),
        au_network = opt_default (ai_network intent), au_amount = a,
        au_decision = decision_str (gd_decision decision), au_rules = audit_rules decision,
        au_intent = JObj (action_dict intent), au_signature = sig, au_created_at = t \<rparr>))) (\<lambda>_.
     commit_if do_commit))"

definition record_payment ::
    "payment_intent \<Rightarrow> guardrail_decision \<Rightarrow> string option \<Rightarrow> bool \<Rightarrow> xnum \<Rightarrow> unit st" where
  "record_payment intent decision sig do_commit t =
     bindS (insert_audit (bindE (sql_real_nn (pi_amount intent)) (\<lambda>a. Inr \<lparr>
        au_intent_id = pi_intent_id intent, au_agent_id = pi_agent_id intent,
        au_payee = pi_payee intent, au_asset = pi_asset intent, au_network = pi_network intent,
        au_amount = a, au_decision = decision_str (gd_decision decision),
        au_rules = audit_rules decision, au_intent = JObj (pi_metadata intent),
        au_signature = sig, au_created_at = t \<rparr>))) (\<lambda>_.
     commit_if do_commit)"

definition counts_as_spent :: "audit_row \<Rightarrow> bool" where
  "counts_as_spent r \<longleftrightarrow> au_decision r \<noteq> ''BLOCK''"

definition payee_seen_before :: "string \<Rightarrow> string \<Rightarrow> string \<Rightarrow> bool st" where
  "payee_seen_before agent payee excluded = query (\<lambda>d. list_ex (\<lambda>r. au_agent_id r = agent \<and>
     au_payee r = payee \<and> au_intent_id r \<noteq> excluded \<and> counts_as_spent r) (t_audit d))"

definition spend_rows :: "string \<Rightarrow> string \<Rightarrow> xnum \<Rightarrow> db \<Rightarrow> audit_row list" where
  "spend_rows agent asset since d = filter (\<lambda>r. au_agent_id r = agent \<and> au_asset r = asset \<and>
     x_le since (au_created_at r) \<and> counts_as_spent r) (t_audit d)"

definition spent_today :: "string \<Rightarrow> string \<Rightarrow> xnum \<Rightarrow> num st" where
  "spent_today agent asset t =
     bindS (query (spend_rows agent asset (f_sub t (Fin (24 * 3600))))) (\<lambda>rows.
     liftS (bindE (total (map (\<lambda>r. PNum (NFlt (au_amount r))) rows)) (\<lambda>s.
       Inr (NFlt (dec_to_float s)))))"

definition calls_last_minute :: "string \<Rightarrow> xnum \<Rightarrow> int st" where
  "calls_last_minute agent t = query (\<lambda>d. int (length (filter (\<lambda>r. au_agent_id r = agent \<and>
     x_le (f_sub t (Fin 60)) (au_created_at r)) (t_audit d))))"

definition history_entry :: "audit_row \<Rightarrow> json" where
  "history_entry r = JObj [
     (''intent_id'', JStr (au_intent_id r)), (''payee'', JStr (au_payee r)),
     (''asset'', JStr (au_asset r)), (''network'', JStr (au_network r)),
     (''amount'', JFloat (au_amount r)), (''decision'', JStr (au_decision r)),
     (''created_at'', JFloat (au_created_at r))]"

definition history :: "string \<Rightarrow> int \<Rightarrow> json list st" where
  "history agent limit = (if limit < 1 then returnS [] else
     query (\<lambda>d. map history_entry (take (nat limit) (order_desc au_created_at
       (filter (\<lambda>r. au_agent_id r = agent) (t_audit d))))))"

definition count_intent :: "string \<Rightarrow> int st" where
  "count_intent intent_id = query (\<lambda>d. int (length (filter (\<lambda>r. au_intent_id r = intent_id) (t_audit d))))"

definition audit_entry :: "audit_row \<Rightarrow> json" where
  "audit_entry r = JObj [
     (''intent_id'', JStr (au_intent_id r)), (''agent_id'', JStr (au_agent_id r)),
     (''payee'', JStr (au_payee r)), (''asset'', JStr (au_asset r)),
     (''network'', JStr (au_network r)), (''amount'', JFloat (au_amount r)),
     (''decision'', JStr (au_decision r)), (''signature'', opt_str (au_signature r)),
     (''created_at'', JFloat (au_created_at r)), (''matched_rules'', au_rules r),
     (''intent'', au_intent r)]"

definition audit_by_intent :: "string \<Rightarrow> json option st" where
  "audit_by_intent intent_id = query (\<lambda>d. case order_desc au_created_at
     (filter (\<lambda>r. au_intent_id r = intent_id) (t_audit d)) of [] \<Rightarrow> None | r # _ \<Rightarrow> Some (audit_entry r))"

text \<open>\<open>cursor.rowcount != 1: rollback, raise\<close>, otherwise commit.\<close>

definition expect_one :: "exn \<Rightarrow> nat st \<Rightarrow> unit st" where
  "expect_one e m = bindS m (\<lambda>n. if n \<noteq> 1 then bindS rollback (\<lambda>_. raiseS e) else commit)"

definition sign_row :: "string \<Rightarrow> audit_row \<Rightarrow> audit_row" where
  "sign_row s r = r\<lparr>au_signature := Some s\<rparr>"

definition update_signature :: "string \<Rightarrow> string \<Rightarrow> unit st" where
  "update_signature intent_id s = expect_one
     (ValueError (''intent_id '' @ quoted intent_id @ '' was not found''))
     (dml (upd t_audit (\<lambda>tab d. d\<lparr>t_audit := tab\<rparr>)
        (\<lambda>r. au_intent_id r = intent_id \<and> au_signature r = None) (sign_row s)))"

section \<open>Execution nonces\<close>

definition consume_execution_nonce ::
    "string \<Rightarrow> string \<Rightarrow> string \<Rightarrow> string \<Rightarrow> xnum \<Rightarrow> bool st" where
  "consume_execution_nonce nonce authorization_id intent_id agent_id t = on_integrity
     (bindS (insert_nonce (Inr \<lparr> en_nonce = nonce, en_authorization_id = authorization_id,
        en_intent_id = intent_id, en_agent_id = agent_id, en_consumed_at = t \<rparr>)) (\<lambda>_.
      bindS commit (\<lambda>_. returnS True)))
     (returnS False)"

section \<open>Execution receipts\<close>

definition record_execution_receipt :: "jdict \<Rightarrow> xnum \<Rightarrow> unit st" where
  "record_execution_receipt receipt t =
     bindS (liftS (jindex_obj receipt ''payload'')) (\<lambda>p. on_integrity
      (bindS (liftS (jindex p ''receipt_id'')) (\<lambda>rid.
       bindS (liftS (jindex p ''authorization_id'')) (\<lambda>aid.
       bindS (liftS (jindex p ''intent_id'')) (\<lambda>iid.
       bindS (liftS (jindex p ''agent_id'')) (\<lambda>gid.
       bindS (liftS (jindex p ''status'')) (\<lambda>st.
       bindS (liftS (jindex receipt ''signature'')) (\<lambda>sg.
       bindS (insert_receipt (
         bindE (col_text_nn rid) (\<lambda>c1. bindE (col_text_nn aid) (\<lambda>c2.
         bindE (col_text_nn iid) (\<lambda>c3. bindE (col_text_nn gid) (\<lambda>c4.
         bindE (if truthy (jget p ''network'') then col_text_nn (jget p ''network'') else Inr []) (\<lambda>c5.
         bindE (col_text_nn st) (\<lambda>c6. bindE (col_text (jget p ''transaction_ref'')) (\<lambda>c7.
         bindE (col_text_nn sg) (\<lambda>c8.
           Inr \<lparr> er_receipt_id = c1, er_authorization_id = c2, er_intent_id = c3, er_agent_id = c4,
                 er_network = c5, er_status = c6, er_transaction_ref = c7, er_json = JObj receipt,
                 er_signature = c8, er_created_at = t \<rparr>))))))))))
       (\<lambda>_. commit))))))))
      (raiseS (ValueError ''execution receipt already recorded'')))"

definition update_execution_receipt :: "jdict \<Rightarrow> xnum \<Rightarrow> unit st" where
  "update_execution_receipt receipt t =
     bindS (liftS (jindex_obj receipt ''payload'')) (\<lambda>p.
     bindS (liftS (jindex p ''status'')) (\<lambda>st.
     bindS (liftS (jindex receipt ''signature'')) (\<lambda>sg.
     bindS (liftS (jindex p ''authorization_id'')) (\<lambda>aid.
     expect_one (ValueError ''execution receipt not found'') (dml (\<lambda>d.
       bindE (col_text st) (\<lambda>c1. bindE (col_text (jget p ''transaction_ref'')) (\<lambda>c2.
       bindE (col_text sg) (\<lambda>c3. bindE (col_text aid) (\<lambda>c4.
       let hits = (\<lambda>r. c4 = Some (er_authorization_id r)) in
       if \<not> list_ex hits (t_receipts d) then Inr (d, 0)
       else bindE (not_null c1) (\<lambda>status. bindE (not_null c3) (\<lambda>signature.
         upd t_receipts (\<lambda>tab d. d\<lparr>t_receipts := tab\<rparr>) hits
           (\<lambda>r. r\<lparr>er_status := status, er_transaction_ref := c2, er_json := JObj receipt,
              er_signature := signature, er_created_at := t\<rparr>) d))))))))))))"

definition execution_receipt_by_authorization :: "string \<Rightarrow> json option st" where
  "execution_receipt_by_authorization authorization_id = query (\<lambda>d. map_option er_json
     (select_one (\<lambda>r. er_authorization_id r = authorization_id) (t_receipts d)))"

definition execution_receipts :: "string \<Rightarrow> int \<Rightarrow> json list st" where
  "execution_receipts agent limit = (if limit < 1 then returnS [] else
     query (\<lambda>d. map er_json (take (nat limit) (order_desc er_created_at
       (filter (\<lambda>r. er_agent_id r = agent) (t_receipts d))))))"

section \<open>Authorization artifacts\<close>

definition record_authorization_artifacts ::
    "hash \<Rightarrow> jdict \<Rightarrow> string option \<Rightarrow> xnum \<Rightarrow> unit st" where
  "record_authorization_artifacts H artifacts agent_signature t =
     bindS (liftS (jindex_obj artifacts ''decision_receipt'')) (\<lambda>decision.
     bindS (liftS (case jget artifacts ''execution_authorization'' of
         JNull \<Rightarrow> Inr None | JObj e \<Rightarrow> Inr (Some e)
       | _ \<Rightarrow> Inl (TypeError ''execution_authorization''))) (\<lambda>execution.
     bindS (liftS (jindex_obj decision ''payload'')) (\<lambda>p.
     bindS (liftS (case execution of
         Some e \<Rightarrow> bindE (jindex_obj e ''payload'') (\<lambda>ep. jindex ep ''authorization_id'')
       | None \<Rightarrow> Inr (JStr (digest_ascii H (JObj decision))))) (\<lambda>aid. on_integrity
      (bindS (liftS (jindex_obj p ''intent'')) (\<lambda>i.
       bindS (liftS (jindex i ''intent_id'')) (\<lambda>iid.
       bindS (liftS (jindex i ''agent_id'')) (\<lambda>gid.
       bindS (insert_artifact (
         bindE (col_text_nn aid) (\<lambda>c1. bindE (col_text_nn iid) (\<lambda>c2. bindE (col_text_nn gid) (\<lambda>c3.
           Inr \<lparr> aa_authorization_id = c1, aa_intent_id = c2, aa_agent_id = c3,
                 aa_decision = JObj decision, aa_execution = map_option JObj execution,
                 aa_agent_signature = agent_signature, aa_created_at = t \<rparr>)))))
       (\<lambda>_. commit)))))
      (raiseS (ValueError ''authorization artifacts already recorded''))))))"

definition artifact_entry :: "artifact_row \<Rightarrow> json" where
  "artifact_entry r = JObj [
     (''decision_receipt'', aa_decision r),
     (''execution_authorization'', case aa_execution r of None \<Rightarrow> JNull | Some e \<Rightarrow> e),
     (''agent_signature'', opt_str (aa_agent_signature r))]"

definition authorization_by_id :: "string \<Rightarrow> json option st" where
  "authorization_by_id authorization_id = query (\<lambda>d. map_option artifact_entry
     (select_one (\<lambda>r. aa_authorization_id r = authorization_id) (t_artifacts d)))"

definition authorization_by_intent :: "string \<Rightarrow> json option st" where
  "authorization_by_intent intent_id =
     bindS (query (\<lambda>d. map_option aa_authorization_id
       (select_one (\<lambda>r. aa_intent_id r = intent_id) (t_artifacts d)))) (\<lambda>row.
     case row of None \<Rightarrow> returnS None | Some aid \<Rightarrow> authorization_by_id aid)"

section \<open>Every method advances the database\<close>

lemma commit_if_advances [keeps_intros]: "dbo.advances (commit_if b)"
  unfolding commit_if_def by (intro keeps_intros)

lemma expect_one_advances [keeps_intros]: "dbo.advances m \<Longrightarrow> dbo.advances (expect_one e m)"
  unfolding expect_one_def by (intro keeps_intros)

lemma record_action_advances [keeps_intros]: "dbo.advances (record_action i d s b t)"
  unfolding record_action_def by (intro keeps_intros)

lemma record_payment_advances [keeps_intros]: "dbo.advances (record_payment i d s b t)"
  unfolding record_payment_def by (intro keeps_intros)

lemma update_signature_advances [keeps_intros]: "dbo.advances (update_signature i s)"
  unfolding update_signature_def
  by (intro keeps_intros)
     (auto intro!: forward_upd db_le_update simp: sign_row_def audit_evolves_def)

lemma consume_execution_nonce_advances [keeps_intros]:
  "dbo.advances (consume_execution_nonce n a i g t)"
  unfolding consume_execution_nonce_def by (intro keeps_intros)

lemma record_execution_receipt_advances [keeps_intros]:
  "dbo.advances (record_execution_receipt r t)"
  unfolding record_execution_receipt_def by (intro keeps_intros)

lemma record_authorization_artifacts_advances [keeps_intros]:
  "dbo.advances (record_authorization_artifacts H a s t)"
  unfolding record_authorization_artifacts_def by (intro keeps_intros)

lemma update_execution_receipt_advances [keeps_intros]:
  "dbo.advances (update_execution_receipt r t)"
  unfolding update_execution_receipt_def
  by (intro keeps_intros)
     (auto simp: dbo.forward_def upd_def bindE_Inr_iff receipt_evolves_def Let_def dbo.R_refl
       split: if_splits intro!: db_le_update)

lemma reads_advance [keeps_intros]:
  "dbo.advances (payee_seen_before a p x)" "dbo.advances (spent_today a s t)"
  "dbo.advances (calls_last_minute a t)" "dbo.advances (history a l)"
  "dbo.advances (count_intent i)" "dbo.advances (audit_by_intent i)"
  "dbo.advances (execution_receipt_by_authorization i)" "dbo.advances (execution_receipts a l)"
  "dbo.advances (authorization_by_id i)" "dbo.advances (authorization_by_intent i)"
  unfolding payee_seen_before_def spent_today_def calls_last_minute_def history_def
    count_intent_def audit_by_intent_def execution_receipt_by_authorization_def
    execution_receipts_def authorization_by_id_def authorization_by_intent_def
  by (intro keeps_intros)+

end
