(* ===== verification/Evaluate.thy ===== *)
theory Evaluate
  imports Storage_Audit
begin

text \<open>
  \<open>core/engine.py\<close>, \<open>GuardrailEngine.evaluate\<close> and \<open>evaluate_action\<close>: the rules are run over the state
  read in one transaction and the decision is recorded in the same transaction.  \<open>clk n\<close> is the
  n-th reading of the clock within the call.
\<close>

type_synonym clock = "nat \<Rightarrow> xnum"

definition payment_context :: "hash \<Rightarrow> payment_intent \<Rightarrow> string" where
  "payment_context H i = context_digest H (as_action_intent i)"

definition decide :: "string \<Rightarrow> string \<Rightarrow> string \<Rightarrow> xnum \<Rightarrow> rule_match list \<Rightarrow> guardrail_decision" where
  "decide intent_id agent_id ctx t ms = \<lparr> gd_intent_id = intent_id, gd_agent_id = agent_id,
     gd_decision = final_decision ms, gd_matched_rules = ms, gd_context_digest = ctx,
     gd_evaluated_at = NFlt t \<rparr>"

definition evaluate_body :: "hash \<Rightarrow> policy \<Rightarrow> clock \<Rightarrow> payment_intent \<Rightarrow> guardrail_decision st" where
  "evaluate_body H p clk i =
     bindS (liftS (collect (payment_checks i p))) (\<lambda>ms1.
     bindS (payee_seen_before (pi_agent_id i) (pi_payee i) (pi_intent_id i)) (\<lambda>seen.
     bindS (liftS (collect [check_new_payee_cap i p seen])) (\<lambda>ms2.
     bindS (spent_today (pi_agent_id i) (pi_asset i) (clk 0)) (\<lambda>spent.
     bindS (liftS (collect [check_daily_cap i p spent, check_confirmation_threshold i p])) (\<lambda>ms3.
     bindS (calls_last_minute (pi_agent_id i) (clk 1)) (\<lambda>calls.
     bindS (liftS (collect [check_rate_limit p calls])) (\<lambda>ms4.
     let decision = decide (pi_intent_id i) (pi_agent_id i) (payment_context H i) (clk 2)
                      (ms1 @ ms2 @ ms3 @ ms4)
     in bindS (record_payment i decision None False (clk 3)) (\<lambda>_. returnS decision))))))))"

definition evaluate :: "hash \<Rightarrow> policy \<Rightarrow> clock \<Rightarrow> payment_intent \<Rightarrow> guardrail_decision st" where
  "evaluate H p clk i = transaction (evaluate_body H p clk i)"

definition evaluate_action_body :: "hash \<Rightarrow> policy \<Rightarrow> clock \<Rightarrow> action_intent \<Rightarrow> guardrail_decision st" where
  "evaluate_action_body H p clk a =
     bindS (liftS (collect (action_checks a p))) (\<lambda>ms1.
     bindS (calls_last_minute (ai_agent_id a) (clk 0)) (\<lambda>calls.
     bindS (liftS (collect [check_rate_limit p calls])) (\<lambda>ms2.
     let decision = decide (ai_intent_id a) (ai_agent_id a) (context_digest H a) (clk 1) (ms1 @ ms2)
     in bindS (record_action a decision None False (clk 2)) (\<lambda>_. returnS decision))))"

definition evaluate_action :: "hash \<Rightarrow> policy \<Rightarrow> clock \<Rightarrow> action_intent \<Rightarrow> guardrail_decision st" where
  "evaluate_action H p clk a = transaction (evaluate_action_body H p clk a)"

lemma evaluate_advances [keeps_intros]: "dbo.advances (evaluate H p clk i)"
  unfolding evaluate_def evaluate_body_def by (intro keeps_intros)

lemma evaluate_action_advances [keeps_intros]: "dbo.advances (evaluate_action H p clk a)"
  unfolding evaluate_action_def evaluate_action_body_def by (intro keeps_intros)

section \<open>All the matches of an evaluation\<close>

text \<open>The state the rules read, as values.\<close>

definition seen_in :: "db \<Rightarrow> payment_intent \<Rightarrow> bool" where
  "seen_in d i \<longleftrightarrow> list_ex (\<lambda>r. au_agent_id r = pi_agent_id i \<and> au_payee r = pi_payee i \<and>
     au_intent_id r \<noteq> pi_intent_id i \<and> counts_as_spent r) (t_audit d)"

definition spent_in :: "db \<Rightarrow> string \<Rightarrow> string \<Rightarrow> xnum \<Rightarrow> num res" where
  "spent_in d agent asset t =
     bindE (total (map (\<lambda>r. PNum (NFlt (au_amount r)))
       (spend_rows agent asset (f_sub t (Fin (24 * 3600))) d)))
     (\<lambda>s. Inr (NFlt (dec_to_float s)))"

definition calls_in :: "db \<Rightarrow> string \<Rightarrow> xnum \<Rightarrow> int" where
  "calls_in d agent t = int (length (filter (\<lambda>r. au_agent_id r = agent \<and>
     x_le (f_sub t (Fin 60)) (au_created_at r)) (t_audit d)))"

definition payment_matches :: "policy \<Rightarrow> db \<Rightarrow> clock \<Rightarrow> payment_intent \<Rightarrow> rule_match list res" where
  "payment_matches p d clk i =
     bindE (collect (payment_checks i p @ [check_new_payee_cap i p (seen_in d i)])) (\<lambda>ms.
     bindE (spent_in d (pi_agent_id i) (pi_asset i) (clk 0)) (\<lambda>spent.
     bindE (collect [check_daily_cap i p spent, check_confirmation_threshold i p]) (\<lambda>ns.
     bindE (collect [check_rate_limit p (calls_in d (pi_agent_id i) (clk 1))]) (\<lambda>ls.
       Inr (ms @ ns @ ls)))))"

definition action_matches :: "policy \<Rightarrow> db \<Rightarrow> clock \<Rightarrow> action_intent \<Rightarrow> rule_match list res" where
  "action_matches p d clk a = collect (action_checks a p @
     [check_rate_limit p (calls_in d (ai_agent_id a) (clk 0))])"

text \<open>The row an evaluation appends.\<close>

definition payment_row :: "payment_intent \<Rightarrow> guardrail_decision \<Rightarrow> xnum \<Rightarrow> xnum \<Rightarrow> audit_row" where
  "payment_row i d a t = \<lparr> au_intent_id = pi_intent_id i, au_agent_id = pi_agent_id i,
     au_payee = pi_payee i, au_asset = pi_asset i, au_network = pi_network i, au_amount = a,
     au_decision = decision_str (gd_decision d), au_rules = audit_rules d,
     au_intent = JObj (pi_metadata i), au_signature = None, au_created_at = t \<rparr>"

definition action_row :: "action_intent \<Rightarrow> guardrail_decision \<Rightarrow> xnum \<Rightarrow> xnum \<Rightarrow> audit_row" where
  "action_row i d a t = \<lparr> au_intent_id = ai_intent_id i, au_agent_id = ai_agent_id i,
     au_payee = ai_target i, au_asset = opt_default (ai_asset i),
     au_network = opt_default (ai_network i), au_amount = a,
     au_decision = decision_str (gd_decision d), au_rules = audit_rules d,
     au_intent = JObj (action_dict i), au_signature = None, au_created_at = t \<rparr>"

definition add_audit :: "audit_row \<Rightarrow> db conn \<Rightarrow> db conn" where
  "add_audit r c = c\<lparr>disk := (disk c)\<lparr>t_audit := t_audit (disk c) @ [r]\<rparr>, work := None\<rparr>"

lemma bindS_lift: "bindS (liftS r) f c = (case r of Inl e \<Rightarrow> (c, Inl e) | Inr x \<Rightarrow> f x c)"
  by (simp add: bindS_apply)

lemma bindS_query: "bindS (query g) f c = f (g (cur c)) c"
  by (simp add: bindS_apply)

lemma insert_audit_Inr:
  "insert_audit (Inr r) c =
     (c\<lparr>work := Some ((cur c)\<lparr>t_audit := t_audit (cur c) @ [r]\<rparr>)\<rparr>, Inr ())"
  by (simp add: insert_audit_def dml_ins_Inr no_constraint_def list_ex_iff)

lemma insert_audit_Inl: "insert_audit (Inl e) c = (c\<lparr>work := Some (cur c)\<rparr>, Inl e)"
  by (simp add: insert_audit_def dml_ins_Inl)

lemma conn_back [simp]: "work c = None \<Longrightarrow> c\<lparr>work := None\<rparr> = c"
  by (cases c) simp

definition payment_result ::
    "hash \<Rightarrow> policy \<Rightarrow> db \<Rightarrow> clock \<Rightarrow> payment_intent \<Rightarrow> (guardrail_decision \<times> xnum) res" where
  "payment_result H p d clk i = bindE (payment_matches p d clk i) (\<lambda>ms.
     bindE (sql_real_nn (pi_amount i)) (\<lambda>a.
       Inr (decide (pi_intent_id i) (pi_agent_id i) (payment_context H i) (clk 2) ms, a)))"

definition action_amount :: "action_intent \<Rightarrow> xnum res" where
  "action_amount a = bindE (case ai_amount a of None \<Rightarrow> Inr (Fin 0) | Some v \<Rightarrow> py_float v)
     (\<lambda>x. sql_real_nn (NFlt x))"

definition action_result ::
    "hash \<Rightarrow> policy \<Rightarrow> db \<Rightarrow> clock \<Rightarrow> action_intent \<Rightarrow> (guardrail_decision \<times> xnum) res" where
  "action_result H p d clk a = bindE (action_matches p d clk a) (\<lambda>ms.
     bindE (action_amount a) (\<lambda>x.
       Inr (decide (ai_intent_id a) (ai_agent_id a) (context_digest H a) (clk 1) ms, x)))"

text \<open>A transaction whose body reads the state, computes and appends one audit row.\<close>

lemma transaction_append:
  assumes idle: "work c = None"
    and ok: "\<And>d a. r = Inr (d, a) \<Longrightarrow> body (c\<lparr>work := Some (disk c)\<rparr>) =
      (c\<lparr>work := Some ((disk c)\<lparr>t_audit := t_audit (disk c) @ [row d a]\<rparr>)\<rparr>, Inr d)"
    and err: "\<And>e. r = Inl e \<Longrightarrow>
      \<exists>w. body (c\<lparr>work := Some (disk c)\<rparr>) = (c\<lparr>work := Some w\<rparr>, Inl e)"
  shows "transaction body c = (case r of Inl e \<Rightarrow> (c, Inl e)
      | Inr (d, a) \<Rightarrow> (add_audit (row d a) c, Inr d))"
proof (cases r)
  case (Inl e)
  with err obtain w where "body (c\<lparr>work := Some (disk c)\<rparr>) = (c\<lparr>work := Some w\<rparr>, Inl e)" by blast
  then have "transaction body c = ((c\<lparr>work := Some w\<rparr>)\<lparr>work := None\<rparr>, Inl e)"
    by (rule transaction_fail [OF idle])
  with idle Inl show ?thesis by simp
next
  case (Inr da)
  obtain d a where da: "da = (d, a)" by fastforce
  from ok [of d a] Inr da
  have "transaction body c = ((c\<lparr>work := Some ((disk c)\<lparr>t_audit := t_audit (disk c) @ [row d a]\<rparr>)\<rparr>)
      \<lparr>disk := (disk c)\<lparr>t_audit := t_audit (disk c) @ [row d a]\<rparr>, work := None\<rparr>, Inr d)"
    by (subst transaction_ok [OF idle]) auto
  with Inr da show ?thesis by (simp add: add_audit_def)
qed

lemmas evaluate_steps = collect_append bindS_apply bindE_def payee_seen_before_def
  spent_today_def calls_last_minute_def insert_audit_Inr insert_audit_Inl seen_in_def calls_in_def
  record_payment_def record_action_def commit_if_def spent_in_def

lemma evaluate_body_ok:
  assumes "payment_result H p (disk c) clk i = Inr (d, a)"
  shows "evaluate_body H p clk i (c\<lparr>work := Some (disk c)\<rparr>) =
    (c\<lparr>work := Some ((disk c)\<lparr>t_audit := t_audit (disk c) @ [payment_row i d a (clk 3)]\<rparr>)\<rparr>, Inr d)"
  using assms
  by (auto simp: payment_result_def payment_matches_def evaluate_body_def evaluate_steps
      payment_row_def Let_def simp del: collect.simps split: sum.splits)

lemma evaluate_body_err:
  assumes "payment_result H p (disk c) clk i = Inl e"
  shows "\<exists>w. evaluate_body H p clk i (c\<lparr>work := Some (disk c)\<rparr>) = (c\<lparr>work := Some w\<rparr>, Inl e)"
  using assms
  by (auto simp: payment_result_def payment_matches_def evaluate_body_def evaluate_steps
      payment_row_def Let_def simp del: collect.simps split: sum.splits)


lemma evaluate_action_body_ok:
  assumes "action_result H p (disk c) clk i = Inr (d, a)"
  shows "evaluate_action_body H p clk i (c\<lparr>work := Some (disk c)\<rparr>) =
    (c\<lparr>work := Some ((disk c)\<lparr>t_audit := t_audit (disk c) @ [action_row i d a (clk 2)]\<rparr>)\<rparr>, Inr d)"
  using assms
  by (auto simp: action_result_def action_amount_def action_matches_def evaluate_action_body_def
      evaluate_steps action_row_def Let_def simp del: collect.simps split: sum.splits)

lemma evaluate_action_body_err:
  assumes "action_result H p (disk c) clk i = Inl e"
  shows "\<exists>w. evaluate_action_body H p clk i (c\<lparr>work := Some (disk c)\<rparr>) = (c\<lparr>work := Some w\<rparr>, Inl e)"
  using assms
  by (auto simp: action_result_def action_amount_def action_matches_def evaluate_action_body_def
      evaluate_steps Let_def simp del: collect.simps split: sum.splits)

text \<open>
  Both evaluations as functions of the committed contents: they append exactly one audit row, or
  raise and leave the connection as it was.
\<close>

lemma evaluate_spec:
  assumes "work c = None"
  shows "evaluate H p clk i c = (case payment_result H p (disk c) clk i of
      Inl e \<Rightarrow> (c, Inl e)
    | Inr (d, a) \<Rightarrow> (add_audit (payment_row i d a (clk 3)) c, Inr d))"
  unfolding evaluate_def
  by (rule transaction_append [OF assms]) (simp_all add: evaluate_body_ok evaluate_body_err)

lemma evaluate_action_spec:
  assumes "work c = None"
  shows "evaluate_action H p clk i c = (case action_result H p (disk c) clk i of
      Inl e \<Rightarrow> (c, Inl e)
    | Inr (d, a) \<Rightarrow> (add_audit (action_row i d a (clk 2)) c, Inr d))"
  unfolding evaluate_action_def
  by (rule transaction_append [OF assms])
     (simp_all add: evaluate_action_body_ok evaluate_action_body_err)

lemma payment_result_Inr:
  "payment_result H p db clk i = Inr (d, a) \<longleftrightarrow> (\<exists>ms. payment_matches p db clk i = Inr ms \<and>
     sql_real_nn (pi_amount i) = Inr a \<and>
     d = decide (pi_intent_id i) (pi_agent_id i) (payment_context H i) (clk 2) ms)"
  by (auto simp: payment_result_def bindE_Inr_iff)

lemma action_result_Inr:
  "action_result H p db clk i = Inr (d, a) \<longleftrightarrow> (\<exists>ms. action_matches p db clk i = Inr ms \<and>
     action_amount i = Inr a \<and>
     d = decide (ai_intent_id i) (ai_agent_id i) (context_digest H i) (clk 1) ms)"
  by (auto simp: action_result_def bindE_Inr_iff)

lemma evaluate_Inr_iff:
  assumes "work c = None"
  shows "evaluate H p clk i c = (c', Inr d) \<longleftrightarrow>
    (\<exists>a. payment_result H p (disk c) clk i = Inr (d, a) \<and>
         c' = add_audit (payment_row i d a (clk 3)) c)"
  unfolding evaluate_spec [OF assms] by (auto split: sum.splits)

lemma evaluate_action_Inr_iff:
  assumes "work c = None"
  shows "evaluate_action H p clk i c = (c', Inr d) \<longleftrightarrow>
    (\<exists>a. action_result H p (disk c) clk i = Inr (d, a) \<and>
         c' = add_audit (action_row i d a (clk 2)) c)"
  unfolding evaluate_action_spec [OF assms] by (auto split: sum.splits)

end
