(* ===== verification/Decisions.thy ===== *)
theory Decisions
  imports Evaluate
begin

text \<open>
  What a decision of \<open>core/engine.py\<close> means: the condition under which each rule of \<open>core/rules.py\<close>
  stays silent, ALLOW as the conjunction of these conditions over the state in force, and what an
  evaluation does to the accounting later evaluations read.
\<close>

section \<open>When a rule stays silent\<close>

lemma hit_neq [simp]:
  "hit r s m \<noteq> None"
  "\<exists>y. hit r s m = Some y"
  "bindE q (\<lambda>t. Inr (hit r s (f t))) \<noteq> Inr None"
  by (simp_all add: hit_def bindE_Inr_iff)

text \<open>An optional allow list permits a value.\<close>

definition allowed_by :: "(string \<Rightarrow> string list \<Rightarrow> bool) \<Rightarrow> string list option \<Rightarrow> string \<Rightarrow> bool" where
  "allowed_by mem allowed v = (case allowed of None \<Rightarrow> True | Some xs \<Rightarrow> mem v xs)"

definition under_cap :: "num option \<Rightarrow> pynum \<Rightarrow> bool" where
  "under_cap cap amount = (case cap of None \<Rightarrow> True | Some l \<Rightarrow> exceeds amount (PNum l) = Inr False)"

definition under_daily_cap :: "num option \<Rightarrow> num \<Rightarrow> num \<Rightarrow> bool" where
  "under_daily_cap cap spent amount = (case cap of None \<Rightarrow> True
     | Some l \<Rightarrow> is_valid_amount (PNum amount) \<and> is_valid_amount (PNum spent) \<and>
         bindE (total [PNum spent, PNum amount]) (\<lambda>t. bindE (total [PNum l]) (dec_gt t)) = Inr False)"

definition under_rate :: "policy \<Rightarrow> int \<Rightarrow> bool" where
  "under_rate p calls \<longleftrightarrow> pol_rate_limit p = 0 \<or> calls < pol_rate_limit p"

named_theorems silent \<open>when a check raises no match\<close>

lemma payment_lists_silent [silent]:
  "check_blocked_payee i p = Inr None \<longleftrightarrow> \<not> lower_mem (pi_payee i) (pol_blocked_payees p)"
  "check_payee_allowlist i p = Inr None \<longleftrightarrow> allowed_by lower_mem (pol_allowed_payees p) (pi_payee i)"
  "check_network_allowed i p = Inr None \<longleftrightarrow> allowed_by lower_mem (pol_allowed_networks p) (pi_network i)"
  "check_asset_allowed i p = Inr None \<longleftrightarrow> allowed_by upper_mem (pol_allowed_assets p) (pi_asset i)"
  by (simp_all add: check_blocked_payee_def check_payee_allowlist_def check_network_allowed_def
      check_asset_allowed_def allowed_by_def split: option.splits)

lemma cap_bind:
  "bindE r (\<lambda>over. Inr (if over then hit a b m else None)) = Inr None \<longleftrightarrow> r = Inr False"
  by (cases r) auto

lemma payment_caps_silent [silent]:
  "check_per_tx_cap i p = Inr None \<longleftrightarrow> is_valid_amount (PNum (pi_amount i)) \<and>
     under_cap (dget (pol_per_tx_cap p) (str_upper (pi_asset i))) (PNum (pi_amount i))"
  "check_new_payee_cap i p seen = Inr None \<longleftrightarrow> seen \<or>
     under_cap (dget (pol_new_payee_cap p) (str_upper (pi_asset i))) (PNum (pi_amount i))"
  "check_confirmation_threshold i p = Inr None \<longleftrightarrow>
     under_cap (dget (pol_confirmation_over p) (str_upper (pi_asset i))) (PNum (pi_amount i))"
  "check_rate_limit p calls = Inr None \<longleftrightarrow> under_rate p calls"
  by (auto simp: check_per_tx_cap_def check_new_payee_cap_def check_confirmation_threshold_def
      check_rate_limit_def under_cap_def under_rate_def cap_bind split: option.splits)

lemma daily_cap_silent [silent]:
  "check_daily_cap i p spent = Inr None \<longleftrightarrow>
     under_daily_cap (dget (pol_daily_cap p) (str_upper (pi_asset i))) spent (pi_amount i)"
proof -
  have "bindE r (\<lambda>over. if over then bindE q (\<lambda>t. Inr (hit a b (f t))) else Inr None) = Inr None
      \<longleftrightarrow> r = Inr False" for r :: "bool res" and q :: "xnum res" and a b f
    by (cases r; cases q) auto
  then show ?thesis
    by (auto simp: check_daily_cap_def under_daily_cap_def Let_def split: option.splits)
qed

lemma action_lists_silent [silent]:
  "check_action_type_allowed a p = Inr None \<longleftrightarrow>
     allowed_by lower_mem (pol_allowed_action_types p) (ai_action_type a)"
  "check_purpose_allowed a p = Inr None \<longleftrightarrow>
     allowed_by lower_mem (map_option (map str_strip) (pol_allowed_purposes p)) (str_strip (ai_purpose a))"
  "check_target_allowed a p = Inr None \<longleftrightarrow> \<not> lower_mem (ai_target a) (pol_blocked_payees p) \<and>
     allowed_by lower_mem (pol_allowed_targets p) (ai_target a)"
  "check_generic_network_allowed a p = Inr None \<longleftrightarrow>
     (\<forall>n. ai_network a = Some n \<longrightarrow> allowed_by lower_mem (pol_allowed_networks p) n)"
  "check_generic_asset_allowed a p = Inr None \<longleftrightarrow>
     (\<forall>s. ai_asset a = Some s \<longrightarrow> allowed_by upper_mem (pol_allowed_assets p) s)"
  by (simp_all add: check_action_type_allowed_def check_purpose_allowed_def check_target_allowed_def
      check_generic_network_allowed_def check_generic_asset_allowed_def allowed_by_def Let_def
      split: option.splits)

lemma constraint_loop_None:
  "constraint_loop r w ctx cs = None \<longleftrightarrow> context_violation cs ctx = None"
  by (induction r w ctx cs rule: constraint_loop.induct)
     (auto simp: context_value_ok_def Let_def split: json.splits)

lemma graph_loop_None:
  "graph_loop actual es = None \<longleftrightarrow> (\<forall>(k, v)\<in>set es. py_eq (jget actual k) v)"
  by (induction actual es rule: graph_loop.induct) auto

definition graph_ok :: "action_intent \<Rightarrow> policy \<Rightarrow> bool" where
  "graph_ok a p \<longleftrightarrow> pol_execution_graph p = [] \<or>
     (\<exists>actual. jget (ai_metadata a) ''execution_graph'' = JObj actual \<and>
        (\<forall>(k, v)\<in>set (pol_execution_graph p). py_eq (jget actual k) v))"

definition destination_ok :: "action_intent \<Rightarrow> policy \<Rightarrow> bool" where
  "destination_ok a p \<longleftrightarrow>
     (pol_allowed_destinations p = None \<and> pol_blocked_destinations p = []) \<or>
     (\<exists>d. action_destination a = Some d \<and> \<not> lower_mem d (pol_blocked_destinations p) \<and>
        allowed_by lower_mem (pol_allowed_destinations p) d)"

definition generic_amount_ok :: "action_intent \<Rightarrow> policy \<Rightarrow> bool" where
  "generic_amount_ok a p \<longleftrightarrow> (\<exists>amt. exact_amount a = Inr amt \<and>
     (\<forall>d s. amt = Some d \<longrightarrow> ai_asset a = Some s \<longrightarrow> is_valid_amount (PDec d) \<and>
        under_cap (dget (pol_per_tx_cap p) (str_upper s)) (PDec d)))"

lemma action_rest_silent [silent]:
  "check_context_constraints a p = Inr None \<longleftrightarrow>
     context_violation (pol_context_constraints p) (ai_declared_context a) = None"
  "check_input_provenance a p = Inr None \<longleftrightarrow>
     context_violation (pol_input_provenance p) (ai_input_provenance a) = None"
  "check_execution_graph a p = Inr None \<longleftrightarrow> graph_ok a p"
  "check_destination_allowed a p = Inr None \<longleftrightarrow> destination_ok a p"
  by (auto simp: check_context_constraints_def check_input_provenance_def constraint_loop_None
      check_execution_graph_def graph_ok_def graph_loop_None check_destination_allowed_def
      destination_ok_def allowed_by_def split: json.splits option.splits)

lemma generic_amount_silent [silent]:
  "check_generic_amount_cap a p = Inr None \<longleftrightarrow> generic_amount_ok a p"
  by (cases "exact_amount a")
     (auto simp: check_generic_amount_cap_def generic_amount_ok_def under_cap_def cap_bind
      split: option.splits)

section \<open>ALLOW\<close>

definition payment_allowed :: "policy \<Rightarrow> db \<Rightarrow> clock \<Rightarrow> payment_intent \<Rightarrow> bool" where
  "payment_allowed p d clk i \<longleftrightarrow>
     (let cap_for = (\<lambda>table. dget table (str_upper (pi_asset i))); amount = PNum (pi_amount i) in
      \<not> lower_mem (pi_payee i) (pol_blocked_payees p) \<and>
      allowed_by lower_mem (pol_allowed_payees p) (pi_payee i) \<and>
      allowed_by lower_mem (pol_allowed_networks p) (pi_network i) \<and>
      allowed_by upper_mem (pol_allowed_assets p) (pi_asset i) \<and>
      is_valid_amount amount \<and>
      under_cap (cap_for (pol_per_tx_cap p)) amount \<and>
      (seen_in d i \<or> under_cap (cap_for (pol_new_payee_cap p)) amount) \<and>
      (\<exists>spent. spent_in d (pi_agent_id i) (pi_asset i) (clk 0) = Inr spent \<and>
         under_daily_cap (cap_for (pol_daily_cap p)) spent (pi_amount i)) \<and>
      under_cap (cap_for (pol_confirmation_over p)) amount \<and>
      under_rate p (calls_in d (pi_agent_id i) (clk 1)))"

definition action_allowed :: "policy \<Rightarrow> db \<Rightarrow> clock \<Rightarrow> action_intent \<Rightarrow> bool" where
  "action_allowed p d clk a \<longleftrightarrow>
     allowed_by lower_mem (pol_allowed_action_types p) (ai_action_type a) \<and>
     allowed_by lower_mem (map_option (map str_strip) (pol_allowed_purposes p)) (str_strip (ai_purpose a)) \<and>
     context_violation (pol_context_constraints p) (ai_declared_context a) = None \<and>
     context_violation (pol_input_provenance p) (ai_input_provenance a) = None \<and>
     graph_ok a p \<and> destination_ok a p \<and>
     \<not> lower_mem (ai_target a) (pol_blocked_payees p) \<and>
     allowed_by lower_mem (pol_allowed_targets p) (ai_target a) \<and>
     (\<forall>n. ai_network a = Some n \<longrightarrow> allowed_by lower_mem (pol_allowed_networks p) n) \<and>
     (\<forall>s. ai_asset a = Some s \<longrightarrow> allowed_by upper_mem (pol_allowed_assets p) s) \<and>
     generic_amount_ok a p \<and>
     under_rate p (calls_in d (ai_agent_id a) (clk 0))"

lemma payment_matches_Nil: "payment_matches p d clk i = Inr [] \<longleftrightarrow> payment_allowed p d clk i"
  by (auto simp: payment_matches_def bindE_Inr_iff collect_Nil_iff payment_checks_def silent
      payment_allowed_def Let_def simp del: collect.simps)

lemma action_matches_Nil: "action_matches p d clk a = Inr [] \<longleftrightarrow> action_allowed p d clk a"
  unfolding action_matches_def collect_Nil_iff action_checks_def action_allowed_def
  by (simp add: silent)

section \<open>A concrete payment\<close>

text \<open>Used to show that the hypotheses of the properties can hold.\<close>

definition demo_payment :: payment_intent where
  "demo_payment = \<lparr> pi_agent_id = ''a'', pi_payee = ''p'', pi_asset = ''USD'', pi_network = ''n'',
     pi_amount = NInt 5, pi_resource = ''r'', pi_metadata = [], pi_intent_id = ''i1'',
     pi_timestamp = NInt 0 \<rparr>"

definition demo_clock :: clock where
  "demo_clock n = Fin 1000"

definition demo_hash :: hash where
  "demo_hash s = s"

lemma fresh_simps [simp]: "work fresh = None" "disk fresh = empty_db" "t_audit empty_db = []"
  by (simp_all add: fresh_def empty_db_def)

lemma spend_rows_empty [simp]: "spend_rows a s t empty_db = []"
  by (simp add: spend_rows_def)

lemma spent_empty [simp]: "spent_in empty_db a s t = Inr (NFlt (Fin 0))"
  by (simp add: spent_in_def spend_rows_def total_def dec_to_float_def)

lemma calls_empty [simp]: "calls_in empty_db a t = 0"
  by (simp add: calls_in_def)

lemma sql_real_five: "sql_real_nn (NInt 5) = Inr (Fin 5)"
proof -
  have "round64 (of_int 5) = Fin (of_int 5)" by (rule round64_int) simp
  then show ?thesis by (simp add: sql_real_nn_def sql_int_def int64_ok_def not_null_def)
qed

lemma demo_payment_allowed: "payment_allowed default_policy (disk fresh) demo_clock demo_payment"
  by (simp add: payment_allowed_def default_policy_def demo_payment_def lower_mem_iff
      allowed_by_def is_valid_amount_def under_cap_def under_daily_cap_def under_rate_def)

lemma demo_payment_result:
  "payment_result H default_policy (disk fresh) demo_clock demo_payment =
     Inr (decide ''i1'' ''a'' (payment_context H demo_payment) (Fin 1000) [], Fin 5)"
proof -
  have "payment_matches default_policy (disk fresh) demo_clock demo_payment = Inr []"
    using demo_payment_allowed by (simp add: payment_matches_Nil)
  then show ?thesis
    using sql_real_five by (simp add: payment_result_def) (simp add: demo_payment_def demo_clock_def)
qed

definition demo_decision :: guardrail_decision where
  "demo_decision = decide ''i1'' ''a'' (payment_context demo_hash demo_payment) (Fin 1000) []"

lemma demo_evaluates:
  "evaluate demo_hash default_policy demo_clock demo_payment fresh =
     (add_audit (payment_row demo_payment demo_decision (Fin 5) (Fin 1000)) fresh, Inr demo_decision)"
  by (simp only: evaluate_spec [OF fresh_simps(1)] demo_payment_result)
     (simp add: demo_decision_def demo_clock_def)

section \<open>Properties\<close>

text \<open>C1: \<open>evaluate\<close> is atomic.  On an idle connection it either raises and leaves the connection exactly
  as it was, or returns a decision and commits exactly one audit row for it, and no other change.\<close>

theorem evaluate_atomic:
  assumes "work c = None"
  shows "case evaluate H p clk i c of
      (c', Inl e) \<Rightarrow> c' = c
    | (c', Inr d) \<Rightarrow> work c' = None \<and>
        (\<exists>a. sql_real_nn (pi_amount i) = Inr a \<and>
          disk c' = (disk c)\<lparr>t_audit := t_audit (disk c) @ [payment_row i d a (clk 3)]\<rparr>)"
  using evaluate_spec [OF assms, where H = H and p = p and clk = clk and i = i]
  by (auto simp: add_audit_def payment_result_Inr split: sum.splits)

theorem evaluate_atomic_witness:
  "\<exists>c' d. evaluate demo_hash default_policy demo_clock demo_payment fresh = (c', Inr d) \<and>
     length (t_audit (disk c')) = 1"
  using evaluate_atomic [OF fresh_simps(1), where H = demo_hash and p = default_policy and
      clk = demo_clock and i = demo_payment]
  unfolding demo_evaluates by auto

text \<open>C2: a payment is allowed exactly when it is within the policy.  \<open>evaluate\<close> answers ALLOW if and only
  if the payee is not blocked and is on the allow list, network and asset are allowed, the amount
  is finite and non-negative and within the per-transaction cap, the new-payee cap unless the payee
  was paid before, the daily cap together with the spend of the last 24 hours, the confirmation
  threshold, the agent is under its rate limit, and the amount can be stored.\<close>

theorem payment_allow_iff:
  assumes "work c = None"
  shows "(\<exists>c' d. evaluate H p clk i c = (c', Inr d) \<and> gd_decision d = ALLOW) \<longleftrightarrow>
    payment_allowed p (disk c) clk i \<and> (\<exists>a. sql_real_nn (pi_amount i) = Inr a)"
  by (auto simp: evaluate_Inr_iff [OF assms] payment_result_Inr decide_def final_decision_ALLOW
      payment_matches_Nil [symmetric])

theorem payment_allow_iff_witness:
  "\<exists>c' d. evaluate demo_hash default_policy demo_clock demo_payment fresh = (c', Inr d) \<and>
     gd_decision d = ALLOW"
  using payment_allow_iff [OF fresh_simps(1), where H = demo_hash and p = default_policy and
      clk = demo_clock and i = demo_payment]
    demo_payment_allowed sql_real_five
  by (simp add: demo_payment_def)

text \<open>C4: spend accounting.  After \<open>evaluate\<close> the rolling spend of every agent and asset is what it was,
  extended by this payment exactly when the decision is not BLOCK; the rate limit counts it
  whatever the decision.\<close>

theorem evaluate_accounting:
  assumes "work c = None" and "evaluate H p clk i c = (c', Inr d)"
  shows "\<exists>a. sql_real_nn (pi_amount i) = Inr a \<and>
    spend_rows agent asset since (disk c') = spend_rows agent asset since (disk c) @
      (if gd_decision d \<noteq> BLOCK \<and> agent = pi_agent_id i \<and> asset = pi_asset i \<and> x_le since (clk 3)
       then [payment_row i d a (clk 3)] else []) \<and>
    calls_in (disk c') agent t = calls_in (disk c) agent t +
      (if agent = pi_agent_id i \<and> x_le (f_sub t (Fin 60)) (clk 3) then 1 else 0)"
proof -
  have block: "decision_str k = ''BLOCK'' \<longleftrightarrow> k = BLOCK" for k
    by (cases k) (simp_all add: decision_str_def)
  from assms(2) show ?thesis
    by (auto simp: evaluate_Inr_iff [OF assms(1)] payment_result_Inr add_audit_def spend_rows_def
        calls_in_def payment_row_def counts_as_spent_def block)
qed

theorem evaluate_accounting_witness:
  "\<exists>c' d. evaluate demo_hash default_policy demo_clock demo_payment fresh = (c', Inr d) \<and>
     length (spend_rows ''a'' ''USD'' (Fin 0) (disk c')) = 1"
  using evaluate_accounting [OF fresh_simps(1) demo_evaluates, where agent = "''a''" and
      asset = "''USD''" and since = "Fin 0" and t = "Fin 0"]
  unfolding demo_evaluates
  by (auto simp: demo_payment_def demo_clock_def demo_decision_def decide_def final_decision_def)

text \<open>C3: a generic action is allowed exactly when every rule that governs it is satisfied: action type,
  purpose, declared context, input provenance, execution graph, destination, target, network,
  asset, exact amount against the cap, and the rate limit.\<close>

theorem action_allow_iff:
  assumes "work c = None"
  shows "(\<exists>c' d. evaluate_action H p clk a c = (c', Inr d) \<and> gd_decision d = ALLOW) \<longleftrightarrow>
    action_allowed p (disk c) clk a \<and> (\<exists>x. action_amount a = Inr x)"
  by (auto simp: evaluate_action_Inr_iff [OF assms] action_result_Inr decide_def
      final_decision_ALLOW action_matches_Nil [symmetric])

theorem action_allow_iff_witness:
  "\<exists>c' d. evaluate_action demo_hash default_policy demo_clock
       ((as_action_intent demo_payment)\<lparr>ai_amount := None\<rparr>) fresh = (c', Inr d) \<and>
     gd_decision d = ALLOW"
proof -
  let ?a = "(as_action_intent demo_payment)\<lparr>ai_amount := None\<rparr>"
  have "action_allowed default_policy (disk fresh) demo_clock ?a"
    by (simp add: action_allowed_def default_policy_def demo_payment_def as_action_intent_def
        lower_mem_iff allowed_by_def under_rate_def graph_ok_def destination_ok_def
        generic_amount_ok_def exact_amount_def)
  moreover have "action_amount ?a = Inr (Fin 0)"
    by (simp add: action_amount_def sql_real_nn_def not_null_def)
  ultimately show ?thesis
    using action_allow_iff [OF fresh_simps(1), where H = demo_hash and p = default_policy and
      clk = demo_clock and a = ?a] by blast
qed

end
