(* ===== verification/Rate_Limit.thy ===== *)
theory Rate_Limit
  imports Decisions
begin

text \<open>
  The rate limit as an invariant of everything a service does with its engine: evaluations of
  payments and actions, whatever they answer, and signatures attached to the audit rows.
\<close>

definition ordered_clock :: "clock \<Rightarrow> bool" where
  "ordered_clock clk \<longleftrightarrow> x_le (clk 0) (clk 1) \<and> x_le (clk 1) (clk 2) \<and> x_le (clk 2) (clk 3)"

inductive serving :: "hash \<Rightarrow> policy \<Rightarrow> db conn \<Rightarrow> bool" for H p where
  start: "serving H p fresh"
| payment: "serving H p c \<Longrightarrow> ordered_clock clk \<Longrightarrow> serving H p (fst (evaluate H p clk i c))"
| action: "serving H p c \<Longrightarrow> ordered_clock clk \<Longrightarrow> serving H p (fst (evaluate_action H p clk a c))"
| signature: "serving H p c \<Longrightarrow> serving H p (fst (update_signature intent_id s c))"

text \<open>The accepted attempts of an agent in the minute up to \<open>t\<close>.\<close>

definition accepted_in_minute :: "db \<Rightarrow> string \<Rightarrow> xnum \<Rightarrow> audit_row list" where
  "accepted_in_minute d agent t = filter (\<lambda>r. au_agent_id r = agent \<and> counts_as_spent r \<and>
     x_le (f_sub t (Fin 60)) (au_created_at r) \<and> x_le (au_created_at r) t) (t_audit d)"

lemma f_sub_mono: "x_le a b \<Longrightarrow> x_le (f_sub a (Fin c)) (f_sub b (Fin c))"
  using b64.rnd_mono b64.rnd_not_nan
  by (cases a; cases b) (auto simp: f_sub_def x_le.simps split: xnum.splits, (metis x_le.simps x_le_refl xnum.exhaust)+)

definition within_rate :: "policy \<Rightarrow> db \<Rightarrow> bool" where
  "within_rate p d \<longleftrightarrow> (\<forall>agent t. int (length (accepted_in_minute d agent t)) \<le> pol_rate_limit p)"

text \<open>Adding one row to the log, where a row that counts was recorded while under the limit.\<close>

lemma within_rate_add:
  assumes inv: "within_rate p d" and clk: "x_le now (au_created_at r)"
    and under: "counts_as_spent r \<Longrightarrow> calls_in d (au_agent_id r) now < pol_rate_limit p"
  shows "within_rate p (d\<lparr>t_audit := t_audit d @ [r]\<rparr>)"
  unfolding within_rate_def
proof (intro allI)
  fix agent t
  let ?d' = "d\<lparr>t_audit := t_audit d @ [r]\<rparr>"
  show "int (length (accepted_in_minute ?d' agent t)) \<le> pol_rate_limit p"
  proof (cases "au_agent_id r = agent \<and> counts_as_spent r \<and> x_le (f_sub t (Fin 60)) (au_created_at r)
      \<and> x_le (au_created_at r) t")
    case True
    have "x_le (f_sub now (Fin 60)) (f_sub t (Fin 60))"
      using clk True by (auto intro: f_sub_mono x_le_trans)
    then have "int (length (accepted_in_minute d agent t)) \<le> calls_in d agent now"
      unfolding accepted_in_minute_def calls_in_def of_nat_le_iff
      by (intro length_filter_mono) (auto intro: x_le_trans)
    also have "\<dots> < pol_rate_limit p" using under True by simp
    finally show ?thesis using True by (simp add: accepted_in_minute_def)
  next
    case False
    then have "accepted_in_minute ?d' agent t = accepted_in_minute d agent t"
      by (auto simp: accepted_in_minute_def)
    with inv show ?thesis by (simp add: within_rate_def)
  qed
qed

lemma within_rate_same:
  assumes "within_rate p d" and "map (\<lambda>r. r\<lparr>au_signature := None\<rparr>) (t_audit e) =
    map (\<lambda>r. r\<lparr>au_signature := None\<rparr>) (t_audit d)"
  shows "within_rate p e"
proof -
  have "length (accepted_in_minute e agent t) = length (accepted_in_minute d agent t)" for agent t
  proof -
    have count: "length (filter P rs) = length (filter P (map (\<lambda>r. r\<lparr>au_signature := None\<rparr>) rs))"
      if "\<And>r. P (r\<lparr>au_signature := None\<rparr>) = P r" for P and rs :: "audit_row list"
      by (induction rs) (simp_all add: that)
    show ?thesis unfolding accepted_in_minute_def
      using assms(2) by (subst (1 2) count) (simp_all add: counts_as_spent_def)
  qed
  with assms(1) show ?thesis by (simp add: within_rate_def)
qed

lemma not_block_under_rate:
  assumes "final_decision ms \<noteq> BLOCK" and "collect [check_rate_limit p calls] = Inr ls"
    and "set ls \<subseteq> set ms"
  shows "under_rate p calls"
proof (rule ccontr)
  assume "\<not> under_rate p calls"
  then obtain m where "check_rate_limit p calls = Inr (Some m)" "rm_severity m = SevBlock"
    by (auto simp: check_rate_limit_def under_rate_def hit_def)
  with assms show False by (auto simp: final_decision_BLOCK)
qed

lemma not_block_str: "decision_str k \<noteq> ''BLOCK'' \<longleftrightarrow> k \<noteq> BLOCK"
  by (cases k) (simp_all add: decision_str_def)

lemma serving_idle: "serving H p c \<Longrightarrow> work c = None"
proof (induction rule: serving.induct)
  case (signature c i s)
  then show ?case
    by (simp add: update_signature_def expect_one_def bindS_apply dml_def upd_def Let_def split: sum.splits)
qed (simp_all add: evaluate_def evaluate_action_def transaction_idle)

lemma serving_within_rate:
  assumes "serving H p c" and pos: "0 < pol_rate_limit p"
  shows "within_rate p (disk c)"
  using assms(1)
proof (induction rule: serving.induct)
  case start
  show ?case using pos by (simp add: within_rate_def accepted_in_minute_def)
next
  case (payment c clk i)
  note idle = serving_idle [OF payment.hyps(1)]
  show ?case
  proof (cases "payment_result H p (disk c) clk i")
    case (Inl e)
    with payment show ?thesis by (simp add: evaluate_spec [OF idle])
  next
    case (Inr da)
    obtain d a where da: "da = (d, a)" by fastforce
    have "x_le (clk 1) (clk 3)"
      using payment.hyps(2) by (auto simp: ordered_clock_def intro: x_le_trans)
    moreover have "calls_in (disk c) (pi_agent_id i) (clk 1) < pol_rate_limit p"
      if "gd_decision d \<noteq> BLOCK"
    proof -
      from Inr that obtain ms ls where "final_decision ms \<noteq> BLOCK" "set ls \<subseteq> set ms"
        "collect [check_rate_limit p (calls_in (disk c) (pi_agent_id i) (clk 1))] = Inr ls"
        unfolding da payment_result_Inr payment_matches_def bindE_Inr_iff
        by (fastforce simp: decide_def simp del: collect.simps)
      then have "under_rate p (calls_in (disk c) (pi_agent_id i) (clk 1))"
        by (intro not_block_under_rate)
      with pos show ?thesis by (simp add: under_rate_def)
    qed
    ultimately show ?thesis
      using within_rate_add [OF payment.IH, of "clk 1" "payment_row i d a (clk 3)"] Inr da
      by (simp add: evaluate_spec [OF idle] add_audit_def payment_row_def counts_as_spent_def
          not_block_str)
  qed
next
  case (action c clk i)
  note idle = serving_idle [OF action.hyps(1)]
  show ?case
  proof (cases "action_result H p (disk c) clk i")
    case (Inl e)
    with action show ?thesis by (simp add: evaluate_action_spec [OF idle])
  next
    case (Inr da)
    obtain d a where da: "da = (d, a)" by fastforce
    have "x_le (clk 0) (clk 2)"
      using action.hyps(2) by (auto simp: ordered_clock_def intro: x_le_trans)
    moreover have "calls_in (disk c) (ai_agent_id i) (clk 0) < pol_rate_limit p"
      if "gd_decision d \<noteq> BLOCK"
    proof -
      from Inr that obtain ms ls where "final_decision ms \<noteq> BLOCK" "set ls \<subseteq> set ms"
        "collect [check_rate_limit p (calls_in (disk c) (ai_agent_id i) (clk 0))] = Inr ls"
        unfolding da action_result_Inr action_matches_def collect_append bindE_Inr_iff
        by (fastforce simp: decide_def simp del: collect.simps)
      then have "under_rate p (calls_in (disk c) (ai_agent_id i) (clk 0))"
        by (intro not_block_under_rate)
      with pos show ?thesis by (simp add: under_rate_def)
    qed
    ultimately show ?thesis
      using within_rate_add [OF action.IH, of "clk 0" "action_row i d a (clk 2)"] Inr da
      by (simp add: evaluate_action_spec [OF idle] add_audit_def action_row_def counts_as_spent_def
          not_block_str)
  qed
next
  case (signature c i s)
  from serving_idle [OF signature.hyps]
  show ?case
    by (intro within_rate_same [OF signature.IH])
       (auto simp: update_signature_def expect_one_def bindS_apply dml_def upd_def Let_def
          update_rows_def sign_row_def cur_idle)
qed

text \<open>C5: the rate limit holds over any run.  However payments and actions of any agents are
  evaluated, in any order and with any answers, an agent never has more attempts accepted (not
  blocked) within any 60 seconds than \<open>rate_limit_per_minute\<close>.\<close>

theorem rate_limit_holds:
  assumes "serving H p c" and "0 < pol_rate_limit p"
  shows "int (length (accepted_in_minute (disk c) agent t)) \<le> pol_rate_limit p"
  using serving_within_rate [OF assms] by (simp add: within_rate_def)

theorem rate_limit_holds_witness:
  "int (length (accepted_in_minute (disk (fst (evaluate demo_hash (default_policy\<lparr>pol_rate_limit := 1\<rparr>)
     demo_clock demo_payment fresh))) ''a'' (Fin 1000))) \<le> 1"
proof -
  let ?p = "default_policy\<lparr>pol_rate_limit := 1\<rparr>"
  have "serving demo_hash ?p (fst (evaluate demo_hash ?p demo_clock demo_payment fresh))"
    by (intro serving.payment serving.start) (simp add: ordered_clock_def demo_clock_def)
  from rate_limit_holds [OF this] show ?thesis by simp
qed

end
