(* ===== verification/Storage_Authority.thy ===== *)
theory Storage_Authority
  imports Storage_Audit
begin

text \<open>
  \<open>core/storage.py\<close>, the identities, the capabilities, the typed authority edges and the delegation
  evidence.  \<open>t\<close>, \<open>t1\<close>, \<dots> are readings of \<open>time.time()\<close>, \<open>edge_id\<close> and \<open>holds_id\<close> the UUIDs a method draws.
\<close>

section \<open>Identities\<close>

definition register_identity :: "hash \<Rightarrow> agent_identity \<Rightarrow> xnum \<Rightarrow> unit st" where
  "register_identity H i t = on_integrity
     (bindS (insert_identity (
        bindE (sql_real_nn (id_issued_at i)) (\<lambda>issued.
        bindE (sql_opt_real (id_expires_at i)) (\<lambda>expires.
          Inr \<lparr> ir_identity_id = id_key_id i, ir_agent_id = id_agent_id i, ir_identity = i,
                ir_sha256 = identity_digest H i, ir_status = ''ACTIVE'', ir_issued_at = issued,
                ir_expires_at = expires, ir_revoked_at = None, ir_created_at = t \<rparr>)))) (\<lambda>_. commit))
     (raiseS (ValueError ''identity_id already registered''))"

definition identity_row_of :: "string \<Rightarrow> db \<Rightarrow> identity_row option" where
  "identity_row_of identity_id d = select_one (\<lambda>r. ir_identity_id r = identity_id) (t_identities d)"

definition find_identity :: "string \<Rightarrow> db \<Rightarrow> agent_identity option" where
  "find_identity identity_id d = map_option ir_identity (identity_row_of identity_id d)"

text \<open>\<open>status == 'ACTIVE' and (expires_at is None or now < expires_at)\<close>\<close>

definition not_expired :: "xnum option \<Rightarrow> xnum \<Rightarrow> bool" where
  "not_expired expires now = (case expires of None \<Rightarrow> True | Some e \<Rightarrow> x_lt now e)"

definition identity_active_at :: "string \<Rightarrow> xnum \<Rightarrow> db \<Rightarrow> bool" where
  "identity_active_at identity_id now d = (case identity_row_of identity_id d of None \<Rightarrow> False
     | Some r \<Rightarrow> ir_status r = ''ACTIVE'' \<and> not_expired (ir_expires_at r) now)"

definition storage_identity :: "string \<Rightarrow> agent_identity option st" where
  "storage_identity identity_id = query (find_identity identity_id)"

definition identity_is_active :: "string \<Rightarrow> xnum \<Rightarrow> bool st" where
  "identity_is_active identity_id now = query (identity_active_at identity_id now)"

text \<open>\<open>if cursor.rowcount != 1: rollback, return False\<close>, otherwise commit and return True.\<close>

definition one_row :: "nat st \<Rightarrow> bool st" where
  "one_row m = bindS m (\<lambda>n. if n \<noteq> 1 then bindS rollback (\<lambda>_. returnS False)
     else bindS commit (\<lambda>_. returnS True))"

definition revoke_identity :: "string \<Rightarrow> xnum \<Rightarrow> bool st" where
  "revoke_identity identity_id t = one_row (dml (upd t_identities (\<lambda>tab d. d\<lparr>t_identities := tab\<rparr>)
     (\<lambda>r. ir_identity_id r = identity_id \<and> ir_status r = ''ACTIVE'')
     (\<lambda>r. r\<lparr>ir_status := ''REVOKED'', ir_revoked_at := Some t\<rparr>)))"

section \<open>Capabilities\<close>

definition capability_row_for :: "hash \<Rightarrow> capability \<Rightarrow> xnum \<Rightarrow> capability_row res" where
  "capability_row_for H c t =
     bindE (sql_int (cap_version c)) (\<lambda>version.
     bindE (sql_real_nn (cap_issued_at c)) (\<lambda>issued.
     bindE (sql_opt_real (cap_expires_at c)) (\<lambda>expires.
       Inr \<lparr> cr_capability_id = cap_id c, cr_agent_id = cap_agent_id c, cr_version = version,
             cr_capability = c, cr_sha256 = capability_digest H c, cr_status = ''ACTIVE'',
             cr_issued_at = issued, cr_expires_at = expires, cr_revoked_at = None,
             cr_created_at = t \<rparr>)))"

definition active_edge :: "string \<Rightarrow> string \<Rightarrow> string \<Rightarrow> string \<Rightarrow> string \<Rightarrow> xnum \<Rightarrow> edge_row" where
  "active_edge edge_id source_type source_id relation target_id t =
     \<lparr> eg_edge_id = edge_id, eg_source_type = source_type, eg_source_id = source_id,
       eg_relation = relation, eg_target_type = ''capability'', eg_target_id = target_id,
       eg_status = ''ACTIVE'', eg_created_at = t, eg_revoked_at = None \<rparr>"

text \<open>\<open>if x:\<close> on an optional string: neither None nor empty.\<close>

definition given :: "string option \<Rightarrow> string option" where
  "given v = (case v of None \<Rightarrow> None | Some s \<Rightarrow> if s = [] then None else Some s)"

definition insert_holds :: "capability \<Rightarrow> string \<Rightarrow> xnum \<Rightarrow> unit st" where
  "insert_holds c holds_id t = (case given (cap_identity_id c) of None \<Rightarrow> returnS ()
     | Some i \<Rightarrow> insert_edge (Inr (active_edge holds_id ''identity'' i ''HOLDS'' (cap_id c) t)))"

text \<open>\<open>except sqlite3.IntegrityError: raise ValueError\<close> inside a transaction block.\<close>

definition integrity_as :: "exn \<Rightarrow> 'a st \<Rightarrow> 'a st" where
  "integrity_as e m = catchS m (\<lambda>x. if x = IntegrityError then Some (raiseS e) else None)"

definition register_capability :: "hash \<Rightarrow> capability \<Rightarrow> string \<Rightarrow> xnum \<Rightarrow> xnum \<Rightarrow> unit st" where
  "register_capability H c holds_id t1 t2 = transaction (
     integrity_as (ValueError ''capability_id or authority edge already registered'')
      (bindS (insert_capability (capability_row_for H c t1)) (\<lambda>_. insert_holds c holds_id t2)))"

definition capability_row_of :: "string \<Rightarrow> db \<Rightarrow> capability_row option" where
  "capability_row_of capability_id d =
     select_one (\<lambda>r. cr_capability_id r = capability_id) (t_capabilities d)"

definition find_capability :: "string \<Rightarrow> db \<Rightarrow> capability option" where
  "find_capability capability_id d = map_option cr_capability (capability_row_of capability_id d)"

definition capability_active_at :: "string \<Rightarrow> xnum \<Rightarrow> db \<Rightarrow> bool" where
  "capability_active_at capability_id now d = (case capability_row_of capability_id d of None \<Rightarrow> False
     | Some r \<Rightarrow> cr_status r = ''ACTIVE'' \<and> not_expired (cr_expires_at r) now)"

definition storage_capability :: "string \<Rightarrow> capability option st" where
  "storage_capability capability_id = query (find_capability capability_id)"

definition capability_status :: "string \<Rightarrow> string option st" where
  "capability_status capability_id =
     query (\<lambda>d. map_option cr_status (capability_row_of capability_id d))"

definition capability_is_active :: "string \<Rightarrow> xnum \<Rightarrow> bool st" where
  "capability_is_active capability_id now = query (capability_active_at capability_id now)"

definition revoke_capability :: "string \<Rightarrow> xnum \<Rightarrow> bool st" where
  "revoke_capability capability_id t =
     one_row (dml (upd t_capabilities (\<lambda>tab d. d\<lparr>t_capabilities := tab\<rparr>)
       (\<lambda>r. cr_capability_id r = capability_id \<and> cr_status r = ''ACTIVE'')
       (\<lambda>r. r\<lparr>cr_status := ''REVOKED'', cr_revoked_at := Some t\<rparr>)))"

section \<open>Edges and delegations\<close>

definition record_authority_edge :: "authority_edge \<Rightarrow> bool \<Rightarrow> unit st" where
  "record_authority_edge e do_commit =
     (let body = bindS (insert_edge (
            bindE (sql_real_nn (ae_created_at e)) (\<lambda>created.
            bindE (sql_opt_real (ae_revoked_at e)) (\<lambda>revoked.
              Inr \<lparr> eg_edge_id = ae_edge_id e, eg_source_type = ae_source_type e,
                    eg_source_id = ae_source_id e, eg_relation = ae_relation e,
                    eg_target_type = ae_target_type e, eg_target_id = ae_target_id e,
                    eg_status = ae_status e, eg_created_at = created, eg_revoked_at = revoked \<rparr>))))
          (\<lambda>_. commit_if do_commit);
          failed = raiseS (ValueError ''authority edge already exists'')
      in if do_commit then on_integrity body failed
         else integrity_as (ValueError ''authority edge already exists'') body)"

definition delegation_by_child :: "string \<Rightarrow> delegation_row option st" where
  "delegation_by_child child_id = query (\<lambda>d. select_one (\<lambda>r. dl_child r = child_id) (t_delegations d))"

definition opt_match :: "string option \<Rightarrow> string \<Rightarrow> bool" where
  "opt_match want v = (case want of None \<Rightarrow> True | Some w \<Rightarrow> v = w)"

definition edges_in :: "string option \<Rightarrow> string option \<Rightarrow> string option \<Rightarrow> string option \<Rightarrow> bool \<Rightarrow>
    db \<Rightarrow> edge_row list" where
  "edges_in source_type source_id target_type target_id active_only d = order_asc eg_created_at
     (filter (\<lambda>r. opt_match source_type (eg_source_type r) \<and> opt_match source_id (eg_source_id r) \<and>
        opt_match target_type (eg_target_type r) \<and> opt_match target_id (eg_target_id r) \<and>
        (active_only \<longrightarrow> eg_status r = ''ACTIVE'')) (t_edges d))"

definition authority_edges :: "string option \<Rightarrow> string option \<Rightarrow> string option \<Rightarrow> string option \<Rightarrow>
    bool \<Rightarrow> edge_row list st" where
  "authority_edges st si tt ti active_only = query (edges_in st si tt ti active_only)"

definition revoke_authority_edge :: "string \<Rightarrow> xnum \<Rightarrow> bool st" where
  "revoke_authority_edge edge_id t = one_row (dml (upd t_edges (\<lambda>tab d. d\<lparr>t_edges := tab\<rparr>)
     (\<lambda>r. eg_edge_id r = edge_id \<and> eg_status r = ''ACTIVE'')
     (\<lambda>r. r\<lparr>eg_status := ''REVOKED'', eg_revoked_at := Some t\<rparr>)))"

text \<open>\<open>clk\<close> gives the four readings of the clock, in the order of the statements that take them.\<close>

definition register_delegated_capability ::
    "hash \<Rightarrow> capability \<Rightarrow> string \<Rightarrow> string option \<Rightarrow> string option \<Rightarrow> string \<Rightarrow> string \<Rightarrow>
     (nat \<Rightarrow> xnum) \<Rightarrow> string st" where
  "register_delegated_capability H c parent_id delegator sig edge_id holds_id clk =
     bindS (transaction (
       bindS (query (capability_row_of parent_id)) (\<lambda>parent.
       case parent of
         None \<Rightarrow> raiseS (LookupError ''parent capability not found'')
       | Some p \<Rightarrow>
         if cr_status p \<noteq> ''ACTIVE'' then raiseS (PermissionError ''parent capability is not active'')
         else integrity_as
           (ValueError ''capability, authority edge or delegation evidence already exists'')
           (bindS (insert_capability (capability_row_for H c (clk 0))) (\<lambda>_.
            bindS (insert_edge (Inr (active_edge edge_id ''capability'' parent_id ''DELEGATES''
              (cap_id c) (clk 1)))) (\<lambda>_.
            bindS (insert_holds c holds_id (clk 2)) (\<lambda>_.
            case (given delegator, given sig) of
              (Some i, Some s) \<Rightarrow> insert_delegation (Inr \<lparr> dl_edge_id = edge_id, dl_parent = parent_id,
                 dl_child = cap_id c, dl_delegator = i, dl_signature = s,
                 dl_child_sha256 = capability_digest H c, dl_created_at = clk 3 \<rparr>)
            | _ \<Rightarrow> returnS ())))))))
     (\<lambda>_. returnS edge_id)"

section \<open>Every method advances the database\<close>

lemma one_row_advances [keeps_intros]: "dbo.advances m \<Longrightarrow> dbo.advances (one_row m)"
  unfolding one_row_def by (intro keeps_intros)

lemma integrity_as_advances [keeps_intros]: "dbo.advances m \<Longrightarrow> dbo.advances (integrity_as e m)"
  unfolding integrity_as_def
  by (intro dbo.advances_catch) (auto intro!: keeps_intros split: if_splits)

lemma register_identity_advances [keeps_intros]: "dbo.advances (register_identity H i t)"
  unfolding register_identity_def by (intro keeps_intros)

lemma insert_holds_advances [keeps_intros]: "dbo.advances (insert_holds c h t)"
  unfolding insert_holds_def by (intro keeps_intros)

lemma register_capability_advances [keeps_intros]: "dbo.advances (register_capability H c h t u)"
  unfolding register_capability_def by (intro keeps_intros)

lemma record_authority_edge_advances [keeps_intros]: "dbo.advances (record_authority_edge e b)"
  unfolding record_authority_edge_def Let_def by (intro keeps_intros)

lemma register_delegated_capability_advances [keeps_intros]:
  "dbo.advances (register_delegated_capability H c p i s e h clk)"
  unfolding register_delegated_capability_def by (intro keeps_intros)

lemma revocations_advance [keeps_intros]:
  "dbo.advances (revoke_identity i t)" "dbo.advances (revoke_capability c t)"
  "dbo.advances (revoke_authority_edge e t)"
  unfolding revoke_identity_def revoke_capability_def revoke_authority_edge_def
  by (intro keeps_intros; auto intro!: forward_upd db_le_update
      simp: identity_evolves_def capability_evolves_def edge_evolves_def)+

lemma authority_reads_advance [keeps_intros]:
  "dbo.advances (storage_identity i)" "dbo.advances (identity_is_active i t)"
  "dbo.advances (storage_capability c)" "dbo.advances (capability_status c)"
  "dbo.advances (capability_is_active c t)" "dbo.advances (delegation_by_child c)"
  "dbo.advances (authority_edges a b e f g)"
  unfolding storage_identity_def identity_is_active_def storage_capability_def
    capability_status_def capability_is_active_def delegation_by_child_def authority_edges_def
  by (intro keeps_intros)+

text \<open>A revocation is final: once revoked, never active again in any later contents.\<close>

lemma grows_first:
  assumes "grows Q xs ys" and "\<And>r s. Q r s \<Longrightarrow> p s = p r" and "select_one p xs = Some r"
  shows "\<exists>s. select_one p ys = Some s \<and> Q r s"
proof -
  from assms(1) obtain us vs where ys: "ys = us @ vs" and rel: "list_all2 Q xs us"
    by (auto simp: grows_def)
  from rel assms(3) have "\<exists>s. select_one p us = Some s \<and> Q r s"
    by (induction xs us rule: list_all2_induct) (use assms(2) in \<open>auto simp: select_one_def split: if_splits\<close>)
  then show ?thesis by (auto simp: ys select_one_append)
qed

lemma evolves_key:
  "capability_evolves r s \<Longrightarrow> cr_capability_id s = cr_capability_id r"
  "capability_evolves r s \<Longrightarrow> cr_capability s = cr_capability r"
  "identity_evolves i j \<Longrightarrow> ir_identity_id j = ir_identity_id i"
  "identity_evolves i j \<Longrightarrow> ir_identity j = ir_identity i"
  by (cases r; cases s; cases i; cases j; auto simp: capability_evolves_def identity_evolves_def)+

lemma capability_row_le:
  assumes "db_le d e" and "capability_row_of i d = Some r"
  shows "\<exists>s. capability_row_of i e = Some s \<and> capability_evolves r s"
  using assms unfolding capability_row_of_def
  by (intro grows_first [where Q = capability_evolves]) (simp_all add: db_le_def evolves_key)

lemma identity_row_le:
  assumes "db_le d e" and "identity_row_of i d = Some r"
  shows "\<exists>s. identity_row_of i e = Some s \<and> identity_evolves r s"
  using assms unfolding identity_row_of_def
  by (intro grows_first [where Q = identity_evolves]) (simp_all add: db_le_def evolves_key)

lemma capability_active_antimono:
  assumes "db_le d e" and "capability_row_of i d \<noteq> None" and "capability_active_at i now e"
  shows "capability_active_at i now d"
proof -
  from assms(2) obtain r where r: "capability_row_of i d = Some r" by blast
  from capability_row_le [OF assms(1) r] obtain s
    where s: "capability_row_of i e = Some s" "capability_evolves r s" by blast
  show ?thesis
  proof (cases "s = r")
    case False
    with s(2) have "cr_status s = ''REVOKED''"
      by (cases r; cases s) (auto simp: capability_evolves_def)
    with assms(3) s(1) show ?thesis by (simp add: capability_active_at_def)
  qed (use r s(1) assms(3) in \<open>simp add: capability_active_at_def\<close>)
qed

lemma identity_active_antimono:
  assumes "db_le d e" and "identity_row_of i d \<noteq> None" and "identity_active_at i now e"
  shows "identity_active_at i now d"
proof -
  from assms(2) obtain r where r: "identity_row_of i d = Some r" by blast
  from identity_row_le [OF assms(1) r] obtain s
    where s: "identity_row_of i e = Some s" "identity_evolves r s" by blast
  show ?thesis
  proof (cases "s = r")
    case False
    with s(2) have "ir_status s = ''REVOKED''"
      by (cases r; cases s) (auto simp: identity_evolves_def)
    with assms(3) s(1) show ?thesis by (simp add: identity_active_at_def)
  qed (use r s(1) assms(3) in \<open>simp add: identity_active_at_def\<close>)
qed

lemma find_capability_le:
  "db_le d e \<Longrightarrow> find_capability i d = Some c \<Longrightarrow> find_capability i e = Some c"
  using capability_row_le by (fastforce simp: find_capability_def evolves_key)

lemma find_identity_le:
  "db_le d e \<Longrightarrow> find_identity i d = Some c \<Longrightarrow> find_identity i e = Some c"
  using identity_row_le by (fastforce simp: find_identity_def evolves_key)

end
