(* ===== verification/Signing.thy ===== *)
theory Signing
  imports Json
begin

text \<open>
  Base64 as the sources use it (\<open>b64encode\<close> and \<open>b64decode(..., validate=True)\<close>) and Ed25519, whose
  implementation is a third-party package: its operations are the fields of a \<open>crypto\<close> argument.
\<close>

section \<open>Base64\<close>

definition b64_alphabet :: string where
  "b64_alphabet = ''ABCDEFGHIJKLMNOPQRSTUVWXYZabcdefghijklmnopqrstuvwxyz0123456789+/''"

definition b64_char :: "nat \<Rightarrow> char" where
  "b64_char n = b64_alphabet ! n"

definition b64_value :: "char \<Rightarrow> nat option" where
  "b64_value c = map_of (zip b64_alphabet [0..<64]) c"

abbreviation octet :: "char \<Rightarrow> nat" where
  "octet c \<equiv> of_char c"

fun b64encode :: "string \<Rightarrow> string" where
  "b64encode [] = []"
| "b64encode [a] = [b64_char (octet a div 4), b64_char (octet a mod 4 * 16), CHR ''='', CHR ''='']"
| "b64encode [a, b] = [b64_char (octet a div 4), b64_char (octet a mod 4 * 16 + octet b div 16),
     b64_char (octet b mod 16 * 4), CHR ''='']"
| "b64encode (a # b # c # r) =
     b64_char (octet a div 4) # b64_char (octet a mod 4 * 16 + octet b div 16) #
     b64_char (octet b mod 16 * 4 + octet c div 64) # b64_char (octet c mod 64) # b64encode r"

text \<open>
  Strict decoding: groups of four characters of the alphabet, padding only in the last group.  The
  unused low bits of a padded group are ignored, as \<open>binascii\<close> does.
\<close>

definition b64_group :: "nat \<Rightarrow> nat \<Rightarrow> nat \<Rightarrow> nat \<Rightarrow> string" where
  "b64_group p q s t = [char_of (p * 4 + q div 16), char_of (q mod 16 * 16 + s div 4),
     char_of (s mod 4 * 64 + t)]"

fun b64decode :: "string \<Rightarrow> string option" where
  "b64decode [] = Some []"
| "b64decode (w # x # y # z # r) =
     (case (b64_value w, b64_value x) of
        (Some p, Some q) \<Rightarrow>
          if r = [] \<and> y = CHR ''='' \<and> z = CHR ''='' then Some (take 1 (b64_group p q 0 0))
          else (case b64_value y of None \<Rightarrow> None | Some s \<Rightarrow>
            if r = [] \<and> z = CHR ''='' then Some (take 2 (b64_group p q s 0))
            else (case b64_value z of None \<Rightarrow> None | Some t \<Rightarrow>
              map_option ((@) (b64_group p q s t)) (b64decode r)))
      | _ \<Rightarrow> None)"
| "b64decode _ = None"

lemma b64_alphabet_distinct: "distinct b64_alphabet" "length b64_alphabet = 64"
  by (simp_all add: b64_alphabet_def)

lemma b64_value_char: "n < 64 \<Longrightarrow> b64_value (b64_char n) = Some n"
  unfolding b64_value_def b64_char_def
  by (rule map_of_is_SomeI) (auto simp: b64_alphabet_distinct set_zip)

lemma b64_value_pad: "b64_value (CHR ''='') = None"
  by code_simp

lemma b64_char_not_pad: "n < 64 \<Longrightarrow> b64_char n \<noteq> CHR ''=''"
  using b64_value_char [of n] b64_value_pad by auto

lemma octet_less: "octet c < 256"
  using of_char_of [of "of_char c :: nat"] by simp

lemma octet_bounds:
  "octet c div 4 < 64" "octet c div 16 < 16" "octet c div 64 < 4" "octet c mod 64 < 64"
  using octet_less [of c] by (simp_all add: less_mult_imp_div_less)

lemma sextets:
  "octet a mod 4 * 16 + octet b div 16 < 64" "octet b mod 16 * 4 + octet c div 64 < 64"
  "octet a mod 4 * 16 < 64" "octet b mod 16 * 4 < 64"
proof -
  have "octet a mod 4 < 4" "octet b mod 16 < 16" by simp_all
  with octet_bounds [of b] octet_bounds [of c] show
    "octet a mod 4 * 16 + octet b div 16 < 64" "octet b mod 16 * 4 + octet c div 64 < 64"
    "octet a mod 4 * 16 < 64" "octet b mod 16 * 4 < 64" by linarith+
qed

lemma recombine:
  "octet a div 4 * 4 + (octet a mod 4 * 16 + octet b div 16) div 16 = octet a"
  "(octet a mod 4 * 16 + octet b div 16) mod 16 * 16 + (octet b mod 16 * 4 + octet c div 64) div 4 = octet b"
  "(octet b mod 16 * 4 + octet c div 64) mod 4 * 64 + octet c mod 64 = octet c"
  using octet_bounds [of b] octet_bounds [of c] by (simp_all add: div_add1_eq mod_mult_self4)

lemma b64_group_encode:
  "b64_group (octet a div 4) (octet a mod 4 * 16 + octet b div 16)
     (octet b mod 16 * 4 + octet c div 64) (octet c mod 64) = [a, b, c]"
  unfolding b64_group_def recombine by simp

lemma b64decode_encode: "b64decode (b64encode bs) = Some bs"
proof (induction bs rule: b64encode.induct)
  case (2 a)
  show ?case using b64_group_encode [of a "CHR 0x00" "CHR 0x00"]
    by (simp add: b64_value_char octet_bounds sextets)
next
  case (3 a b)
  show ?case using b64_group_encode [of a b "CHR 0x00"]
    by (simp add: b64_value_char b64_char_not_pad octet_bounds sextets)
next
  case (4 a b c r)
  then show ?case
    by (simp add: b64_value_char b64_char_not_pad b64_group_encode octet_bounds sextets)
qed simp

section \<open>Ed25519\<close>

text \<open>
  \<open>cy_public k\<close> are the 32 raw bytes of the public key of the private key \<open>k\<close>, \<open>cy_sign k m\<close> the raw
  signature, \<open>cy_verify p s m\<close> whether \<open>verify\<close> returns rather than raising InvalidSignature.
\<close>

record crypto =
  cy_public :: "string \<Rightarrow> string"
  cy_sign :: "string \<Rightarrow> string \<Rightarrow> string"
  cy_verify :: "string \<Rightarrow> string \<Rightarrow> string \<Rightarrow> bool"

text \<open>The documented behaviour: what was signed verifies under the matching public key.\<close>

definition crypto_correct :: "crypto \<Rightarrow> bool" where
  "crypto_correct E \<longleftrightarrow> (\<forall>k m. length (cy_public E k) = 32 \<and>
     cy_verify E (cy_public E k) (cy_sign E k m) m)"

text \<open>\<open>base64.b64encode(private_key.sign(canonical)).decode("ascii")\<close>\<close>

definition sign_b64 :: "crypto \<Rightarrow> string \<Rightarrow> string \<Rightarrow> string" where
  "sign_b64 E key message = b64encode (cy_sign E key message)"

text \<open>Decode a base64 key and check that it has the length of an Ed25519 key.\<close>

definition decode_key :: "string \<Rightarrow> string option" where
  "decode_key text = (case b64decode text of None \<Rightarrow> None
     | Some raw \<Rightarrow> if length raw = 32 then Some raw else None)"

definition verify_b64 :: "crypto \<Rightarrow> string \<Rightarrow> string \<Rightarrow> string \<Rightarrow> bool" where
  "verify_b64 E raw_key signature message = (case b64decode signature of None \<Rightarrow> False
     | Some s \<Rightarrow> cy_verify E raw_key s message)"

lemma verify_sign_b64:
  "crypto_correct E \<Longrightarrow> verify_b64 E (cy_public E k) (sign_b64 E k m) m"
  by (simp add: verify_b64_def sign_b64_def b64decode_encode crypto_correct_def)

lemma decode_encoded_key: "length raw = 32 \<Longrightarrow> decode_key (b64encode raw) = Some raw"
  by (simp add: decode_key_def b64decode_encode)

text \<open>A signature scheme with the documented behaviour: the signature is the key with the message.\<close>

definition demo_crypto :: crypto where
  "demo_crypto = \<lparr> cy_public = \<lambda>k. take 32 (k @ replicate 32 CHR ''k''),
     cy_sign = \<lambda>k m. take 32 (k @ replicate 32 CHR ''k'') @ m,
     cy_verify = \<lambda>p s m. s = p @ m \<rparr>"

lemma demo_crypto_correct: "crypto_correct demo_crypto"
  by (auto simp: crypto_correct_def demo_crypto_def min_def)

end
