(* ===== verification/Registry.thy ===== *)
theory Registry
  imports Storage_Authority Signing
begin

text \<open>
  \<open>core/identity.py\<close>, \<open>core/capabilities.py\<close> and \<open>core/authority.py\<close>: agent signatures, the identity
  and capability registries, and the delegation of capabilities.  A method that reads the clock
  several times gets its readings as separate arguments; the loop over an authority chain reads
  it twice per step, \<open>clk (2 * depth)\<close> and \<open>clk (2 * depth + 1)\<close>.
\<close>

section \<open>Agent signatures\<close>

definition action_message :: "string \<Rightarrow> action_intent \<Rightarrow> string" where
  "action_message identity_id a = canon (JObj [
     (''identity_id'', JStr identity_id), (''action'', JObj (action_dict a))])"

definition sign_action_intent :: "crypto \<Rightarrow> action_intent \<Rightarrow> string \<Rightarrow> string \<Rightarrow> string" where
  "sign_action_intent E a identity_id key = sign_b64 E key (action_message identity_id a)"

definition verify_action_signature ::
    "crypto \<Rightarrow> action_intent \<Rightarrow> string \<Rightarrow> string \<Rightarrow> agent_identity \<Rightarrow> bool \<times> string" where
  "verify_action_signature E a identity_id sig i =
     (let invalid = (False, ''invalid or tampered agent action signature'') in
      if id_agent_id i \<noteq> ai_agent_id a then (False, ''identity agent mismatch'')
      else if id_public_key_b64 i = [] then (False, ''identity has no public key'')
      else (case b64decode (id_public_key_b64 i) of
          None \<Rightarrow> invalid
        | Some raw \<Rightarrow>
            if length raw \<noteq> 32 then (False, ''invalid identity public key'')
            else if verify_b64 E raw sig (action_message identity_id a)
            then (True, ''valid agent action signature'') else invalid))"

section \<open>IdentityRegistry\<close>

definition identity_register :: "hash \<Rightarrow> agent_identity \<Rightarrow> xnum \<Rightarrow> agent_identity st" where
  "identity_register H i t = (case b64decode (id_public_key_b64 i) of
     None \<Rightarrow> raiseS (ValueError ''invalid identity public key encoding'')
   | Some raw \<Rightarrow>
       if length raw \<noteq> 32 then raiseS (ValueError ''invalid identity public key length'')
       else if id_key_id i \<noteq> H raw
       then raiseS (ValueError ''identity key_id does not match public key fingerprint'')
       else bindS (register_identity H i t) (\<lambda>_. returnS i))"

definition identity_resolve :: "string \<Rightarrow> xnum \<Rightarrow> agent_identity st" where
  "identity_resolve identity_id now =
     bindS (storage_identity identity_id) (\<lambda>r. case r of
       None \<Rightarrow> raiseS (LookupError ''identity not found'')
     | Some i \<Rightarrow> bindS (identity_is_active identity_id now) (\<lambda>active.
         if active then returnS i else raiseS (PermissionError ''identity is not active'')))"

definition identity_authorize_action ::
    "crypto \<Rightarrow> string \<Rightarrow> action_intent \<Rightarrow> string \<Rightarrow> xnum \<Rightarrow> agent_identity st" where
  "identity_authorize_action E identity_id a sig now =
     bindS (identity_resolve identity_id now) (\<lambda>i.
     case verify_action_signature E a identity_id sig i of (valid, reason) \<Rightarrow>
       if valid then returnS i else raiseS (PermissionError reason))"

section \<open>CapabilityRegistry\<close>

definition capability_register :: "hash \<Rightarrow> capability \<Rightarrow> string \<Rightarrow> xnum \<Rightarrow> xnum \<Rightarrow> capability st" where
  "capability_register H c holds_id t1 t2 =
     (if cap_delegated_from c \<noteq> None then raiseS (PermissionError
        ''delegated capabilities must be registered through CapabilityDelegationService'')
      else bindS (case cap_identity_id c of
           None \<Rightarrow> returnS ()
         | Some identity_id \<Rightarrow> bindS (storage_identity identity_id) (\<lambda>r. case r of
               None \<Rightarrow> raiseS (LookupError ''capability identity not found'')
             | Some i \<Rightarrow> if id_agent_id i \<noteq> cap_agent_id c
                 then raiseS (PermissionError ''capability identity does not match agent'')
                 else returnS ())) (\<lambda>_.
        bindS (register_capability H c holds_id t1 t2) (\<lambda>_. returnS c)))"

definition default_max_depth :: nat where
  "default_max_depth = 32"

function chain_active :: "db \<Rightarrow> (nat \<Rightarrow> xnum) \<Rightarrow> nat \<Rightarrow> string list \<Rightarrow> nat \<Rightarrow> string option \<Rightarrow> bool" where
  "chain_active d clk max_depth visited depth None = True"
| "chain_active d clk max_depth visited depth (Some i) =
     (if List.member visited i then False
      else if max_depth < depth then False
      else (case find_capability i d of
          None \<Rightarrow> False
        | Some c \<Rightarrow>
            if \<not> capability_active_at i (clk (2 * depth)) d then False
            else if (case cap_identity_id c of None \<Rightarrow> False
                     | Some identity_id \<Rightarrow> \<not> identity_active_at identity_id (clk (2 * depth + 1)) d)
            then False
            else chain_active d clk max_depth (i # visited) (Suc depth) (cap_delegated_from c)))"
  by pat_completeness auto
termination
  by (relation "measure (\<lambda>(d, clk, m, v, depth, i). Suc m - depth)") auto

definition effective_active :: "string \<Rightarrow> (nat \<Rightarrow> xnum) \<Rightarrow> bool st" where
  "effective_active i clk = query (\<lambda>d. chain_active d clk default_max_depth [] 0 (Some i))"

definition capability_resolve :: "string \<Rightarrow> (nat \<Rightarrow> xnum) \<Rightarrow> capability st" where
  "capability_resolve i clk =
     bindS (storage_capability i) (\<lambda>r. case r of
       None \<Rightarrow> raiseS (LookupError ''capability not found'')
     | Some c \<Rightarrow> bindS (effective_active i clk) (\<lambda>active. if active then returnS c
         else raiseS (PermissionError
           ''capability is not active or has an ineffective authority chain'')))"

definition check_capability_identity :: "capability \<Rightarrow> string option \<Rightarrow> xnum \<Rightarrow> unit st" where
  "check_capability_identity c identity_id t = (case cap_identity_id c of
     None \<Rightarrow> returnS ()
   | Some own \<Rightarrow>
      if identity_id \<noteq> Some own then raiseS (PermissionError ''capability identity mismatch'')
      else bindS (identity_is_active own t) (\<lambda>active.
        if \<not> active then raiseS (PermissionError ''capability identity is not active'')
        else bindS (storage_identity own) (\<lambda>r.
          if (case r of None \<Rightarrow> False | Some i \<Rightarrow> id_agent_id i = cap_agent_id c) then returnS ()
          else raiseS (PermissionError ''capability identity binding is invalid''))))"

definition capability_authorize ::
    "string \<Rightarrow> action_intent \<Rightarrow> string option \<Rightarrow> (nat \<Rightarrow> xnum) \<Rightarrow> xnum \<Rightarrow> xnum \<Rightarrow> capability st" where
  "capability_authorize i a identity_id clk t1 t2 =
     bindS (capability_resolve i clk) (\<lambda>c.
     bindS (check_capability_identity c identity_id t1) (\<lambda>_.
     bindS (liftS (permits c a (NFlt t2))) (\<lambda>(permitted, reason).
     if permitted then returnS c else raiseS (PermissionError reason))))"

section \<open>Delegation: signature and scope\<close>

definition max_delegation_depth :: int where
  "max_delegation_depth = 32"

definition delegation_message :: "hash \<Rightarrow> string \<Rightarrow> capability \<Rightarrow> string \<Rightarrow> string" where
  "delegation_message H parent_id child delegator = canon (JObj [
     (''delegation_version'', JInt 1),
     (''parent_capability_id'', JStr parent_id),
     (''delegator_identity_id'', JStr delegator),
     (''child_capability'', capability_payload child),
     (''child_capability_sha256'', JStr (capability_digest H child))])"

definition sign_delegation :: "crypto \<Rightarrow> hash \<Rightarrow> string \<Rightarrow> capability \<Rightarrow> string \<Rightarrow> string \<Rightarrow> string" where
  "sign_delegation E H parent_id child delegator key =
     sign_b64 E key (delegation_message H parent_id child delegator)"

definition verify_delegation ::
    "crypto \<Rightarrow> hash \<Rightarrow> string \<Rightarrow> capability \<Rightarrow> string \<Rightarrow> string \<Rightarrow> agent_identity \<Rightarrow> bool \<times> string" where
  "verify_delegation E H parent_id child delegator sig i =
     (let invalid = (False, ''invalid or tampered capability delegation'') in
      if id_key_id i \<noteq> delegator then (False, ''delegator identity mismatch'')
      else (case b64decode (id_public_key_b64 i) of
          None \<Rightarrow> invalid
        | Some raw \<Rightarrow>
            if length raw \<noteq> 32 then (False, ''invalid delegator public key'')
            else if verify_b64 E raw sig (delegation_message H parent_id child delegator)
            then (True, ''valid capability delegation'') else invalid))"

definition is_subset :: "string list \<Rightarrow> string list \<Rightarrow> bool" where
  "is_subset child parent = (if parent = [] then True
     else child \<noteq> [] \<and> list_all (List.member parent) child)"

definition limits_subset :: "num dict \<Rightarrow> num dict \<Rightarrow> bool" where
  "limits_subset child parent =
     (if list_ex (\<lambda>(k, l). case dget parent k of None \<Rightarrow> False | Some p \<Rightarrow> num_lt p l) child then False
      else if parent = [] then True
      else list_all (\<lambda>(k, p). dget child k \<noteq> None) parent)"

fun first_excess :: "(string \<times> string list \<times> string list) list \<Rightarrow> string option" where
  "first_excess [] = None"
| "first_excess ((name, child, parent) # r) =
     (if is_subset child parent then first_excess r else Some name)"

definition scope_fields :: "capability \<Rightarrow> capability \<Rightarrow> (string \<times> string list \<times> string list) list" where
  "scope_fields parent child = [
     (''allowed_actions'', cap_actions child, cap_actions parent),
     (''allowed_purposes'', cap_purposes child, cap_purposes parent),
     (''allowed_targets'', cap_targets child, cap_targets parent),
     (''allowed_resources'', cap_resources child, cap_resources parent),
     (''allowed_networks'', cap_networks child, cap_networks parent),
     (''allowed_assets'', cap_assets child, cap_assets parent)]"

text \<open>One context constraint of the parent against the child's: narrower, or else exceeds.\<close>

definition constraint_narrows :: "json \<Rightarrow> json \<Rightarrow> bool res" where
  "constraint_narrows parent child = (case parent of
     JList ps \<Rightarrow> (case child of
         JList cs \<Rightarrow> set_subset cs ps
       | _ \<Rightarrow> Inr (py_in child ps))
   | _ \<Rightarrow> Inr (py_eq child parent))"

fun context_excess :: "jdict \<Rightarrow> jdict \<Rightarrow> string option res" where
  "context_excess [] child = Inr None"
| "context_excess ((key, expected) # r) child =
     (case dget child key of
        None \<Rightarrow> Inr (Some (''delegated context constraint '' @ quoted key @ '' was removed''))
      | Some v \<Rightarrow> bindE (constraint_narrows expected v) (\<lambda>ok.
          if ok then context_excess r child
          else Inr (Some (''delegated context constraint '' @ quoted key @ '' exceeds parent scope''))))"

definition validate_delegation_scope :: "capability \<Rightarrow> capability \<Rightarrow> (bool \<times> string) res" where
  "validate_delegation_scope parent child =
    (if cap_delegated_from child \<noteq> Some (cap_id parent)
       then Inr (False, ''delegated_from does not match parent capability'')
     else if cap_depth child \<noteq> cap_depth parent + 1 then Inr (False, ''invalid delegation depth'')
     else if cap_depth child > max_delegation_depth
       then Inr (False, ''delegation depth exceeds maximum'')
     else if cap_identity_id parent = None
       then Inr (False, ''parent capability is not identity-bound'')
     else if cap_delegated_by child \<noteq> cap_identity_id parent
       then Inr (False, ''delegator identity does not own parent capability'')
     else (case first_excess (scope_fields parent child) of
       Some name \<Rightarrow> Inr (False, ''delegated '' @ name @ '' exceeds parent scope'')
     | None \<Rightarrow>
     bindE (context_excess (cap_context parent) (cap_context child)) (\<lambda>excess. case excess of
       Some reason \<Rightarrow> Inr (False, reason)
     | None \<Rightarrow>
     if \<not> limits_subset (cap_max_per_action child) (cap_max_per_action parent)
       then Inr (False, ''delegated per-action limits exceed parent authority'')
     else if \<not> limits_subset (cap_aggregate_limits child) (cap_aggregate_limits parent)
       then Inr (False, ''delegated aggregate limits exceed parent authority'')
     else if \<not> list_all (List.member (cap_conditions child)) (cap_conditions parent)
       then Inr (False, ''delegation removed a parent condition'')
     else if (case cap_expires_at parent of None \<Rightarrow> False
              | Some p \<Rightarrow> (case cap_expires_at child of None \<Rightarrow> True | Some e \<Rightarrow> num_lt p e))
       then Inr (False, ''delegated capability outlives parent capability'')
     else Inr (True, ''delegation scope valid''))))"

section \<open>AuthorityGraph\<close>

definition stored_ids :: "db \<Rightarrow> string set" where
  "stored_ids d = (\<lambda>r. cap_id (cr_capability r)) ` set (t_capabilities d)"

lemma find_capability_stored: "find_capability i d = Some c \<Longrightarrow> cap_id c \<in> stored_ids d"
  by (auto simp: find_capability_def capability_row_of_def stored_ids_def dest!: select_one_Some)

text \<open>The chain of a capability from the leaf to the root; the loop stops at an unknown parent.\<close>

function path_up :: "db \<Rightarrow> string list \<Rightarrow> string \<Rightarrow> capability list res" where
  "path_up d visited i = (case find_capability i d of
     None \<Rightarrow> Inr []
   | Some c \<Rightarrow>
       if List.member visited (cap_id c)
       then Inl (RuntimeError ''authority graph cycle detected'')
       else (case cap_delegated_from c of
           None \<Rightarrow> Inr [c]
         | Some p \<Rightarrow> bindE (path_up d (cap_id c # visited) p) (\<lambda>rest. Inr (c # rest))))"
  by pat_completeness auto
termination
proof (relation "measure (\<lambda>(d, visited, i). card (stored_ids d - set visited))", simp)
  fix d :: db and visited :: "string list" and i c p
  assume "find_capability i d = Some c" and "\<not> List.member visited (cap_id c)"
  then have "cap_id c \<in> stored_ids d - set visited" using find_capability_stored by auto
  moreover have "finite (stored_ids d)" by (simp add: stored_ids_def)
  ultimately have "card (stored_ids d - set (cap_id c # visited)) < card (stored_ids d - set visited)"
    by (intro psubset_card_mono) auto
  then show "((d, cap_id c # visited, p), d, visited, i)
      \<in> measure (\<lambda>(d, visited, i). card (stored_ids d - set visited))" by simp
qed

declare path_up.simps [simp del] chain_active.simps [simp del]

definition authority_path :: "string \<Rightarrow> capability list st" where
  "authority_path i = bindS (query (\<lambda>d. path_up d [] i)) (\<lambda>r.
     bindS (liftS r) (\<lambda>up. returnS (rev up)))"

definition path_entry :: "hash \<Rightarrow> capability \<Rightarrow> json" where
  "path_entry H c = JObj [
     (''type'', JStr ''capability''), (''id'', JStr (cap_id c)), (''agent_id'', JStr (cap_agent_id c)),
     (''identity_id'', opt_str (cap_identity_id c)), (''version'', JInt (cap_version c)),
     (''digest'', JStr (capability_digest H c)),
     (''delegated_from'', opt_str (cap_delegated_from c)),
     (''delegation_depth'', JInt (cap_depth c))]"

definition opt_real :: "xnum option \<Rightarrow> json" where
  "opt_real v = (case v of None \<Rightarrow> JNull | Some x \<Rightarrow> JFloat x)"

definition edge_entry :: "edge_row \<Rightarrow> json" where
  "edge_entry e = JObj [
     (''edge_id'', JStr (eg_edge_id e)), (''source_type'', JStr (eg_source_type e)),
     (''source_id'', JStr (eg_source_id e)), (''relation'', JStr (eg_relation e)),
     (''target_type'', JStr (eg_target_type e)), (''target_id'', JStr (eg_target_id e)),
     (''status'', JStr (eg_status e)), (''created_at'', JFloat (eg_created_at e)),
     (''revoked_at'', opt_real (eg_revoked_at e))]"

definition graph_outgoing :: "string \<Rightarrow> string \<Rightarrow> edge_row list st" where
  "graph_outgoing node_type node_id = authority_edges (Some node_type) (Some node_id) None None True"

definition graph_incoming :: "string \<Rightarrow> string \<Rightarrow> edge_row list st" where
  "graph_incoming node_type node_id = authority_edges None None (Some node_type) (Some node_id) True"

definition graph_explain :: "hash \<Rightarrow> string \<Rightarrow> json st" where
  "graph_explain H i =
     bindS (storage_capability i) (\<lambda>r. case r of
       None \<Rightarrow> raiseS (LookupError ''capability not found'')
     | Some c \<Rightarrow>
       bindS (authority_path i) (\<lambda>path.
       bindS (graph_outgoing ''capability'' i) (\<lambda>out.
       bindS (graph_incoming ''capability'' i) (\<lambda>inc.
       returnS (JObj [
         (''capability'', capability_payload c),
         (''path'', JList (map (path_entry H) path)),
         (''outgoing_edges'', JList (map edge_entry out)),
         (''incoming_edges'', JList (map edge_entry inc))])))))"

section \<open>CapabilityDelegationService\<close>

record delegation_result =
  dr_capability :: capability
  dr_parent :: string
  dr_delegator :: string
  dr_edge_id :: string
  dr_path :: "capability list"

text \<open>
  \<open>delegate_from\<close> is \<open>delegate\<close> after the parent is resolved.  \<open>t1\<close>, \<open>t2\<close> are the readings of the two
  identity checks, \<open>clk'\<close> those of the registration and \<open>clk\<close> those of the parent's chain.
\<close>

definition delegate_from :: "crypto \<Rightarrow> hash \<Rightarrow> capability \<Rightarrow> string \<Rightarrow> capability \<Rightarrow> string \<Rightarrow> string \<Rightarrow>
    string \<Rightarrow> string \<Rightarrow> xnum \<Rightarrow> xnum \<Rightarrow> (nat \<Rightarrow> xnum) \<Rightarrow> delegation_result st" where
  "delegate_from E H parent parent_id child delegator sig edge_id holds_id t1 t2 clk' =
     bindS (storage_identity delegator) (\<lambda>r. case r of
       None \<Rightarrow> raiseS (LookupError ''delegator identity not found'')
     | Some identity \<Rightarrow>
     bindS (identity_is_active delegator t1) (\<lambda>active.
     if \<not> active then raiseS (PermissionError ''delegator identity is not active'')
     else if cap_identity_id parent \<noteq> Some delegator
       then raiseS (PermissionError ''delegator does not own parent capability'')
     else (case cap_identity_id child of
       None \<Rightarrow> raiseS (ValueError ''delegated capability must bind a recipient identity'')
     | Some recipient_id \<Rightarrow>
     bindS (storage_identity recipient_id) (\<lambda>r2. case r2 of
       None \<Rightarrow> raiseS (LookupError ''recipient identity not found'')
     | Some recipient \<Rightarrow>
     bindS (identity_is_active recipient_id t2) (\<lambda>active2.
     if \<not> active2 then raiseS (PermissionError ''recipient identity is not active'')
     else if id_agent_id recipient \<noteq> cap_agent_id child
       then raiseS (PermissionError ''recipient identity does not match child agent'')
     else
     bindS (liftS (validate_delegation_scope parent child)) (\<lambda>(valid_scope, reason).
     if \<not> valid_scope then raiseS (PermissionError reason)
     else (case verify_delegation E H parent_id child delegator sig identity of
       (valid_sig, reason2) \<Rightarrow>
     if \<not> valid_sig then raiseS (PermissionError reason2)
     else
     bindS (register_delegated_capability H child parent_id (Some delegator) (Some sig)
       edge_id holds_id clk') (\<lambda>eid.
     bindS (authority_path (cap_id child)) (\<lambda>path.
     returnS \<lparr> dr_capability = child, dr_parent = parent_id, dr_delegator = delegator,
               dr_edge_id = eid, dr_path = path \<rparr>)))))))))"

definition delegate :: "crypto \<Rightarrow> hash \<Rightarrow> string \<Rightarrow> capability \<Rightarrow> string \<Rightarrow> string \<Rightarrow> string \<Rightarrow> string \<Rightarrow>
    (nat \<Rightarrow> xnum) \<Rightarrow> xnum \<Rightarrow> xnum \<Rightarrow> (nat \<Rightarrow> xnum) \<Rightarrow> delegation_result st" where
  "delegate E H parent_id child delegator sig edge_id holds_id clk t1 t2 clk' =
     bindS (capability_resolve parent_id clk) (\<lambda>parent.
       delegate_from E H parent parent_id child delegator sig edge_id holds_id t1 t2 clk')"

fun revoke_edges :: "edge_row list \<Rightarrow> (nat \<Rightarrow> xnum) \<Rightarrow> nat \<Rightarrow> unit st" where
  "revoke_edges [] clk n = returnS ()"
| "revoke_edges (e # es) clk n =
     bindS (revoke_authority_edge (eg_edge_id e) (clk n)) (\<lambda>_. revoke_edges es clk (Suc n))"

definition delegation_revoke :: "string \<Rightarrow> xnum \<Rightarrow> (nat \<Rightarrow> xnum) \<Rightarrow> bool st" where
  "delegation_revoke child_id t clk =
     bindS (storage_capability child_id) (\<lambda>r. case r of
       None \<Rightarrow> returnS False
     | Some c \<Rightarrow>
       bindS (revoke_capability child_id t) (\<lambda>revoked.
       bindS (case given (cap_delegated_from c) of
           None \<Rightarrow> returnS ()
         | Some p \<Rightarrow> bindS (authority_edges (Some ''capability'') (Some p) (Some ''capability'')
             (Some child_id) True) (\<lambda>es. revoke_edges es clk 0)) (\<lambda>_.
       returnS revoked)))"

section \<open>Every operation advances the database\<close>

lemma identity_registry_advances [keeps_intros]:
  "dbo.advances (identity_register H i t)" "dbo.advances (identity_resolve j now)"
  unfolding identity_register_def identity_resolve_def by (intro keeps_intros)+

lemma identity_authorize_advances [keeps_intros]:
  "dbo.advances (identity_authorize_action E j a s now)"
  unfolding identity_authorize_action_def by (intro keeps_intros)

lemma capability_registry_advances [keeps_intros]:
  "dbo.advances (capability_register H c h t u)" "dbo.advances (effective_active j clk)"
  unfolding capability_register_def effective_active_def by (intro keeps_intros)+

lemma capability_resolve_advances [keeps_intros]: "dbo.advances (capability_resolve j clk)"
  unfolding capability_resolve_def by (intro keeps_intros)

lemma capability_authorize_advances [keeps_intros]:
  "dbo.advances (capability_authorize j a i clk t u)"
  unfolding capability_authorize_def check_capability_identity_def by (intro keeps_intros)

lemma authority_graph_advances [keeps_intros]:
  "dbo.advances (authority_path j)" "dbo.advances (graph_outgoing a b)"
  "dbo.advances (graph_incoming a b)"
  unfolding authority_path_def graph_outgoing_def graph_incoming_def by (intro keeps_intros)+

lemma graph_explain_advances [keeps_intros]: "dbo.advances (graph_explain H j)"
  unfolding graph_explain_def by (intro keeps_intros)

lemma delegate_advances [keeps_intros]:
  "dbo.advances (delegate E H p c i s e h clk t u clk')"
  unfolding delegate_def delegate_from_def by (intro keeps_intros)

lemma revoke_edges_advances [keeps_intros]: "dbo.advances (revoke_edges es clk n)"
  by (induction es arbitrary: n) (auto intro!: keeps_intros)

lemma delegation_revoke_advances [keeps_intros]: "dbo.advances (delegation_revoke j t clk)"
  unfolding delegation_revoke_def by (intro keeps_intros)

end
