(* ===== verification/Delegation.thy ===== *)
theory Delegation
  imports Registry Decisions
begin

text \<open>
  What delegation guarantees: the scope check of \<open>core/authority.py\<close> attenuates, the registries only
  ever store roots and attenuated children, so that authority chains are finite, acyclic and
  ordered by scope, and a chain is effective only while all of it is.
\<close>

section \<open>The scope check attenuates\<close>

lemma is_subset_mem:
  "is_subset child parent \<Longrightarrow> parent \<noteq> [] \<Longrightarrow> child \<noteq> [] \<and> set child \<subseteq> set parent"
  by (auto simp: is_subset_def list_all_iff)

lemma first_excess_None:
  "first_excess fs = None \<longleftrightarrow> (\<forall>(n, c, p)\<in>set fs. is_subset c p)"
  by (induction fs rule: first_excess.induct) auto

lemma py_eq_is_list: "py_eq v e \<Longrightarrow> is_list v = is_list e"
  by (cases v; cases e) auto

lemma context_value_simps:
  "context_value_ok (JList xs) a = py_in a xs"
  "\<not> is_list v \<Longrightarrow> context_value_ok v a = py_eq a v"
  by (simp add: context_value_ok_def, cases v) (simp_all add: context_value_ok_def)

lemma constraint_narrows_simps:
  "constraint_narrows (JList ps) (JList cs) = set_subset cs ps"
  "\<not> is_list v \<Longrightarrow> constraint_narrows (JList ps) v = Inr (py_in v ps)"
  "\<not> is_list e \<Longrightarrow> constraint_narrows e v = Inr (py_eq v e)"
  by (simp add: constraint_narrows_def, cases v, simp_all add: constraint_narrows_def)
     (cases e, simp_all)

lemma is_list_cases: "is_list v \<Longrightarrow> \<exists>xs. v = JList xs"
  by (cases v) auto

lemma py_in_trans: "py_eq a b \<Longrightarrow> py_in b xs \<Longrightarrow> py_in a xs"
  unfolding py_in_iff using py_eq_trans(1) by blast

lemma constraint_narrows_ok:
  assumes narrows: "constraint_narrows e v = Inr True" and ok: "context_value_ok v actual"
  shows "context_value_ok e actual"
proof (cases "is_list e")
  case True
  then obtain ps where e: "e = JList ps" using is_list_cases by blast
  show ?thesis
  proof (cases "is_list v")
    case True
    then obtain cs where v: "v = JList cs" using is_list_cases by blast
    from ok v obtain c where "c \<in> set cs" "py_eq actual c"
      by (auto simp: context_value_simps py_in_iff)
    moreover from narrows e v \<open>c \<in> set cs\<close> have "py_in c ps"
      by (simp add: constraint_narrows_simps set_subset_def list_all_iff split: if_splits)
    ultimately show ?thesis using e py_in_trans by (simp add: context_value_simps)
  next
    case False
    with narrows ok e py_in_trans show ?thesis
      by (simp add: constraint_narrows_simps context_value_simps)
  qed
next
  case False
  with narrows have "py_eq v e" by (simp add: constraint_narrows_simps)
  with False ok py_eq_is_list py_eq_trans(1) show ?thesis
    by (auto simp: context_value_simps)
qed

lemma context_excess_ok:
  assumes "context_excess ps cs = Inr None" and "context_violation cs ctx = None"
  shows "context_violation ps ctx = None"
  using assms(1)
proof (induction ps)
  case (Cons kv ps)
  obtain k e where kv: "kv = (k, e)" by fastforce
  from Cons.prems obtain v where v: "dget cs k = Some v" "constraint_narrows e v = Inr True"
      and rest: "context_excess ps cs = Inr None"
    by (auto simp: kv bindE_Inr_iff split: option.splits if_splits)
  from v(1) assms(2) have "context_value_ok v (jget ctx k)"
    by (auto simp: context_violation_None_iff dest!: dget_in)
  with v(2) have "context_value_ok e (jget ctx k)" by (rule constraint_narrows_ok)
  with Cons.IH [OF rest] show ?case by (simp add: kv)
qed simp

text \<open>Limits that compare alike as numbers and as the Decimals the check uses.\<close>

definition comparable :: "num \<Rightarrow> num \<Rightarrow> bool" where
  "comparable a b = (case (a, b) of
     (NInt i, NInt j) \<Rightarrow> True
   | (NFlt x, NFlt y) \<Rightarrow> wf_float x \<and> wf_float y \<and> x \<noteq> NaN \<and> y \<noteq> NaN
   | _ \<Rightarrow> False)"

lemma comparable_le:
  assumes "comparable p c" and "\<not> num_lt p c"
  shows "x_le (num_decimal c) (num_decimal p)"
proof (cases p)
  case (NInt i)
  with assms show ?thesis by (cases c) (auto simp: comparable_def num_lt_def)
next
  case (NFlt x)
  with assms(1) obtain y where c: "c = NFlt y" "wf_float x" "wf_float y" "x \<noteq> NaN" "y \<noteq> NaN"
    by (cases c) (auto simp: comparable_def)
  with assms(2) NFlt have "x_le y x" by (simp add: num_lt_def x_not_lt)
  with c NFlt show ?thesis by (simp add: float_decimal_le)
qed

definition comparable_limits :: "capability \<Rightarrow> capability \<Rightarrow> bool" where
  "comparable_limits parent child \<longleftrightarrow>
     (\<forall>k p c. dget (cap_max_per_action parent) k = Some p \<longrightarrow>
        dget (cap_max_per_action child) k = Some c \<longrightarrow> comparable p c) \<and>
     cap_expires_at child \<noteq> Some (NFlt NaN)"

lemma limits_subset_ok:
  assumes "limits_subset cs ps" and "dget ps k = Some p"
  shows "\<exists>c. dget cs k = Some c \<and> \<not> num_lt p c"
proof -
  from assms have "(k, p) \<in> set ps" by (simp add: dget_in)
  then have "ps \<noteq> []" by auto
  with assms(1) \<open>(k, p) \<in> set ps\<close> obtain c where c: "dget cs k = Some c"
    by (auto simp: limits_subset_def list_all_iff list_ex_iff split: if_splits)
  with assms(1) have "(k, c) \<in> set cs" by (simp add: dget_in)
  with assms c show ?thesis
    by (fastforce simp: limits_subset_def list_ex_iff split: if_splits)
qed

text \<open>What a successful check establishes.\<close>

lemma validate_facts:
  assumes "accepts (validate_delegation_scope parent child)"
  shows "cap_delegated_from child = Some (cap_id parent)"
    and "cap_depth child = cap_depth parent + 1" and "cap_depth child \<le> max_delegation_depth"
    and "cap_identity_id parent \<noteq> None \<and> cap_delegated_by child = cap_identity_id parent"
    and "\<forall>(n, c, p)\<in>set (scope_fields parent child). is_subset c p"
    and "context_excess (cap_context parent) (cap_context child) = Inr None"
    and "limits_subset (cap_max_per_action child) (cap_max_per_action parent)"
    and "limits_subset (cap_aggregate_limits child) (cap_aggregate_limits parent)"
    and "set (cap_conditions parent) \<subseteq> set (cap_conditions child)"
    and "\<forall>p. cap_expires_at parent = Some p \<longrightarrow>
      (\<exists>e. cap_expires_at child = Some e \<and> \<not> num_lt p e)"
proof -
  note facts = assms [unfolded validate_delegation_scope_def accepts_simps accepts_bind
      first_excess_None]
  then show "cap_delegated_from child = Some (cap_id parent)"
    "cap_depth child = cap_depth parent + 1" "cap_depth child \<le> max_delegation_depth"
    "cap_identity_id parent \<noteq> None \<and> cap_delegated_by child = cap_identity_id parent"
    "\<forall>(n, c, p)\<in>set (scope_fields parent child). is_subset c p"
    by auto
  from facts show "context_excess (cap_context parent) (cap_context child) = Inr None"
    "limits_subset (cap_max_per_action child) (cap_max_per_action parent)"
    "limits_subset (cap_aggregate_limits child) (cap_aggregate_limits parent)"
    "set (cap_conditions parent) \<subseteq> set (cap_conditions child)"
    "\<forall>p. cap_expires_at parent = Some p \<longrightarrow>
      (\<exists>e. cap_expires_at child = Some e \<and> \<not> num_lt p e)"
    by (auto simp: list_all_iff split: option.splits)
qed

lemma subset_scope:
  "is_subset cs ps \<Longrightarrow> (cs \<noteq> [] \<longrightarrow> x \<in> set cs) \<Longrightarrow> ps \<noteq> [] \<longrightarrow> x \<in> set ps"
  using is_subset_mem by blast

lemma subset_opt:
  "is_subset cs ps \<Longrightarrow> (cs \<noteq> [] \<longrightarrow> opt_mem x cs) \<Longrightarrow> ps \<noteq> [] \<longrightarrow> opt_mem x ps"
  using is_subset_mem by (fastforce simp: opt_mem_def split: option.splits)

lemma subset_lower:
  "is_subset cs ps \<Longrightarrow> (cs \<noteq> [] \<longrightarrow> lower_mem x cs) \<Longrightarrow> ps \<noteq> [] \<longrightarrow> lower_mem x ps"
  using is_subset_mem lower_mem_mono by blast

lemma amount_within_mono:
  assumes "limits_subset cs ps" and "amount_within (dget cs k) a"
    and "\<And>p c. dget ps k = Some p \<Longrightarrow> dget cs k = Some c \<Longrightarrow> comparable p c"
  shows "amount_within (dget ps k) a"
proof (cases "dget ps k")
  case (Some p)
  from limits_subset_ok [OF assms(1) this] obtain c
    where c: "dget cs k = Some c" "\<not> num_lt p c" by blast
  with assms(3) Some have "x_le (num_decimal c) (num_decimal p)" by (blast intro: comparable_le)
  then have "exceeds x (PNum c) = Inr False \<Longrightarrow> exceeds x (PNum p) = Inr False" for x
    by (elim exceeds_mono) simp
  with assms(2) c Some show ?thesis by (auto simp: amount_within_def)
qed (simp add: amount_within_def)

definition acting_for :: "capability \<Rightarrow> action_intent \<Rightarrow> action_intent" where
  "acting_for c a = a\<lparr>ai_agent_id := cap_agent_id c\<rparr>"

lemma exact_amount_agent [simp]: "exact_amount (acting_for c a) = exact_amount a"
  by (cases "ai_amount_exact a") (simp_all add: exact_amount_def acting_for_def)

lemma acting_for_simps [simp]:
  "acting_for c (acting_for d a) = acting_for c a" "asset_key (acting_for c a) = asset_key a"
  "amount_within l (acting_for c a) = amount_within l a"
  by (simp add: acting_for_def, simp add: acting_for_def asset_key_def)
     (simp add: amount_within_def split: option.splits)

lemma acting_for_fields:
  "ai_agent_id (acting_for c a) = cap_agent_id c" "ai_action_type (acting_for c a) = ai_action_type a"
  "ai_purpose (acting_for c a) = ai_purpose a" "ai_target (acting_for c a) = ai_target a"
  "ai_declared_context (acting_for c a) = ai_declared_context a"
  "ai_resource (acting_for c a) = ai_resource a" "ai_network (acting_for c a) = ai_network a"
  "ai_asset (acting_for c a) = ai_asset a"
  by (simp_all add: acting_for_def)

lemma in_scope_acting_for: "ai_agent_id a = cap_agent_id c \<Longrightarrow> acting_for c a = a"
  by (simp add: acting_for_def)

lemma scope_attenuates:
  assumes valid: "accepts (validate_delegation_scope parent child)"
    and limits: "comparable_limits parent child" and child: "in_scope child a now"
  shows "in_scope parent (acting_for parent a) now"
proof -
  note facts = validate_facts [OF valid]
  note sub = facts(5) [unfolded scope_fields_def, simplified]
  have expiry: "\<forall>e. cap_expires_at parent = Some e \<longrightarrow> \<not> num_le e now"
  proof (intro allI impI notI)
    fix p assume p: "cap_expires_at parent = Some p" and "num_le p now"
    from facts(10) p obtain e where e: "cap_expires_at child = Some e" "\<not> num_lt p e" by blast
    with limits have "num_x e \<noteq> NaN" by (cases e) (auto simp: comparable_limits_def)
    moreover from \<open>num_le p now\<close> have "num_x p \<noteq> NaN" by (auto simp: num_le_def)
    ultimately have "num_le e now"
      using e(2) \<open>num_le p now\<close> by (auto simp: num_lt_def num_le_def x_not_lt intro: x_le_trans)
    with child e(1) show False by (simp add: in_scope_def)
  qed
  have amount: "amount_within (dget (cap_max_per_action parent) (asset_key a)) a"
  proof (rule amount_within_mono [OF facts(7)])
    show "amount_within (dget (cap_max_per_action child) (asset_key a)) a"
      using child unfolding in_scope_def by (elim conjE)
  qed (use limits in \<open>simp add: comparable_limits_def\<close>)
  have ctx_ok: "context_violation (cap_context parent) (ai_declared_context a) = None"
  proof (rule context_excess_ok [OF facts(6)])
    show "context_violation (cap_context child) (ai_declared_context a) = None"
      using child unfolding in_scope_def by (elim conjE)
  qed
  have s: "is_subset (cap_actions child) (cap_actions parent)"
    "is_subset (cap_purposes child) (cap_purposes parent)"
    "is_subset (cap_targets child) (cap_targets parent)"
    "is_subset (cap_resources child) (cap_resources parent)"
    "is_subset (cap_networks child) (cap_networks parent)"
    "is_subset (cap_assets child) (cap_assets parent)"
    using sub by blast+
  note c = child [unfolded in_scope_def, THEN conjunct2, THEN conjunct2]
  have "cap_actions parent \<noteq> [] \<longrightarrow> ai_action_type a \<in> set (cap_actions parent)"
    by (rule subset_scope [OF s(1)]) (use c in simp)
  moreover have "cap_purposes parent \<noteq> [] \<longrightarrow> lower_mem (ai_purpose a) (cap_purposes parent)"
    by (rule subset_lower [OF s(2)]) (use c in simp)
  moreover have "cap_targets parent \<noteq> [] \<longrightarrow> ai_target a \<in> set (cap_targets parent)"
    by (rule subset_scope [OF s(3)]) (use c in simp)
  moreover have "cap_resources parent \<noteq> [] \<longrightarrow> ai_resource a \<in> set (cap_resources parent)"
    by (rule subset_scope [OF s(4)]) (use c in simp)
  moreover have "cap_networks parent \<noteq> [] \<longrightarrow> opt_mem (ai_network a) (cap_networks parent)"
    by (rule subset_opt [OF s(5)]) (use c in simp)
  moreover have "cap_assets parent \<noteq> [] \<longrightarrow> opt_mem (ai_asset a) (cap_assets parent)"
    by (rule subset_opt [OF s(6)]) (use c in simp)
  ultimately show ?thesis
    unfolding in_scope_def acting_for_fields acting_for_simps
    using expiry amount ctx_ok by (intro conjI) (rule refl | assumption)+
qed

section \<open>What the registries store\<close>

text \<open>The stored capabilities with their keys, and the order "nothing but \<open>Q\<close> is added".\<close>

definition stored :: "db \<Rightarrow> (string \<times> capability) set" where
  "stored d = (\<lambda>r. (cr_capability_id r, cr_capability r)) ` set (t_capabilities d)"

definition adds_le :: "(capability \<Rightarrow> bool) \<Rightarrow> db \<Rightarrow> db \<Rightarrow> bool" where
  "adds_le Q d e \<longleftrightarrow> db_le d e \<and> stored e \<subseteq> stored d \<union> {(cap_id c, c) | c. Q c}"

interpretation adds: db_order "adds_le Q" for Q
proof
  show "adds_le Q d d" for d by (simp add: adds_le_def dbo.R_refl)
  show "adds_le Q d f" if "adds_le Q d e" "adds_le Q e f" for d e f
    using that by (auto simp: adds_le_def intro: dbo.R_trans)
qed

lemma adds_insert_capability [keeps_intros]:
  assumes "Q c" shows "adds.advances Q (insert_capability (capability_row_for H c t))"
proof -
  have "db_le d e" if "ins capability_clash t_capabilities (\<lambda>tab d. d\<lparr>t_capabilities := tab\<rparr>) r d =
      Inr (e, u)" for r d e u
    using that by (auto simp: ins_def bindE_Inr_iff db_le_def db_unique_def
        intro: grows_insert capability_tab.insert_keeps)
  with assms show ?thesis
    unfolding insert_capability_def
    by (intro adds.advances_dml)
       (auto simp: adds.forward_def adds_le_def stored_def ins_def bindE_Inr_iff insert_row_Inr
          capability_row_for_def)
qed

lemma adds_other [keeps_intros]:
  "adds.advances Q (insert_edge r1)" "adds.advances Q (insert_delegation r2)"
  "adds.advances Q (insert_identity r3)"
  unfolding insert_edge_def insert_delegation_def insert_identity_def
  by (rule adds.advances_dml; auto simp: adds.forward_def adds_le_def stored_def ins_def
      bindE_Inr_iff db_le_def db_unique_def
      intro: grows_insert edge_tab.insert_keeps delegation_tab.insert_keeps identity_tab.insert_keeps)+

lemma adds_revocations [keeps_intros]:
  "adds.advances Q (revoke_identity i t)" "adds.advances Q (revoke_capability c t)"
  "adds.advances Q (revoke_authority_edge e t)"
proof -
  have upd: "adds.advances Q (dml (upd get put p f))"
    if "\<And>d. adds_le Q d (put (fst (update_rows p f (get d))) d)" for get put p and f :: "'r \<Rightarrow> 'r"
    using that by (intro adds.advances_dml) (auto simp: adds.forward_def upd_def Let_def)
  have one: "adds.advances Q m \<Longrightarrow> adds.advances Q (one_row m)" for m
    unfolding one_row_def by (intro keeps_intros)
  show "adds.advances Q (revoke_identity i t)"
    unfolding revoke_identity_def
    by (intro one upd) (auto simp: adds_le_def stored_def identity_evolves_def intro!: db_le_update)
  show "adds.advances Q (revoke_capability c t)"
    unfolding revoke_capability_def
    by (intro one upd) (auto simp: adds_le_def stored_def update_rows_def capability_evolves_def
        intro!: db_le_update [unfolded update_rows_def fst_conv])
  show "adds.advances Q (revoke_authority_edge e t)"
    unfolding revoke_authority_edge_def
    by (intro one upd) (auto simp: adds_le_def stored_def edge_evolves_def intro!: db_le_update)
qed

lemma adds_helpers [keeps_intros]:
  "adds.advances Q m \<Longrightarrow> adds.advances Q (integrity_as e m)"
  "adds.advances Q (insert_holds c h t)"
  unfolding integrity_as_def insert_holds_def
  by (intro adds.advances_catch; auto intro!: keeps_intros split: if_splits) (intro keeps_intros)

lemma adds_reads [keeps_intros]:
  "adds.advances Q (storage_identity i)" "adds.advances Q (identity_is_active i t)"
  "adds.advances Q (authority_path i)"
  unfolding storage_identity_def identity_is_active_def authority_path_def by (intro keeps_intros)+

lemma adds_capability_register:
  "adds.advances (\<lambda>x. x = c \<and> cap_delegated_from c = None) (capability_register H c h t u)"
proof (cases "cap_delegated_from c")
  case None
  then show ?thesis
    unfolding capability_register_def register_capability_def storage_identity_def
    by (intro keeps_intros) simp_all
qed (simp add: capability_register_def, intro keeps_intros)

lemma adds_identity_register: "adds.advances (\<lambda>x. False) (identity_register H i t)"
  unfolding identity_register_def register_identity_def by (intro keeps_intros)

lemma adds_delegation_revoke: "adds.advances (\<lambda>x. False) (delegation_revoke j t clk)"
proof -
  have "adds.advances (\<lambda>x. False) (revoke_edges es clk n)" for es n
    by (induction es arbitrary: n) (auto intro!: keeps_intros)
  then show ?thesis
    unfolding delegation_revoke_def storage_capability_def authority_edges_def
    by (intro keeps_intros)
qed

lemma adds_delegate_from:
  "adds.advances (\<lambda>x. x = child \<and> accepts (validate_delegation_scope parent child))
     (delegate_from E H parent p child i s e h t u clk)" (is "adds.advances ?Q _")
proof -
  have reg: "adds.advances ?Q (register_delegated_capability H child p (Some i) (Some s) e h clk)"
    if "accepts (validate_delegation_scope parent child)"
    using that unfolding register_delegated_capability_def by (intro keeps_intros) simp_all
  consider e where "validate_delegation_scope parent child = Inl e"
    | r where "validate_delegation_scope parent child = Inr (False, r)"
    | r where "validate_delegation_scope parent child = Inr (True, r)"
    by (metis sum.exhaust surj_pair)
  then show ?thesis
  proof cases
    case 1
    show ?thesis unfolding delegate_from_def 1 bindS_simps by (intro keeps_intros)
  next
    case 2
    show ?thesis unfolding delegate_from_def 2 bindS_simps prod.case by (intro keeps_intros) simp
  next
    case 3
    then have "adds.advances ?Q (register_delegated_capability H child p (Some i) (Some s) e h clk)"
      by (intro reg) simp
    then show ?thesis unfolding delegate_from_def 3 bindS_simps prod.case by (intro keeps_intros)
  qed
qed

lemma capability_resolve_reads: "fst (capability_resolve i clk c) = c"
proof -
  have "keeps (\<lambda>s. s = c) (capability_resolve i clk)"
    unfolding capability_resolve_def storage_capability_def effective_active_def
    by (intro keeps_intros)
  then show ?thesis by (simp add: keeps_def)
qed

lemma capability_resolve_found:
  "capability_resolve i clk c = (c', Inr p) \<Longrightarrow> c' = c \<and> find_capability i (cur c) = Some p"
  using capability_resolve_reads [of i clk c]
  by (auto simp: capability_resolve_def storage_capability_def effective_active_def bindS_apply
      split: option.splits if_splits)

section \<open>Reachable registries\<close>

inductive registries :: "crypto \<Rightarrow> hash \<Rightarrow> db conn \<Rightarrow> bool" for E H where
  start: "registries E H fresh"
| identity: "registries E H c \<Longrightarrow> registries E H (fst (identity_register H i t c))"
| identity_revoked: "registries E H c \<Longrightarrow> registries E H (fst (revoke_identity j t c))"
| root: "registries E H c \<Longrightarrow> registries E H (fst (capability_register H cap h t1 t2 c))"
| delegated: "registries E H c \<Longrightarrow>
    registries E H (fst (delegate E H p child i s e h clk t1 t2 clk' c))"
| revoked: "registries E H c \<Longrightarrow> registries E H (fst (revoke_capability j t c))"
| delegation_revoked: "registries E H c \<Longrightarrow> registries E H (fst (delegation_revoke j t clk c))"

lemma quiet_one_row [keeps_intros]: "keeps quiet (one_row (dml f))"
  unfolding one_row_def by (rule quiet_dml_then) (simp add: bindS_apply)

lemma quiet_steps:
  "keeps quiet (identity_register H i t)" "keeps quiet (revoke_identity j t)"
  "keeps quiet (capability_register H cap h t1 t2)" "keeps quiet (revoke_capability j t)"
  "keeps quiet (delegate E H p child j s e h clk t1 t2 clk')"
  "keeps quiet (delegation_revoke j t clk')"
proof -
  have edges: "keeps quiet (revoke_edges es clk n)" for es clk n
    by (induction es arbitrary: n) (auto simp: revoke_authority_edge_def intro!: keeps_intros)
  show "keeps quiet (identity_register H i t)"
    unfolding identity_register_def register_identity_def insert_identity_def
    by (intro keeps_intros quiet_dml_then) simp
  show "keeps quiet (revoke_identity j t)" "keeps quiet (revoke_capability j t)"
    unfolding revoke_identity_def revoke_capability_def by (intro keeps_intros)+
  show "keeps quiet (capability_register H cap h t1 t2)"
    unfolding capability_register_def register_capability_def storage_identity_def
    by (intro keeps_intros)
  show "keeps quiet (delegate E H p child j s e h clk t1 t2 clk')"
    unfolding delegate_def delegate_from_def capability_resolve_def effective_active_def
      storage_capability_def storage_identity_def identity_is_active_def authority_path_def
      register_delegated_capability_def
    by (intro keeps_intros)
  show "keeps quiet (delegation_revoke j t clk')"
    unfolding delegation_revoke_def storage_capability_def authority_edges_def revoke_capability_def
    by (intro keeps_intros edges)
qed

text \<open>Every stored capability is a root or within the scope of its stored parent.\<close>

definition lawful :: "db \<Rightarrow> bool" where
  "lawful d \<longleftrightarrow> (\<forall>(k, c)\<in>stored d. k = cap_id c \<and> (\<forall>p. cap_delegated_from c = Some p \<longrightarrow>
     (\<exists>parent. find_capability p d = Some parent \<and> accepts (validate_delegation_scope parent c))))"

lemma find_stored: "find_capability i d = Some c \<Longrightarrow> (i, c) \<in> stored d"
  by (auto simp: find_capability_def capability_row_of_def stored_def dest!: select_one_Some)

lemma lawful_find: "lawful d \<Longrightarrow> find_capability i d = Some c \<Longrightarrow> cap_id c = i"
  by (auto simp: lawful_def dest!: find_stored)

lemma lawful_parent:
  "lawful d \<Longrightarrow> find_capability i d = Some c \<Longrightarrow> cap_delegated_from c = Some p \<Longrightarrow>
     \<exists>parent. find_capability p d = Some parent \<and> accepts (validate_delegation_scope parent c)"
  by (auto simp: lawful_def dest!: find_stored)

lemma lawful_adds:
  assumes "lawful d" and "adds_le Q d e"
    and new: "\<And>c. Q c \<Longrightarrow> cap_delegated_from c = None \<or>
      (\<exists>p parent. find_capability p d = Some parent \<and> accepts (validate_delegation_scope parent c))"
  shows "lawful e"
  unfolding lawful_def
proof (clarify, intro conjI allI impI)
  fix k c assume kc: "(k, c) \<in> stored e"
  with assms(2) consider "(k, c) \<in> stored d" | "k = cap_id c" "Q c" by (auto simp: adds_le_def)
  note cases = this
  show "k = cap_id c" using cases assms(1) by cases (auto simp: lawful_def)
  fix p assume p: "cap_delegated_from c = Some p"
  have "\<exists>parent. find_capability p d = Some parent \<and> accepts (validate_delegation_scope parent c)"
  proof (cases rule: cases)
    case 1
    with assms(1) p show ?thesis by (auto simp: lawful_def)
  next
    case 2
    from new [OF 2(2)] p obtain q parent where q: "find_capability q d = Some parent"
      "accepts (validate_delegation_scope parent c)" by auto
    with p validate_facts(1) lawful_find [OF assms(1) q(1)] show ?thesis by fastforce
  qed
  moreover from assms(2) have "db_le d e" by (simp add: adds_le_def)
  ultimately show "\<exists>parent. find_capability p e = Some parent \<and>
      accepts (validate_delegation_scope parent c)"
    using find_capability_le by blast
qed

lemma adds_step:
  assumes "adds.advances Q m" and "quiet c" and "keeps quiet m"
  shows "adds_le Q (disk c) (disk (fst (m c))) \<and> quiet (fst (m c))"
proof -
  have "adds.conn_ok Q c"
    using assms(2) by (simp add: adds.conn_ok_def quiet_def adds.R_refl)
  with assms(1) have "adds_le Q (disk c) (disk (fst (m c)))" by (simp add: adds.advances_def)
  with assms(2,3) show ?thesis by (simp add: keeps_def)
qed

lemma registries_step:
  assumes "lawful (disk c)" and "quiet c" and "adds.advances Q m" and "keeps quiet m"
    and "\<And>x. Q x \<Longrightarrow> cap_delegated_from x = None \<or> (\<exists>p parent.
      find_capability p (disk c) = Some parent \<and> accepts (validate_delegation_scope parent x))"
  shows "lawful (disk (fst (m c))) \<and> quiet (fst (m c))"
  using adds_step [OF assms(3,2,4)] lawful_adds [OF assms(1) _ assms(5)] by blast

lemma registries_inv: "registries E H c \<Longrightarrow> lawful (disk c) \<and> quiet c"
proof (induction rule: registries.induct)
  case start
  show ?case by (simp add: fresh_def empty_db_def lawful_def stored_def)
next
  case (identity c i t)
  then show ?case
    by (intro registries_step [OF _ _ adds_identity_register quiet_steps(1)]) auto
next
  case (identity_revoked c j t)
  then show ?case
    by (intro registries_step [OF _ _ adds_revocations(1) [where Q = "\<lambda>x. False"] quiet_steps(2)]) auto
next
  case (root c cap h t1 t2)
  then show ?case
    by (intro registries_step [OF _ _ adds_capability_register quiet_steps(3)]) auto
next
  case (delegated c p child i s e h clk t1 t2 clk')
  show ?case
  proof (cases "capability_resolve p clk c")
    case (Pair c1 r)
    with capability_resolve_reads [of p clk c] have c1: "c1 = c" by simp
    show ?thesis
    proof (cases r)
      case (Inl x)
      with Pair c1 delegated.IH show ?thesis by (simp add: delegate_def bindS_apply)
    next
      case (Inr parent)
      with Pair capability_resolve_found delegated.IH
      have found: "find_capability p (disk c) = Some parent" by (metis quiet_def)
      have run: "delegate E H p child i s e h clk t1 t2 clk' c =
          delegate_from E H parent p child i s e h t1 t2 clk' c"
        using Pair Inr c1 by (simp add: delegate_def bindS_apply)
      have "keeps quiet (delegate_from E H parent p child i s e h t1 t2 clk')"
        unfolding delegate_from_def storage_identity_def identity_is_active_def authority_path_def
          register_delegated_capability_def by (intro keeps_intros)
      with delegated.IH found show ?thesis unfolding run
        by (intro registries_step [OF _ _ adds_delegate_from]) auto
    qed
  qed
next
  case (revoked c j t)
  then show ?case
    by (intro registries_step [OF _ _ adds_revocations(2) [where Q = "\<lambda>x. False"] quiet_steps(4)]) auto
next
  case (delegation_revoked c j t clk)
  then show ?case
    by (intro registries_step [OF _ _ adds_delegation_revoke quiet_steps(6)]) auto
qed

section \<open>Authority chains\<close>

text \<open>A chain from a leaf up: each capability within the scope of the next, the last one a root.\<close>

fun linked :: "capability list \<Rightarrow> bool" where
  "linked [] = False"
| "linked [c] = (cap_delegated_from c = None)"
| "linked (c # p # r) = (accepts (validate_delegation_scope p c) \<and> linked (p # r))"

fun comparable_chain :: "capability list \<Rightarrow> bool" where
  "comparable_chain (c # p # r) = (comparable_limits p c \<and> comparable_chain (p # r))"
| "comparable_chain _ = True"

lemma path_up_linked:
  assumes "lawful d" and "find_capability i d = Some c"
    and "\<And>v. v \<in> set visited \<Longrightarrow> \<exists>b. find_capability v d = Some b \<and> cap_depth c < cap_depth b"
  shows "\<exists>cs. path_up d visited i = Inr (c # cs) \<and> linked (c # cs)"
  using assms
proof (induction d visited i arbitrary: c rule: path_up.induct)
  case (1 d visited i)
  note law = 1(2) and c = 1(3) and above = 1(4)
  have id: "cap_id c = i" using law c by (rule lawful_find)
  with c above have fresh_id: "cap_id c \<notin> set visited" by fastforce
  show ?case
  proof (cases "cap_delegated_from c")
    case None
    with c fresh_id show ?thesis by (simp add: path_up.simps)
  next
    case (Some p)
    from lawful_parent [OF law c Some] obtain parent
      where parent: "find_capability p d = Some parent"
        and valid: "accepts (validate_delegation_scope parent c)" by blast
    from validate_facts(2) [OF valid] have less: "cap_depth parent < cap_depth c" by simp
    have "\<exists>b. find_capability v d = Some b \<and> cap_depth parent < cap_depth b"
      if "v \<in> set (cap_id c # visited)" for v
      using that c id above less by (fastforce intro: less_trans)
    with 1(1) [OF c _ Some law parent] fresh_id obtain cs
      where "path_up d (cap_id c # visited) p = Inr (parent # cs)" "linked (parent # cs)" by auto
    with c Some fresh_id valid show ?thesis by (simp add: path_up.simps)
  qed
qed

lemma in_scope_self: "in_scope c a now \<Longrightarrow> in_scope c (acting_for c a) now"
proof -
  assume c: "in_scope c a now"
  then have "ai_agent_id a = cap_agent_id c" unfolding in_scope_def by (rule conjunct1)
  with c show ?thesis by (simp only: in_scope_acting_for)
qed

lemma chain_in_scope:
  assumes "linked (c # cs)" and "comparable_chain (c # cs)" and "in_scope c a now"
    and "b \<in> set (c # cs)"
  shows "in_scope b (acting_for b a) now"
  using assms
proof (induction "c # cs" arbitrary: c cs a rule: linked.induct)
  case (2 c)
  then show ?case using in_scope_self by simp
next
  case (3 c p r)
  show ?case
  proof (cases "b = c")
    case True
    with 3(4) show ?thesis using in_scope_self by simp
  next
    case False
    from 3(2-4) have "in_scope p (acting_for p a) now"
      by (intro scope_attenuates [of p c]) simp_all
    with 3(1) [of "acting_for p a"] 3(2,3,5) False
    have "in_scope b (acting_for b (acting_for p a)) now" by simp
    then show ?thesis by simp
  qed
qed

text \<open>The \<open>n\<close>-th capability of a chain and its identity are active at the readings of step \<open>depth + n\<close>.\<close>

definition active_along :: "db \<Rightarrow> (nat \<Rightarrow> xnum) \<Rightarrow> nat \<Rightarrow> capability list \<Rightarrow> bool" where
  "active_along d clk depth cs \<longleftrightarrow> (\<forall>n<length cs.
     capability_active_at (cap_id (cs ! n)) (clk (2 * (depth + n))) d \<and>
     (\<forall>j. cap_identity_id (cs ! n) = Some j \<longrightarrow> identity_active_at j (clk (2 * (depth + n) + 1)) d))"

lemma active_along_Cons:
  "active_along d clk depth (c # cs) \<longleftrightarrow> capability_active_at (cap_id c) (clk (2 * depth)) d \<and>
     (\<forall>j. cap_identity_id c = Some j \<longrightarrow> identity_active_at j (clk (2 * depth + 1)) d) \<and>
     active_along d clk (Suc depth) cs"
  unfolding active_along_def by (auto simp: less_Suc_eq_0_disj All_less_Suc2)

lemma chain_active_path:
  assumes "lawful d" and "chain_active d clk m visited depth j" and "j = Some i"
    and "path_up d w i = Inr cs"
  shows "length cs \<le> Suc m - depth \<and> active_along d clk depth cs"
  using assms
proof (induction d clk m visited depth j arbitrary: i w cs rule: chain_active.induct)
  case (2 d clk m visited depth i')
  from 2(3,4) obtain c where c: "find_capability i d = Some c" and depth: "depth \<le> m"
    and act: "capability_active_at i (clk (2 * depth)) d"
      "\<forall>j. cap_identity_id c = Some j \<longrightarrow> identity_active_at j (clk (2 * depth + 1)) d"
    and rest: "chain_active d clk m (i # visited) (Suc depth) (cap_delegated_from c)"
    and guards: "\<not> List.member visited i'" "\<not> m < depth" "find_capability i' d = Some c"
      "\<not> \<not> capability_active_at i' (clk (2 * depth)) d"
      "\<not> (case cap_identity_id c of None \<Rightarrow> False
          | Some identity_id \<Rightarrow> \<not> identity_active_at identity_id (clk (2 * depth + 1)) d)"
    by (auto simp: chain_active.simps split: if_splits option.splits)
  from 2(4) have i': "i' = i" by simp
  have id: "cap_id c = i" using 2(2) c by (rule lawful_find)
  show ?case
  proof (cases "cap_delegated_from c")
    case None
    with 2(5) c have "cs = [c]" by (auto simp: path_up.simps split: if_splits)
    with act id depth show ?thesis by (simp add: active_along_Cons) (simp add: active_along_def)
  next
    case (Some p)
    with 2(5) c obtain rs where cs: "cs = c # rs" "path_up d (cap_id c # w) p = Inr rs"
      by (subst (asm) path_up.simps) (auto simp: bindE_Inr_iff split: if_splits)
    from 2(1) [OF guards(1,2,3,4,5) 2(2) _ Some cs(2)] rest i'
    have "length rs \<le> Suc m - Suc depth \<and> active_along d clk (Suc depth) rs" by simp
    with act id depth cs show ?thesis by (auto simp: active_along_Cons)
  qed
qed simp

section \<open>A concrete capability\<close>

definition demo_capability :: capability where
  "demo_capability = \<lparr> cap_id = ''c1'', cap_agent_id = ''a'', cap_identity_id = None,
     cap_delegated_from = None, cap_delegated_by = None, cap_depth = 0, cap_actions = [''payment''],
     cap_purposes = [], cap_context = [], cap_targets = [], cap_resources = [], cap_networks = [],
     cap_assets = [], cap_max_per_action = [], cap_aggregate_limits = [], cap_conditions = [],
     cap_version = 1, cap_issued_at = NInt 0, cap_expires_at = None, cap_metadata = [] \<rparr>"

definition demo_child :: capability where
  "demo_child = demo_capability\<lparr>cap_id := ''c2'', cap_agent_id := ''b'',
     cap_identity_id := Some ''i2'', cap_delegated_from := Some ''c1'',
     cap_delegated_by := Some ''i1'', cap_depth := 1, cap_targets := [''t'']\<rparr>"

definition demo_action :: action_intent where
  "demo_action = (as_action_intent demo_payment)\<lparr>ai_agent_id := ''b'', ai_target := ''t''\<rparr>"

definition demo_row :: capability_row where
  "demo_row = \<lparr> cr_capability_id = ''c1'', cr_agent_id = ''a'', cr_version = 1,
     cr_capability = demo_capability, cr_sha256 = capability_digest demo_hash demo_capability,
     cr_status = ''ACTIVE'', cr_issued_at = Fin 0, cr_expires_at = None, cr_revoked_at = None,
     cr_created_at = Fin 5 \<rparr>"

definition demo_registry :: "db conn" where
  "demo_registry = \<lparr> disk = empty_db\<lparr>t_capabilities := [demo_row]\<rparr>, work = None \<rparr>"

lemma demo_capability_registered:
  "fst (capability_register demo_hash demo_capability [] (Fin 5) (Fin 5) fresh) = demo_registry"
proof -
  have row: "capability_row_for demo_hash demo_capability (Fin 5) = Inr demo_row"
    by (simp add: capability_row_for_def demo_row_def sql_int_def int64_ok_def sql_real_nn_def
        not_null_def sql_opt_real_def) (simp add: demo_capability_def sql_int_def int64_ok_def not_null_def)
  have ids: "cap_delegated_from demo_capability = None" "cap_identity_id demo_capability = None"
    by (simp_all add: demo_capability_def)
  have empty: "t_capabilities empty_db = []" by (simp add: empty_db_def)
  show ?thesis
    by (simp add: capability_register_def register_capability_def transaction_def catchS_def
        bindS_apply begin_immediate_def integrity_as_def insert_capability_def row dml_ins_Inr
        insert_holds_def given_def ids empty demo_registry_def)
qed

lemma demo_registries: "registries E demo_hash demo_registry"
  unfolding demo_capability_registered [symmetric] by (intro registries.root registries.start)

lemma demo_find: "find_capability ''c1'' (disk demo_registry) = Some demo_capability"
  by (simp add: find_capability_def capability_row_of_def demo_registry_def demo_row_def select_one_def)

lemma demo_path: "authority_path ''c1'' demo_registry = (demo_registry, Inr [demo_capability])"
proof -
  have "path_up (disk demo_registry) [] ''c1'' = Inr [demo_capability]"
    using demo_find by (subst path_up.simps) (simp add: demo_capability_def)
  then show ?thesis by (simp add: authority_path_def bindS_apply cur_idle demo_registry_def)
qed

lemma demo_active: "effective_active ''c1'' clk demo_registry = (demo_registry, Inr True)"
proof -
  have "capability_active_at ''c1'' t (disk demo_registry)" for t
    by (simp add: capability_active_at_def capability_row_of_def demo_registry_def demo_row_def
        select_one_def not_expired_def)
  then have "chain_active (disk demo_registry) clk default_max_depth [] 0 (Some ''c1'')"
    using demo_find by (simp add: chain_active.simps) (simp add: demo_capability_def chain_active.simps)
  then show ?thesis by (simp add: effective_active_def cur_idle demo_registry_def)
qed

section \<open>Properties\<close>

text \<open>C6: a delegation attenuates.  If \<open>validate_delegation_scope\<close> accepts the child under the parent and
  the child permits an action, then the parent permits the same action by its own agent at that
  time.  The limits compared must be both ints or both floats, and the child's expiry not NaN.\<close>

theorem delegation_attenuates:
  assumes "accepts (validate_delegation_scope parent child)" and "comparable_limits parent child"
    and "accepts (permits child a now)"
  shows "accepts (permits parent (acting_for parent a) now)"
  using assms scope_attenuates by (simp add: accepts_permits)

theorem delegation_attenuates_witness:
  "accepts (permits (demo_capability\<lparr>cap_identity_id := Some ''i1''\<rparr>)
     (acting_for demo_capability demo_action) (NInt 7))"
proof -
  let ?p = "demo_capability\<lparr>cap_identity_id := Some ''i1''\<rparr>"
  have "accepts (validate_delegation_scope ?p demo_child)"
    by (simp add: validate_delegation_scope_def demo_child_def demo_capability_def scope_fields_def
        is_subset_def max_delegation_depth_def limits_subset_def)
  moreover have "comparable_limits ?p demo_child"
    by (simp add: comparable_limits_def demo_child_def demo_capability_def)
  moreover have "accepts (permits demo_child demo_action (NInt 7))"
    by (simp add: permits_def demo_child_def demo_capability_def demo_action_def
        as_action_intent_def demo_payment_def)
  ultimately have "accepts (permits ?p (acting_for ?p demo_action) (NInt 7))"
    by (rule delegation_attenuates)
  then show ?thesis by (simp add: acting_for_def)
qed

text \<open>C7: the registries store only lawful capabilities.  Whatever identities and capabilities are
  registered, delegated and revoked, in any order, every stored capability is filed under its own
  id and is either a root or was accepted by \<open>validate_delegation_scope\<close> under a parent that is
  stored; and between two operations no change is pending.\<close>

theorem registries_lawful:
  assumes "registries E H c"
  shows "lawful (disk c) \<and> quiet c"
  using assms by (rule registries_inv)

theorem registries_lawful_witness: "lawful (disk demo_registry)"
  using registries_lawful [OF demo_registries] by blast

text \<open>C8: authority chains are acyclic.  In a reachable registry \<open>authority_path\<close> of a stored capability
  returns (it never raises the cycle error): a chain that ends in that capability, starts in a
  root, and in which each capability was delegated within the scope of the one before it.\<close>

theorem authority_path_returns:
  assumes "registries E H c" and "find_capability i (disk c) = Some leaf"
  shows "\<exists>cs. authority_path i c = (c, Inr (rev (leaf # cs))) \<and> linked (leaf # cs)"
proof -
  from registries_inv [OF assms(1)] have law: "lawful (disk c)" and cur: "cur c = disk c"
    by (simp_all add: quiet_def)
  from path_up_linked [OF law assms(2), of "[]"] obtain cs
    where "path_up (disk c) [] i = Inr (leaf # cs)" "linked (leaf # cs)" by auto
  with cur show ?thesis by (simp add: authority_path_def bindS_apply)
qed

theorem authority_path_returns_witness:
  "\<exists>cs. authority_path ''c1'' demo_registry = (demo_registry, Inr (rev (demo_capability # cs)))"
  using authority_path_returns [OF demo_registries demo_find] by blast



text \<open>C10: a capability is effective only while its whole chain is.  \<open>effective_active\<close> answers True only
  when the chain has at most 33 capabilities and each of them, and the identity each is bound to,
  is active at the time its step looks; so revoking any ancestor or its identity disables every
  capability delegated from it.\<close>

theorem effective_needs_whole_chain:
  assumes "registries E H c" and "effective_active i clk c = (c, Inr True)"
  shows "\<exists>leaf cs. find_capability i (disk c) = Some leaf \<and>
    authority_path i c = (c, Inr (rev (leaf # cs))) \<and> length (leaf # cs) \<le> 33 \<and>
    active_along (disk c) clk 0 (leaf # cs)"
proof -
  from registries_inv [OF assms(1)] have law: "lawful (disk c)" and cur: "cur c = disk c"
    by (simp_all add: quiet_def)
  from assms(2) cur have act: "chain_active (disk c) clk default_max_depth [] 0 (Some i)"
    by (simp add: effective_active_def)
  then obtain leaf where leaf: "find_capability i (disk c) = Some leaf"
    by (auto simp: chain_active.simps split: option.splits)
  from path_up_linked [OF law leaf, of "[]"] obtain cs
    where path: "path_up (disk c) [] i = Inr (leaf # cs)" by auto
  from chain_active_path [OF law act refl path] leaf path cur show ?thesis
    by (auto simp: authority_path_def bindS_apply default_max_depth_def)
qed

theorem effective_needs_whole_chain_witness:
  "\<exists>leaf. find_capability ''c1'' (disk demo_registry) = Some leaf"
  using effective_needs_whole_chain [OF demo_registries demo_active, where clk = "\<lambda>_. Fin 0"] by blast

end
