(* ===== verification/Storage_Governance.thy ===== *)
theory Storage_Governance
  imports Storage_Authority
begin

text \<open>
  \<open>core/storage.py\<close>, policy versions, governed policy changes, policy controls, authority resets and
  governance approvals.
\<close>

section \<open>Policy versions\<close>

text \<open>\<open>INSERT OR REPLACE\<close>: rows that clash with the new one are deleted first.\<close>

definition replace_row :: "('r \<Rightarrow> 'r \<Rightarrow> bool) \<Rightarrow> 'r \<Rightarrow> 'r list \<Rightarrow> 'r list" where
  "replace_row clash r tab = filter (\<lambda>s. \<not> clash r s) tab @ [r]"

definition version_row_for :: "jdict \<Rightarrow> jdict \<Rightarrow> xnum \<Rightarrow> version_row res" where
  "version_row_for signed p t =
     bindE (jindex p ''policy_sha256'') (\<lambda>v1. bindE (jindex p ''policy_id'') (\<lambda>v2.
     bindE (jindex p ''version'') (\<lambda>v3. bindE (jindex p ''source_ref'') (\<lambda>v4.
     bindE (col_text_nn v1) (\<lambda>c1. bindE (col_text_nn v2) (\<lambda>c2.
     bindE (col_int_nn v3) (\<lambda>c3. bindE (col_text_nn v4) (\<lambda>c4.
       Inr \<lparr> pv_policy_sha256 = c1, pv_policy_id = c2, pv_version = c3, pv_source_ref = c4,
             pv_signed_policy = JObj signed, pv_created_at = t \<rparr>))))))))"

definition put_version :: "version_row list \<Rightarrow> db \<Rightarrow> db" where
  "put_version tab d = d\<lparr>t_versions := tab\<rparr>"

definition register_policy_version :: "jdict \<Rightarrow> xnum \<Rightarrow> unit st" where
  "register_policy_version signed t =
     bindS (liftS (jindex_obj signed ''payload'')) (\<lambda>p.
     bindS (liftS (bindE (jindex p ''policy_sha256'') (\<lambda>_. bindE (jindex p ''policy_id'') (\<lambda>_.
       bindE (jindex p ''version'') (\<lambda>_. jindex p ''source_ref''))))) (\<lambda>_.
     bindS (dml (\<lambda>d. bindE (version_row_for signed p t) (\<lambda>r.
       Inr (put_version (replace_row version_clash r (t_versions d)) d, ())))) (\<lambda>_. commit)))"

definition version_of :: "string \<Rightarrow> db \<Rightarrow> json option" where
  "version_of sha d = map_option pv_signed_policy
     (select_one (\<lambda>r. pv_policy_sha256 r = sha) (t_versions d))"

definition policy_version_by_sha :: "string \<Rightarrow> json option st" where
  "policy_version_by_sha sha = query (version_of sha)"

definition latest_policy_version :: "string \<Rightarrow> version_row option st" where
  "latest_policy_version policy_id =
     query (\<lambda>d. max_row pv_version (filter (\<lambda>r. pv_policy_id r = policy_id) (t_versions d)))"

section \<open>Governed changes and controls\<close>

definition governed_policy_change_by_sha :: "string \<Rightarrow> json option st" where
  "governed_policy_change_by_sha sha = query (\<lambda>d. map_option gc_envelope
     (select_one (\<lambda>r. gc_policy_sha256 r = sha) (t_changes d)))"

definition policy_control :: "string \<Rightarrow> control_row option st" where
  "policy_control policy_id = query (\<lambda>d. select_one (\<lambda>r. pc_policy_id r = policy_id) (t_controls d))"

definition policy_control_actions :: "string \<Rightarrow> int \<Rightarrow> (string \<times> json) list st" where
  "policy_control_actions policy_id limit = (if limit < 1 then returnS [] else
     query (\<lambda>d. map (\<lambda>r. (ca_action_id r, ca_envelope r)) (take (nat limit)
       (order_asc ca_created_at (filter (\<lambda>r. ca_policy_id r = policy_id) (t_control_actions d))))))"

definition policy_control_action :: "string \<Rightarrow> json option st" where
  "policy_control_action action_id = query (\<lambda>d. map_option ca_envelope
     (select_one (\<lambda>r. ca_action_id r = action_id) (t_control_actions d)))"

text \<open>\<open>INSERT ... ON CONFLICT(policy_id) DO UPDATE\<close>\<close>

definition upsert_control :: "control_row \<Rightarrow> control_row list \<Rightarrow> control_row list" where
  "upsert_control r tab = (if list_ex (control_clash r) tab
     then map (\<lambda>s. if control_clash r s then r else s) tab else tab @ [r])"

definition put_control :: "control_row list \<Rightarrow> db \<Rightarrow> db" where
  "put_control tab d = d\<lparr>t_controls := tab\<rparr>"

definition apply_policy_control ::
    "string \<Rightarrow> string \<Rightarrow> bool \<Rightarrow> jdict \<Rightarrow> xnum \<Rightarrow> xnum \<Rightarrow> unit st" where
  "apply_policy_control policy_id active frozen envelope t1 t2 =
     bindS (liftS (jindex_obj envelope ''governance_action'')) (\<lambda>a. on_integrity
      (bindS (liftS (bindE (jindex a ''action_id'') (\<lambda>x. bindE (jindex a ''nonce'') (\<lambda>y.
         bindE (jindex a ''action'') (\<lambda>z. Inr (x, y, z)))))) (\<lambda>(v1, v2, v3).
       bindS (insert_control_action (bindE (col_text_nn v1) (\<lambda>c1. bindE (col_text_nn v2) (\<lambda>c2.
         bindE (col_text_nn v3) (\<lambda>c3. Inr \<lparr> ca_action_id = c1, ca_action_nonce = c2,
           ca_policy_id = policy_id, ca_action = c3, ca_envelope = JObj envelope,
           ca_created_at = t1 \<rparr>))))) (\<lambda>_.
       bindS (dml (\<lambda>d. Inr (put_control (upsert_control \<lparr> pc_policy_id = policy_id,
         pc_active_sha256 = active, pc_frozen = frozen, pc_control = JObj envelope,
         pc_updated_at = t2 \<rparr> (t_controls d)) d, ()))) (\<lambda>_. commit))))
      (raiseS (ValueError ''policy control action already registered'')))"

definition latest_governed_policy_version :: "string \<Rightarrow> change_row option st" where
  "latest_governed_policy_version policy_id =
     query (\<lambda>d. max_row gc_version (filter (\<lambda>r. gc_policy_id r = policy_id) (t_changes d)))"

definition approval_row_for :: "jdict \<Rightarrow> jdict \<Rightarrow> xnum \<Rightarrow> approval_row res" where
  "approval_row_for approval p t =
     bindE (jindex p ''approval_id'') (\<lambda>v1. bindE (jindex p ''action_digest'') (\<lambda>v2.
     bindE (jindex p ''governor_id'') (\<lambda>v3. bindE (jindex p ''role'') (\<lambda>v4.
     bindE (jindex p ''issued_at'') (\<lambda>v5. bindE (jindex p ''expires_at'') (\<lambda>v6.
     bindE (jindex p ''nonce'') (\<lambda>v7.
     bindE (col_text_nn v1) (\<lambda>c1. bindE (col_text_nn v2) (\<lambda>c2. bindE (col_text_nn v3) (\<lambda>c3.
     bindE (col_text_nn v4) (\<lambda>c4. bindE (col_real_nn v5) (\<lambda>c5. bindE (col_real_nn v6) (\<lambda>c6.
     bindE (col_text_nn v7) (\<lambda>c7.
       Inr \<lparr> gv_approval_id = c1, gv_action_digest = c2, gv_governor_id = c3, gv_role = c4,
             gv_issued_at = c5, gv_expires_at = c6, gv_nonce = c7, gv_signed = JObj approval,
             gv_created_at = t \<rparr>))))))))))))))"

definition as_dict :: "json \<Rightarrow> jdict res" where
  "as_dict v = (case v of JObj d \<Rightarrow> Inr d | _ \<Rightarrow> Inl (TypeError ''not a dictionary''))"

definition approval_keys :: "string list" where
  "approval_keys = [''approval_id'', ''action_digest'', ''governor_id'', ''role'', ''issued_at'',
     ''expires_at'', ''nonce'']"

fun need_keys :: "string list \<Rightarrow> jdict \<Rightarrow> unit res" where
  "need_keys [] p = Inr ()"
| "need_keys (k # ks) p = bindE (jindex p k) (\<lambda>_. need_keys ks p)"

fun insert_approvals :: "json list \<Rightarrow> (nat \<Rightarrow> xnum) \<Rightarrow> nat \<Rightarrow> unit st" where
  "insert_approvals [] clk n = returnS ()"
| "insert_approvals (a # as) clk n =
     bindS (liftS (bindE (as_dict a) (\<lambda>d. bindE (jindex_obj d ''payload'') (\<lambda>p.
       bindE (need_keys approval_keys p) (\<lambda>_. Inr (d, p)))))) (\<lambda>(d, p).
     bindS (insert_approval (approval_row_for d p (clk n))) (\<lambda>_. insert_approvals as clk (Suc n)))"

text \<open>
  The ValueError for a digest bound to other content is raised inside the \<open>try\<close> block, whose
  \<open>except\<close> clause catches IntegrityError only: what was inserted before it stays pending.
\<close>

definition register_governed_policy_change ::
    "jdict \<Rightarrow> jdict \<Rightarrow> json list \<Rightarrow> (nat \<Rightarrow> xnum) \<Rightarrow> xnum \<Rightarrow> xnum \<Rightarrow> unit st" where
  "register_governed_policy_change signed envelope approvals clk t1 t2 =
     bindS (liftS (jindex_obj signed ''payload'')) (\<lambda>p.
     bindS (liftS (jindex_obj envelope ''governance_action'')) (\<lambda>a. on_integrity
      (bindS (insert_approvals approvals clk 0) (\<lambda>_.
       bindS (liftS (bindE (jindex p ''policy_sha256'') col_text)) (\<lambda>sha.
       bindS (query (\<lambda>d. Option.bind sha (\<lambda>s. version_of s d))) (\<lambda>existing.
       bindS (case existing of
           None \<Rightarrow> bindS (liftS (need_keys [''policy_id'', ''version'', ''source_ref''] p)) (\<lambda>_.
             insert_version (version_row_for signed p t1))
         | Some old \<Rightarrow> if same_text old (JObj signed) then returnS ()
             else raiseS (ValueError
               ''policy digest is already bound to different signed policy content'')) (\<lambda>_.
       bindS (liftS (bindE (need_keys [''policy_id'', ''version''] p) (\<lambda>_.
         bindE (need_keys [''action_id'', ''nonce''] a) (\<lambda>_.
         need_keys [''governance_policy_sha256''] envelope)))) (\<lambda>_.
       bindS (insert_change (
         bindE (not_null sha) (\<lambda>c1. bindE (col_text_nn (jget p ''policy_id'')) (\<lambda>c2.
         bindE (col_int_nn (jget p ''version'')) (\<lambda>c3. bindE (col_text (jget p ''parent_sha256'')) (\<lambda>c4.
         bindE (col_text_nn (jget a ''action_id'')) (\<lambda>c5. bindE (col_text_nn (jget a ''nonce'')) (\<lambda>c6.
         bindE (col_text_nn (jget envelope ''governance_policy_sha256'')) (\<lambda>c7.
           Inr \<lparr> gc_policy_sha256 = c1, gc_policy_id = c2, gc_version = c3, gc_parent_sha256 = c4,
                 gc_action_id = c5, gc_action_nonce = c6, gc_governance_sha256 = c7,
                 gc_envelope = JObj envelope, gc_created_at = t2 \<rparr>)))))))))
       (\<lambda>_. commit)))))))
      (raiseS (ValueError ''governed policy version or approval already registered''))))"

section \<open>Authority resets\<close>

definition reset_keys :: "string list" where
  "reset_keys = [''agent_id'', ''capability_id'', ''epoch'', ''reason'', ''issued_at'', ''nonce'']"

definition reset_row_for :: "jdict \<Rightarrow> jdict \<Rightarrow> xnum \<Rightarrow> reset_row res" where
  "reset_row_for signed p t =
     bindE (col_text_nn (jget_or p ''reset_id'' (jget p ''action_id''))) (\<lambda>c1.
     bindE (col_text_nn (jget p ''agent_id'')) (\<lambda>c2.
     bindE (col_text_nn (jget p ''capability_id'')) (\<lambda>c3.
     bindE (col_text_nn (jget_or p ''governor_id'' (JStr ''MULTIPARTY''))) (\<lambda>c4.
     bindE (col_int_nn (jget p ''epoch'')) (\<lambda>c5. bindE (col_text_nn (jget p ''reason'')) (\<lambda>c6.
     bindE (col_real_nn (jget p ''issued_at'')) (\<lambda>c7. bindE (col_text_nn (jget p ''nonce'')) (\<lambda>c8.
       Inr \<lparr> rs_reset_id = c1, rs_agent_id = c2, rs_capability_id = c3, rs_governor_id = c4,
             rs_epoch = c5, rs_reason = c6, rs_issued_at = c7, rs_nonce = c8,
             rs_signed = JObj signed, rs_created_at = t \<rparr>))))))))"

definition register_authority_reset :: "jdict \<Rightarrow> json list \<Rightarrow> (nat \<Rightarrow> xnum) \<Rightarrow> xnum \<Rightarrow> unit st" where
  "register_authority_reset signed approvals clk t =
     bindS (liftS (jindex_obj signed ''payload'')) (\<lambda>p. on_integrity
      (bindS (insert_approvals approvals clk 0) (\<lambda>_.
       bindS (liftS (need_keys reset_keys p)) (\<lambda>_.
       bindS (insert_reset (reset_row_for signed p t)) (\<lambda>_. commit))))
      (raiseS (ValueError (if approvals \<noteq> []
         then ''governance approval or authority reset already registered''
         else ''authority reset already registered''))))"

definition resets_of :: "string \<Rightarrow> string \<Rightarrow> db \<Rightarrow> reset_row list" where
  "resets_of agent capability d =
     filter (\<lambda>r. rs_agent_id r = agent \<and> rs_capability_id r = capability) (t_resets d)"

definition latest_authority_reset :: "string \<Rightarrow> string \<Rightarrow> json option st" where
  "latest_authority_reset agent capability =
     query (\<lambda>d. map_option rs_signed (max_row rs_epoch (resets_of agent capability d)))"

text \<open>\<open>ORDER BY issued_at DESC, epoch DESC LIMIT 1\<close>\<close>

fun best_reset :: "reset_row list \<Rightarrow> reset_row option" where
  "best_reset [] = None"
| "best_reset (r # rs) = (case best_reset rs of None \<Rightarrow> Some r
     | Some s \<Rightarrow> if x_lt (rs_issued_at s) (rs_issued_at r) \<or>
         (rs_issued_at s = rs_issued_at r \<and> rs_epoch s \<le> rs_epoch r) then Some r else Some s)"

definition latest_authority_reset_at :: "string \<Rightarrow> string \<Rightarrow> xnum \<Rightarrow> json option st" where
  "latest_authority_reset_at agent capability at_time = query (\<lambda>d. map_option rs_signed
     (best_reset (filter (\<lambda>r. x_le (rs_issued_at r) at_time) (resets_of agent capability d))))"

section \<open>Every method advances the database\<close>

lemma no_clash_replace:
  assumes "no_clash version_clash tab"
  shows "no_clash version_clash (replace_row version_clash r tab)"
proof -
  have "no_clash c (filter P xs)" if "no_clash c xs" for c P and xs :: "version_row list"
    using that by (induction xs) (auto simp: list_ex_iff)
  with assms version_tab.clash_sym show ?thesis by (auto simp: replace_row_def no_clash_append)
qed

lemma put_version_forward:
  "no_clash version_clash (t_versions d) \<longrightarrow> no_clash version_clash tab \<Longrightarrow>
     db_le d (put_version tab d)"
  by (auto simp: put_version_def db_le_def db_unique_def)

lemma register_policy_version_advances [keeps_intros]:
  "dbo.advances (register_policy_version s t)"
  unfolding register_policy_version_def
  by (intro keeps_intros)
     (auto simp: dbo.forward_def bindE_Inr_iff intro!: put_version_forward no_clash_replace)

lemma no_clash_upsert: "no_clash control_clash tab \<Longrightarrow> no_clash control_clash (upsert_control r tab)"
proof (cases "list_ex (control_clash r) tab")
  case True
  assume "no_clash control_clash tab"
  moreover have "no_clash control_clash (map (\<lambda>s. if control_clash r s then r else s) tab) =
      no_clash control_clash tab"
    by (rule no_clash_map) (auto simp: control_clash_def)
  ultimately show ?thesis using True by (simp add: upsert_control_def)
next
  case False
  assume "no_clash control_clash tab"
  with False show ?thesis
    by (auto simp: upsert_control_def no_clash_append list_ex_iff control_clash_def)
qed

lemma put_control_forward: "db_le d (put_control (upsert_control r (t_controls d)) d)"
  by (auto simp: put_control_def db_le_def db_unique_def no_clash_upsert)

lemma apply_policy_control_advances [keeps_intros]:
  "dbo.advances (apply_policy_control p a f e t u)"
  unfolding apply_policy_control_def
  by (intro keeps_intros) (auto simp: dbo.forward_def intro!: put_control_forward)

lemma insert_approvals_advances [keeps_intros]: "dbo.advances (insert_approvals as clk n)"
  by (induction as arbitrary: n) (simp_all only: insert_approvals.simps, (intro keeps_intros | assumption)+)

lemma governance_writes_advance [keeps_intros]:
  "dbo.advances (register_governed_policy_change s e as clk t u)"
  "dbo.advances (register_authority_reset s as clk t)"
  unfolding register_governed_policy_change_def register_authority_reset_def
  by (intro keeps_intros)+

lemma governance_reads_advance [keeps_intros]:
  "dbo.advances (policy_version_by_sha s)" "dbo.advances (latest_policy_version p)"
  "dbo.advances (governed_policy_change_by_sha s)" "dbo.advances (policy_control p)"
  "dbo.advances (policy_control_actions p l)" "dbo.advances (policy_control_action i)"
  "dbo.advances (latest_governed_policy_version p)" "dbo.advances (latest_authority_reset a c)"
  "dbo.advances (latest_authority_reset_at a c x)"
  unfolding policy_version_by_sha_def latest_policy_version_def governed_policy_change_by_sha_def
    policy_control_def policy_control_actions_def policy_control_action_def
    latest_governed_policy_version_def latest_authority_reset_def latest_authority_reset_at_def
  by (intro keeps_intros)+

end
