(* ===== verification/Storage_Events.thy ===== *)
theory Storage_Events
  imports Storage_Governance
begin

text \<open>
  \<open>core/storage.py\<close>, authority outcome events, the hash-chained authority ledger and the latest
  authority states.
\<close>

section \<open>Events\<close>

definition event_keys :: "string list" where
  "event_keys = [''event_id'', ''agent_id'', ''capability_id'', ''event_type'', ''evidence_ref'',
     ''occurred_at'']"

definition event_row_for :: "jdict \<Rightarrow> event_row res" where
  "event_row_for e =
     bindE (col_text_nn (jget e ''event_id'')) (\<lambda>c1. bindE (col_text_nn (jget e ''agent_id'')) (\<lambda>c2.
     bindE (col_text_nn (jget e ''capability_id'')) (\<lambda>c3. bindE (col_text (jget e ''identity_id'')) (\<lambda>c4.
     bindE (col_text_nn (jget e ''event_type'')) (\<lambda>c5. bindE (col_text (jget e ''action_type'')) (\<lambda>c6.
     bindE (col_text_nn (jget e ''evidence_ref'')) (\<lambda>c7. bindE (col_real_nn (jget e ''occurred_at'')) (\<lambda>c8.
       Inr \<lparr> ev_event_id = c1, ev_agent_id = c2, ev_capability_id = c3, ev_identity_id = c4,
             ev_event_type = c5, ev_action_type = c6, ev_evidence_ref = c7,
             ev_metadata = (if truthy (jget e ''metadata'') then jget e ''metadata'' else JObj []),
             ev_occurred_at = c8 \<rparr>))))))))"

definition event_known :: "json \<Rightarrow> db \<Rightarrow> bool" where
  "event_known v d \<longleftrightarrow> list_ex (\<lambda>r. v = JStr (ev_event_id r)) (t_events d)"

definition record_authority_event :: "jdict \<Rightarrow> unit st" where
  "record_authority_event e = on_integrity
     (bindS (liftS (need_keys event_keys e)) (\<lambda>_.
      bindS (insert_event (event_row_for e)) (\<lambda>_. commit)))
     (bindS (query (event_known (jget e ''event_id''))) (\<lambda>known.
      if known then returnS ()
      else raiseS (ValueError ''authority evidence reference already exists'')))"

definition events_since :: "string \<Rightarrow> string \<Rightarrow> xnum option \<Rightarrow> db \<Rightarrow> event_row list" where
  "events_since agent capability since d = order_asc ev_occurred_at
     (filter (\<lambda>r. ev_agent_id r = agent \<and> ev_capability_id r = capability \<and>
        (case since of None \<Rightarrow> True | Some s \<Rightarrow> x_le s (ev_occurred_at r))) (t_events d))"

definition authority_events :: "string \<Rightarrow> string \<Rightarrow> xnum option \<Rightarrow> event_row list st" where
  "authority_events agent capability since = query (events_since agent capability since)"

section \<open>The ledger\<close>

definition zeros :: string where
  "zeros = replicate 64 CHR ''0''"

text \<open>
  The dictionary the code returns for a row.  The one returned for a new row has no
  \<open>created_at\<close>; only \<open>authority_ledger\<close> puts \<open>event_id\<close> in it.
\<close>

record ledger_entry =
  le_sequence :: int
  le_event_id :: "string option"
  le_prev :: string
  le_hash :: string
  le_event :: json
  le_created_at :: "xnum option"

definition entry_of :: "ledger_row \<Rightarrow> ledger_entry" where
  "entry_of r = \<lparr> le_sequence = lg_sequence r, le_event_id = Some (lg_event_id r),
     le_prev = lg_prev_hash r, le_hash = lg_event_hash r, le_event = lg_event r,
     le_created_at = Some (lg_created_at r) \<rparr>"

definition scope_rows :: "string \<Rightarrow> string \<Rightarrow> db \<Rightarrow> ledger_row list" where
  "scope_rows agent capability d =
     filter (\<lambda>r. lg_agent_id r = agent \<and> lg_capability_id r = capability) (t_ledger d)"

text \<open>\<open>jstr v\<close>: the value of a parameter compared with a TEXT column; another type matches nothing.\<close>

definition jstr_is :: "json \<Rightarrow> string \<Rightarrow> bool" where
  "jstr_is v s \<longleftrightarrow> v = JStr s"

definition last_entry :: "json \<Rightarrow> json \<Rightarrow> db \<Rightarrow> ledger_row option" where
  "last_entry agent capability d = max_row lg_sequence
     (filter (\<lambda>r. jstr_is agent (lg_agent_id r) \<and> jstr_is capability (lg_capability_id r)) (t_ledger d))"

definition ledger_row_for :: "json \<Rightarrow> json \<Rightarrow> int \<Rightarrow> json \<Rightarrow> string \<Rightarrow> string \<Rightarrow> json \<Rightarrow> xnum \<Rightarrow>
    ledger_row res" where
  "ledger_row_for agent capability sequence ident prev event_hash e t =
     bindE (col_text_nn agent) (\<lambda>c1. bindE (col_text_nn capability) (\<lambda>c2.
     bindE (sql_int sequence) (\<lambda>c3. bindE (col_text_nn ident) (\<lambda>c4.
       Inr \<lparr> lg_agent_id = c1, lg_capability_id = c2, lg_sequence = c3, lg_event_id = c4,
             lg_prev_hash = prev, lg_event_hash = event_hash, lg_event = e,
             lg_created_at = t \<rparr>))))"

definition append_authority_ledger :: "hash \<Rightarrow> jdict \<Rightarrow> xnum \<Rightarrow> ledger_entry st" where
  "append_authority_ledger H e t =
     (let event_hash = digest_json H (JObj e) in
      bindS (liftS (jindex e ''event_id'')) (\<lambda>id.
      bindS (query (\<lambda>d. select_one (\<lambda>r. jstr_is id (lg_event_id r)) (t_ledger d))) (\<lambda>existing.
      case existing of
        Some r \<Rightarrow> returnS ((entry_of r)\<lparr>le_event_id := None\<rparr>)
      | None \<Rightarrow>
        bindS (liftS (jindex e ''agent_id'')) (\<lambda>agent.
        bindS (liftS (jindex e ''capability_id'')) (\<lambda>capability.
        bindS (query (last_entry agent capability)) (\<lambda>row.
        let sequence = (case row of None \<Rightarrow> 1 | Some r \<Rightarrow> lg_sequence r + 1);
            prev = (case row of None \<Rightarrow> zeros | Some r \<Rightarrow> lg_event_hash r)
        in bindS (insert_ledger (ledger_row_for agent capability sequence id prev
             event_hash (JObj e) t)) (\<lambda>_.
           bindS commit (\<lambda>_. returnS \<lparr> le_sequence = sequence, le_event_id = None, le_prev = prev,
             le_hash = event_hash, le_event = JObj e, le_created_at = None \<rparr>))))))))"

definition ledger_in :: "string \<Rightarrow> string \<Rightarrow> db \<Rightarrow> ledger_entry list" where
  "ledger_in agent capability d = map entry_of (sort_key lg_sequence (scope_rows agent capability d))"

definition authority_ledger :: "string \<Rightarrow> string \<Rightarrow> ledger_entry list st" where
  "authority_ledger agent capability = query (ledger_in agent capability)"

definition head_of :: "ledger_entry list \<Rightarrow> string" where
  "head_of es = (if es = [] then zeros else le_hash (last es))"

definition authority_ledger_head :: "string \<Rightarrow> string \<Rightarrow> string st" where
  "authority_ledger_head agent capability = query (\<lambda>d. head_of (ledger_in agent capability d))"

fun verify_entries :: "hash \<Rightarrow> string \<Rightarrow> int \<Rightarrow> ledger_entry list \<Rightarrow> bool \<times> string" where
  "verify_entries H previous n [] = (True, ''valid'')"
| "verify_entries H previous n (e # es) =
     (if le_sequence e \<noteq> n \<or> le_prev e \<noteq> previous
      then (False, ''authority ledger chain mismatch'')
      else let actual = digest_json H (le_event e) in
        if actual \<noteq> le_hash e then (False, ''authority ledger event digest mismatch'')
        else verify_entries H actual (n + 1) es)"

definition verify_authority_ledger :: "hash \<Rightarrow> string \<Rightarrow> string \<Rightarrow> (bool \<times> string) st" where
  "verify_authority_ledger H agent capability =
     query (\<lambda>d. verify_entries H zeros 1 (ledger_in agent capability d))"

section \<open>Latest states\<close>

definition upsert_state :: "state_row \<Rightarrow> state_row list \<Rightarrow> state_row list" where
  "upsert_state r tab = (if list_ex (state_clash r) tab
     then map (\<lambda>s. if state_clash r s then r else s) tab else tab @ [r])"

definition put_state :: "state_row list \<Rightarrow> db \<Rightarrow> db" where
  "put_state tab d = d\<lparr>t_states := tab\<rparr>"

definition set_authority_state :: "string \<Rightarrow> string \<Rightarrow> string \<Rightarrow> json \<Rightarrow> xnum \<Rightarrow> unit st" where
  "set_authority_state agent capability state snapshot t =
     bindS (dml (\<lambda>d. Inr (put_state (upsert_state \<lparr> st_agent_id = agent,
        st_capability_id = capability, st_state = state, st_snapshot = snapshot,
        st_updated_at = t \<rparr> (t_states d)) d, ()))) (\<lambda>_. commit)"

definition latest_state_in :: "string \<Rightarrow> string \<Rightarrow> db \<Rightarrow> string option" where
  "latest_state_in agent capability d = map_option st_state
     (select_one (\<lambda>r. st_agent_id r = agent \<and> st_capability_id r = capability) (t_states d))"

definition latest_authority_state :: "string \<Rightarrow> string \<Rightarrow> string option st" where
  "latest_authority_state agent capability = query (latest_state_in agent capability)"

section \<open>Every method advances the database\<close>

lemma no_clash_upsert_state: "no_clash state_clash tab \<Longrightarrow> no_clash state_clash (upsert_state r tab)"
proof (cases "list_ex (state_clash r) tab")
  case True
  assume "no_clash state_clash tab"
  moreover have "no_clash state_clash (map (\<lambda>s. if state_clash r s then r else s) tab) =
      no_clash state_clash tab"
    by (rule no_clash_map) (auto simp: state_clash_def)
  ultimately show ?thesis using True by (simp add: upsert_state_def)
next
  case False
  assume "no_clash state_clash tab"
  with False show ?thesis
    by (auto simp: upsert_state_def no_clash_append list_ex_iff state_clash_def)
qed

lemma put_state_forward: "db_le d (put_state (upsert_state r (t_states d)) d)"
  by (auto simp: put_state_def db_le_def db_unique_def no_clash_upsert_state)

lemma set_authority_state_advances [keeps_intros]: "dbo.advances (set_authority_state a c s j t)"
  unfolding set_authority_state_def
  by (intro keeps_intros) (auto simp: dbo.forward_def intro!: put_state_forward)

lemma event_writes_advance [keeps_intros]:
  "dbo.advances (record_authority_event e)" "dbo.advances (append_authority_ledger H e t)"
  unfolding record_authority_event_def append_authority_ledger_def Let_def
  by (intro keeps_intros)+

lemma event_reads_advance [keeps_intros]:
  "dbo.advances (authority_events a c s)" "dbo.advances (authority_ledger a c)"
  "dbo.advances (authority_ledger_head a c)" "dbo.advances (verify_authority_ledger H a c)"
  "dbo.advances (latest_authority_state a c)"
  unfolding authority_events_def authority_ledger_def authority_ledger_head_def
    verify_authority_ledger_def latest_authority_state_def
  by (intro keeps_intros)+

section \<open>The chain\<close>

text \<open>The rows of a scope in insertion order: consecutive numbers, each linked to the one before.\<close>

fun chained :: "hash \<Rightarrow> string \<Rightarrow> int \<Rightarrow> ledger_row list \<Rightarrow> bool" where
  "chained H previous n [] = True"
| "chained H previous n (r # rs) \<longleftrightarrow> lg_sequence r = n \<and> lg_prev_hash r = previous \<and>
     lg_event_hash r = digest_json H (lg_event r) \<and> chained H (digest_json H (lg_event r)) (n + 1) rs"

definition ledger_good :: "hash \<Rightarrow> db \<Rightarrow> bool" where
  "ledger_good H d \<longleftrightarrow> (\<forall>agent capability. chained H zeros 1 (scope_rows agent capability d))"

lemma chained_lower: "chained H p n rs \<Longrightarrow> r \<in> set rs \<Longrightarrow> n \<le> lg_sequence r"
  by (induction rs arbitrary: p n) fastforce+

lemma chained_sorted: "chained H p n rs \<Longrightarrow> sorted (map lg_sequence rs)"
proof (induction rs arbitrary: p n)
  case (Cons r rs)
  then show ?case using chained_lower [of H "digest_json H (lg_event r)" "n + 1" rs] by fastforce
qed simp

lemma chained_verifies: "chained H p n rs \<Longrightarrow> verify_entries H p n (map entry_of rs) = (True, ''valid'')"
  by (induction rs arbitrary: p n) (auto simp: entry_of_def)

lemma sort_key_sorted: "sorted (map f xs) \<Longrightarrow> sort_key f xs = xs"
  by (induction xs) (simp_all add: insort_is_Cons)

lemma ledger_in_good:
  "ledger_good H d \<Longrightarrow> ledger_in a c d = map entry_of (scope_rows a c d)"
proof -
  assume "ledger_good H d"
  then have "sorted (map lg_sequence (scope_rows a c d))"
    unfolding ledger_good_def by (blast intro: chained_sorted)
  then show ?thesis by (simp add: ledger_in_def sort_key_sorted)
qed

lemma chained_append:
  "chained H p n (rs @ [r]) \<longleftrightarrow> chained H p n rs \<and> lg_sequence r = n + int (length rs) \<and>
     lg_prev_hash r = (if rs = [] then p else lg_event_hash (last rs)) \<and>
     lg_event_hash r = digest_json H (lg_event r)"
  by (induction rs arbitrary: p n) auto

lemma chained_max_row:
  assumes "chained H p n rs"
  shows "max_row lg_sequence rs = (if rs = [] then None else Some (last rs))"
    and "rs \<noteq> [] \<Longrightarrow> lg_sequence (last rs) = n + int (length rs) - 1"
proof -
  show last: "lg_sequence (last rs) = n + int (length rs) - 1" if "rs \<noteq> []"
    using that assms by (induction rs arbitrary: p n) (auto split: if_splits)
  show "max_row lg_sequence rs = (if rs = [] then None else Some (last rs))"
    using assms
  proof (induction rs arbitrary: p n)
    case (Cons r rs)
    show ?case
    proof (cases "rs = []")
      case False
      from Cons.prems have rest: "chained H (digest_json H (lg_event r)) (n + 1) rs" by simp
      with False have "last rs \<in> set rs" by simp
      with rest have "n + 1 \<le> lg_sequence (last rs)" by (rule chained_lower)
      with Cons.prems Cons.IH [OF rest] False show ?thesis by simp
    qed simp
  qed simp
qed

section \<open>Operations that keep the ledger good\<close>

definition ledger_step :: "hash \<Rightarrow> db \<Rightarrow> db \<Rightarrow> bool" where
  "ledger_step H d e \<longleftrightarrow> (ledger_good H d \<longrightarrow> ledger_good H e)"

interpretation lgo: db_order "ledger_step H" for H
  by unfold_locales (auto simp: ledger_step_def)

lemma ledger_step_same: "t_ledger e = t_ledger d \<Longrightarrow> ledger_step H d e"
  by (simp add: ledger_step_def ledger_good_def scope_rows_def)

lemma ledger_good_append:
  assumes good: "ledger_good H d"
    and seq: "lg_sequence r = (case last_entry (JStr (lg_agent_id r)) (JStr (lg_capability_id r)) d
       of None \<Rightarrow> 1 | Some s \<Rightarrow> lg_sequence s + 1)"
    and prev: "lg_prev_hash r = (case last_entry (JStr (lg_agent_id r)) (JStr (lg_capability_id r)) d
       of None \<Rightarrow> zeros | Some s \<Rightarrow> lg_event_hash s)"
    and hash: "lg_event_hash r = digest_json H (lg_event r)"
  shows "ledger_good H (d\<lparr>t_ledger := t_ledger d @ [r]\<rparr>)"
  unfolding ledger_good_def
proof (intro allI)
  fix a c
  let ?rs = "scope_rows a c d"
  from good have ch: "chained H zeros 1 ?rs" by (simp add: ledger_good_def)
  show "chained H zeros 1 (scope_rows a c (d\<lparr>t_ledger := t_ledger d @ [r]\<rparr>))"
  proof (cases "lg_agent_id r = a \<and> lg_capability_id r = c")
    case True
    then have "last_entry (JStr (lg_agent_id r)) (JStr (lg_capability_id r)) d =
        (if ?rs = [] then None else Some (last ?rs))"
      using chained_max_row(1) [OF ch]
      by (simp add: last_entry_def jstr_is_def scope_rows_def eq_commute)
    with seq prev chained_max_row(2) [OF ch] ch hash True show ?thesis
      by (auto simp: scope_rows_def chained_append split: if_splits)
  next
    case False
    with ch show ?thesis by (auto simp: scope_rows_def)
  qed
qed

lemma insert_outcome:
  assumes "insert_ledger row c = (c', x)"
  shows "(\<exists>e. x = Inl e \<and> cur c' = cur c \<and> disk c' = disk c) \<or>
    (\<exists>r. x = Inr () \<and> row = Inr r \<and> disk c' = disk c \<and> cur c' = (cur c)\<lparr>t_ledger := t_ledger (cur c) @ [r]\<rparr> \<and>
       (\<forall>s\<in>set (t_ledger (cur c)). \<not> ledger_clash r s))"
proof (cases row)
  case (Inl e)
  with assms show ?thesis by (auto simp: insert_ledger_def ins_def dml_def cur_def)
next
  case (Inr r)
  with assms show ?thesis
    by (auto simp: insert_ledger_def ins_def dml_def insert_row_def list_ex_iff split: if_splits)
qed

lemma col_text_nn_Inr: "col_text_nn v = Inr s \<longleftrightarrow> v = JStr s"
  by (cases v) auto

lemma ledger_row_for_Inr:
  "ledger_row_for agent capability sequence ident prev event_hash e t = Inr r \<Longrightarrow>
     agent = JStr (lg_agent_id r) \<and> capability = JStr (lg_capability_id r) \<and>
     ident = JStr (lg_event_id r) \<and> lg_sequence r = sequence \<and> lg_prev_hash r = prev \<and>
     lg_event_hash r = event_hash \<and> lg_event r = e"
  by (auto simp: ledger_row_for_def bindE_Inr_iff col_text_nn_Inr sql_int_def split: if_splits)

text \<open>The row an event is appended as: numbered after and linked to the last row of its scope.\<close>

definition fits :: "hash \<Rightarrow> jdict \<Rightarrow> db \<Rightarrow> ledger_row \<Rightarrow> bool" where
  "fits H e d r \<longleftrightarrow> lg_event r = JObj e \<and> lg_event_hash r = digest_json H (JObj e) \<and>
     jget e ''event_id'' = JStr (lg_event_id r) \<and> jget e ''agent_id'' = JStr (lg_agent_id r) \<and>
     jget e ''capability_id'' = JStr (lg_capability_id r) \<and>
     lg_sequence r = (case last_entry (JStr (lg_agent_id r)) (JStr (lg_capability_id r)) d
       of None \<Rightarrow> 1 | Some s \<Rightarrow> lg_sequence s + 1) \<and>
     lg_prev_hash r = (case last_entry (JStr (lg_agent_id r)) (JStr (lg_capability_id r)) d
       of None \<Rightarrow> zeros | Some s \<Rightarrow> lg_event_hash s)"

lemma append_cases:
  assumes "append_authority_ledger H e t c = (c', x)"
  shows "(cur c' = cur c \<and> disk c' = disk c) \<or>
    (\<exists>r. disk c' = cur c' \<and> cur c' = (cur c)\<lparr>t_ledger := t_ledger (cur c) @ [r]\<rparr> \<and> fits H e (cur c) r)"
proof -
  have jg: "jindex d k = Inr v \<Longrightarrow> jget d k = v" for d k v
    by (simp add: jindex_def jget_def split: option.splits)
  have "(cur c' = cur c \<and> disk c' = disk c) \<or>
    (let r = last (t_ledger (cur c')) in
      disk c' = cur c' \<and> cur c' = (cur c)\<lparr>t_ledger := t_ledger (cur c) @ [r]\<rparr> \<and> fits H e (cur c) r)"
    using assms unfolding append_authority_ledger_def Let_def
    by (auto simp: bindS_apply fits_def split: prod.splits sum.splits option.splits
        dest!: insert_outcome ledger_row_for_Inr jg)
  then show ?thesis by (auto simp: Let_def)
qed

lemma append_keeps_ledger [keeps_intros]: "lgo.advances H (append_authority_ledger H e t)"
  unfolding lgo.advances_def
proof (intro allI impI)
  fix c assume ok: "lgo.conn_ok H c"
  obtain c' x where run: "append_authority_ledger H e t c = (c', x)" by fastforce
  from append_cases [OF run] ok
  show "lgo.conn_ok H (fst (append_authority_ledger H e t c)) \<and>
      ledger_step H (disk c) (disk (fst (append_authority_ledger H e t c)))"
    unfolding run lgo.conn_ok_def ledger_step_def fst_conv
    by (elim disjE exE conjE) (auto simp: fits_def intro!: ledger_good_append)
qed

lemma same_ledger_forward:
  "(\<And>d e a. f d = Inr (e, a) \<Longrightarrow> t_ledger e = t_ledger d) \<Longrightarrow> lgo.forward H f"
  by (simp add: lgo.forward_def ledger_step_same)

lemma events_keep_ledger [keeps_intros]:
  "lgo.advances H (record_authority_event e)" "lgo.advances H (set_authority_state a c s j t)"
  "lgo.advances H (authority_events a c n)" "lgo.advances H (authority_ledger a c)"
  "lgo.advances H (authority_ledger_head a c)" "lgo.advances H (latest_authority_state a c)"
  unfolding record_authority_event_def set_authority_state_def insert_event_def authority_events_def
    authority_ledger_def authority_ledger_head_def latest_authority_state_def
  by (intro keeps_intros same_ledger_forward;
      auto simp: ins_def bindE_Inr_iff put_state_def)+

end
