(* ===== verification/Dynamic.thy ===== *)
theory Dynamic
  imports Storage_Events
begin

text \<open>
  \<open>core/authority_state.py\<close>: the dynamic authority of an agent over a capability, computed from its
  recorded outcome events.  \<open>now\<close> and \<open>t\<close> are readings of the clock.
\<close>

section \<open>States and policy\<close>

datatype authority_state = PROBATION | LIMITED | STANDARD | ELEVATED | SUSPENDED

definition state_str :: "authority_state \<Rightarrow> string" where
  "state_str s = (case s of PROBATION \<Rightarrow> ''PROBATION'' | LIMITED \<Rightarrow> ''LIMITED''
     | STANDARD \<Rightarrow> ''STANDARD'' | ELEVATED \<Rightarrow> ''ELEVATED'' | SUSPENDED \<Rightarrow> ''SUSPENDED'')"

record authority_policy =
  ap_window_seconds :: int
  ap_probation_successes :: int
  ap_standard_successes :: int
  ap_limited_adverse_events :: int
  ap_suspension_critical_events :: int
  ap_probation_multiplier :: xnum
  ap_limited_multiplier :: xnum
  ap_standard_multiplier :: xnum
  ap_elevated_multiplier :: xnum
  ap_elevated_only_actions :: "string list"

definition default_authority_policy :: authority_policy where
  "default_authority_policy = \<lparr>
     ap_window_seconds = 30 * 24 * 3600, ap_probation_successes = 5, ap_standard_successes = 20,
     ap_limited_adverse_events = 2, ap_suspension_critical_events = 1,
     ap_probation_multiplier = round64 (10 / 100), ap_limited_multiplier = round64 (25 / 100),
     ap_standard_multiplier = round64 (50 / 100), ap_elevated_multiplier = round64 1,
     ap_elevated_only_actions = [''irreversible_operation''] \<rparr>"

definition authority_policy_dict :: "authority_policy \<Rightarrow> jdict" where
  "authority_policy_dict p = [
     (''window_seconds'', JInt (ap_window_seconds p)),
     (''probation_successes'', JInt (ap_probation_successes p)),
     (''standard_successes'', JInt (ap_standard_successes p)),
     (''limited_adverse_events'', JInt (ap_limited_adverse_events p)),
     (''suspension_critical_events'', JInt (ap_suspension_critical_events p)),
     (''probation_multiplier'', JFloat (ap_probation_multiplier p)),
     (''limited_multiplier'', JFloat (ap_limited_multiplier p)),
     (''standard_multiplier'', JFloat (ap_standard_multiplier p)),
     (''elevated_multiplier'', JFloat (ap_elevated_multiplier p)),
     (''elevated_only_actions'', str_list (ap_elevated_only_actions p))]"

definition authority_policy_digest :: "hash \<Rightarrow> authority_policy \<Rightarrow> string" where
  "authority_policy_digest H p = digest_json H (JObj (authority_policy_dict p))"

definition multiplier :: "authority_policy \<Rightarrow> authority_state \<Rightarrow> xnum" where
  "multiplier p s = (case s of
     PROBATION \<Rightarrow> ap_probation_multiplier p | LIMITED \<Rightarrow> ap_limited_multiplier p
   | STANDARD \<Rightarrow> ap_standard_multiplier p | ELEVATED \<Rightarrow> ap_elevated_multiplier p
   | SUSPENDED \<Rightarrow> Fin 0)"

record authority_snapshot =
  as_agent_id :: string
  as_capability_id :: string
  as_state :: authority_state
  as_successes :: int
  as_adverse_events :: int
  as_critical_events :: int
  as_multiplier :: xnum
  as_evaluated_at :: xnum
  as_reason :: string
  as_ledger_head_hash :: string
  as_policy_sha256 :: string
  as_history_start_at :: xnum

definition snapshot_dict :: "authority_snapshot \<Rightarrow> jdict" where
  "snapshot_dict s = [
     (''agent_id'', JStr (as_agent_id s)),
     (''capability_id'', JStr (as_capability_id s)),
     (''state'', JStr (state_str (as_state s))),
     (''successes'', JInt (as_successes s)),
     (''adverse_events'', JInt (as_adverse_events s)),
     (''critical_events'', JInt (as_critical_events s)),
     (''multiplier'', JFloat (as_multiplier s)),
     (''evaluated_at'', JFloat (as_evaluated_at s)),
     (''reason'', JStr (as_reason s)),
     (''ledger_head_hash'', JStr (as_ledger_head_hash s)),
     (''authority_policy_sha256'', JStr (as_policy_sha256 s)),
     (''history_start_at'', JFloat (as_history_start_at s))]"

definition snapshot_digest :: "hash \<Rightarrow> authority_snapshot \<Rightarrow> string" where
  "snapshot_digest H s = digest_json H (JObj (snapshot_dict s))"

section \<open>The service\<close>

definition success_events :: "string list" where
  "success_events = [''EXECUTION_CONFIRMED'']"

definition adverse_events :: "string list" where
  "adverse_events = [''EXECUTION_FAILED'', ''AUTHORIZATION_REJECTED'', ''POLICY_VIOLATION'',
     ''TAMPER_DETECTED'']"

definition critical_events :: "string list" where
  "critical_events = [''TAMPER_DETECTED'', ''POLICY_VIOLATION'']"

definition count_events :: "string list \<Rightarrow> event_row list \<Rightarrow> int" where
  "count_events types es = int (length (filter (\<lambda>e. ev_event_type e \<in> set types) es))"

text \<open>The conditional of \<open>snapshot\<close>: the state and its reason.\<close>

definition classify :: "authority_policy \<Rightarrow> string option \<Rightarrow> bool \<Rightarrow> int \<Rightarrow> int \<Rightarrow> int \<Rightarrow>
    authority_state \<times> string" where
  "classify p previous never_reset successes adverse critical =
     (if previous = Some ''SUSPENDED'' \<and> never_reset
      then (SUSPENDED, ''suspended until an explicit authority reset'')
      else if critical \<ge> ap_suspension_critical_events p
      then (SUSPENDED, ''critical authority event observed'')
      else if adverse \<ge> ap_limited_adverse_events p
      then (LIMITED, ''adverse outcome threshold reached'')
      else if successes \<ge> ap_standard_successes p \<and> adverse \<le> 1
      then (ELEVATED, ''verified success threshold reached with bounded adverse history'')
      else if successes \<ge> ap_probation_successes p \<and> adverse \<le> 1
      then (STANDARD, ''probation success threshold reached'')
      else (PROBATION, ''insufficient verified history for broader authority''))"

text \<open>\<open>float(v)\<close> of a number in a stored JSON document.\<close>

fun float_arg :: "json \<Rightarrow> xnum res" where
  "float_arg (JInt i) = py_float (PNum (NInt i))"
| "float_arg (JFloat x) = Inr x"
| "float_arg (JBool b) = py_float (PBool b)"
| "float_arg v = Inl (TypeError ''float() argument'')"

definition reset_time :: "json \<Rightarrow> xnum res" where
  "reset_time v = bindE (as_dict v) (\<lambda>d. bindE (jindex_obj d ''payload'') (\<lambda>p.
     bindE (jindex p ''issued_at'') float_arg))"

text \<open>\<open>max(a, b)\<close> of two floats.\<close>

definition py_max :: "xnum \<Rightarrow> xnum \<Rightarrow> xnum" where
  "py_max a b = (if x_lt a b then b else a)"

definition history_start :: "authority_policy \<Rightarrow> xnum \<Rightarrow> json option \<Rightarrow> xnum res" where
  "history_start p now reset =
     bindE (py_float (PNum (NInt (ap_window_seconds p)))) (\<lambda>w.
     case reset of None \<Rightarrow> Inr (f_sub now w)
     | Some v \<Rightarrow> bindE (reset_time v) (\<lambda>r. Inr (py_max (f_sub now w) r)))"

definition snapshot :: "hash \<Rightarrow> authority_policy \<Rightarrow> string \<Rightarrow> string \<Rightarrow> xnum \<Rightarrow> xnum \<Rightarrow>
    authority_snapshot st" where
  "snapshot H p agent capability now t =
     bindS (latest_authority_reset agent capability) (\<lambda>reset.
     bindS (liftS (history_start p now reset)) (\<lambda>start.
     bindS (authority_events agent capability (Some start)) (\<lambda>events.
     let successes = count_events success_events events;
         adverse = count_events adverse_events events;
         critical = count_events critical_events events
     in bindS (latest_authority_state agent capability) (\<lambda>previous.
     case classify p previous (reset = None) successes adverse critical of (state, reason) \<Rightarrow>
     bindS (authority_ledger_head agent capability) (\<lambda>head.
     let snap = \<lparr> as_agent_id = agent, as_capability_id = capability, as_state = state,
           as_successes = successes, as_adverse_events = adverse, as_critical_events = critical,
           as_multiplier = multiplier p state, as_evaluated_at = now, as_reason = reason,
           as_ledger_head_hash = head, as_policy_sha256 = authority_policy_digest H p,
           as_history_start_at = start \<rparr>
     in bindS (set_authority_state agent capability (state_str state) (JObj (snapshot_dict snap)) t)
       (\<lambda>_. returnS snap))))))"

text \<open>\<open>amount > limit\<close> where \<open>limit\<close> is a float.\<close>

fun amount_over :: "pynum \<Rightarrow> xnum \<Rightarrow> bool res" where
  "amount_over (PDec d) limit = dec_gt (dec_x d) limit"
| "amount_over (PNum n) limit = Inr (x_lt limit (num_x n))"
| "amount_over (PBool b) limit = Inr (x_lt limit (Fin (if b then 1 else 0)))"

text \<open>\<open>base_limit * multiplier\<close> of an int or a float with a float\<close>

definition scaled_limit :: "num \<Rightarrow> xnum \<Rightarrow> xnum res" where
  "scaled_limit base m = bindE (py_float (PNum base)) (\<lambda>b. Inr (f_mul b m))"

definition within_dynamic_limit :: "capability \<Rightarrow> action_intent \<Rightarrow> xnum \<Rightarrow> unit res" where
  "within_dynamic_limit c a m = (case ai_amount a of
     None \<Rightarrow> Inr ()
   | Some amount \<Rightarrow> (case dget (cap_max_per_action c) (opt_default (ai_asset a)) of
       None \<Rightarrow> Inr ()
     | Some base \<Rightarrow> bindE (scaled_limit base m) (\<lambda>limit. bindE (amount_over amount limit) (\<lambda>over.
         if over then Inl (PermissionError ''action exceeds dynamic authority limit'') else Inr ()))))"

definition assert_action :: "hash \<Rightarrow> authority_policy \<Rightarrow> capability \<Rightarrow> action_intent \<Rightarrow> xnum \<Rightarrow> xnum \<Rightarrow>
    authority_snapshot st" where
  "assert_action H p c a now t =
     bindS (snapshot H p (ai_agent_id a) (cap_id c) now t) (\<lambda>snap.
     bindS (guardS (as_state snap \<noteq> SUSPENDED)
       (PermissionError ''dynamic authority is suspended'')) (\<lambda>_.
     bindS (guardS (\<not> (ai_action_type a \<in> set (ap_elevated_only_actions p) \<and>
         as_state snap \<noteq> ELEVATED))
       (PermissionError ''action requires elevated dynamic authority'')) (\<lambda>_.
     bindS (liftS (within_dynamic_limit c a (as_multiplier snap))) (\<lambda>_. returnS snap))))"

definition event_id_text :: "string \<Rightarrow> string \<Rightarrow> string \<Rightarrow> string \<Rightarrow> string" where
  "event_id_text agent capability event_type evidence =
     agent @ '':'' @ capability @ '':'' @ event_type @ '':'' @ evidence"

record event_request =
  eq_agent_id :: string
  eq_capability_id :: string
  eq_event_type :: string
  eq_evidence_ref :: string
  eq_action_type :: "string option"
  eq_identity_id :: "string option"
  eq_metadata :: jdict
  eq_occurred_at :: xnum

definition event_of :: "hash \<Rightarrow> event_request \<Rightarrow> jdict" where
  "event_of H q = [
     (''event_id'', JStr (H (event_id_text (eq_agent_id q) (eq_capability_id q) (eq_event_type q)
        (eq_evidence_ref q)))),
     (''agent_id'', JStr (eq_agent_id q)),
     (''capability_id'', JStr (eq_capability_id q)),
     (''identity_id'', opt_str (eq_identity_id q)),
     (''event_type'', JStr (eq_event_type q)),
     (''action_type'', opt_str (eq_action_type q)),
     (''evidence_ref'', JStr (eq_evidence_ref q)),
     (''metadata'', JObj (eq_metadata q)),
     (''occurred_at'', JFloat (eq_occurred_at q))]"

definition record_event :: "hash \<Rightarrow> event_request \<Rightarrow> xnum \<Rightarrow> (jdict \<times> ledger_entry) st" where
  "record_event H q t =
     bindS (guardS (eq_event_type q \<noteq> [] \<and> eq_evidence_ref q \<noteq> [])
       (ValueError ''event_type and evidence_ref are required'')) (\<lambda>_.
     bindS (guardS (eq_event_type q \<in> set (success_events @ adverse_events))
       (ValueError ''unknown authority event type'')) (\<lambda>_.
     let event = event_of H q in
     bindS (record_authority_event event) (\<lambda>_.
     bindS (append_authority_ledger H event t) (\<lambda>ledger. returnS (event, ledger)))))"

record explanation =
  ex_snapshot :: authority_snapshot
  ex_snapshot_sha256 :: string
  ex_events :: "event_row list"
  ex_ledger :: "ledger_entry list"
  ex_reset :: "json option"

definition explain_authority :: "hash \<Rightarrow> authority_policy \<Rightarrow> string \<Rightarrow> string \<Rightarrow> xnum \<Rightarrow> xnum \<Rightarrow> xnum \<Rightarrow>
    explanation st" where
  "explain_authority H p agent capability now t now2 =
     bindS (snapshot H p agent capability now t) (\<lambda>snap.
     bindS (liftS (py_float (PNum (NInt (ap_window_seconds p))))) (\<lambda>w.
     bindS (latest_authority_reset agent capability) (\<lambda>reset.
     bindS (liftS (case reset of None \<Rightarrow> Inr (Fin 0) | Some v \<Rightarrow> reset_time v)) (\<lambda>since.
     bindS (authority_events agent capability (Some (py_max (f_sub now2 w) since))) (\<lambda>events.
     bindS (authority_ledger agent capability) (\<lambda>ledger.
     bindS (latest_authority_reset agent capability) (\<lambda>again.
     returnS \<lparr> ex_snapshot = snap, ex_snapshot_sha256 = snapshot_digest H snap, ex_events = events,
       ex_ledger = ledger, ex_reset = again \<rparr>)))))))"

section \<open>The operations advance the database and keep the ledger good\<close>

lemma resets_keep_ledger [keeps_intros]: "lgo.advances H (latest_authority_reset a c)"
  unfolding latest_authority_reset_def by (intro keeps_intros)

lemma snapshot_advances [keeps_intros]:
  "dbo.advances (snapshot H p a c now t)" "lgo.advances H (snapshot H p a c now t)"
  unfolding snapshot_def Let_def by (intro keeps_intros)+

lemma service_advances [keeps_intros]:
  "dbo.advances (assert_action H p c a now t)" "dbo.advances (record_event H q t)"
  "dbo.advances (explain_authority H p g i now t now2)"
  unfolding assert_action_def record_event_def Let_def explain_authority_def
  by (intro keeps_intros)+

lemma service_keeps_ledger [keeps_intros]:
  "lgo.advances H (assert_action H p c a now t)" "lgo.advances H (record_event H q t)"
  "lgo.advances H (explain_authority H p g i now t now2)"
  unfolding assert_action_def record_event_def Let_def explain_authority_def
  by (intro keeps_intros)+

end
