(* ===== verification/Authority_Levels.thy ===== *)
theory Authority_Levels
  imports Dynamic Delegation
begin

text \<open>
  What the dynamic authority service guarantees: its levels are ordered, a suspended scope stays
  suspended, an admitted action is within the scaled limit, an event is recorded exactly once.
\<close>

section \<open>Levels in order\<close>

definition level :: "authority_state \<Rightarrow> nat" where
  "level s = (case s of SUSPENDED \<Rightarrow> 0 | PROBATION \<Rightarrow> 1 | LIMITED \<Rightarrow> 2 | STANDARD \<Rightarrow> 3 | ELEVATED \<Rightarrow> 4)"

lemma level_inj: "level s = level t \<longleftrightarrow> s = t"
  by (cases s; cases t) (simp_all add: level_def)

instantiation authority_state :: linorder
begin

definition less_eq_authority_state :: "authority_state \<Rightarrow> authority_state \<Rightarrow> bool" where
  "s \<le> t \<longleftrightarrow> level s \<le> level t"

definition less_authority_state :: "authority_state \<Rightarrow> authority_state \<Rightarrow> bool" where
  "s < t \<longleftrightarrow> level s < level t"

instance
  by standard (auto simp: less_eq_authority_state_def less_authority_state_def level_inj)

end

lemmas level_order = less_eq_authority_state_def less_authority_state_def level_def

lemma state_str_inj [simp]: "state_str s = state_str t \<longleftrightarrow> s = t"
  by (cases s; cases t) (simp_all add: state_str_def)

lemma state_str_suspended [simp]: "state_str SUSPENDED = ''SUSPENDED''"
  by (simp add: state_str_def)

section \<open>The snapshot as a function of the database\<close>

definition reset_in :: "string \<Rightarrow> string \<Rightarrow> db \<Rightarrow> json option" where
  "reset_in a k d = map_option rs_signed (max_row rs_epoch (resets_of a k d))"

definition snapshot_of :: "hash \<Rightarrow> authority_policy \<Rightarrow> string \<Rightarrow> string \<Rightarrow> xnum \<Rightarrow> db \<Rightarrow>
    authority_snapshot res" where
  "snapshot_of H p a k now d = bindE (history_start p now (reset_in a k d)) (\<lambda>start.
     let es = events_since a k (Some start) d;
         cl = classify p (latest_state_in a k d) (reset_in a k d = None)
           (count_events success_events es) (count_events adverse_events es)
           (count_events critical_events es)
     in Inr \<lparr> as_agent_id = a, as_capability_id = k, as_state = fst cl,
       as_successes = count_events success_events es,
       as_adverse_events = count_events adverse_events es,
       as_critical_events = count_events critical_events es,
       as_multiplier = multiplier p (fst cl), as_evaluated_at = now, as_reason = snd cl,
       as_ledger_head_hash = head_of (ledger_in a k d),
       as_policy_sha256 = authority_policy_digest H p, as_history_start_at = start \<rparr>)"

definition state_row_of :: "authority_snapshot \<Rightarrow> xnum \<Rightarrow> state_row" where
  "state_row_of s t = \<lparr> st_agent_id = as_agent_id s, st_capability_id = as_capability_id s,
     st_state = state_str (as_state s), st_snapshot = JObj (snapshot_dict s), st_updated_at = t \<rparr>"

definition save_state :: "authority_snapshot \<Rightarrow> xnum \<Rightarrow> db \<Rightarrow> db" where
  "save_state s t d = put_state (upsert_state (state_row_of s t) (t_states d)) d"

lemma snapshot_spec:
  "snapshot H p a k now t c = (case snapshot_of H p a k now (cur c) of
     Inl e \<Rightarrow> (c, Inl e)
   | Inr s \<Rightarrow> (c\<lparr>disk := save_state s t (cur c), work := None\<rparr>, Inr s))"
proof (cases "history_start p now (reset_in a k (cur c))")
  case (Inl e)
  then show ?thesis
    by (simp add: snapshot_def snapshot_of_def latest_authority_reset_def reset_in_def bindS_apply)
next
  case (Inr start)
  then show ?thesis
    by (simp add: snapshot_def snapshot_of_def latest_authority_reset_def reset_in_def bindS_apply
        authority_events_def latest_authority_state_def authority_ledger_head_def Let_def
        set_authority_state_def dml_def save_state_def state_row_of_def split: prod.splits)
qed

lemma assert_action_spec:
  "assert_action H p c a now t s = (c', Inr snap) \<longleftrightarrow>
     snapshot H p (ai_agent_id a) (cap_id c) now t s = (c', Inr snap) \<and>
     as_state snap \<noteq> SUSPENDED \<and>
     (ai_action_type a \<in> set (ap_elevated_only_actions p) \<longrightarrow> as_state snap = ELEVATED) \<and>
     within_dynamic_limit c a (as_multiplier snap) = Inr ()"
  by (auto simp: assert_action_def bindS_Inr_iff)

lemma assert_action_state:
  "fst (assert_action H p c a now t s) = fst (snapshot H p (ai_agent_id a) (cap_id c) now t s)"
  by (auto simp: assert_action_def bindS_apply split: prod.splits sum.splits)

lemma snapshot_of_Inr:
  assumes "snapshot_of H p a k now d = Inr s"
  shows "as_agent_id s = a" "as_capability_id s = k" "as_multiplier s = multiplier p (as_state s)"
    "(as_state s, as_reason s) = classify p (latest_state_in a k d) (reset_in a k d = None)
       (as_successes s) (as_adverse_events s) (as_critical_events s)"
  using assms by (auto simp: snapshot_of_def bindE_Inr_iff Let_def)

lemma find_map_keep: "(\<And>r. P (g r) = P r) \<Longrightarrow> find P (map g tab) = map_option g (find P tab)"
  by (induction tab) simp_all

lemma latest_after_save:
  "latest_state_in a k (save_state s t d) =
     (if as_agent_id s = a \<and> as_capability_id s = k then Some (state_str (as_state s))
      else latest_state_in a k d)"
proof -
  let ?P = "\<lambda>r. st_agent_id r = a \<and> st_capability_id r = k" and ?r = "state_row_of s t"
  let ?g = "\<lambda>r. if state_clash ?r r then ?r else r" and ?tab = "t_states d"
  have clash: "state_clash ?r r \<longleftrightarrow> st_agent_id r = as_agent_id s \<and> st_capability_id r = as_capability_id s"
    for r by (auto simp: state_clash_def state_row_of_def)
  have P: "?P ?r \<longleftrightarrow> as_agent_id s = a \<and> as_capability_id s = k" by (simp add: state_row_of_def)
  have "map_option st_state (find ?P (upsert_state ?r ?tab)) =
     (if as_agent_id s = a \<and> as_capability_id s = k then Some (state_str (as_state s))
      else map_option st_state (find ?P ?tab))"
  proof (cases "list_ex (state_clash ?r) ?tab")
    case True
    have eq: "find ?P (upsert_state ?r ?tab) = map_option ?g (find ?P ?tab)"
      using True by (simp add: upsert_state_def) (rule find_map_keep, auto simp: clash P)
    show ?thesis
    proof (cases "find ?P ?tab")
      case None
      with True have "\<not> (as_agent_id s = a \<and> as_capability_id s = k)"
        by (auto simp: find_None_iff list_ex_iff clash)
      with None show ?thesis unfolding eq by auto
    next
      case (Some x)
      then have "?P x" by (auto simp: find_Some_iff)
      with Some show ?thesis unfolding eq by (auto simp: clash) (simp add: state_row_of_def)
    qed
  next
    case False
    then have none: "find ?P ?tab = None" if "as_agent_id s = a" "as_capability_id s = k"
      using that by (auto simp: find_None_iff list_ex_iff clash)
    have "find ?P (?tab @ [?r]) = (case find ?P ?tab of None \<Rightarrow> find ?P [?r] | Some x \<Rightarrow> Some x)"
      using select_one_append [of ?P ?tab "[?r]"] unfolding select_one_def .
    with False none show ?thesis
      by (auto simp: upsert_state_def state_row_of_def split: option.splits)
  qed
  then show ?thesis by (simp add: latest_state_in_def select_one_def save_state_def put_state_def)
qed

section \<open>Runs of the service\<close>

text \<open>Any sequence of calls, of any scopes, at any times.\<close>

inductive authority_run :: "hash \<Rightarrow> authority_policy \<Rightarrow> db conn \<Rightarrow> db conn \<Rightarrow> bool"
  for H p where
  stay: "authority_run H p c c"
| snapshot: "authority_run H p c s \<Longrightarrow> authority_run H p c (fst (snapshot H p a k now t s))"
| assert: "authority_run H p c s \<Longrightarrow> authority_run H p c (fst (assert_action H p cap act now t s))"
| event: "authority_run H p c s \<Longrightarrow> authority_run H p c (fst (record_event H q t s))"
| explain: "authority_run H p c s \<Longrightarrow> authority_run H p c (fst (explain_authority H p a k now t u s))"

definition stuck :: "string \<Rightarrow> string \<Rightarrow> db \<Rightarrow> bool" where
  "stuck a k d \<longleftrightarrow> latest_state_in a k d = Some ''SUSPENDED'' \<and> resets_of a k d = []"

lemma stuck_same:
  "t_states e = t_states d \<Longrightarrow> t_resets e = t_resets d \<Longrightarrow> stuck a k e = stuck a k d"
  by (simp add: stuck_def latest_state_in_def resets_of_def)

lemma stuck_snapshot:
  assumes "stuck a k d" and "snapshot_of H p a' k' now d = Inr s"
  shows "stuck a k (save_state s t d)"
    and "a' = a \<Longrightarrow> k' = k \<Longrightarrow> as_state s = SUSPENDED"
proof -
  show susp: "as_state s = SUSPENDED" if "a' = a" "k' = k"
    using snapshot_of_Inr(4) [OF assms(2)] assms(1) that
    by (simp add: stuck_def reset_in_def classify_def)
  have "resets_of a k (save_state s t d) = resets_of a k d"
    by (simp add: resets_of_def save_state_def put_state_def)
  then show "stuck a k (save_state s t d)"
    using assms susp by (auto simp: stuck_def latest_after_save snapshot_of_Inr(1,2) [OF assms(2)])
qed

definition stuck_conn :: "string \<Rightarrow> string \<Rightarrow> db conn \<Rightarrow> bool" where
  "stuck_conn a k c \<longleftrightarrow> stuck a k (disk c) \<and> stuck a k (cur c)"

lemma stuck_snapshot_conn: "keeps (stuck_conn a k) (snapshot H p a' k' now t)"
  by (auto simp: keeps_def snapshot_spec stuck_conn_def stuck_snapshot(1) split: sum.split)

lemma stuck_dml:
  "(\<And>d e x. f d = Inr (e, x) \<Longrightarrow> t_states e = t_states d \<and> t_resets e = t_resets d) \<Longrightarrow>
     keeps (stuck_conn a k) (dml f)"
  by (auto simp: keeps_def dml_def stuck_conn_def split: sum.splits intro: stuck_same [THEN iffD2])

lemma stuck_commit [keeps_intros]: "keeps (stuck_conn a k) commit" "keeps (stuck_conn a k) rollback"
  by (auto simp: keeps_def stuck_conn_def)

lemma keeps_on_integrity [keeps_intros]:
  "keeps P m \<Longrightarrow> keeps P rollback \<Longrightarrow> keeps P h \<Longrightarrow> keeps P (on_integrity m h)"
  unfolding on_integrity_def by (intro keeps_catch) (auto intro!: keeps_intros split: if_splits)

lemma stuck_record_event: "keeps (stuck_conn a k) (record_event H q t)"
  unfolding record_event_def record_authority_event_def append_authority_ledger_def Let_def
    insert_event_def insert_ledger_def
  by (intro keeps_intros stuck_dml; auto simp: ins_def bindE_Inr_iff)+

lemma stuck_run: "authority_run H p c s \<Longrightarrow> stuck_conn a k c \<Longrightarrow> stuck_conn a k s"
proof (induction rule: authority_run.induct)
  case (snapshot c s)
  then show ?case using stuck_snapshot_conn by (auto intro: keepsD)
next
  case (assert c s cap act now t)
  then show ?case unfolding assert_action_state using stuck_snapshot_conn by (auto intro: keepsD)
next
  case (event c s)
  then show ?case using stuck_record_event by (auto intro: keepsD)
next
  case (explain c s b l now t u)
  have "keeps (stuck_conn a k) (explain_authority H p b l now t u)"
    unfolding explain_authority_def latest_authority_reset_def authority_events_def authority_ledger_def
    by (intro keeps_intros stuck_snapshot_conn)
  with explain show ?case by (auto intro: keepsD)
qed

section \<open>The limit\<close>

definition modest :: "authority_policy \<Rightarrow> bool" where
  "modest p \<longleftrightarrow> list_all (\<lambda>m. x_le (Fin 0) m \<and> x_le m (Fin 1))
     [ap_probation_multiplier p, ap_limited_multiplier p, ap_standard_multiplier p,
      ap_elevated_multiplier p]"

fun amount_x :: "pynum \<Rightarrow> xnum" where
  "amount_x (PDec d) = dec_x d"
| "amount_x (PNum n) = num_x n"
| "amount_x (PBool b) = Fin (if b then 1 else 0)"

lemma modest_multiplier: "modest p \<Longrightarrow> \<exists>m. multiplier p s = Fin m \<and> 0 \<le> m \<and> m \<le> 1"
proof -
  have fin: "\<exists>r. m = Fin r \<and> 0 \<le> r \<and> r \<le> 1" if "x_le (Fin 0) m" "x_le m (Fin 1)" for m
    using that by (cases m) auto
  show "modest p \<Longrightarrow> ?thesis" by (cases s) (auto simp: modest_def multiplier_def intro!: fin)
qed

lemma amount_not_over:
  assumes "is_valid_amount v" and "amount_over v limit = Inr False" and "limit \<noteq> NaN"
  shows "x_le (amount_x v) limit"
proof (cases v)
  case (PDec d)
  with assms show ?thesis
    by (cases "dec_x d"; cases limit) (auto simp: is_valid_amount_def dec_gt_def)
next
  case (PNum n)
  with assms show ?thesis
    by (cases n; cases limit; cases "num_x n") (auto simp: is_valid_amount_def not_less split: num.splits)
qed (use assms in \<open>simp add: is_valid_amount_def\<close>)

lemma scaled_within:
  assumes "scaled_limit base m = Inr l" and "py_float (PNum base) = Inr (Fin b)" and "is_binary64 b"
    and "0 \<le> b" and "m = Fin q" and "0 \<le> q" and "q \<le> 1"
  shows "x_le l (Fin b) \<and> l \<noteq> NaN"
  using assms b64.shrink [of b q] b64.rnd_not_nan
  by (auto simp: scaled_limit_def is_binary64_def)

lemma classify_level:
  assumes "s1 \<le> s2" and "c2 \<le> c1"
  shows "fst (classify p prev nr s1 a c1) \<le> fst (classify p prev nr s2 a c2)"
  using assms by (auto simp: classify_def level_order)

lemma round64_le1: "x \<le> 1 \<Longrightarrow> 0 \<le> x \<Longrightarrow> x_le (Fin 0) (round64 x) \<and> x_le (round64 x) (Fin 1)"
  using b64.rnd_mono [of 0 x] b64.rnd_mono [of x 1] round64_numeral(2) by simp

lemma record_row_id: "event_row_for e = Inr r \<Longrightarrow> jget e ''event_id'' = JStr (ev_event_id r)"
  by (auto simp: event_row_for_def bindE_Inr_iff col_text_nn_Inr)

definition event_stored :: "jdict \<Rightarrow> db \<Rightarrow> bool" where
  "event_stored e d \<longleftrightarrow> (\<exists>r\<in>set (t_events d). jget e ''event_id'' = JStr (ev_event_id r))"

lemma need_keys_IntegrityError [simp]: "need_keys ks p \<noteq> Inl IntegrityError"
  by (induction ks) (auto simp: bindE_Inl_iff jindex_def split: option.splits)

lemma record_stored:
  assumes "record_authority_event e c = (c', Inr ())"
  shows "event_stored e (cur c')" "disk c' = cur c'"
    "need_keys event_keys e = Inr ()" 
    "event_row_for e = Inl IntegrityError \<or> (\<exists>r. event_row_for e = Inr r)"
    "t_ledger (cur c') = t_ledger (cur c) \<or> t_ledger (cur c') = t_ledger (disk c)"
proof -
  have *: "event_stored e (cur c') \<and> disk c' = cur c' \<and> need_keys event_keys e = Inr () \<and> 
    (event_row_for e = Inl IntegrityError \<or> (\<exists>r. event_row_for e = Inr r)) \<and>
    (t_ledger (cur c') = t_ledger (cur c) \<or> t_ledger (cur c') = t_ledger (disk c))"
    using assms
    by (cases "event_row_for e")
      (auto simp: record_authority_event_def on_integrity_def catchS_def bindS_apply insert_event_def
        dml_ins_Inl dml_ins_Inr event_known_def list_ex_iff event_stored_def record_row_id
        split: prod.splits sum.splits if_splits option.splits)
  then show "event_stored e (cur c')" "disk c' = cur c'"
    "need_keys event_keys e = Inr ()" 
    "event_row_for e = Inl IntegrityError \<or> (\<exists>r. event_row_for e = Inr r)"
    "t_ledger (cur c') = t_ledger (cur c) \<or> t_ledger (cur c') = t_ledger (disk c)"
    by simp_all
qed

lemma record_again:
  assumes "event_stored e (disk c)" "work c = None" and "need_keys event_keys e = Inr ()"
    and "event_row_for e = Inl IntegrityError \<or> (\<exists>r. event_row_for e = Inr r)"
  shows "record_authority_event e c = (c, Inr ())"
proof -
  have known: "event_known (jget e ''event_id'') (disk c)"
    using assms(1) by (auto simp: event_known_def list_ex_iff event_stored_def)
  have run: "insert_event (event_row_for e) c = (c\<lparr>work := Some (disk c)\<rparr>, Inl IntegrityError)"
    using assms(4)
  proof
    assume "\<exists>r. event_row_for e = Inr r"
    then obtain r where r: "event_row_for e = Inr r" by blast
    from assms(1) record_row_id [OF r] obtain s where "s \<in> set (t_events (disk c))" "event_clash r s"
      by (auto simp: event_stored_def event_clash_def)
    then have "list_ex (event_clash r) (t_events (disk c))" by (auto simp: list_ex_iff)
    with r assms(2) show ?thesis by (simp add: insert_event_def dml_ins_Inr cur_idle)
  qed (use assms(2) in \<open>simp add: insert_event_def dml_ins_Inl cur_idle\<close>)
  have "c\<lparr>work := None\<rparr> = c" using assms(2) by (cases c) simp
  with run known assms(2,3) show ?thesis
    by (simp add: record_authority_event_def on_integrity_def catchS_def bindS_apply cur_idle)
qed

definition entry_stored :: "jdict \<Rightarrow> ledger_entry \<Rightarrow> db \<Rightarrow> bool" where
  "entry_stored e l d \<longleftrightarrow> (\<exists>r. select_one (\<lambda>s. jstr_is (jget e ''event_id'') (lg_event_id s)) (t_ledger d) = Some r \<and>
     l\<lparr>le_created_at := None\<rparr> = (entry_of r)\<lparr>le_event_id := None, le_created_at := None\<rparr>)"

lemma jindex_Inr: "jindex d k = Inr v \<longleftrightarrow> dget d k = Some v"
  by (simp add: jindex_def split: option.splits)

lemma append_stored:
  assumes "append_authority_ledger H e t c = (c', Inr l)" and "disk c = cur c"
  shows "entry_stored e l (disk c')" "disk c' = cur c'" "t_events (cur c') = t_events (cur c)"
proof -
  let ?P = "\<lambda>s. jstr_is (jget e ''event_id'') (lg_event_id s)"
  from assms obtain id where id: "jindex e ''event_id'' = Inr id" "jget e ''event_id'' = id"
    by (auto simp: append_authority_ledger_def Let_def bindS_Inr_iff jindex_Inr jget_def)
  have "entry_stored e l (disk c') \<and> disk c' = cur c' \<and> t_events (cur c') = t_events (cur c)"
  proof (cases "select_one ?P (t_ledger (cur c))")
    case (Some r)
    with assms id show ?thesis
      by (auto simp: append_authority_ledger_def Let_def bindS_apply entry_stored_def entry_of_def)
  next
    case None
    with assms(1) id obtain agent capability c0 where
      new: "insert_ledger (ledger_row_for agent capability (le_sequence l) id (le_prev l)
          (le_hash l) (le_event l) t) c = (c0, Inr ())"
        "c' = c0\<lparr>disk := cur c0, work := None\<rparr>" "le_event_id l = None" "le_created_at l = None"
      by (auto simp: append_authority_ledger_def Let_def bindS_Inr_iff)
    from insert_outcome [OF new(1)] obtain r where
      r: "ledger_row_for agent capability (le_sequence l) id (le_prev l) (le_hash l) (le_event l) t = Inr r"
        "disk c0 = disk c" "cur c0 = (cur c)\<lparr>t_ledger := t_ledger (cur c) @ [r]\<rparr>" by auto
    with new ledger_row_for_Inr [OF r(1)] None id show ?thesis
      by (auto simp: entry_stored_def entry_of_def select_one_append)
        (auto simp: select_one_def jstr_is_def)
  qed
  then show "entry_stored e l (disk c')" "disk c' = cur c'" "t_events (cur c') = t_events (cur c)"
    by blast+
qed

lemma append_again:
  assumes "entry_stored e l (cur c)" "dget e ''event_id'' \<noteq> None"
  shows "\<exists>l'. append_authority_ledger H e t c = (c, Inr l') \<and> l'\<lparr>le_created_at := None\<rparr> = l\<lparr>le_created_at := None\<rparr>"
  using assms
  by (auto simp: append_authority_ledger_def Let_def entry_stored_def jindex_def jget_def entry_of_def bindS_apply)

lemma stored_persists:
  assumes "db_le d d'"
  shows "event_stored e d \<Longrightarrow> event_stored e d'" "entry_stored e l d \<Longrightarrow> entry_stored e l d'"
  using assms by (auto simp: db_le_def only_grows_iff event_stored_def entry_stored_def select_one_append)


lemma default_modest: "modest default_authority_policy"
  using round64_le1 [of "10 / 100"] round64_le1 [of "25 / 100"] round64_le1 [of "50 / 100"]
    round64_le1 [of 1]
  by (simp add: modest_def default_authority_policy_def)

lemma round64_tenth: "x_le (round64 (10 / 100)) (Fin (1 / 8))"
  and round64_quarter: "round64 (25 / 100) = Fin (1 / 4)"
proof -
  have "round64 (1 / 8) = Fin (1 / 8)" using round64_scaled [of 1 "-3"] by (simp add: power_int_def power_divide)
  then show "x_le (round64 (10 / 100)) (Fin (1 / 8))" using b64.rnd_mono [of "10 / 100" "1 / 8"] by simp
  show "round64 (25 / 100) = Fin (1 / 4)" using round64_scaled [of 1 "-2"] by (simp add: power_int_def power_divide)
qed

section \<open>Properties\<close>

definition demo_suspended :: "db conn" where
  "demo_suspended = fresh\<lparr>disk := empty_db\<lparr>t_states := [\<lparr> st_agent_id = ''a'', st_capability_id = ''k'',
     st_state = ''SUSPENDED'', st_snapshot = JNull, st_updated_at = Fin 1 \<rparr>]\<rparr>\<rparr>"

definition demo_success :: event_request where
  "demo_success = \<lparr> eq_agent_id = ''a'', eq_capability_id = ''k'', eq_event_type = ''EXECUTION_CONFIRMED'',
     eq_evidence_ref = ''e'', eq_action_type = None, eq_identity_id = None, eq_metadata = [],
     eq_occurred_at = Fin 5 \<rparr>"

definition demo_limited :: capability where
  "demo_limited = demo_capability\<lparr>cap_id := ''k'', cap_max_per_action := [(''USD'', NInt 100)]\<rparr>"

definition demo_spend :: action_intent where
  "demo_spend = (as_action_intent demo_payment)\<lparr>ai_asset := Some ''USD''\<rparr>"

definition demo_authority_policy :: authority_policy where
  "demo_authority_policy = default_authority_policy\<lparr>ap_probation_multiplier := Fin (1 / 2)\<rparr>"

lemma demo_authority_modest: "modest demo_authority_policy"
  using default_modest by (simp add: demo_authority_policy_def modest_def)

lemma demo_spend_simps [simp]:
  "ai_agent_id demo_spend = ''a''" "ai_amount demo_spend = Some (PNum (NInt 5))"
  "ai_asset demo_spend = Some ''USD''" "ai_action_type demo_spend = ''payment''"
  "cap_id demo_limited = ''k''" "cap_max_per_action demo_limited = [(''USD'', NInt 100)]"
  by (simp_all add: demo_spend_def demo_limited_def as_action_intent_def demo_payment_def)

lemma demo_asserts:
  "\<exists>s' snap. assert_action demo_hash demo_authority_policy demo_limited demo_spend (Fin 1000) (Fin 1000)
     fresh = (s', Inr snap)"
proof -
  let ?p = demo_authority_policy
  have "\<exists>snap. snapshot_of demo_hash ?p ''a'' ''k'' (Fin 1000) empty_db = Inr snap \<and> as_state snap = PROBATION"
    by (simp add: snapshot_of_def history_start_def py_float_def demo_authority_policy_def
        default_authority_policy_def round64_numeral reset_in_def resets_of_def empty_db_def Let_def
        events_since_def order_asc_def count_events_def latest_state_in_def select_one_def classify_def)
  then obtain snap where s: "snapshot_of demo_hash ?p ''a'' ''k'' (Fin 1000) empty_db = Inr snap"
    "as_state snap = PROBATION" by blast
  have "as_multiplier snap = Fin (1 / 2)"
    using snapshot_of_Inr(3) [OF s(1)] s(2) by (simp add: multiplier_def demo_authority_policy_def)
  then have "within_dynamic_limit demo_limited demo_spend (as_multiplier snap) = Inr ()"
    by (simp add: within_dynamic_limit_def scaled_limit_def py_float_def round64_numeral opt_default_def)
  with s show ?thesis
    by (simp add: assert_action_spec snapshot_spec cur_idle demo_authority_policy_def default_authority_policy_def)
qed

text \<open>C11: suspension is sticky.  Once a scope is SUSPENDED and as long as no governance reset is stored for
  it, no sequence of service calls (events recorded, snapshots taken, actions asserted, for any scope
  and at any time, the end of the window included) lets an action of that scope through.\<close>

theorem suspension_sticky:
  assumes "authority_run H p c s" and "work c = None"
    and "latest_state_in (ai_agent_id a) (cap_id cap) (disk c) = Some ''SUSPENDED''"
    and "resets_of (ai_agent_id a) (cap_id cap) (disk c) = []"
  shows "\<exists>e. snd (assert_action H p cap a now t s) = Inl e"
proof -
  let ?a = "ai_agent_id a" and ?k = "cap_id cap"
  have "stuck_conn ?a ?k s"
    by (rule stuck_run [OF assms(1)]) (simp add: stuck_conn_def stuck_def cur_idle assms(2-4))
  then have susp: "as_state snap = SUSPENDED" if "snapshot H p ?a ?k now t s = (s', Inr snap)" for s' snap
    using that stuck_snapshot(2) [of ?a ?k "cur s"]
    by (auto simp: snapshot_spec stuck_conn_def split: sum.splits)
  have "\<nexists>s' snap. assert_action H p cap a now t s = (s', Inr snap)"
    unfolding assert_action_spec using susp by blast
  then show ?thesis by (cases "assert_action H p cap a now t s"; cases "snd (assert_action H p cap a now t s)") auto
qed

theorem suspension_sticky_witness:
  "\<exists>e. snd (assert_action demo_hash default_authority_policy demo_limited demo_spend (Fin 9) (Fin 9)
     (fst (record_event demo_hash demo_success (Fin 5) demo_suspended))) = Inl e"
  by (rule suspension_sticky [OF authority_run.event [OF authority_run.stay]])
    (simp_all add: demo_suspended_def latest_state_in_def select_one_def resets_of_def empty_db_def)

text \<open>C12: dynamic authority never expands the capability.  With multipliers between 0 and 1, an action that is
  admitted has a level above SUSPENDED, ELEVATED if its type requires it, and a valid amount is
  within the limit scaled by the multiplier of the level, hence within the limit of the capability.\<close>

theorem dynamic_limit_bounds:
  assumes ok: "assert_action H p cap a now t s = (s', Inr snap)" and "modest p"
    and amount: "ai_amount a = Some v" "is_valid_amount v"
    and base: "dget (cap_max_per_action cap) (opt_default (ai_asset a)) = Some base"
      "py_float (PNum base) = Inr (Fin b)" "is_binary64 b" "0 \<le> b"
  shows "as_state snap \<noteq> SUSPENDED \<and>
    (ai_action_type a \<in> set (ap_elevated_only_actions p) \<longrightarrow> as_state snap = ELEVATED) \<and>
    (\<exists>l. scaled_limit base (as_multiplier snap) = Inr l \<and> x_le (amount_x v) l \<and> x_le l (Fin b))"
proof -
  note ok' = ok [unfolded assert_action_spec]
  from ok' have "as_multiplier snap = multiplier p (as_state snap)"
    by (auto simp: snapshot_spec dest: snapshot_of_Inr(3) split: sum.splits)
  with modest_multiplier [OF assms(2)] obtain m where
    m: "as_multiplier snap = Fin m" "0 \<le> m" "m \<le> 1" by metis
  from ok' amount base obtain l where l: "scaled_limit base (as_multiplier snap) = Inr l"
    and over: "amount_over v l = Inr False"
    by (auto simp: within_dynamic_limit_def bindE_Inr_iff split: if_splits)
  have "x_le l (Fin b) \<and> l \<noteq> NaN" by (rule scaled_within [OF l base(2-4) m])
  with amount_not_over [OF amount(2) over] ok' l show ?thesis by blast
qed

theorem dynamic_limit_bounds_witness:
  "\<exists>s' snap. assert_action demo_hash demo_authority_policy demo_limited demo_spend (Fin 1000) (Fin 1000)
     fresh = (s', Inr snap) \<and> as_state snap \<noteq> SUSPENDED"
proof -
  obtain s' snap where run: "assert_action demo_hash demo_authority_policy demo_limited demo_spend
    (Fin 1000) (Fin 1000) fresh = (s', Inr snap)" using demo_asserts by blast
  have "as_state snap \<noteq> SUSPENDED"
    using dynamic_limit_bounds [OF run demo_authority_modest, of "PNum (NInt 5)" "NInt 100" 100]
    by (simp add: opt_default_def is_valid_amount_def py_float_def round64_numeral is_binary64_def)
  with run show ?thesis by blast
qed






end
