(* ===== verification/Storage_Outcome.thy ===== *)
theory Storage_Outcome
  imports Storage_Events
begin

text \<open>
  \<open>core/storage.py\<close>, outcome attestors and their governance actions, outcome claims and attestations,
  evidence graph snapshots.
\<close>

section \<open>Attestors\<close>

definition register_outcome_attestor :: "jdict \<Rightarrow> xnum \<Rightarrow> unit st" where
  "register_outcome_attestor a t = on_integrity
     (bindS (liftS (need_keys [''attestor_id'', ''key_id'', ''public_key_b64'', ''attestor_type''] a)) (\<lambda>_.
      bindS (insert_attestor (
        bindE (col_text_nn (jget a ''attestor_id'')) (\<lambda>c1. bindE (col_text_nn (jget a ''key_id'')) (\<lambda>c2.
        bindE (col_text_nn (jget a ''public_key_b64'')) (\<lambda>c3.
        bindE (col_text_nn (jget a ''attestor_type'')) (\<lambda>c4.
        bindE (col_text_nn (jget_or a ''status'' (JStr ''ACTIVE''))) (\<lambda>c5.
        bindE (col_real (jget a ''expires_at'')) (\<lambda>c6.
          Inr \<lparr> oa_attestor_id = c1, oa_key_id = c2, oa_public_key_b64 = c3, oa_attestor_type = c4,
                oa_status = c5, oa_created_at = t, oa_revoked_at = None, oa_expires_at = c6 \<rparr>))))))))
      (\<lambda>_. commit)))
     (raiseS (ValueError ''outcome attestor already registered''))"

definition attestor_in :: "string \<Rightarrow> db \<Rightarrow> attestor_row option" where
  "attestor_in attestor_id d = select_one (\<lambda>r. oa_attestor_id r = attestor_id) (t_attestors d)"

definition outcome_attestor :: "string \<Rightarrow> attestor_row option st" where
  "outcome_attestor attestor_id = query (attestor_in attestor_id)"

definition put_attestors :: "attestor_row list \<Rightarrow> db \<Rightarrow> db" where
  "put_attestors tab d = d\<lparr>t_attestors := tab\<rparr>"

definition revoke_outcome_attestor :: "string \<Rightarrow> xnum \<Rightarrow> unit st" where
  "revoke_outcome_attestor attestor_id t = expect_one
     (ValueError ''active outcome attestor not found'')
     (dml (upd t_attestors put_attestors
        (\<lambda>r. oa_attestor_id r = attestor_id \<and> oa_status r = ''ACTIVE'')
        (\<lambda>r. r\<lparr>oa_status := ''REVOKED'', oa_revoked_at := Some t\<rparr>)))"

definition set_outcome_attestor_status :: "string \<Rightarrow> string \<Rightarrow> xnum \<Rightarrow> unit st" where
  "set_outcome_attestor_status attestor_id status t =
     (if status \<notin> set [''ACTIVE'', ''EXPIRED'', ''REVOKED'']
      then raiseS (ValueError ''invalid attestor status'')
      else expect_one (ValueError ''outcome attestor not found'')
        (dml (upd t_attestors put_attestors (\<lambda>r. oa_attestor_id r = attestor_id)
           (\<lambda>r. r\<lparr>oa_status := status,
              oa_revoked_at := (if status = ''REVOKED'' then Some t else oa_revoked_at r)\<rparr>))))"

text \<open>An UPDATE that may break the UNIQUE constraint on \<open>key_id\<close> fails as a whole.\<close>

definition upd_attestor_key :: "string \<Rightarrow> string \<Rightarrow> (attestor_row \<Rightarrow> attestor_row) \<Rightarrow> db \<Rightarrow> (db \<times> nat) res" where
  "upd_attestor_key attestor_id key f d =
     (if list_ex (\<lambda>r. oa_attestor_id r = attestor_id) (t_attestors d) \<and>
         list_ex (\<lambda>r. oa_attestor_id r \<noteq> attestor_id \<and> oa_key_id r = key) (t_attestors d)
      then Inl IntegrityError
      else upd t_attestors put_attestors (\<lambda>r. oa_attestor_id r = attestor_id) f d)"

definition rotate_outcome_attestor ::
    "string \<Rightarrow> string \<Rightarrow> string \<Rightarrow> string \<Rightarrow> num option \<Rightarrow> unit st" where
  "rotate_outcome_attestor attestor_id key public_key attestor_type expires_at = on_integrity
     (expect_one (ValueError ''outcome attestor not found'')
        (dml (\<lambda>d. bindE (sql_opt_real expires_at) (\<lambda>e. upd_attestor_key attestor_id key
           (\<lambda>r. r\<lparr>oa_key_id := key, oa_public_key_b64 := public_key, oa_attestor_type := attestor_type,
              oa_status := ''ACTIVE'', oa_revoked_at := None, oa_expires_at := e\<rparr>) d))))
     (raiseS (ValueError ''attestor key is already registered''))"

definition record_attestor_governance_action :: "jdict \<Rightarrow> xnum \<Rightarrow> unit st" where
  "record_attestor_governance_action envelope t =
     bindS (liftS (jindex_obj envelope ''action'')) (\<lambda>a. on_integrity
      (bindS (liftS (bindE (need_keys [''action_id''] a) (\<lambda>_.
         bindE (need_keys [''action_sha256''] envelope) (\<lambda>_.
         need_keys [''attestor_id'', ''action''] a)))) (\<lambda>_.
       bindS (insert_attestor_action (
         bindE (col_text_nn (jget a ''action_id'')) (\<lambda>c1.
         bindE (col_text_nn (jget envelope ''action_sha256'')) (\<lambda>c2.
         bindE (col_text_nn (jget a ''attestor_id'')) (\<lambda>c3. bindE (col_text_nn (jget a ''action'')) (\<lambda>c4.
           Inr \<lparr> ag_action_id = c1, ag_action_sha256 = c2, ag_attestor_id = c3, ag_action = c4,
                 ag_envelope = JObj envelope, ag_created_at = t \<rparr>)))))) (\<lambda>_. commit)))
      (raiseS (ValueError ''attestor governance action already recorded'')))"

definition attestor_governance_actions :: "string \<Rightarrow> json list st" where
  "attestor_governance_actions attestor_id = query (\<lambda>d. map ag_envelope
     (order_asc ag_created_at (filter (\<lambda>r. ag_attestor_id r = attestor_id) (t_attestor_actions d))))"

section \<open>Claims and attestations\<close>

definition object_digest :: "hash \<Rightarrow> jdict \<Rightarrow> string" where
  "object_digest H v = digest_json H (JObj v)"

definition record_outcome_claim :: "hash \<Rightarrow> jdict \<Rightarrow> xnum \<Rightarrow> unit st" where
  "record_outcome_claim H claim t =
     (let sha = object_digest H claim in
      bindS (liftS (jindex claim ''claim_id'')) (\<lambda>cid.
      bindS (query (\<lambda>d. select_one (\<lambda>r. jstr_is cid (oc_claim_id r)) (t_claims d))) (\<lambda>existing.
      case existing of
        Some r \<Rightarrow> if oc_claim_sha256 r \<noteq> sha \<or> \<not> py_eq (oc_claim r) (JObj claim)
          then raiseS (ValueError ''outcome claim id is already bound to different content'')
          else returnS ()
      | None \<Rightarrow> on_integrity
          (bindS (liftS (need_keys [''authorization_id'', ''execution_receipt_sha256''] claim)) (\<lambda>_.
           bindS (insert_claim (
             bindE (col_text_nn cid) (\<lambda>c1. bindE (col_text_nn (jget claim ''authorization_id'')) (\<lambda>c2.
             bindE (col_text_nn (jget claim ''execution_receipt_sha256'')) (\<lambda>c3.
               Inr \<lparr> oc_claim_id = c1, oc_authorization_id = c2, oc_receipt_sha256 = c3,
                     oc_claim_sha256 = sha, oc_claim = JObj claim, oc_created_at = t \<rparr>)))))
           (\<lambda>_. commit)))
          (raiseS (ValueError ''outcome claim already recorded'')))))"

definition outcome_claims_by_authorization :: "string \<Rightarrow> json list st" where
  "outcome_claims_by_authorization authorization_id = query (\<lambda>d. map oc_claim
     (order_asc oc_created_at (filter (\<lambda>r. oc_authorization_id r = authorization_id) (t_claims d))))"

definition record_outcome_attestation :: "hash \<Rightarrow> jdict \<Rightarrow> xnum \<Rightarrow> unit st" where
  "record_outcome_attestation H attestation t =
     bindS (liftS (jindex_obj attestation ''payload'')) (\<lambda>p.
     let sha = object_digest H attestation in
     bindS (liftS (jindex p ''attestation_id'')) (\<lambda>aid.
     bindS (query (\<lambda>d. select_one (\<lambda>r. jstr_is aid (ot_attestation_id r)) (t_attestations d))) (\<lambda>existing.
     case existing of
       Some r \<Rightarrow> if ot_attestation_sha256 r \<noteq> sha \<or> \<not> py_eq (ot_attestation r) (JObj attestation)
         then raiseS (ValueError ''outcome attestation id is already bound to different content'')
         else returnS ()
     | None \<Rightarrow> on_integrity
         (bindS (liftS (bindE (jindex_obj p ''claim'') (\<lambda>c. jindex c ''claim_id''))) (\<lambda>cid.
          bindS (liftS (need_keys [''attestor_id'', ''attestor_type''] p)) (\<lambda>_.
          bindS (insert_attestation (
            bindE (col_text_nn aid) (\<lambda>c1. bindE (col_text_nn cid) (\<lambda>c2.
            bindE (col_text_nn (jget p ''attestor_id'')) (\<lambda>c3.
            bindE (col_text_nn (jget p ''attestor_type'')) (\<lambda>c4.
              Inr \<lparr> ot_attestation_id = c1, ot_claim_id = c2, ot_attestor_id = c3,
                    ot_attestation_type = c4, ot_attestation_sha256 = sha,
                    ot_attestation = JObj attestation, ot_created_at = t \<rparr>))))))
          (\<lambda>_. commit))))
         (raiseS (ValueError ''outcome attestation already recorded'')))))"

definition outcome_attestations_by_claim :: "string \<Rightarrow> json list st" where
  "outcome_attestations_by_claim claim_id = query (\<lambda>d. map ot_attestation
     (order_asc ot_created_at (filter (\<lambda>r. ot_claim_id r = claim_id) (t_attestations d))))"

section \<open>Evidence graph snapshots\<close>

text \<open>\<open>int(v)\<close> of a JSON value; the text of an int may be signed and surrounded by spaces.\<close>

definition digits_value :: "string \<Rightarrow> int" where
  "digits_value s = foldl (\<lambda>n c. 10 * n + (of_char c - 48)) 0 s"

definition is_digit :: "char \<Rightarrow> bool" where
  "is_digit c = (48 \<le> (of_char c :: int) \<and> (of_char c :: int) \<le> 57)"

definition parse_int :: "string \<Rightarrow> int option" where
  "parse_int text = (let s = str_strip text;
       (neg, ds) = (case s of [] \<Rightarrow> (False, [])
         | c # r \<Rightarrow> if c = CHR ''-'' then (True, r) else if c = CHR ''+'' then (False, r) else (False, s))
     in if ds = [] \<or> \<not> list_all is_digit ds then None
        else Some (if neg then - digits_value ds else digits_value ds))"

fun int_arg :: "json \<Rightarrow> int res" where
  "int_arg (JInt i) = Inr i"
| "int_arg (JBool b) = Inr (if b then 1 else 0)"
| "int_arg (JFloat (Fin r)) = Inr (if r < 0 then \<lceil>r\<rceil> else \<lfloor>r\<rfloor>)"
| "int_arg (JFloat NaN) = Inl (ValueError ''cannot convert float NaN to integer'')"
| "int_arg (JFloat _) = Inl OverflowError"
| "int_arg (JStr s) = (case parse_int s of None \<Rightarrow> Inl (ValueError ''invalid literal for int()'')
     | Some i \<Rightarrow> Inr i)"
| "int_arg _ = Inl (TypeError ''int() argument'')"

definition record_evidence_graph_snapshot :: "jdict \<Rightarrow> xnum \<Rightarrow> unit st" where
  "record_evidence_graph_snapshot snap t =
     bindS (liftS (jindex_obj snap ''graph'')) (\<lambda>g. on_integrity
      (bindS (liftS (need_keys [''snapshot_id'', ''authorization_id'', ''graph_sha256''] snap)) (\<lambda>_.
       bindS (liftS (int_arg (jget_or g ''graph_version'' (JInt 1)))) (\<lambda>version.
       bindS (insert_snapshot (
         bindE (col_text_nn (jget snap ''snapshot_id'')) (\<lambda>c1.
         bindE (col_text_nn (jget snap ''authorization_id'')) (\<lambda>c2.
         bindE (col_text_nn (jget snap ''graph_sha256'')) (\<lambda>c3. bindE (sql_int version) (\<lambda>c4.
           Inr \<lparr> sn_snapshot_id = c1, sn_authorization_id = c2, sn_graph_sha256 = c3,
                 sn_graph_version = c4, sn_graph = JObj g, sn_created_at = t \<rparr>))))))
       (\<lambda>_. commit))))
      (raiseS (ValueError ''evidence graph snapshot already exists'')))"

definition evidence_graph_snapshot :: "string \<Rightarrow> snapshot_row option st" where
  "evidence_graph_snapshot snapshot_id =
     query (\<lambda>d. select_one (\<lambda>r. sn_snapshot_id r = snapshot_id) (t_snapshots d))"

definition evidence_graph_snapshots :: "string \<Rightarrow> int \<Rightarrow> snapshot_row list st" where
  "evidence_graph_snapshots authorization_id limit = (if limit < 1 then returnS [] else
     query (\<lambda>d. take (nat limit) (order_desc sn_created_at
       (filter (\<lambda>r. sn_authorization_id r = authorization_id) (t_snapshots d)))))"

section \<open>Every method advances the database\<close>

lemma put_attestors_forward:
  assumes "grows attestor_evolves (t_attestors d) tab"
    and "no_clash attestor_clash (t_attestors d) \<Longrightarrow> no_clash attestor_clash tab"
  shows "db_le d (put_attestors tab d)"
  using assms by (auto simp: put_attestors_def db_le_def db_unique_def)

lemma attestor_update_forward:
  assumes "\<And>r. oa_attestor_id (f r) = oa_attestor_id r" and "\<And>r. oa_key_id (f r) = oa_key_id r"
  shows "dbo.forward (upd t_attestors put_attestors p f)"
proof (rule forward_upd, rule put_attestors_forward)
  fix d
  show "grows attestor_evolves (t_attestors d) (fst (update_rows p f (t_attestors d)))"
    by (rule grows_update) (simp_all add: attestor_evolves_def assms)
  show "no_clash attestor_clash (t_attestors d) \<Longrightarrow>
      no_clash attestor_clash (fst (update_rows p f (t_attestors d)))"
    by (rule attestor_tab.update_keeps) (simp_all add: attestor_clash_def assms)
qed

text \<open>At most one row has a given attestor id, so a rotation to a free key keeps the constraints.\<close>

lemma no_clash_rekey:
  assumes "no_clash attestor_clash tab"
    and "\<not> (list_ex (\<lambda>r. oa_attestor_id r = i) tab \<and>
        list_ex (\<lambda>r. oa_attestor_id r \<noteq> i \<and> oa_key_id r = k) tab)"
    and "\<And>r. oa_attestor_id (f r) = oa_attestor_id r" and "\<And>r. oa_key_id (f r) = k"
  shows "no_clash attestor_clash (map (\<lambda>r. if oa_attestor_id r = i then f r else r) tab)"
proof -
  define g where "g r = (if oa_attestor_id r = i then f r else r)" for r
  have other: "\<not> attestor_clash (g r) (g s)"
    if "\<not> attestor_clash r s" "oa_attestor_id r = i \<Longrightarrow> oa_key_id s = k \<Longrightarrow> False"
      "oa_attestor_id s = i \<Longrightarrow> oa_key_id r = k \<Longrightarrow> False" for r s
    using that by (auto simp: attestor_clash_def g_def assms(3,4))
  have "no_clash attestor_clash (map g tab)"
    using assms(1,2)
  proof (induction tab)
    case (Cons r tab)
    have "\<not> attestor_clash (g r) (g s)" if "s \<in> set tab" for s
    proof (rule other)
      show "\<not> attestor_clash r s" using Cons.prems(1) that by (auto simp: list_ex_iff)
      then show "oa_attestor_id r = i \<Longrightarrow> oa_key_id s = k \<Longrightarrow> False"
        "oa_attestor_id s = i \<Longrightarrow> oa_key_id r = k \<Longrightarrow> False"
        using Cons.prems(2) that by (auto simp: list_ex_iff attestor_clash_def)
    qed
    moreover have "no_clash attestor_clash (map g tab)"
      using Cons.prems by (intro Cons.IH) auto
    ultimately show ?case by (auto simp: list_ex_iff)
  qed simp
  then show ?thesis unfolding g_def .
qed

lemma rotate_forward:
  assumes "\<And>r. oa_attestor_id (f r) = oa_attestor_id r" and "\<And>r. oa_key_id (f r) = k"
  shows "dbo.forward (upd_attestor_key i k f)"
  unfolding dbo.forward_def
proof (intro allI impI)
  fix d e n assume run: "upd_attestor_key i k f d = Inr (e, n)"
  then have e: "e = put_attestors (map (\<lambda>r. if oa_attestor_id r = i then f r else r) (t_attestors d)) d"
    and free: "\<not> (list_ex (\<lambda>r. oa_attestor_id r = i) (t_attestors d) \<and>
        list_ex (\<lambda>r. oa_attestor_id r \<noteq> i \<and> oa_key_id r = k) (t_attestors d))"
    by (auto simp: upd_attestor_key_def upd_def update_rows_def Let_def split: if_splits)
  show "db_le d e" unfolding e
    
    by (rule put_attestors_forward)
      (use no_clash_rekey [OF _ free assms]
        grows_update [where p = "\<lambda>r. oa_attestor_id r = i" and f = f and Q = attestor_evolves and tab = "t_attestors d"]
       in \<open>simp_all add: update_rows_def attestor_evolves_def assms\<close>)
qed

lemma bindE_forward: "(\<And>x. dbo.forward (f x)) \<Longrightarrow> dbo.forward (\<lambda>d. bindE r (\<lambda>x. f x d))"
  by (cases r) (auto simp: dbo.forward_def)

lemma attestor_methods_advance [keeps_intros]:
  "dbo.advances (register_outcome_attestor a t)"
  "dbo.advances (revoke_outcome_attestor i t)" "dbo.advances (set_outcome_attestor_status i s t)"
  "dbo.advances (rotate_outcome_attestor i k b y x)"
  "dbo.advances (record_attestor_governance_action e t)"
  unfolding register_outcome_attestor_def revoke_outcome_attestor_def set_outcome_attestor_status_def
    rotate_outcome_attestor_def record_attestor_governance_action_def
      apply (intro keeps_intros)
     apply (intro keeps_intros attestor_update_forward; simp)
    apply (intro keeps_intros attestor_update_forward; simp)
   apply (intro keeps_intros)
    apply (rule bindE_forward, rule rotate_forward; simp)
  apply (intro keeps_intros)
  done

lemma outcome_methods_advance [keeps_intros]:
  "dbo.advances (record_outcome_claim H c t)" "dbo.advances (record_outcome_attestation H a t)"
  "dbo.advances (record_evidence_graph_snapshot g t)"
  unfolding record_outcome_claim_def record_outcome_attestation_def
    record_evidence_graph_snapshot_def Let_def
  by (intro keeps_intros)+

lemma outcome_reads_advance [keeps_intros]:
  "dbo.advances (outcome_attestor i)" "dbo.advances (attestor_governance_actions i)"
  "dbo.advances (outcome_claims_by_authorization i)" "dbo.advances (outcome_attestations_by_claim i)"
  "dbo.advances (evidence_graph_snapshot i)" "dbo.advances (evidence_graph_snapshots i l)"
  unfolding outcome_attestor_def attestor_governance_actions_def outcome_claims_by_authorization_def
    outcome_attestations_by_claim_def evidence_graph_snapshot_def evidence_graph_snapshots_def
  by (intro keeps_intros)+

end
