(* ===== verification/Verdict.thy ===== *)
theory Verdict
  imports Rules Signing
begin

text \<open>
  Verifiers.  The sources' verifiers are long sequences of checks that return \<open>(False, reason)\<close> at the
  first check that fails and turn the exceptions of malformed input into a rejection.  A check is a
  \<open>guard\<close>, a verifier the list of its guards.
\<close>

datatype guard = Pass | Reject string | Throw exn

type_synonym verdict = "(bool \<times> string) res"

fun first_fail :: "guard list \<Rightarrow> guard" where
  "first_fail [] = Pass"
| "first_fail (g # gs) = (if g = Pass then first_fail gs else g)"

text \<open>\<open>except (KeyError, TypeError, ValueError, InvalidSignature)\<close>\<close>

definition malformed :: "exn \<Rightarrow> bool" where
  "malformed e = (case e of KeyError _ \<Rightarrow> True | TypeError _ \<Rightarrow> True | ValueError _ \<Rightarrow> True
     | InvalidSignature \<Rightarrow> True | _ \<Rightarrow> False)"

definition verdict_of :: "string \<Rightarrow> string \<Rightarrow> guard list \<Rightarrow> verdict" where
  "verdict_of bad good gs = (case first_fail gs of
     Pass \<Rightarrow> Inr (True, good)
   | Reject r \<Rightarrow> Inr (False, r)
   | Throw e \<Rightarrow> if malformed e then Inr (False, bad) else Inl e)"

text \<open>A verifier without an \<open>except\<close> clause.\<close>

definition open_verdict :: "string \<Rightarrow> guard list \<Rightarrow> verdict" where
  "open_verdict good gs = (case first_fail gs of
     Pass \<Rightarrow> Inr (True, good) | Reject r \<Rightarrow> Inr (False, r) | Throw e \<Rightarrow> Inl e)"

definition reject :: "bool \<Rightarrow> string \<Rightarrow> guard" where
  "reject b r = (if b then Reject r else Pass)"

definition throw :: "bool \<Rightarrow> exn \<Rightarrow> guard" where
  "throw b e = (if b then Throw e else Pass)"

text \<open>\<open>ok, reason = f(); if not ok: return False, reason\<close>\<close>

definition ask :: "verdict \<Rightarrow> guard" where
  "ask v = (case v of Inl e \<Rightarrow> Throw e | Inr (ok, r) \<Rightarrow> if ok then Pass else Reject r)"

text \<open>A computation that may raise and whose value the later checks read again.\<close>

definition tries :: "'a res \<Rightarrow> guard" where
  "tries r = (case r of Inl e \<Rightarrow> Throw e | Inr _ \<Rightarrow> Pass)"

text \<open>\<open>if b:\<close> around a block of checks.\<close>

definition block :: "bool \<Rightarrow> guard list \<Rightarrow> guard" where
  "block b gs = (if b then first_fail gs else Pass)"

section \<open>Access to parsed values\<close>

text \<open>\<open>v.get(k)\<close> and \<open>v[k]\<close> read by the checks after the guard that says whether they raise.\<close>

fun fld :: "json \<Rightarrow> string \<Rightarrow> json" where
  "fld (JObj d) k = jget d k"
| "fld _ k = JNull"

definition has_get :: "json \<Rightarrow> guard" where
  "has_get v = throw (\<not> is_obj v) (AttributeError ''get'')"

fun has_key :: "json \<Rightarrow> string \<Rightarrow> guard" where
  "has_key (JObj d) k = throw (dget d k = None) (KeyError k)"
| "has_key _ k = Throw (TypeError k)"

definition has_keys :: "json \<Rightarrow> string list \<Rightarrow> guard" where
  "has_keys v ks = first_fail (map (has_key v) ks)"

text \<open>\<open>x != y\<close> on parsed values\<close>

definition differs :: "json \<Rightarrow> json \<Rightarrow> bool" where
  "differs a b \<longleftrightarrow> \<not> py_eq a b"

text \<open>\<open>v or w\<close>\<close>

definition or_else :: "json \<Rightarrow> json \<Rightarrow> json" where
  "or_else v w = (if truthy v then v else w)"

definition is_int :: "json \<Rightarrow> bool" where
  "is_int v = (case v of JInt _ \<Rightarrow> True | _ \<Rightarrow> False)"

fun int_val :: "json \<Rightarrow> int" where
  "int_val (JInt i) = i"
| "int_val _ = 0"

fun str_val :: "json \<Rightarrow> string" where
  "str_val (JStr s) = s"
| "str_val _ = []"

fun obj_val :: "json \<Rightarrow> jdict" where
  "obj_val (JObj d) = d"
| "obj_val _ = []"

fun list_val :: "json \<Rightarrow> json list" where
  "list_val (JList xs) = xs"
| "list_val _ = []"

definition str_len64 :: "json \<Rightarrow> bool" where
  "str_len64 v \<longleftrightarrow> is_str v \<and> length (str_val v) = 64"

definition hex64 :: "json \<Rightarrow> bool" where
  "hex64 v \<longleftrightarrow> is_str v \<and> is_sha256_hex (str_val v)"

text \<open>\<open>_verify(payload, signature, key)\<close>; \<open>binascii.Error\<close> is a ValueError.\<close>

definition signature_guard :: "crypto \<Rightarrow> string \<Rightarrow> json \<Rightarrow> json \<Rightarrow> guard" where
  "signature_guard E key signature payload = (case signature of
     JStr s \<Rightarrow> (case b64decode s of
         None \<Rightarrow> Throw (ValueError ''base64'')
       | Some raw \<Rightarrow> if cy_verify E key raw (canon payload) then Pass else Throw InvalidSignature)
   | _ \<Rightarrow> Throw (TypeError ''signature''))"

section \<open>Lemmas\<close>

named_theorems guard_iff \<open>when a guard passes\<close>

lemma first_fail_Pass [guard_iff]: "first_fail gs = Pass \<longleftrightarrow> list_all (\<lambda>g. g = Pass) gs"
  by (induction gs) auto

lemma verdict_of_accepts:
  "verdict_of bad good gs = Inr (True, r) \<longleftrightarrow> r = good \<and> list_all (\<lambda>g. g = Pass) gs"
  by (cases "first_fail gs") (auto simp: verdict_of_def first_fail_Pass [symmetric] split: if_splits)

lemma open_verdict_accepts:
  "open_verdict good gs = Inr (True, r) \<longleftrightarrow> r = good \<and> list_all (\<lambda>g. g = Pass) gs"
  by (cases "first_fail gs") (auto simp: open_verdict_def first_fail_Pass [symmetric])

lemma verdict_of_Inl:
  "verdict_of bad good gs = Inl e \<longleftrightarrow> first_fail gs = Throw e \<and> \<not> malformed e"
  by (cases "first_fail gs") (auto simp: verdict_of_def)

lemma simple_guards [guard_iff]:
  "reject b r = Pass \<longleftrightarrow> \<not> b" "throw b e = Pass \<longleftrightarrow> \<not> b"
  "ask v = Pass \<longleftrightarrow> (\<exists>r. v = Inr (True, r))" "tries x = Pass \<longleftrightarrow> (\<exists>y. x = Inr y)"
  "block b gs = Pass \<longleftrightarrow> (b \<longrightarrow> list_all (\<lambda>g. g = Pass) gs)"
  "has_get j = Pass \<longleftrightarrow> is_obj j"
  by (auto simp: reject_def throw_def ask_def tries_def block_def has_get_def first_fail_Pass
      split: sum.splits prod.splits)

lemma has_key_Pass [guard_iff]: "has_key v k = Pass \<longleftrightarrow> (\<exists>d x. v = JObj d \<and> dget d k = Some x)"
  by (cases v) (auto simp: throw_def)

lemma has_keys_Pass [guard_iff]: "has_keys v ks = Pass \<longleftrightarrow> list_all (\<lambda>k. has_key v k = Pass) ks"
  by (simp add: has_keys_def first_fail_Pass list_all_iff)

lemma signature_guard_Pass [guard_iff]:
  "signature_guard E key sig payload = Pass \<longleftrightarrow>
     (\<exists>s. sig = JStr s \<and> verify_b64 E key s (canon payload))"
  by (auto simp: signature_guard_def verify_b64_def split: json.splits option.splits)

lemma is_obj_iff: "is_obj v \<longleftrightarrow> (\<exists>d. v = JObj d)"
  by (cases v) auto

lemma is_str_iff: "is_str v \<longleftrightarrow> (\<exists>s. v = JStr s)"
  by (cases v) auto

lemma is_int_iff: "is_int v \<longleftrightarrow> (\<exists>i. v = JInt i)"
  by (cases v) (auto simp: is_int_def)

lemma str_len64_iff: "str_len64 v \<longleftrightarrow> (\<exists>s. v = JStr s \<and> length s = 64)"
  by (cases v) (auto simp: str_len64_def)

lemma hex64_iff: "hex64 v \<longleftrightarrow> (\<exists>s. v = JStr s \<and> is_sha256_hex s)"
  by (cases v) (auto simp: hex64_def)

lemma py_eq_str [simp]: "py_eq v (JStr s) \<longleftrightarrow> v = JStr s"
  by (cases v) auto

lemma py_eq_null [simp]: "py_eq v JNull \<longleftrightarrow> v = JNull"
  by (cases v) auto

lemma differs_str [simp]:
  "differs v (JStr s) \<longleftrightarrow> v \<noteq> JStr s"
  by (simp add: differs_def)

end
