(* ===== verification/Artifacts.thy ===== *)
theory Artifacts
  imports Verdict
begin

text \<open>
  What an authorization binds besides the action: \<open>core/execution_artifact.py\<close> (the exact wire artifact),
  \<open>core/execution_graph.py\<close> (the execution path) and \<open>core/external_state.py\<close> (preconditions outside
  the system), with the verifier of each.
\<close>

section \<open>The wire artifact\<close>

text \<open>\<open>{str(k): d[k] for k in sorted(d)}\<close>\<close>

definition sorted_items :: "jdict \<Rightarrow> jdict" where
  "sorted_items d = sort_key fst d"

definition artifact :: "string \<Rightarrow> jdict \<Rightarrow> jdict" where
  "artifact kind d = [(''kind'', JStr kind), (''artifact'', JObj d)]"

definition canonical_execution_artifact :: "json \<Rightarrow> jdict" where
  "canonical_execution_artifact action = (case fld action ''metadata'' of
     JObj metadata \<Rightarrow> (case jget metadata ''evm_transaction'' of
         JObj tx \<Rightarrow> artifact ''evm'' (sorted_items tx)
       | _ \<Rightarrow> (case jget metadata ''solana_transaction'' of
           JStr raw \<Rightarrow> artifact ''solana'' [(''serialized_transaction'', JStr raw)]
         | _ \<Rightarrow> (case jget metadata ''execution_request'' of
             JObj request \<Rightarrow> artifact ''generic'' (sorted_items request)
           | _ \<Rightarrow> [])))
   | _ \<Rightarrow> [])"

definition execution_artifact_digest :: "hash \<Rightarrow> json \<Rightarrow> string" where
  "execution_artifact_digest H action = digest_json H (JObj (canonical_execution_artifact action))"

definition verify_execution_artifact :: "json \<Rightarrow> json \<Rightarrow> bool \<times> string" where
  "verify_execution_artifact expected action =
     (if differs expected (JObj (canonical_execution_artifact action))
      then (False, ''execution artifact drift'')
      else (True, ''execution artifact matches authorization''))"

section \<open>The execution path\<close>

definition valid_scopes :: "json list" where
  "valid_scopes = [JStr ''direct'', JStr ''transitive'']"

definition normalize_execution_graph :: "json \<Rightarrow> jdict res" where
  "normalize_execution_graph graph = (case graph of
     JNull \<Rightarrow> Inr []
   | JObj d \<Rightarrow> if d = [] then Inr [] else
       (let normalized = sorted_items d;
            scope = jget_or normalized ''enforcement_scope'' (JStr ''direct'')
        in if \<not> hashable scope then Inl (TypeError ''unhashable type'')
           else if \<not> py_in scope valid_scopes
           then Inl (ValueError (''unsupported execution enforcement scope: '' @ json_text scope))
           else Inr (dset normalized ''enforcement_scope'' scope))
   | _ \<Rightarrow> Inl (ValueError ''execution graph must be an object''))"

definition execution_graph_digest :: "hash \<Rightarrow> json \<Rightarrow> string res" where
  "execution_graph_digest H graph =
     bindE (normalize_execution_graph graph) (\<lambda>g. Inr (digest_json H (JObj g)))"

definition graph_keys :: "jdict \<Rightarrow> jdict \<Rightarrow> string list" where
  "graph_keys a b = sort (remdups (dkeys a @ dkeys b))"

definition verify_execution_graph :: "json \<Rightarrow> json \<Rightarrow> verdict" where
  "verify_execution_graph expected actual =
     bindE (normalize_execution_graph expected) (\<lambda>e. bindE (normalize_execution_graph actual) (\<lambda>a.
     if jget e ''enforcement_scope'' = JStr ''transitive'' \<and>
        jget a ''enforcement_scope'' \<noteq> JStr ''transitive''
     then Inr (False, ''execution graph requires transitive enforcement but adapter provides direct-only enforcement'')
     else if differs (JObj e) (JObj a)
     then (case find (\<lambda>k. differs (jget e k) (jget a k)) (graph_keys e a) of
         Some k \<Rightarrow> Inr (False, ''execution graph drift: '' @ k)
       | None \<Rightarrow> Inr (False, ''execution graph drift''))
     else Inr (True, ''execution graph matches authorization'')))"

section \<open>External state\<close>

definition canonical_external_state :: "json \<Rightarrow> jdict" where
  "canonical_external_state action = (case fld action ''metadata'' of
     JObj metadata \<Rightarrow> (case jget metadata ''external_state'' of
         JObj binding \<Rightarrow> sorted_items binding
       | _ \<Rightarrow> [])
   | _ \<Rightarrow> [])"

definition external_state_digest :: "hash \<Rightarrow> json \<Rightarrow> string" where
  "external_state_digest H action = digest_json H (JObj (canonical_external_state action))"

definition external_state_digest_from_observation :: "hash \<Rightarrow> jdict \<Rightarrow> string" where
  "external_state_digest_from_observation H observation = digest_json H (JObj observation)"

text \<open>\<open>int(text, 16)\<close>: spaces around, a sign, a \<open>0x\<close> prefix and single underscores between digits.\<close>

definition is_hex_digit :: "char \<Rightarrow> bool" where
  "is_hex_digit c \<longleftrightarrow> is_hex_char (lower_char c)"

fun hex_groups :: "bool \<Rightarrow> string \<Rightarrow> bool" where
  "hex_groups after_digit [] = after_digit"
| "hex_groups after_digit (c # cs) =
     (if c = CHR ''_'' then after_digit \<and> cs \<noteq> [] \<and> hd cs \<noteq> CHR ''_'' \<and> hex_groups False cs
      else is_hex_digit c \<and> hex_groups True cs)"

fun unsigned_hex :: "string \<Rightarrow> bool" where
  "unsigned_hex (a # b # cs) =
     (if a = CHR ''0'' \<and> lower_char b = CHR ''x''
      then (case cs of [] \<Rightarrow> False
        | c # r \<Rightarrow> if c = CHR ''_'' then hex_groups False r else hex_groups False cs)
      else hex_groups False (a # b # cs))"
| "unsigned_hex s = hex_groups False s"

definition is_hex_int :: "string \<Rightarrow> bool" where
  "is_hex_int text = (case str_strip text of [] \<Rightarrow> False
     | c # r \<Rightarrow> if c = CHR ''-'' \<or> c = CHR ''+'' then unsigned_hex r else unsigned_hex (c # r))"

definition blank :: "json \<Rightarrow> bool" where
  "blank v \<longleftrightarrow> \<not> is_str v \<or> str_strip (str_val v) = []"

definition validate_external_state_binding :: "json \<Rightarrow> bool \<times> string" where
  "validate_external_state_binding binding = (case binding of
     JObj b \<Rightarrow> if b = [] then (True, ''no external state binding'')
       else if blank (jget b ''kind'') then (False, ''external state binding is missing kind'')
       else if blank (jget b ''reference'') then (False, ''external state binding is missing reference'')
       else if \<not> str_len64 (jget b ''digest'') then (False, ''external state binding has invalid digest'')
       else if \<not> is_hex_int (str_val (jget b ''digest''))
       then (False, ''external state binding digest is not hexadecimal'')
       else (True, ''external state binding is valid'')
   | _ \<Rightarrow> (False, ''external state binding must be an object''))"

definition verify_external_state_binding :: "json \<Rightarrow> json \<Rightarrow> bool \<times> string" where
  "verify_external_state_binding expected action =
     (if differs expected (JObj (canonical_external_state action))
      then (False, ''external state binding drift'')
      else validate_external_state_binding expected)"

text \<open>The live verifiers are callables of the caller: a verifier maps a binding and an action to a verdict.\<close>

type_synonym verifier = "json \<Rightarrow> json \<Rightarrow> verdict"

definition register_verifier :: "verifier dict \<Rightarrow> json \<Rightarrow> verifier \<Rightarrow> verifier dict res" where
  "register_verifier reg kind v = (if blank kind
     then Inl (ValueError ''external state verifier kind must be non-empty'')
     else Inr (dset reg (str_strip (str_val kind)) v))"

definition resolve_verifier :: "verifier dict \<Rightarrow> string \<Rightarrow> verifier res" where
  "resolve_verifier reg kind = (case dget reg kind of
     None \<Rightarrow> Inl (KeyError (''no external state verifier registered for kind '' @ quoted kind))
   | Some v \<Rightarrow> Inr v)"

text \<open>\<open>str(exc)\<close>\<close>

fun exn_text :: "exn \<Rightarrow> string" where
  "exn_text (KeyError s) = str_repr s"
| "exn_text (LookupError s) = s"
| "exn_text (PermissionError s) = s"
| "exn_text (ValueError s) = s"
| "exn_text (TypeError s) = s"
| "exn_text (RuntimeError s) = s"
| "exn_text (OperationalError s) = s"
| "exn_text (AttributeError s) = s"
| "exn_text _ = []"

definition verify_live :: "verifier dict \<Rightarrow> json \<Rightarrow> json \<Rightarrow> bool \<times> string" where
  "verify_live reg binding action =
     (let kind = fld binding ''kind'' in
      if blank kind then (False, ''external state binding is missing kind'')
      else (case bindE (resolve_verifier reg (str_val kind)) (\<lambda>v. v binding action) of
          Inr r \<Rightarrow> r
        | Inl (KeyError s) \<Rightarrow> (False, exn_text (KeyError s))
        | Inl e \<Rightarrow> (False, ''external state verifier failed: '' @ exn_text e)))"

section \<open>Requirements of the policy\<close>

definition star :: "json list" where
  "star = [JStr ''*'']"

definition requirement_specificity :: "jdict \<Rightarrow> jdict \<Rightarrow> nat option" where
  "requirement_specificity action r =
     (let ra = jget_or r ''action_type'' (JStr ''*''); rt = jget_or r ''target'' (JStr ''*'') in
      if \<not> py_in ra (star @ [jget action ''action_type'']) \<or> \<not> py_in rt (star @ [jget action ''target''])
      then None
      else if blank (jget r ''kind'') then None
      else Some ((if ra \<noteq> JStr ''*'' then 2 else 0) + (if rt \<noteq> JStr ''*'' then 1 else 0)))"

fun requirement_matches :: "jdict \<Rightarrow> json list \<Rightarrow> (nat \<times> jdict) list" where
  "requirement_matches action [] = []"
| "requirement_matches action (JObj r # rs) = (case requirement_specificity action r of
     None \<Rightarrow> requirement_matches action rs
   | Some n \<Rightarrow> (n, r) # requirement_matches action rs)"
| "requirement_matches action (_ # rs) = requirement_matches action rs"

definition external_state_requirement_for_action :: "json \<Rightarrow> jdict \<Rightarrow> jdict option res" where
  "external_state_requirement_for_action requirements action = (case requirements of
     JList rs \<Rightarrow>
       (let matches = requirement_matches action rs in
        if matches = [] then Inr None else
        let best = Max (set (map fst matches));
            candidates = map snd (filter (\<lambda>m. fst m = best) matches)
        in if length (remdups (map (\<lambda>c. canon (JObj (sorted_items c))) candidates)) > 1 \<or>
              length (remdups (map (\<lambda>c. str_val (jget c ''kind'')) candidates)) > 1
           then Inl (ValueError ''ambiguous external state requirements at equal policy specificity'')
           else Inr (Some (sorted_items (hd candidates))))
   | _ \<Rightarrow> Inr None)"

definition validate_external_state_requirement :: "json \<Rightarrow> bool \<times> string" where
  "validate_external_state_requirement requirement = (case requirement of
     JNull \<Rightarrow> (True, ''no external state requirement'')
   | JObj r \<Rightarrow> if blank (jget r ''kind'') then (False, ''external state requirement is missing kind'')
       else (True, ''external state requirement is valid'')
   | _ \<Rightarrow> (False, ''external state requirement must be an object''))"

section \<open>Lemmas\<close>

lemma sorted_items_same: "distinct (dkeys d) \<Longrightarrow> dget (sorted_items d) = dget d"
  unfolding sorted_items_def dkeys_def
  by (intro map_of_inject_set [THEN iffD2]) (simp_all add: distinct_map)

lemma verify_artifact_accepts:
  "verify_execution_artifact expected action = (True, r) \<Longrightarrow>
     py_eq expected (JObj (canonical_execution_artifact action))"
  by (simp add: verify_execution_artifact_def differs_def split: if_splits)

lemma normalize_scope:
  assumes "normalize_execution_graph (JObj d) = Inr g" and "d \<noteq> []"
  shows "jget g ''enforcement_scope'' \<in> set valid_scopes"
  using assms
  by (auto simp: normalize_execution_graph_def Let_def jget_def py_in_def valid_scopes_def
      split: if_splits)

lemma verify_graph_accepts:
  assumes "verify_execution_graph expected actual = Inr (True, r)"
  shows "\<exists>e a. normalize_execution_graph expected = Inr e \<and> normalize_execution_graph actual = Inr a \<and>
     py_eq (JObj e) (JObj a) \<and>
     (jget e ''enforcement_scope'' = JStr ''transitive'' \<longrightarrow>
      jget a ''enforcement_scope'' = JStr ''transitive'')"
  using assms
  by (auto simp: verify_execution_graph_def bindE_Inr_iff differs_def split: if_splits option.splits)

lemma verify_external_accepts:
  "verify_external_state_binding expected action = (True, r) \<Longrightarrow>
     py_eq expected (JObj (canonical_external_state action)) \<and>
     validate_external_state_binding expected = (True, r)"
  by (simp add: verify_external_state_binding_def differs_def split: if_splits)

end
