(* ===== verification/Effective.thy ===== *)
theory Effective
  imports Verdict Dynamic
begin

text \<open>
  \<open>core/effective_authority.py\<close>: the ceiling signed into an authorization, the intersection of the
  capability, the policy and the dynamic authority, and its enforcement at the execution boundary.
\<close>

section \<open>Building the ceiling\<close>

definition intersect :: "string list \<Rightarrow> string list option \<Rightarrow> string list option" where
  "intersect parent pol = (case pol of
     Some ys \<Rightarrow> if parent \<noteq> [] then Some (filter (\<lambda>v. List.member ys v) parent) else Some ys
   | None \<Rightarrow> if parent \<noteq> [] then Some parent else None)"

definition context_meet :: "json \<Rightarrow> json \<Rightarrow> json" where
  "context_meet cap pol = (case cap of
     JList xs \<Rightarrow> (case pol of
         JList ys \<Rightarrow> JList (filter (\<lambda>v. py_in v ys) xs)
       | _ \<Rightarrow> JList (filter (\<lambda>v. py_eq v pol) xs))
   | _ \<Rightarrow> (case pol of
         JList ys \<Rightarrow> if py_in cap ys then JList [cap] else JList []
       | _ \<Rightarrow> if py_eq cap pol then cap else JList []))"

text \<open>The order of the keys of the union is unspecified; every user of the result ignores it.\<close>

definition context_intersection :: "jdict \<Rightarrow> jdict \<Rightarrow> jdict" where
  "context_intersection cap pol =
     map (\<lambda>(k, v). (k, case dget pol k of None \<Rightarrow> v | Some w \<Rightarrow> context_meet v w)) cap @
     filter (\<lambda>(k, w). dget cap k = None) pol"

text \<open>\<open>min\<close> of two numbers keeps the first unless the second is less.\<close>

definition num_min :: "num \<Rightarrow> num \<Rightarrow> num" where
  "num_min a b = (if num_lt b a then b else a)"

text \<open>\<open>policy.per_tx_cap.get(asset, limit)\<close>\<close>

definition tx_cap :: "num dict \<Rightarrow> string \<Rightarrow> num \<Rightarrow> num" where
  "tx_cap caps asset limit = (case dget caps asset of None \<Rightarrow> limit | Some c \<Rightarrow> c)"

fun action_limits :: "num dict \<Rightarrow> xnum \<Rightarrow> num dict \<Rightarrow> num dict res" where
  "action_limits caps m [] = Inr []"
| "action_limits caps m ((asset, limit) # r) =
     bindE (scaled_limit limit m) (\<lambda>s. bindE (action_limits caps m r) (\<lambda>rest.
       Inr ((asset, num_min (num_min limit (tx_cap caps asset limit))
         (NFlt s)) # rest)))"

definition opt_list :: "string list option \<Rightarrow> json" where
  "opt_list v = (case v of None \<Rightarrow> JNull | Some xs \<Rightarrow> str_list xs)"

definition effective_authority ::
    "action_intent \<Rightarrow> capability \<Rightarrow> policy \<Rightarrow> authority_snapshot \<Rightarrow> jdict res" where
  "effective_authority a c p s =
     bindE (action_limits (pol_per_tx_cap p) (as_multiplier s) (cap_max_per_action c)) (\<lambda>limits. Inr [
       (''action_type'', opt_list (intersect (cap_actions c) (pol_allowed_action_types p))),
       (''purpose'', opt_list (intersect (cap_purposes c) (pol_allowed_purposes p))),
       (''target'', opt_list (intersect (cap_targets c) (pol_allowed_targets p))),
       (''resource'', str_list (cap_resources c)),
       (''network'', opt_list (intersect (cap_networks c) (pol_allowed_networks p))),
       (''asset'', opt_list (intersect (cap_assets c) (pol_allowed_assets p))),
       (''context_constraints'', JObj (context_intersection (cap_context c) (pol_context_constraints p))),
       (''per_action_limits'', num_dict limits),
       (''requested_constraints'', JObj (ai_constraints a)),
       (''authority_state'', JStr (state_str (as_state s))),
       (''authority_multiplier'', JFloat (as_multiplier s))])"

section \<open>Enforcing it\<close>

text \<open>\<open>x in v\<close> for a parsed value \<open>v\<close>\<close>

definition is_substring :: "string \<Rightarrow> string \<Rightarrow> bool" where
  "is_substring a s = list_ex (\<lambda>n. take (length a) (drop n s) = a) [0..<Suc (length s)]"

fun contains :: "json \<Rightarrow> json \<Rightarrow> bool res" where
  "contains x (JList ys) = Inr (py_in x ys)"
| "contains x (JObj d) = (if hashable x then Inr (case x of JStr s \<Rightarrow> dget d s \<noteq> None | _ \<Rightarrow> False)
     else Inl (TypeError ''unhashable type''))"
| "contains x (JStr s) = (case x of JStr a \<Rightarrow> Inr (is_substring a s)
     | _ \<Rightarrow> Inl (TypeError ''in <string> requires string''))"
| "contains x v = Inl (TypeError ''argument is not iterable'')"

definition not_in :: "json \<Rightarrow> json \<Rightarrow> string \<Rightarrow> guard" where
  "not_in x v r = (case contains x v of Inl e \<Rightarrow> Throw e | Inr b \<Rightarrow> reject (\<not> b) r)"

definition field_guard :: "jdict \<Rightarrow> jdict \<Rightarrow> string \<Rightarrow> guard" where
  "field_guard action authority field = (let allowed = jget authority field in
     if truthy allowed then not_in (jget action field) allowed
       (''execution action outside effective '' @ field @ '' authority'') else Pass)"

text \<open>\<open>for p in v\<close>\<close>

fun elements :: "json \<Rightarrow> json list res" where
  "elements (JList xs) = Inr xs"
| "elements (JObj d) = Inr (map (\<lambda>kv. JStr (fst kv)) d)"
| "elements (JStr s) = Inr (map (\<lambda>c. JStr [c]) s)"
| "elements v = Inl (TypeError ''object is not iterable'')"

definition purpose_guard :: "jdict \<Rightarrow> jdict \<Rightarrow> guard" where
  "purpose_guard action authority = (let purposes = jget authority ''purpose'' in
     if \<not> truthy purposes then Pass
     else (case jget_or action ''purpose'' (JStr []) of
         JStr s \<Rightarrow> (case elements purposes of
             Inl e \<Rightarrow> Throw e
           | Inr ps \<Rightarrow> reject (\<not> lower_mem s (map json_text ps)) ''execution purpose outside effective authority'')
       | _ \<Rightarrow> Throw (AttributeError ''lower'')))"

definition context_guard :: "json \<Rightarrow> string \<times> json \<Rightarrow> guard" where
  "context_guard ctx kv = (case kv of (key, expected) \<Rightarrow>
     if truthy ctx \<and> \<not> is_obj ctx then Throw (AttributeError ''get'')
     else reject (\<not> context_value_ok expected (fld ctx key))
       (''execution context '' @ quoted key @ '' outside effective authority''))"

definition contexts_guard :: "jdict \<Rightarrow> jdict \<Rightarrow> guard" where
  "contexts_guard action authority = (case jget_or authority ''context_constraints'' (JObj []) of
     JObj cs \<Rightarrow> first_fail (map (context_guard (jget action ''declared_context'')) cs)
   | _ \<Rightarrow> Throw (AttributeError ''items''))"

text \<open>\<open>Decimal(str(v))\<close>\<close>

fun json_decimal :: "json \<Rightarrow> xnum option" where
  "json_decimal (JInt i) = Some (Fin (of_int i))"
| "json_decimal (JFloat x) = Some (num_decimal (NFlt x))"
| "json_decimal (JStr s) = map_option dec_x (parse_decimal s)"
| "json_decimal _ = None"

definition is_bool :: "json \<Rightarrow> bool" where
  "is_bool v = (case v of JBool _ \<Rightarrow> True | _ \<Rightarrow> False)"

definition amount_guard :: "jdict \<Rightarrow> json \<Rightarrow> guard" where
  "amount_guard action limit = (let amount = jget action ''amount'' in
     if amount = JNull \<or> is_bool amount then Reject ''execution amount exceeds effective authority''
     else (case (json_decimal amount, json_decimal limit) of
         (Some a, Some l) \<Rightarrow>
           if \<not> x_finite a \<or> \<not> x_finite l
           then Reject ''execution amount or effective authority limit is not finite''
           else reject (x_lt l a) ''execution amount exceeds effective authority''
       | _ \<Rightarrow> Reject ''execution amount or effective authority limit is invalid''))"

definition limits_guard :: "jdict \<Rightarrow> jdict \<Rightarrow> guard" where
  "limits_guard action authority =
     (let limits = jget_or authority ''per_action_limits'' (JObj []);
          asset = jget action ''asset''
      in case contains asset limits of
          Inl e \<Rightarrow> Throw e
        | Inr b \<Rightarrow> if \<not> b then Pass else amount_guard action (fld limits (str_val asset)))"

definition verify_effective_action :: "jdict \<Rightarrow> jdict \<Rightarrow> verdict" where
  "verify_effective_action action authority =
     open_verdict ''execution action is within effective authority''
       (map (field_guard action authority) [''action_type'', ''target'', ''resource'', ''network'', ''asset'']
        @ [purpose_guard action authority, contexts_guard action authority,
           limits_guard action authority])"

section \<open>What an accepted action satisfies\<close>

lemma not_in_Pass [guard_iff]: "not_in x v r = Pass \<longleftrightarrow> contains x v = Inr True"
  by (auto simp: not_in_def guard_iff split: sum.splits)

lemma field_guard_Pass [guard_iff]:
  "field_guard action authority f = Pass \<longleftrightarrow>
     (truthy (jget authority f) \<longrightarrow> contains (jget action f) (jget authority f) = Inr True)"
  by (auto simp: field_guard_def Let_def guard_iff)

lemma contains_strings: "contains (JStr s) (str_list xs) = Inr True \<longleftrightarrow> s \<in> set xs"
  by (auto simp: str_list_def py_in_def list_ex_iff)

lemma amount_guard_Pass [guard_iff]:
  "amount_guard action limit = Pass \<longleftrightarrow> (\<exists>a l. json_decimal (jget action ''amount'') = Some a \<and>
     json_decimal limit = Some l \<and> x_finite a \<and> x_finite l \<and> \<not> x_lt l a \<and>
     jget action ''amount'' \<noteq> JNull \<and> \<not> is_bool (jget action ''amount''))"
  by (auto simp: amount_guard_def Let_def guard_iff split: option.splits)

lemma limits_guard_Pass [guard_iff]:
  "limits_guard action authority = Pass \<longleftrightarrow>
     (\<exists>b. contains (jget action ''asset'') (jget_or authority ''per_action_limits'' (JObj [])) = Inr b \<and>
        (b \<longrightarrow> amount_guard action (fld (jget_or authority ''per_action_limits'' (JObj []))
            (str_val (jget action ''asset''))) = Pass))"
  by (auto simp: limits_guard_def Let_def split: sum.splits)

lemma action_limits_below:
  assumes "action_limits caps m ls = Inr out" and "dget out k = Some n"
  shows "\<exists>base s. dget ls k = Some base \<and> scaled_limit base m = Inr s \<and>
    n = num_min (num_min base (tx_cap caps k base)) (NFlt s)"
  using assms by (induction ls arbitrary: out) (auto simp: bindE_Inr_iff split: if_splits)

lemma action_limits_keys:
  "action_limits caps m ls = Inr out \<Longrightarrow> dkeys out = dkeys ls"
  by (induction ls arbitrary: out) (auto simp: bindE_Inr_iff dkeys_def)

lemma num_min_le:
  assumes "num_x a \<noteq> NaN" and "num_x b \<noteq> NaN"
  shows "num_x (num_min a b) \<noteq> NaN" "x_le (num_x (num_min a b)) (num_x a)"
    "x_le (num_x (num_min a b)) (num_x b)"
  using assms by (cases "num_x a"; cases "num_x b"; auto simp: num_min_def num_lt_def)+

end
