(* ===== verification/Policy_Version.thy ===== *)
theory Policy_Version
  imports Verdict Storage_Governance
begin

text \<open>
  \<open>core/policy_version.py\<close>: policy version artifacts, their signature and their verification.  A public
  key is given by its raw bytes.
\<close>

record policy_version =
  pn_policy_id :: string
  pn_version :: int
  pn_policy_sha256 :: string
  pn_source_ref :: string
  pn_parent_sha256 :: "string option"
  pn_created_at :: xnum
  pn_metadata :: jdict

definition policy_version_dict :: "policy_version \<Rightarrow> jdict" where
  "policy_version_dict v = [
     (''policy_version'', JInt 1),
     (''policy_id'', JStr (pn_policy_id v)),
     (''version'', JInt (pn_version v)),
     (''policy_sha256'', JStr (pn_policy_sha256 v)),
     (''source_ref'', JStr (pn_source_ref v)),
     (''parent_sha256'', opt_str (pn_parent_sha256 v)),
     (''created_at'', JFloat (pn_created_at v)),
     (''metadata'', JObj (pn_metadata v))]"

definition policy_version_digest :: "hash \<Rightarrow> policy_version \<Rightarrow> string" where
  "policy_version_digest H v = digest_json H (JObj (policy_version_dict v))"

text \<open>A payload with its signature, as it travels: every signed artifact of the sources has this shape.\<close>

record signed_doc =
  sd_payload :: jdict
  sd_signature :: string

definition signed_dict :: "signed_doc \<Rightarrow> jdict" where
  "signed_dict s = [
     (''payload'', JObj (sd_payload s)),
     (''signature'', JStr (sd_signature s)),
     (''algorithm'', JStr ''Ed25519'')]"

definition sign_doc :: "crypto \<Rightarrow> string \<Rightarrow> jdict \<Rightarrow> signed_doc" where
  "sign_doc E private_key payload = \<lparr> sd_payload = payload,
     sd_signature = sign_b64 E private_key (canon (JObj payload)) \<rparr>"

definition policy_id_of :: "hash \<Rightarrow> string \<Rightarrow> string" where
  "policy_id_of H source_ref = H (''verigate-policy:'' @ source_ref)"

definition build_policy_version :: "hash \<Rightarrow> policy \<Rightarrow> string \<Rightarrow> int \<Rightarrow> string option \<Rightarrow> jdict \<Rightarrow> xnum \<Rightarrow>
    policy_version res" where
  "build_policy_version H p source_ref version parent metadata t =
     (if version < 1 then Inl (ValueError ''policy version must be >= 1'')
      else Inr \<lparr> pn_policy_id = policy_id_of H source_ref, pn_version = version,
        pn_policy_sha256 = policy_digest H p, pn_source_ref = source_ref,
        pn_parent_sha256 = parent, pn_created_at = t, pn_metadata = metadata \<rparr>)"

definition sign_policy_version :: "crypto \<Rightarrow> string \<Rightarrow> policy_version \<Rightarrow> signed_doc" where
  "sign_policy_version E private_key v = sign_doc E private_key (policy_version_dict v)"

definition policy_version_guards :: "hash \<Rightarrow> crypto \<Rightarrow> string \<Rightarrow> json \<Rightarrow> guard list" where
  "policy_version_guards H E key signed =
     (let payload = fld signed ''payload'' in [
      has_get signed,
      reject (fld signed ''algorithm'' \<noteq> JStr ''Ed25519'') ''unsupported signature algorithm'',
      has_key signed ''payload'',
      has_get payload,
      reject (differs (fld payload ''policy_version'') (JInt 1)) ''unsupported policy version artifact'',
      reject (\<not> str_len64 (fld payload ''policy_id'')) ''invalid policy id'',
      reject (\<not> is_int (fld payload ''version'')) ''invalid policy version number'',
      reject (\<not> str_len64 (fld payload ''policy_sha256'')) ''invalid policy digest'',
      reject (\<not> is_str (fld payload ''source_ref'') \<or> str_val (fld payload ''source_ref'') = [])
        ''invalid policy source reference'',
      reject (policy_id_of H (str_val (fld payload ''source_ref'')) \<noteq> str_val (fld payload ''policy_id''))
        ''policy id does not match source reference'',
      has_key signed ''signature'',
      signature_guard E key (fld signed ''signature'') payload])"

definition verify_policy_version :: "hash \<Rightarrow> crypto \<Rightarrow> string \<Rightarrow> json \<Rightarrow> verdict" where
  "verify_policy_version H E key signed = verdict_of ''invalid or tampered signed policy version''
     ''valid signed policy version'' (policy_version_guards H E key signed)"

section \<open>The registry\<close>

definition version_register :: "jdict \<Rightarrow> xnum \<Rightarrow> jdict st" where
  "version_register signed t = bindS (register_policy_version signed t) (\<lambda>_. returnS signed)"

definition version_resolve :: "string \<Rightarrow> json option st" where
  "version_resolve sha = policy_version_by_sha sha"

section \<open>Lemmas\<close>

lemma fld_signed_dict [simp]:
  "fld (JObj (signed_dict s)) ''payload'' = JObj (sd_payload s)"
  "fld (JObj (signed_dict s)) ''signature'' = JStr (sd_signature s)"
  "fld (JObj (signed_dict s)) ''algorithm'' = JStr ''Ed25519''"
  by (simp_all add: signed_dict_def jget_def)

lemma signed_dict_keys [simp]:
  "dget (signed_dict s) ''payload'' = Some (JObj (sd_payload s))"
  "dget (signed_dict s) ''signature'' = Some (JStr (sd_signature s))"
  "dget (signed_dict s) ''algorithm'' = Some (JStr ''Ed25519'')"
  by (simp_all add: signed_dict_def)

lemma sign_doc_simps [simp]:
  "sd_payload (sign_doc E k p) = p"
  "sd_signature (sign_doc E k p) = sign_b64 E k (canon (JObj p))"
  by (simp_all add: sign_doc_def)

lemma sign_doc_verifies:
  "crypto_correct E \<Longrightarrow> signature_guard E (cy_public E k)
     (JStr (sd_signature (sign_doc E k p))) (JObj p) = Pass"
  by (simp add: guard_iff verify_sign_b64)

text \<open>The documented behaviour of \<open>hashlib.sha256(...).hexdigest()\<close>: 64 lower-case hex digits.\<close>

definition hex_hash :: "hash \<Rightarrow> bool" where
  "hex_hash H \<longleftrightarrow> (\<forall>s. is_sha256_hex (H s))"

lemma hex_hashD: "hex_hash H \<Longrightarrow> is_sha256_hex (H s)" "hex_hash H \<Longrightarrow> length (H s) = 64"
  by (auto simp: hex_hash_def is_sha256_hex_def)

definition zero_hash :: hash where
  "zero_hash s = replicate 64 CHR ''0''"

lemma zero_hash_hex: "hex_hash zero_hash"
  by (simp add: hex_hash_def is_sha256_hex_def zero_hash_def is_hex_char_def list_all_iff Let_def)

text \<open>A signature scheme is sound for a key if only what its holder signed verifies.\<close>

definition signed_only :: "crypto \<Rightarrow> string \<Rightarrow> string set \<Rightarrow> bool" where
  "signed_only E key messages \<longleftrightarrow> (\<forall>s m. verify_b64 E key s m \<longrightarrow> m \<in> messages)"

section \<open>Properties\<close>

text \<open>C16: a policy version that was built and signed verifies under the issuer's key, and its artifact
  names the digest of the policy and the identifier of its source.\<close>

theorem policy_version_roundtrip:
  assumes "crypto_correct E" and "hex_hash H" and "source \<noteq> []"
    and "build_policy_version H p source n parent metadata t = Inr v"
  shows "verify_policy_version H E (cy_public E k) (JObj (signed_dict (sign_policy_version E k v))) =
      Inr (True, ''valid signed policy version'') \<and>
    jget (sd_payload (sign_policy_version E k v)) ''policy_sha256'' = JStr (policy_digest H p)"
proof -
  have v: "pn_policy_id v = policy_id_of H source" "pn_source_ref v = source"
    "pn_policy_sha256 v = policy_digest H p"
    using assms(4) by (auto simp: build_policy_version_def split: if_splits)
  have "length (policy_id_of H source) = 64" "length (policy_digest H p) = 64"
    by (simp_all add: policy_id_of_def policy_digest_def digest_json_def hex_hashD(2) [OF assms(2)])
  then show ?thesis
    unfolding verify_policy_version_def verdict_of_accepts policy_version_guards_def Let_def
    using assms(3) sign_doc_verifies [OF assms(1), of k "policy_version_dict v"]
    by (auto simp: guard_iff sign_policy_version_def is_obj_iff str_len64_iff is_int_def differs_def
        v policy_version_dict_def jget_def)
qed

theorem policy_version_roundtrip_witness:
  "\<exists>v. build_policy_version zero_hash default_policy ''policy.yaml'' 1 None [] (Fin 1000) = Inr v \<and>
     verify_policy_version zero_hash demo_crypto (cy_public demo_crypto ''k'')
       (JObj (signed_dict (sign_policy_version demo_crypto ''k'' v))) = Inr (True, ''valid signed policy version'')"
proof -
  obtain v where v: "build_policy_version zero_hash default_policy ''policy.yaml'' 1 None [] (Fin 1000) = Inr v"
    by (simp add: build_policy_version_def)
  with policy_version_roundtrip [OF demo_crypto_correct zero_hash_hex _ v] show ?thesis by simp
qed

end
