(* ===== verification/Receipt.thy ===== *)
theory Receipt
  imports Artifacts Effective Policy_Version
begin

text \<open>
  \<open>attest/receipt.py\<close>: signed decision receipts, execution authorizations and execution receipts, and
  the verifiers a third party or an executor runs on them.  \<open>now\<close> is \<open>int(time.time())\<close>.
\<close>

section \<open>Decision receipts\<close>

definition opt_obj :: "jdict option \<Rightarrow> json" where
  "opt_obj v = (case v of None \<Rightarrow> JNull | Some d \<Rightarrow> JObj d)"

definition action_digest :: "hash \<Rightarrow> json \<Rightarrow> string" where
  "action_digest H action = digest_json H action"

definition receipt_payload :: "hash \<Rightarrow> action_intent \<Rightarrow> guardrail_decision \<Rightarrow> string \<Rightarrow> jdict option \<Rightarrow>
    jdict res" where
  "receipt_payload H intent decision pdigest signed_policy =
     (let base = [
        (''receipt_version'', JInt 1),
        (''intent'', JObj (action_dict intent)),
        (''decision'', JObj (decision_dict decision)),
        (''policy_sha256'', JStr pdigest),
        (''signed_policy_version'', opt_obj signed_policy)]
      in case signed_policy of None \<Rightarrow> Inr base
        | Some sp \<Rightarrow> bindE (jindex sp ''payload'') (\<lambda>pp.
            Inr (base @ [(''policy_version_sha256'', JStr (digest_json H pp))])))"

definition sign_receipt :: "hash \<Rightarrow> crypto \<Rightarrow> string \<Rightarrow> action_intent \<Rightarrow> guardrail_decision \<Rightarrow> string \<Rightarrow>
    jdict option \<Rightarrow> signed_doc res" where
  "sign_receipt H E key intent decision pdigest signed_policy =
     bindE (receipt_payload H intent decision pdigest signed_policy) (\<lambda>p. Inr (sign_doc E key p))"

section \<open>Issuing an execution authorization\<close>

text \<open>The keyword arguments that are copied into the payload.\<close>

record auth_args =
  ig_capability_id :: "string option"
  ig_capability_version :: "int option"
  ig_capability_sha256 :: "string option"
  ig_identity_id :: "string option"
  ig_identity_sha256 :: "string option"
  ig_authority_state :: "jdict option"
  ig_authority_state_sha256 :: "string option"
  ig_authority_multiplier :: "xnum option"
  ig_ledger_head :: "string option"
  ig_authority_policy_sha256 :: "string option"
  ig_authority_policy :: "jdict option"
  ig_effective_authority :: "jdict option"
  ig_execution_graph :: "jdict option"
  ig_genesis_authority :: "jdict option"
  ig_external_state_required :: bool
  ig_external_state_requirement :: "jdict option"

definition opt_float :: "xnum option \<Rightarrow> json" where
  "opt_float v = (case v of None \<Rightarrow> JNull | Some x \<Rightarrow> JFloat x)"

definition opt_int :: "int option \<Rightarrow> json" where
  "opt_int v = (case v of None \<Rightarrow> JNull | Some i \<Rightarrow> JInt i)"

definition opt_digest :: "hash \<Rightarrow> jdict option \<Rightarrow> json" where
  "opt_digest H v = (case v of None \<Rightarrow> JNull | Some d \<Rightarrow> JStr (digest_json H (JObj d)))"

definition max_ttl :: int where
  "max_ttl = 300"

definition authorization_payload :: "hash \<Rightarrow> signed_doc \<Rightarrow> string \<Rightarrow> int \<Rightarrow> int \<Rightarrow> auth_args \<Rightarrow>
    jdict \<Rightarrow> jdict \<Rightarrow> json \<Rightarrow> jdict \<Rightarrow> jdict" where
  "authorization_payload H receipt nonce ttl now g intent decision pdigest graph =
     (let p = sd_payload receipt; action = JObj intent in [
      (''authorization_version'', JInt 1),
      (''authorization_id'', JStr (H (sd_signature receipt @ nonce))),
      (''decision_receipt_sha256'', JStr (H (canon (JObj p) @ sd_signature receipt))),
      (''intent_id'', jget intent ''intent_id''),
      (''agent_id'', jget intent ''agent_id''),
      (''policy_sha256'', pdigest),
      (''signed_policy_version'', jget p ''signed_policy_version''),
      (''policy_version_sha256'', jget p ''policy_version_sha256''),
      (''capability_id'', opt_str (ig_capability_id g)),
      (''capability_version'', opt_int (ig_capability_version g)),
      (''capability_sha256'', opt_str (ig_capability_sha256 g)),
      (''identity_id'', opt_str (ig_identity_id g)),
      (''identity_sha256'', opt_str (ig_identity_sha256 g)),
      (''authority_state'', opt_obj (ig_authority_state g)),
      (''authority_state_sha256'', opt_str (ig_authority_state_sha256 g)),
      (''authority_multiplier'', opt_float (ig_authority_multiplier g)),
      (''authority_ledger_head_hash'', opt_str (ig_ledger_head g)),
      (''authority_policy_sha256'', opt_str (ig_authority_policy_sha256 g)),
      (''authority_policy'', opt_obj (ig_authority_policy g)),
      (''authority_policy_artifact_sha256'', opt_digest H (ig_authority_policy g)),
      (''effective_authority'', opt_obj (ig_effective_authority g)),
      (''effective_authority_sha256'', opt_digest H (ig_effective_authority g)),
      (''execution_graph'', JObj graph),
      (''execution_graph_sha256'', JStr (digest_json H (JObj graph))),
      (''genesis_authority'', opt_obj (ig_genesis_authority g)),
      (''genesis_authority_sha256'', opt_digest H (ig_genesis_authority g)),
      (''execution_artifact'', JObj (canonical_execution_artifact action)),
      (''execution_artifact_sha256'', JStr (execution_artifact_digest H action)),
      (''external_state'', JObj (canonical_external_state action)),
      (''external_state_sha256'', JStr (external_state_digest H action)),
      (''external_state_required'', JBool (ig_external_state_required g)),
      (''external_state_requirement'', opt_obj (ig_external_state_requirement g)),
      (''external_state_requirement_sha256'', opt_digest H (ig_external_state_requirement g)),
      (''action'', action),
      (''action_sha256'', JStr (action_digest H action)),
      (''constraints_sha256'', JStr (digest_json H (jget_or intent ''constraints'' (JObj [])))),
      (''context_sha256'', jget decision ''context_sha256''),
      (''nonce'', JStr nonce),
      (''issued_at'', JInt now),
      (''expires_at'', JInt (now + ttl))])"

text \<open>\<open>ttl\<close> is the argument as given: anything but an \<open>int\<close> is refused.\<close>

definition issue_execution_authorization ::
    "hash \<Rightarrow> crypto \<Rightarrow> string \<Rightarrow> signed_doc \<Rightarrow> string \<Rightarrow> json \<Rightarrow> int \<Rightarrow> auth_args \<Rightarrow> signed_doc res" where
  "issue_execution_authorization H E key receipt nonce ttl now g =
     (let p = sd_payload receipt in
      bindE (jindex_obj p ''decision'') (\<lambda>decision. bindE (jindex decision ''decision'') (\<lambda>kind.
      if kind \<noteq> JStr ''ALLOW'' then Inl (PermissionError ''execution authorization requires ALLOW'')
      else bindE (jindex_obj p ''intent'') (\<lambda>intent. bindE (jindex intent ''intent_id'') (\<lambda>expected.
      if expected \<noteq> JStr nonce
      then Inl (PermissionError ''execution authorization nonce must equal intent_id'')
      else if \<not> is_int ttl then Inl (ValueError ''ttl_seconds must be an integer'')
      else if int_val ttl \<le> 0 then Inl (ValueError ''ttl_seconds must be positive'')
      else if int_val ttl > max_ttl
      then Inl (PermissionError ''execution authorization ttl exceeds maximum'')
      else bindE (jindex intent ''agent_id'') (\<lambda>_. bindE (jindex p ''policy_sha256'') (\<lambda>pdigest.
      bindE (normalize_execution_graph (opt_obj (ig_execution_graph g))) (\<lambda>graph.
      Inr (sign_doc E key (authorization_payload H receipt nonce (int_val ttl) now g intent decision
        pdigest graph))))))))))"

section \<open>Verifying a decision receipt\<close>

text \<open>
  \<open>Decimal(v)\<close> of a parsed amount may raise (a list is taken as malformed); the context fingerprint does not depend on it.\<close>

fun decimal_guard :: "json \<Rightarrow> guard" where
  "decimal_guard (JStr s) = throw (parse_decimal s = None) InvalidOperation"
| "decimal_guard (JObj d) = Throw (TypeError ''Decimal'')"
| "decimal_guard (JList xs) = Throw (ValueError ''Decimal'')"
| "decimal_guard _ = Pass"

definition receipt_context :: "hash \<Rightarrow> jdict \<Rightarrow> string" where
  "receipt_context H intent = digest_json H (JObj [
     (''purpose'', jget_or intent ''purpose'' (JStr [])),
     (''declared_context'', jget_or intent ''declared_context'' (JObj [])),
     (''input_provenance'', jget_or intent ''input_provenance'' (JObj [])),
     (''parent_intent_id'', jget intent ''parent_intent_id''),
     (''requested_capability'', jget intent ''requested_capability''),
     (''constraints'', jget_or intent ''constraints'' (JObj []))])"

text \<open>The block both verifiers run on an attached policy version.\<close>

definition attached_policy_guard :: "hash \<Rightarrow> crypto \<Rightarrow> string \<Rightarrow> json \<Rightarrow> guard" where
  "attached_policy_guard H E key payload =
     (let sp = fld payload ''signed_policy_version'' in
      block (sp \<noteq> JNull) [
        ask (verify_policy_version H E key sp),
        has_key sp ''payload'',
        reject (fld payload ''policy_version_sha256'' \<noteq> JStr (digest_json H (fld sp ''payload'')))
          ''policy version fingerprint mismatch'',
        has_get (fld sp ''payload''),
        reject (differs (fld (fld sp ''payload'') ''policy_sha256'') (fld payload ''policy_sha256''))
          ''policy version does not match effective policy''])"

definition receipt_guards :: "hash \<Rightarrow> crypto \<Rightarrow> string \<Rightarrow> json \<Rightarrow> guard list" where
  "receipt_guards H E key receipt =
     (let payload = fld receipt ''payload''; intent = fld payload ''intent'';
          decision = fld payload ''decision''; context_sha = fld decision ''context_sha256'' in [
      has_keys receipt [''payload'', ''signature''],
      reject (fld receipt ''algorithm'' \<noteq> JStr ''Ed25519'') ''unsupported signature algorithm'',
      has_keys payload [''intent'', ''decision'', ''policy_sha256''],
      has_key intent ''intent_id'', has_key decision ''intent_id'',
      reject (differs (fld intent ''intent_id'') (fld decision ''intent_id''))
        ''intent and decision IDs do not match'',
      has_key intent ''agent_id'', has_key decision ''agent_id'',
      reject (differs (fld intent ''agent_id'') (fld decision ''agent_id''))
        ''intent and decision agents do not match'',
      has_keys intent [''action_type'', ''target''],
      decimal_guard (fld intent ''amount_exact''),
      reject (truthy context_sha \<and> context_sha \<noteq> JStr (receipt_context H (obj_val intent)))
        ''decision context fingerprint does not match the canonical intent context'',
      reject (\<not> hex64 (fld payload ''policy_sha256'')) ''invalid policy fingerprint'',
      attached_policy_guard H E key payload,
      signature_guard E key (fld receipt ''signature'') payload])"

definition verify_receipt :: "hash \<Rightarrow> crypto \<Rightarrow> string \<Rightarrow> json \<Rightarrow> verdict" where
  "verify_receipt H E key receipt = verdict_of ''invalid or tampered decision receipt''
     ''valid decision receipt'' (receipt_guards H E key receipt)"

section \<open>Verifying an execution authorization\<close>

definition text_field :: "json \<Rightarrow> string \<Rightarrow> guard" where
  "text_field payload k = reject (\<not> is_str (fld payload k) \<or> str_val (fld payload k) = [])
     (''invalid execution authorization field: '' @ k)"

definition print_field :: "json \<Rightarrow> string \<Rightarrow> guard" where
  "print_field payload k = reject (\<not> hex64 (fld payload k))
     (''invalid execution authorization fingerprint: '' @ k)"

definition digest_is :: "hash \<Rightarrow> json \<Rightarrow> json \<Rightarrow> bool" where
  "digest_is H v digest \<longleftrightarrow> digest = JStr (digest_json H v)"

definition identity_guard :: "json \<Rightarrow> guard" where
  "identity_guard payload =
     block (fld payload ''identity_id'' \<noteq> JNull \<or> fld payload ''identity_sha256'' \<noteq> JNull)
       [text_field payload ''identity_id'', print_field payload ''identity_sha256'']"

definition state_names :: "json list" where
  "state_names = map JStr [''PROBATION'', ''LIMITED'', ''STANDARD'', ''ELEVATED'', ''SUSPENDED'']"

text \<open>\<open>float(v)\<close> of a number, and whether it lies between 0 and 1.\<close>

definition in_unit :: "xnum \<Rightarrow> bool" where
  "in_unit x \<longleftrightarrow> x_le (Fin 0) x \<and> x_le x (Fin 1)"

definition multiplier_guard :: "json \<Rightarrow> guard" where
  "multiplier_guard v = (case v of
     JInt i \<Rightarrow> (case py_float (PNum (NInt i)) of Inl e \<Rightarrow> Throw e
       | Inr x \<Rightarrow> reject (\<not> in_unit x) ''execution authority multiplier out of range'')
   | JFloat x \<Rightarrow> reject (\<not> in_unit x) ''execution authority multiplier out of range''
   | _ \<Rightarrow> Reject ''invalid execution authority multiplier'')"

definition authority_policy_guards :: "hash \<Rightarrow> json \<Rightarrow> guard list" where
  "authority_policy_guards H payload =
     (let ap = fld payload ''authority_policy''; sha = fld payload ''authority_policy_sha256'' in [
      reject (\<not> is_obj ap \<or> \<not> is_str sha) ''invalid execution authority policy binding'',
      reject (\<not> digest_is H ap sha) ''execution authority policy fingerprint mismatch'',
      reject (\<not> digest_is H ap (fld payload ''authority_policy_artifact_sha256''))
        ''execution authority policy artifact fingerprint mismatch'',
      reject (differs (fld (fld payload ''authority_state'') ''authority_policy_sha256'') sha)
        ''execution authority policy does not match authority state''])"

definition authority_guard :: "hash \<Rightarrow> json \<Rightarrow> guard" where
  "authority_guard H payload =
     (let state = fld payload ''authority_state''; sha = fld payload ''authority_state_sha256'';
          m = fld payload ''authority_multiplier''; head = fld payload ''authority_ledger_head_hash'' in
      block (\<not> (state = JNull \<and> sha = JNull \<and> m = JNull)) [
        reject (\<not> is_obj state) ''invalid execution authority state'',
        reject (\<not> str_len64 sha) ''invalid execution authority state fingerprint'',
        throw (\<not> hashable (fld state ''state'')) (TypeError ''unhashable type''),
        reject (\<not> py_in (fld state ''state'') state_names) ''invalid execution authority state value'',
        multiplier_guard m,
        reject (\<not> digest_is H state sha) ''execution authority state fingerprint mismatch'',
        block (head \<noteq> JNull) [
          reject (\<not> hex64 head) ''invalid execution authority ledger head fingerprint'',
          reject (differs head (fld state ''ledger_head_hash'')) ''execution authority ledger head mismatch''],
        block (fld payload ''authority_policy'' \<noteq> JNull) (authority_policy_guards H payload)])"

definition lifetime_guards :: "int \<Rightarrow> json \<Rightarrow> guard list" where
  "lifetime_guards now payload =
     (let i = fld payload ''issued_at''; e = fld payload ''expires_at'' in [
      reject (\<not> is_int i) ''invalid execution authorization issued_at'',
      reject (\<not> is_int e) ''invalid execution authorization expires_at'',
      reject (int_val e < now) ''execution authorization expired'',
      reject (int_val e \<le> int_val i) ''invalid execution authorization lifetime'',
      reject (int_val i > now) ''execution authorization is not active yet''])"

definition action_guards :: "hash \<Rightarrow> json \<Rightarrow> guard list" where
  "action_guards H payload = (let action = fld payload ''action'' in [
      has_key payload ''action'',
      reject (\<not> is_obj action) ''invalid authorized action'',
      has_key action ''intent_id'', has_key payload ''intent_id'',
      block (py_eq (fld action ''intent_id'') (fld payload ''intent_id''))
        [has_key action ''agent_id'', has_key payload ''agent_id''],
      reject (differs (fld action ''intent_id'') (fld payload ''intent_id'') \<or>
          differs (fld action ''agent_id'') (fld payload ''agent_id''))
        ''authorized action identity mismatch'',
      has_key payload ''action_sha256'',
      reject (\<not> hex64 (fld payload ''action_sha256'')) ''invalid action fingerprint'',
      reject (JStr (action_digest H action) \<noteq> fld payload ''action_sha256'')
        ''authorized action fingerprint mismatch''])"

text \<open>A bound object and its fingerprint: present, and matching.\<close>

definition bound_guards :: "hash \<Rightarrow> json \<Rightarrow> string \<Rightarrow> string \<Rightarrow> string \<Rightarrow> string \<Rightarrow> guard list" where
  "bound_guards H payload k sha missing mismatch = [
     reject (\<not> is_obj (fld payload k) \<or> \<not> str_len64 (fld payload sha)) missing,
     reject (\<not> digest_is H (fld payload k) (fld payload sha)) mismatch]"

definition graph_guards :: "hash \<Rightarrow> json \<Rightarrow> guard list" where
  "graph_guards H payload =
     (let g = fld payload ''execution_graph''; sha = fld payload ''execution_graph_sha256'' in [
      reject (\<not> is_obj g \<or> \<not> str_len64 sha) ''execution authorization is missing execution graph binding'',
      (case execution_graph_digest H g of Inl e \<Rightarrow> Throw e
         | Inr d \<Rightarrow> reject (sha \<noteq> JStr d) ''execution graph fingerprint mismatch'')])"

definition artifact_guards :: "hash \<Rightarrow> json \<Rightarrow> guard list" where
  "artifact_guards H payload =
     bound_guards H payload ''execution_artifact'' ''execution_artifact_sha256''
       ''execution authorization is missing execution artifact binding''
       ''execution artifact fingerprint mismatch'' @
     [ask (Inr (verify_execution_artifact (fld payload ''execution_artifact'') (fld payload ''action'')))]"

definition state_guards :: "hash \<Rightarrow> json \<Rightarrow> guard list" where
  "state_guards H payload = (let es = fld payload ''external_state'';
       req = fld payload ''external_state_requirement'' in
     bound_guards H payload ''external_state'' ''external_state_sha256''
       ''execution authorization is missing external state binding''
       ''external state fingerprint mismatch'' @ [
     ask (Inr (verify_external_state_binding es (fld payload ''action''))),
     block (req \<noteq> JNull)
       (bound_guards H payload ''external_state_requirement'' ''external_state_requirement_sha256''
          ''invalid external state requirement binding''
          ''external state requirement fingerprint mismatch'' @
        [reject (differs (fld es ''kind'') (fld req ''kind''))
          ''external state kind does not satisfy policy requirement'']),
     reject (truthy (fld payload ''external_state_required'') \<and> \<not> truthy es)
       ''execution authorization requires external state binding''])"

definition effective_guards :: "hash \<Rightarrow> json \<Rightarrow> guard list" where
  "effective_guards H payload = (let action = fld payload ''action'';
       constraints = fld payload ''constraints_sha256'' in [
     reject (\<not> str_len64 constraints) ''invalid constraints fingerprint'',
     reject (\<not> digest_is H (jget_or (obj_val action) ''constraints'' (JObj [])) constraints)
       ''authorized constraints fingerprint mismatch''] @
     bound_guards H payload ''effective_authority'' ''effective_authority_sha256''
       ''execution authorization is missing effective authority''
       ''effective authority fingerprint mismatch'' @ [
     ask (verify_effective_action (obj_val action) (obj_val (fld payload ''effective_authority''))),
     reject (fld payload ''authority_state'' = JNull \<or> fld payload ''authority_multiplier'' = JNull)
       ''execution authorization is missing dynamic authority binding''])"

definition authorization_guards :: "hash \<Rightarrow> crypto \<Rightarrow> string \<Rightarrow> int \<Rightarrow> json \<Rightarrow> guard list" where
  "authorization_guards H E key now auth =
     (let payload = fld auth ''payload'' in [
      has_get auth,
      reject (fld auth ''algorithm'' \<noteq> JStr ''Ed25519'') ''unsupported signature algorithm'',
      has_key auth ''payload'',
      has_get payload,
      reject (differs (fld payload ''authorization_version'') (JInt 1))
        ''unsupported execution authorization version''] @
     map (text_field payload) [''authorization_id'', ''decision_receipt_sha256'', ''policy_sha256'',
       ''intent_id'', ''agent_id'', ''nonce''] @
     map (print_field payload) [''authorization_id'', ''decision_receipt_sha256''] @ [
      attached_policy_guard H E key payload,
      reject (\<not> is_str (fld payload ''capability_id'') \<or> str_val (fld payload ''capability_id'') = [])
        ''execution authorization is missing capability binding'',
      print_field payload ''capability_sha256'',
      identity_guard payload,
      authority_guard H payload] @
     lifetime_guards now payload @ action_guards H payload @ graph_guards H payload @
     artifact_guards H payload @ state_guards H payload @ effective_guards H payload @ [
      has_key auth ''signature'',
      signature_guard E key (fld auth ''signature'') payload])"

definition verify_execution_authorization ::
    "hash \<Rightarrow> crypto \<Rightarrow> string \<Rightarrow> int \<Rightarrow> json \<Rightarrow> verdict" where
  "verify_execution_authorization H E key now auth =
     verdict_of ''invalid or tampered execution authorization'' ''valid execution authorization''
       (authorization_guards H E key now auth)"

section \<open>Execution receipts\<close>

text \<open>The keyword arguments; \<open>JNull\<close> is None.\<close>

record receipt_args =
  xr_status :: string
  xr_transaction_ref :: json
  xr_executor :: string
  xr_error :: json
  xr_receipt_id :: json
  xr_previous :: json
  xr_confirmation_ref :: json
  xr_confirmation_data :: json
  xr_scope :: json
  xr_authorization_sha256 :: json

definition receipt_statuses :: "string list" where
  "receipt_statuses = [''SUBMITTED'', ''CONFIRMED'', ''FAILED'']"

definition copied_fields :: "string list" where
  "copied_fields = [''identity_id'', ''identity_sha256'', ''capability_id'', ''capability_sha256'',
     ''authority_state'', ''authority_state_sha256'', ''authority_multiplier'',
     ''authority_ledger_head_hash'', ''authority_policy_sha256'', ''authority_policy'',
     ''authority_policy_artifact_sha256'', ''genesis_authority'', ''genesis_authority_sha256'']"

text \<open>\<open>uuid\<close> is the fresh identifier of \<open>uuid.uuid4()\<close>.\<close>

definition receipt_body :: "hash \<Rightarrow> jdict \<Rightarrow> json \<Rightarrow> receipt_args \<Rightarrow> string \<Rightarrow> int \<Rightarrow> jdict" where
  "receipt_body H ap action x uuid now = [
      (''execution_receipt_version'', JInt 1),
      (''receipt_id'', or_else (xr_receipt_id x) (JStr uuid)),
      (''authorization_id'', jget ap ''authorization_id''),
      (''authorization_sha256'',
         or_else (xr_authorization_sha256 x) (JStr (digest_json H (JObj ap)))),
      (''decision_receipt_sha256'', jget ap ''decision_receipt_sha256''),
      (''policy_sha256'', jget ap ''policy_sha256''),
      (''signed_policy_version'', jget ap ''signed_policy_version''),
      (''policy_version_sha256'', jget ap ''policy_version_sha256''),
      (''intent_id'', jget ap ''intent_id''),
      (''agent_id'', jget ap ''agent_id'')] @
      map (\<lambda>k. (k, jget ap k)) copied_fields @ [
      (''action_sha256'', jget ap ''action_sha256''),
      (''network'', fld action ''network''),
      (''status'', JStr (xr_status x)),
      (''transaction_ref'', xr_transaction_ref x),
      (''executor'', JStr (xr_executor x)),
      (''error'', xr_error x),
      (''previous_receipt_sha256'', xr_previous x),
      (''confirmation_ref'', xr_confirmation_ref x),
      (''confirmation_data'', xr_confirmation_data x),
      (''execution_external_state_scope'', xr_scope x),
      (''executed_at'', JInt now)]"

definition execution_receipt_payload ::
    "hash \<Rightarrow> jdict \<Rightarrow> receipt_args \<Rightarrow> string \<Rightarrow> int \<Rightarrow> jdict res" where
  "execution_receipt_payload H authorization x uuid now =
     bindE (jindex_obj authorization ''payload'') (\<lambda>ap. bindE (jindex ap ''action'') (\<lambda>action.
     if xr_status x \<notin> set receipt_statuses then Inl (ValueError ''invalid execution receipt status'')
     else bindE (need_keys [''authorization_id'', ''decision_receipt_sha256'', ''intent_id'', ''agent_id'',
         ''action_sha256''] ap) (\<lambda>_.
     if \<not> is_obj action then Inl (AttributeError ''get'')
     else Inr (receipt_body H ap action x uuid now))))"

definition sign_execution_receipt ::
    "hash \<Rightarrow> crypto \<Rightarrow> string \<Rightarrow> jdict \<Rightarrow> receipt_args \<Rightarrow> string \<Rightarrow> int \<Rightarrow> signed_doc res" where
  "sign_execution_receipt H E key authorization x uuid now =
     bindE (execution_receipt_payload H authorization x uuid now) (\<lambda>p. Inr (sign_doc E key p))"

text \<open>\<open>payload.get(k) != auth.get(k)\<close>\<close>

definition same_field :: "json \<Rightarrow> json \<Rightarrow> string \<times> string \<Rightarrow> guard" where
  "same_field payload auth kr = (case kr of (k, reason) \<Rightarrow>
     reject (differs (fld payload k) (fld auth k)) (''execution receipt '' @ reason @ '' mismatch''))"

definition same_key :: "json \<Rightarrow> json \<Rightarrow> string \<Rightarrow> string \<Rightarrow> guard" where
  "same_key payload auth k reason = first_fail [
     has_key payload k, has_key auth k,
     reject (differs (fld payload k) (fld auth k)) (''execution receipt '' @ reason @ '' mismatch'')]"

definition against_guards :: "hash \<Rightarrow> json \<Rightarrow> json \<Rightarrow> guard list" where
  "against_guards H payload authorization =
     (let auth = fld authorization ''payload'';
          head = fld auth ''authority_ledger_head_hash''; rhead = fld payload ''authority_ledger_head_hash'';
          genesis = fld payload ''genesis_authority''; gsha = fld payload ''genesis_authority_sha256'' in [
      has_key authorization ''payload'',
      reject (fld payload ''authorization_sha256'' \<noteq> JStr (digest_json H auth))
        ''execution receipt authorization fingerprint mismatch'',
      same_key payload auth ''authorization_id'' ''authorization'',
      same_key payload auth ''intent_id'' ''intent'',
      has_get auth] @
      map (same_field payload auth) [(''policy_sha256'', ''policy''),
        (''policy_version_sha256'', ''policy version''), (''signed_policy_version'', ''signed policy'')] @
      [same_key payload auth ''action_sha256'' ''action fingerprint''] @
      map (same_field payload auth) [(''identity_id'', ''identity''),
        (''identity_sha256'', ''identity fingerprint''), (''capability_id'', ''capability''),
        (''capability_sha256'', ''capability fingerprint''), (''authority_state'', ''authority state''),
        (''authority_state_sha256'', ''authority fingerprint''),
        (''authority_multiplier'', ''authority multiplier'')] @
      [reject (head \<noteq> JNull \<and> rhead \<noteq> JNull \<and> differs rhead head)
        ''execution receipt authority ledger head mismatch''] @
      map (same_field payload auth) [(''authority_policy_sha256'', ''authority policy fingerprint''),
        (''authority_policy'', ''authority policy''),
        (''authority_policy_artifact_sha256'', ''authority policy artifact fingerprint''),
        (''genesis_authority'', ''Genesis authority''),
        (''genesis_authority_sha256'', ''Genesis authority fingerprint'')] @
      [block (genesis \<noteq> JNull) [
        reject (\<not> is_obj genesis \<or> \<not> is_str gsha) ''invalid execution receipt Genesis authority binding'',
        reject (\<not> digest_is H genesis gsha) ''execution receipt Genesis authority fingerprint mismatch'']])"

definition execution_receipt_guards ::
    "hash \<Rightarrow> crypto \<Rightarrow> string \<Rightarrow> json \<Rightarrow> json option \<Rightarrow> guard list" where
  "execution_receipt_guards H E key receipt authorization =
     (let payload = fld receipt ''payload''; status = fld payload ''status'' in [
      has_get receipt,
      reject (fld receipt ''algorithm'' \<noteq> JStr ''Ed25519'') ''unsupported signature algorithm'',
      has_key receipt ''payload'',
      has_key payload ''execution_receipt_version'',
      reject (differs (fld payload ''execution_receipt_version'') (JInt 1))
        ''unsupported execution receipt version'',
      has_key payload ''status'',
      throw (\<not> hashable status) (TypeError ''unhashable type''),
      reject (\<not> py_in status (map JStr receipt_statuses)) ''invalid execution receipt status'',
      has_key payload ''receipt_id'',
      block (truthy (fld payload ''receipt_id'')) [has_key payload ''authorization_id'',
        block (truthy (fld payload ''authorization_id'')) [has_key payload ''intent_id'']],
      reject (\<not> truthy (fld payload ''receipt_id'') \<or> \<not> truthy (fld payload ''authorization_id'') \<or>
          \<not> truthy (fld payload ''intent_id'')) ''invalid execution receipt identity'',
      reject (\<not> str_len64 (fld payload ''authorization_sha256''))
        ''invalid execution authorization fingerprint'',
      block (status \<noteq> JStr ''FAILED'') [has_key payload ''transaction_ref'',
        reject (\<not> truthy (fld payload ''transaction_ref''))
          ''execution receipt is missing transaction reference''],
      has_key payload ''action_sha256'',
      reject (\<not> str_len64 (fld payload ''action_sha256'')) ''invalid execution action fingerprint'',
      has_key receipt ''signature'',
      signature_guard E key (fld receipt ''signature'') payload] @
      (case authorization of None \<Rightarrow> [] | Some a \<Rightarrow> against_guards H payload a))"

definition verify_execution_receipt ::
    "hash \<Rightarrow> crypto \<Rightarrow> string \<Rightarrow> json \<Rightarrow> json option \<Rightarrow> verdict" where
  "verify_execution_receipt H E key receipt authorization =
     verdict_of ''invalid or tampered execution receipt'' ''valid execution receipt''
       (execution_receipt_guards H E key receipt authorization)"

end
