(* ===== verification/Receipt_Safety.thy ===== *)
theory Receipt_Safety
  imports Receipt
begin

text \<open>
  What the verifiers of \<open>attest/receipt.py\<close> guarantee: an accepted authorization is signed, active and
  within the ceiling it carries; a freshly issued one is accepted; malformed input is refused.
\<close>

section \<open>What an accepted authorization promises\<close>

text \<open>The verification time lies in the lifetime, and the lifetime is not empty.\<close>

definition in_lifetime :: "jdict \<Rightarrow> int \<Rightarrow> bool" where
  "in_lifetime p now \<longleftrightarrow> (\<exists>i e. jget p ''issued_at'' = JInt i \<and> jget p ''expires_at'' = JInt e \<and>
     i \<le> now \<and> now \<le> e \<and> i < e)"

text \<open>A fingerprint field holds the digest of an object field.\<close>

definition binds :: "hash \<Rightarrow> jdict \<Rightarrow> string \<Rightarrow> string \<Rightarrow> jdict \<Rightarrow> bool" where
  "binds H p k sha v \<longleftrightarrow> jget p k = JObj v \<and> jget p sha = JStr (digest_json H (JObj v))"

text \<open>The action names the bearer of the authorization, which is bound to a capability.\<close>

definition bearer_bound :: "jdict \<Rightarrow> jdict \<Rightarrow> bool" where
  "bearer_bound p a \<longleftrightarrow> py_eq (jget a ''intent_id'') (jget p ''intent_id'') \<and>
     py_eq (jget a ''agent_id'') (jget p ''agent_id'') \<and>
     (\<exists>c. jget p ''capability_id'' = JStr c \<and> c \<noteq> []) \<and> hex64 (jget p ''capability_sha256'')"

text \<open>A dynamic authority state with its fingerprint, and a multiplier between 0 and 1.\<close>

definition authority_bound :: "hash \<Rightarrow> jdict \<Rightarrow> bool" where
  "authority_bound H p \<longleftrightarrow> (\<exists>st x. binds H p ''authority_state'' ''authority_state_sha256'' st \<and>
     float_arg (jget p ''authority_multiplier'') = Inr x \<and> in_unit x)"

text \<open>A ceiling with its fingerprint, and the action is within it.\<close>

definition ceiling_bound :: "hash \<Rightarrow> jdict \<Rightarrow> jdict \<Rightarrow> bool" where
  "ceiling_bound H p a \<longleftrightarrow> (\<exists>eff r. binds H p ''effective_authority'' ''effective_authority_sha256'' eff \<and>
     verify_effective_action a eff = Inr (True, r))"

text \<open>The wire artifact and the external state of the action, with their fingerprints.\<close>

definition execution_bound :: "hash \<Rightarrow> jdict \<Rightarrow> jdict \<Rightarrow> bool" where
  "execution_bound H p a \<longleftrightarrow> (\<exists>ea es. binds H p ''execution_artifact'' ''execution_artifact_sha256'' ea \<and>
     py_eq (JObj ea) (JObj (canonical_execution_artifact (JObj a))) \<and>
     binds H p ''external_state'' ''external_state_sha256'' es \<and>
     py_eq (JObj es) (JObj (canonical_external_state (JObj a))))"

definition promises :: "hash \<Rightarrow> int \<Rightarrow> jdict \<Rightarrow> jdict \<Rightarrow> bool" where
  "promises H now p a \<longleftrightarrow> in_lifetime p now \<and> binds H p ''action'' ''action_sha256'' a \<and> bearer_bound p a \<and>
     authority_bound H p \<and> ceiling_bound H p a \<and> execution_bound H p a"

section \<open>The groups of checks\<close>

lemma lifetime_guards_Pass:
  "list_all (\<lambda>g. g = Pass) (lifetime_guards now (JObj p)) \<longleftrightarrow> in_lifetime p now"
  by (auto simp: lifetime_guards_def in_lifetime_def Let_def guard_iff is_int_iff)

lemma action_guards_Pass:
  "list_all (\<lambda>g. g = Pass) (action_guards H (JObj p)) \<Longrightarrow>
     \<exists>a. binds H p ''action'' ''action_sha256'' a \<and> py_eq (jget a ''intent_id'') (jget p ''intent_id'') \<and>
     py_eq (jget a ''agent_id'') (jget p ''agent_id'')"
  by (auto simp: action_guards_def binds_def Let_def guard_iff is_obj_iff differs_def action_digest_def)

lemma bound_guards_Pass:
  "list_all (\<lambda>g. g = Pass) (bound_guards H (JObj p) k sha m1 m2) \<Longrightarrow> \<exists>v. binds H p k sha v"
  by (auto simp: bound_guards_def binds_def guard_iff is_obj_iff digest_is_def)

lemma multiplier_guard_Pass:
  "multiplier_guard v = Pass \<Longrightarrow> \<exists>x. float_arg v = Inr x \<and> in_unit x"
  by (auto simp: multiplier_guard_def guard_iff split: json.splits sum.splits)

lemma authority_guard_Pass:
  assumes "authority_guard H (JObj p) = Pass"
    and "\<not> (jget p ''authority_state'' = JNull \<or> jget p ''authority_multiplier'' = JNull)"
  shows "authority_bound H p"
  using assms
  by (auto simp: authority_guard_def authority_bound_def binds_def Let_def guard_iff is_obj_iff digest_is_def
      dest!: multiplier_guard_Pass)

lemma artifact_guards_Pass:
  assumes "list_all (\<lambda>g. g = Pass) (artifact_guards H (JObj p))" and "jget p ''action'' = JObj a"
  shows "\<exists>ea. binds H p ''execution_artifact'' ''execution_artifact_sha256'' ea \<and>
     py_eq (JObj ea) (JObj (canonical_execution_artifact (JObj a)))"
proof -
  from assms obtain ea r where "binds H p ''execution_artifact'' ''execution_artifact_sha256'' ea"
    and "verify_execution_artifact (jget p ''execution_artifact'') (JObj a) = (True, r)"
    using bound_guards_Pass by (fastforce simp: artifact_guards_def guard_iff)
  then show ?thesis by (auto simp: binds_def dest!: verify_artifact_accepts)
qed

lemma state_guards_Pass:
  assumes "list_all (\<lambda>g. g = Pass) (state_guards H (JObj p))" and "jget p ''action'' = JObj a"
  shows "\<exists>es. binds H p ''external_state'' ''external_state_sha256'' es \<and>
     py_eq (JObj es) (JObj (canonical_external_state (JObj a)))"
proof -
  from assms obtain es r where "binds H p ''external_state'' ''external_state_sha256'' es"
    and "verify_external_state_binding (jget p ''external_state'') (JObj a) = (True, r)"
    using bound_guards_Pass by (fastforce simp: state_guards_def Let_def guard_iff)
  then show ?thesis by (auto simp: binds_def dest!: verify_external_accepts)
qed

lemma effective_guards_Pass:
  assumes "list_all (\<lambda>g. g = Pass) (effective_guards H (JObj p))" and "jget p ''action'' = JObj a"
  shows "ceiling_bound H p a" and "jget p ''authority_state'' \<noteq> JNull" and "jget p ''authority_multiplier'' \<noteq> JNull"
proof -
  from assms obtain eff r where "binds H p ''effective_authority'' ''effective_authority_sha256'' eff"
    and "verify_effective_action a (obj_val (jget p ''effective_authority'')) = Inr (True, r)"
    using bound_guards_Pass by (fastforce simp: effective_guards_def Let_def guard_iff)
  then show "ceiling_bound H p a" by (auto simp: binds_def ceiling_bound_def)
  from assms show "jget p ''authority_state'' \<noteq> JNull" "jget p ''authority_multiplier'' \<noteq> JNull"
    by (auto simp: effective_guards_def Let_def guard_iff)
qed

section \<open>The payload of an authorization\<close>

lemma auth_fields:
  fixes H receipt nonce ttl now g intent decision pd graph
  defines "P \<equiv> authorization_payload H receipt nonce ttl now g intent decision pd graph"
  shows "jget P ''authorization_version'' = JInt 1"
    "jget P ''authorization_id'' = JStr (H (sd_signature receipt @ nonce))"
    "jget P ''decision_receipt_sha256'' = JStr (H (canon (JObj (sd_payload receipt)) @ sd_signature receipt))"
    "jget P ''intent_id'' = jget intent ''intent_id''" "jget P ''agent_id'' = jget intent ''agent_id''"
    "jget P ''policy_sha256'' = pd" "jget P ''nonce'' = JStr nonce"
    "jget P ''signed_policy_version'' = jget (sd_payload receipt) ''signed_policy_version''"
    "jget P ''policy_version_sha256'' = jget (sd_payload receipt) ''policy_version_sha256''"
    "jget P ''capability_id'' = opt_str (ig_capability_id g)"
    "jget P ''capability_sha256'' = opt_str (ig_capability_sha256 g)"
    "jget P ''identity_id'' = opt_str (ig_identity_id g)"
    "jget P ''identity_sha256'' = opt_str (ig_identity_sha256 g)"
    "jget P ''authority_state'' = opt_obj (ig_authority_state g)"
    "jget P ''authority_state_sha256'' = opt_str (ig_authority_state_sha256 g)"
    "jget P ''authority_multiplier'' = opt_float (ig_authority_multiplier g)"
    "jget P ''authority_ledger_head_hash'' = opt_str (ig_ledger_head g)"
    "jget P ''authority_policy_sha256'' = opt_str (ig_authority_policy_sha256 g)"
    "jget P ''authority_policy'' = opt_obj (ig_authority_policy g)"
    "jget P ''authority_policy_artifact_sha256'' = opt_digest H (ig_authority_policy g)"
    "jget P ''effective_authority'' = opt_obj (ig_effective_authority g)"
    "jget P ''effective_authority_sha256'' = opt_digest H (ig_effective_authority g)"
    "jget P ''execution_graph'' = JObj graph"
    "jget P ''execution_graph_sha256'' = JStr (digest_json H (JObj graph))"
    "jget P ''execution_artifact'' = JObj (canonical_execution_artifact (JObj intent))"
    "jget P ''execution_artifact_sha256'' = JStr (execution_artifact_digest H (JObj intent))"
    "jget P ''external_state'' = JObj (canonical_external_state (JObj intent))"
    "jget P ''external_state_sha256'' = JStr (external_state_digest H (JObj intent))"
    "jget P ''external_state_required'' = JBool (ig_external_state_required g)"
    "jget P ''external_state_requirement'' = opt_obj (ig_external_state_requirement g)"
    "jget P ''external_state_requirement_sha256'' = opt_digest H (ig_external_state_requirement g)"
    "jget P ''action'' = JObj intent" "jget P ''action_sha256'' = JStr (action_digest H (JObj intent))"
    "jget P ''constraints_sha256'' = JStr (digest_json H (jget_or intent ''constraints'' (JObj [])))"
    "jget P ''issued_at'' = JInt now" "jget P ''expires_at'' = JInt (now + ttl)"
  unfolding P_def by (simp_all add: authorization_payload_def Let_def jget_def)

section \<open>Comparing a value with itself\<close>

text \<open>Values a Python program can compare with themselves: keys are unique and no number is NaN.\<close>

fun regular :: "json \<Rightarrow> bool" where
  "regular (JFloat x) = (x \<noteq> NaN)"
| "regular (JList xs) = list_all regular xs"
| "regular (JObj d) = (distinct (map fst d) \<and> list_all regular (map snd d))"
| "regular v = True"

lemma py_eq_list_refl: "list_all (\<lambda>x. py_eq x x) xs \<Longrightarrow> py_eq_list xs xs"
  by (induction xs) auto

lemma py_eq_items_self:
  "distinct (map fst d) \<Longrightarrow> set ds \<subseteq> set d \<Longrightarrow> list_all (\<lambda>kv. py_eq (snd kv) (snd kv)) ds \<Longrightarrow>
     py_eq_items ds d"
  by (induction ds) auto

lemma py_eq_refl: "regular v \<Longrightarrow> py_eq v v"
proof (induction v)
  case (JList xs)
  then show ?case by (auto simp: list_all_iff intro!: py_eq_list_refl)
next
  case (JObj d)
  then have "list_all (\<lambda>kv. py_eq (snd kv) (snd kv)) d" by (force simp: list_all_iff)
  with JObj.prems show ?case by (simp add: py_eq_items_self)
qed (auto simp: x_eq_iff)

lemma regular_jget: "regular (JObj d) \<Longrightarrow> regular (jget d k)"
  by (auto simp: jget_def list_all_iff dest!: map_of_SomeD split: option.splits)

lemma regular_sorted: "regular (JObj d) \<Longrightarrow> regular (JObj (sorted_items d))"
  by (auto simp: sorted_items_def list_all_iff distinct_map)

lemma regular_artifact:
  assumes "regular (JObj a)"
  shows "regular (JObj (canonical_execution_artifact (JObj a)))"
    and "regular (JObj (canonical_external_state (JObj a)))"
proof -
  have r: "regular (JObj (sorted_items d))" if "jget m k = JObj d" "jget a ''metadata'' = JObj m" for m k d
    using that assms regular_jget [of a] regular_jget [of m k] by (metis regular_sorted)
  show "regular (JObj (canonical_execution_artifact (JObj a)))"
    using r by (simp add: canonical_execution_artifact_def artifact_def split: json.splits)
  show "regular (JObj (canonical_external_state (JObj a)))"
    using r by (simp add: canonical_external_state_def split: json.splits)
qed

section \<open>Normalising twice\<close>

lemma dset_same: "dget d k = Some v \<Longrightarrow> dset d k v = d"
  by (induction d) (auto split: if_splits)

lemma set_dkeys_dset: "set (dkeys (dset d k v)) = insert k (set (dkeys d))"
  by (induction d k v rule: dset.induct) (auto simp: dkeys_def)

lemma distinct_dset: "distinct (dkeys d) \<Longrightarrow> distinct (dkeys (dset d k v))"
proof (induction d k v rule: dset.induct)
  case (2 k' v' d k v)
  then show ?case using set_dkeys_dset [of d k v] by (auto simp: dkeys_def)
qed (simp add: dkeys_def)

lemma sorted_items_facts [simp]:
  "mset (sorted_items d) = mset d" "distinct (dkeys (sorted_items d)) \<longleftrightarrow> distinct (dkeys d)"
  by (simp_all add: sorted_items_def dkeys_def distinct_map)

lemma sorted_items_Nil [simp]: "sorted_items d = [] \<longleftrightarrow> d = []"
  by (metis sorted_items_facts(1) mset_zero_iff)

lemma normalized_digest:
  assumes n: "normalize_execution_graph v = Inr g" and r: "regular v"
  shows "execution_graph_digest H (JObj g) = Inr (digest_json H (JObj g))"
proof (cases "g = []")
  case False
  then obtain d where d: "v = JObj d" "d \<noteq> []"
    using n by (auto simp: normalize_execution_graph_def split: json.splits if_splits)
  define sc where "sc = jget_or (sorted_items d) ''enforcement_scope'' (JStr ''direct'')"
  from n d have g: "g = dset (sorted_items d) ''enforcement_scope'' sc"
    and ok: "hashable sc" "py_in sc valid_scopes"
    by (auto simp: normalize_execution_graph_def Let_def sc_def split: if_splits)
  have "distinct (dkeys d)" using r d by (simp add: dkeys_def)
  then have dist: "distinct (dkeys g)" using g by (simp add: distinct_dset)
  have sc2: "dget (sorted_items g) ''enforcement_scope'' = Some sc"
    using sorted_items_same [OF dist] g by simp
  then have "normalize_execution_graph (JObj g) = Inr (sorted_items g)"
    using ok False by (simp add: normalize_execution_graph_def jget_or_def dset_same)
  moreover have "canon (JObj (sorted_items g)) = canon (JObj g)"
    by (rule canon_perm) (use dist in simp_all)
  ultimately show ?thesis by (simp add: execution_graph_digest_def digest_json_def)
qed (simp add: execution_graph_digest_def normalize_execution_graph_def)

section \<open>A freshly issued authorization is accepted\<close>

text \<open>The arguments the issuer has to supply: bindings that agree with each other.\<close>

definition state_args :: "hash \<Rightarrow> auth_args \<Rightarrow> bool" where
  "state_args H g \<longleftrightarrow> (\<exists>st m. ig_authority_state g = Some st \<and> py_in (jget st ''state'') state_names \<and>
     hashable (jget st ''state'') \<and>
     ig_authority_state_sha256 g = Some (digest_json H (JObj st)) \<and>
     ig_authority_multiplier g = Some m \<and> in_unit m \<and>
     (case ig_ledger_head g of None \<Rightarrow> True
      | Some h \<Rightarrow> is_sha256_hex h \<and> jget st ''ledger_head_hash'' = JStr h) \<and>
     (case ig_authority_policy g of None \<Rightarrow> True
      | Some ap \<Rightarrow> ig_authority_policy_sha256 g = Some (digest_json H (JObj ap)) \<and>
          jget st ''authority_policy_sha256'' = JStr (digest_json H (JObj ap))))"

definition bearer_args :: "auth_args \<Rightarrow> bool" where
  "bearer_args g \<longleftrightarrow> (\<exists>c sha. ig_capability_id g = Some c \<and> c \<noteq> [] \<and>
     ig_capability_sha256 g = Some sha \<and> is_sha256_hex sha) \<and>
     (ig_identity_id g = None \<and> ig_identity_sha256 g = None \<or>
      (\<exists>i sha. ig_identity_id g = Some i \<and> i \<noteq> [] \<and> ig_identity_sha256 g = Some sha \<and> is_sha256_hex sha))"

definition external_args :: "jdict \<Rightarrow> auth_args \<Rightarrow> bool" where
  "external_args intent g \<longleftrightarrow> (let es = canonical_external_state (JObj intent) in
     (\<exists>r. validate_external_state_binding (JObj es) = (True, r)) \<and>
     (ig_external_state_required g \<longrightarrow> es \<noteq> []) \<and>
     (case ig_external_state_requirement g of None \<Rightarrow> True
      | Some req \<Rightarrow> py_eq (jget es ''kind'') (jget req ''kind'')))"

definition ceiling_args :: "jdict \<Rightarrow> auth_args \<Rightarrow> bool" where
  "ceiling_args intent g \<longleftrightarrow> (\<exists>eff r. ig_effective_authority g = Some eff \<and>
     verify_effective_action intent eff = Inr (True, r))"

definition receipt_fit :: "signed_doc \<Rightarrow> jdict \<Rightarrow> bool" where
  "receipt_fit receipt intent \<longleftrightarrow> jget (sd_payload receipt) ''intent'' = JObj intent \<and> regular (JObj intent) \<and>
     jget (sd_payload receipt) ''signed_policy_version'' = JNull \<and>
     (\<exists>a. jget intent ''agent_id'' = JStr a \<and> a \<noteq> []) \<and>
     (\<exists>p. jget (sd_payload receipt) ''policy_sha256'' = JStr p \<and> p \<noteq> [])"

lemma authority_guard_issued:
  assumes "state_args H g" and "hex_hash H"
  shows "authority_guard H (JObj (authorization_payload H receipt nonce ttl now g intent dec pd graph)) = Pass"
  using assms(1)
  by (auto simp: authority_guard_def Let_def guard_iff state_args_def auth_fields multiplier_guard_def
      authority_policy_guards_def digest_is_def opt_obj_def opt_str_def opt_float_def opt_digest_def
      is_obj_iff str_len64_iff hex64_iff digest_json_def hex_hashD [OF assms(2)] split: option.splits)

lemma state_guards_issued:
  assumes "external_args intent g" and "hex_hash H" and "regular (JObj intent)"
  shows "list_all (\<lambda>x. x = Pass)
     (state_guards H (JObj (authorization_payload H receipt nonce ttl now g intent dec pd graph)))"
proof -
  have "py_eq (JObj (canonical_external_state (JObj intent))) (JObj (canonical_external_state (JObj intent)))"
    by (rule py_eq_refl [OF regular_artifact(2) [OF assms(3)]])
  with assms(1) show ?thesis
    unfolding state_guards_def bound_guards_def Let_def
    by (auto simp: guard_iff external_args_def Let_def auth_fields digest_is_def is_obj_iff str_len64_iff
        external_state_digest_def digest_json_def hex_hashD [OF assms(2)] opt_obj_def opt_digest_def
        verify_external_state_binding_def differs_def simp del: py_eq.simps split: option.splits)
qed

lemma artifact_guards_issued:
  assumes "hex_hash H" and "regular (JObj intent)"
  shows "list_all (\<lambda>x. x = Pass)
     (artifact_guards H (JObj (authorization_payload H receipt nonce ttl now g intent dec pd graph)))"
proof -
  have "py_eq (JObj (canonical_execution_artifact (JObj intent))) (JObj (canonical_execution_artifact (JObj intent)))"
    by (rule py_eq_refl [OF regular_artifact(1) [OF assms(2)]])
  then show ?thesis
    unfolding artifact_guards_def bound_guards_def
    by (auto simp: guard_iff auth_fields digest_is_def is_obj_iff str_len64_iff
        execution_artifact_digest_def digest_json_def hex_hashD [OF assms(1)]
        verify_execution_artifact_def differs_def simp del: py_eq.simps)
qed

lemma effective_guards_issued:
  assumes "ceiling_args intent g" and "state_args H g" and "hex_hash H"
  shows "list_all (\<lambda>x. x = Pass)
     (effective_guards H (JObj (authorization_payload H receipt nonce ttl now g intent dec pd graph)))"
  using assms(1,2) unfolding effective_guards_def bound_guards_def Let_def
  by (auto simp: guard_iff ceiling_args_def state_args_def auth_fields digest_is_def is_obj_iff str_len64_iff
      digest_json_def hex_hashD [OF assms(3)] opt_obj_def opt_digest_def opt_float_def)

lemma dget_jget: "jget d k = v \<Longrightarrow> v \<noteq> JNull \<Longrightarrow> dget d k = Some v"
  by (auto simp: jget_def split: option.splits)

lemma action_guards_issued:
  assumes "hex_hash H" and "jget intent ''intent_id'' = JStr i" and "jget intent ''agent_id'' = JStr a"
  shows "list_all (\<lambda>x. x = Pass)
     (action_guards H (JObj (authorization_payload H receipt nonce ttl now g intent dec pd graph)))"
proof -
  let ?P = "authorization_payload H receipt nonce ttl now g intent dec pd graph"
  have k: "dget intent ''intent_id'' = Some (JStr i)" "dget intent ''agent_id'' = Some (JStr a)"
    "dget ?P ''intent_id'' = Some (JStr i)" "dget ?P ''agent_id'' = Some (JStr a)"
    "dget ?P ''action'' = Some (JObj intent)" "dget ?P ''action_sha256'' = Some (JStr (action_digest H (JObj intent)))"
    using assms(2,3) by (auto intro!: dget_jget simp: auth_fields)
  show ?thesis unfolding action_guards_def Let_def
    by (auto simp: guard_iff auth_fields assms(2,3) k hex64_iff action_digest_def digest_json_def
        hex_hashD [OF assms(1)])
qed

lemma bearer_guards_issued:
  fixes H receipt nonce ttl now g intent dec pd graph
  assumes "bearer_args g"
  defines "P \<equiv> authorization_payload H receipt nonce ttl now g intent dec pd graph"
  shows "identity_guard (JObj P) = Pass" and "print_field (JObj P) ''capability_sha256'' = Pass"
    and "is_str (jget P ''capability_id'')" and "str_val (jget P ''capability_id'') \<noteq> []"
  using assms(1) unfolding P_def
  by (auto simp: bearer_args_def identity_guard_def text_field_def print_field_def guard_iff auth_fields
      opt_str_def hex64_iff)

lemma hex_hash_nonempty: "hex_hash H \<Longrightarrow> H s \<noteq> []"
  using hex_hashD(2) [of H s] by auto

lemma authorization_guards_Pass:
  assumes "dget d ''payload'' = Some (JObj p)" and "dget d ''signature'' = Some sig"
    and "dget d ''algorithm'' = Some (JStr ''Ed25519'')"
  shows "list_all (\<lambda>g. g = Pass) (authorization_guards H E key now (JObj d)) \<longleftrightarrow>
     py_eq (jget p ''authorization_version'') (JInt 1) \<and>
     list_all (\<lambda>k. text_field (JObj p) k = Pass) [''authorization_id'', ''decision_receipt_sha256'',
       ''policy_sha256'', ''intent_id'', ''agent_id'', ''nonce''] \<and>
     list_all (\<lambda>k. print_field (JObj p) k = Pass) [''authorization_id'', ''decision_receipt_sha256''] \<and>
     attached_policy_guard H E key (JObj p) = Pass \<and>
     is_str (jget p ''capability_id'') \<and> str_val (jget p ''capability_id'') \<noteq> [] \<and>
     print_field (JObj p) ''capability_sha256'' = Pass \<and> identity_guard (JObj p) = Pass \<and>
     authority_guard H (JObj p) = Pass \<and>
     list_all (\<lambda>g. g = Pass) (lifetime_guards now (JObj p)) \<and>
     list_all (\<lambda>g. g = Pass) (action_guards H (JObj p)) \<and>
     list_all (\<lambda>g. g = Pass) (graph_guards H (JObj p)) \<and>
     list_all (\<lambda>g. g = Pass) (artifact_guards H (JObj p)) \<and>
     list_all (\<lambda>g. g = Pass) (state_guards H (JObj p)) \<and>
     list_all (\<lambda>g. g = Pass) (effective_guards H (JObj p)) \<and>
     signature_guard E key sig (JObj p) = Pass"
proof -
  have j: "jget d ''payload'' = JObj p" "jget d ''signature'' = sig" "jget d ''algorithm'' = JStr ''Ed25519''"
    using assms by (simp_all add: jget_def)
  show ?thesis
    by (simp add: authorization_guards_def Let_def simple_guards j assms differs_def conj_assoc)
qed

lemma issue_verifies:
  assumes "crypto_correct E" and "hex_hash H"
    and "issue_execution_authorization H E k receipt nonce (JInt ttl) now g = Inr auth"
    and "receipt_fit receipt intent" and "nonce \<noteq> []"
    and "bearer_args g" and "state_args H g" and "ceiling_args intent g" and "external_args intent g"
    and "regular (opt_obj (ig_execution_graph g))" and "now \<le> t" and "t \<le> now + ttl"
  shows "verify_execution_authorization H E (cy_public E k) t (JObj (signed_dict auth)) =
     Inr (True, ''valid execution authorization'')"
proof -
  have "jindex_obj (sd_payload receipt) ''intent'' = Inr intent" 
    using assms(4) by (auto simp: receipt_fit_def jget_def jindex_obj_def jindex_def bindE_def split: option.splits)
  then obtain dec pd graph where au: "auth = sign_doc E k (authorization_payload H receipt nonce ttl now g intent dec pd graph)"
    and id: "jindex intent ''intent_id'' = Inr (JStr nonce)" and pd: "jindex (sd_payload receipt) ''policy_sha256'' = Inr pd"
    and graph: "normalize_execution_graph (opt_obj (ig_execution_graph g)) = Inr graph" and ttl: "0 < ttl" 
    using assms(3) by (auto simp: issue_execution_authorization_def Let_def bindE_Inr_iff split: if_splits)
  from id have nid: "jget intent ''intent_id'' = JStr nonce" by (auto simp: jindex_def jget_def split: option.splits)
  from assms(4) obtain a where ag: "jget intent ''agent_id'' = JStr a" "a \<noteq> []"
    by (auto simp: receipt_fit_def)
  from assms(4) pd obtain p where ps: "pd = JStr p" "p \<noteq> []"
    by (auto simp: receipt_fit_def jindex_def jget_def split: option.splits)
  have reg: "regular (JObj intent)" and nopol: "jget (sd_payload receipt) ''signed_policy_version'' = JNull"
    using assms(4) by (simp_all add: receipt_fit_def)
  let ?P = "JObj (authorization_payload H receipt nonce ttl now g intent dec pd graph)"
  have graph_ok: "list_all (\<lambda>g. g = Pass) (graph_guards H ?P)"
    using normalized_digest [OF graph assms(10), of H]
    by (auto simp: graph_guards_def Let_def guard_iff auth_fields str_len64_iff digest_json_def
        hex_hashD [OF assms(2)])
  have life: "list_all (\<lambda>g. g = Pass) (lifetime_guards t ?P)"
    using assms(11,12) ttl by (simp add: lifetime_guards_Pass in_lifetime_def auth_fields)
  have texts: "list_all (\<lambda>k. text_field ?P k = Pass) [''authorization_id'', ''decision_receipt_sha256'',
      ''policy_sha256'', ''intent_id'', ''agent_id'', ''nonce'']"
    using assms(5) ag ps nid
    by (simp add: text_field_def guard_iff auth_fields hex_hash_nonempty [OF assms(2)])
  have prints: "list_all (\<lambda>k. print_field ?P k = Pass) [''authorization_id'', ''decision_receipt_sha256'']"
    by (auto simp: print_field_def guard_iff auth_fields hex64_iff hex_hashD [OF assms(2)])
  have pol: "attached_policy_guard H E (cy_public E k) ?P = Pass"
    by (simp add: attached_policy_guard_def Let_def simple_guards auth_fields nopol)
  note parts = graph_ok life pol
    action_guards_issued [OF assms(2) nid ag(1)] artifact_guards_issued [OF assms(2) reg]
    state_guards_issued [OF assms(9,2) reg] effective_guards_issued [OF assms(8,7,2)]
    authority_guard_issued [OF assms(7,2)] bearer_guards_issued [OF assms(6)]
    sign_doc_verifies [OF assms(1), of k "authorization_payload H receipt nonce ttl now g intent dec pd graph"]
  have version: "py_eq (jget (authorization_payload H receipt nonce ttl now g intent dec pd graph)
      ''authorization_version'') (JInt 1)" by (simp add: auth_fields)
  show ?thesis
    unfolding verify_execution_authorization_def verdict_of_accepts au
    unfolding authorization_guards_Pass [OF signed_dict_keys] sign_doc_simps(1)
    by (intro conjI refl) (fact parts texts prints version)+
qed

section \<open>A concrete authorization\<close>

definition demo_intent :: jdict where
  "demo_intent = [(''intent_id'', JStr ''i1''), (''agent_id'', JStr ''agent''),
     (''action_type'', JStr ''payment''), (''asset'', JStr ''USDC''), (''network'', JStr ''base''), (''amount'', JInt 5)]"

definition demo_receipt :: signed_doc where
  "demo_receipt = sign_doc demo_crypto ''k'' [(''intent'', JObj demo_intent),
     (''decision'', JObj [(''decision'', JStr ''ALLOW'')]), (''policy_sha256'', JStr (zero_hash []))]"

definition demo_effective :: jdict where
  "demo_effective = [(''action_type'', JList [JStr ''payment'']), (''per_action_limits'', JObj [(''USDC'', JInt 10)])]"

definition demo_args :: auth_args where
  "demo_args = \<lparr> ig_capability_id = Some ''c1'', ig_capability_version = Some 1,
     ig_capability_sha256 = Some (zero_hash []), ig_identity_id = None, ig_identity_sha256 = None,
     ig_authority_state = Some [(''state'', JStr ''STANDARD'')], ig_authority_state_sha256 = Some (zero_hash []),
     ig_authority_multiplier = Some (Fin (1 / 2)), ig_ledger_head = None, ig_authority_policy_sha256 = None,
     ig_authority_policy = None, ig_effective_authority = Some demo_effective, ig_execution_graph = None,
     ig_genesis_authority = None, ig_external_state_required = False, ig_external_state_requirement = None \<rparr>"

definition demo_auth :: "signed_doc res" where
  "demo_auth = issue_execution_authorization zero_hash demo_crypto ''k'' demo_receipt ''i1'' (JInt 300) 1000 demo_args"

definition demo_payload :: jdict where
  "demo_payload = authorization_payload zero_hash demo_receipt ''i1'' 300 1000 demo_args demo_intent
     [(''decision'', JStr ''ALLOW'')] (JStr (zero_hash [])) []"

lemma demo_issued: "demo_auth = Inr (sign_doc demo_crypto ''k'' demo_payload)"
  by (simp add: demo_auth_def issue_execution_authorization_def Let_def demo_receipt_def demo_intent_def
      demo_payload_def jindex_obj_def jindex_def is_int_def max_ttl_def normalize_execution_graph_def
      opt_obj_def demo_args_def)

lemma demo_fits:
  "receipt_fit demo_receipt demo_intent" "bearer_args demo_args" "state_args zero_hash demo_args"
  "ceiling_args demo_intent demo_args" "external_args demo_intent demo_args"
  "regular (opt_obj (ig_execution_graph demo_args))"
proof -
  have hex: "is_sha256_hex (zero_hash [])" using zero_hash_hex by (simp add: hex_hash_def)
  show "receipt_fit demo_receipt demo_intent"
    by (simp add: receipt_fit_def demo_receipt_def demo_intent_def jget_def zero_hash_def)
  show "bearer_args demo_args" using hex by (simp add: bearer_args_def demo_args_def)
  show "state_args zero_hash demo_args"
    by (simp add: state_args_def demo_args_def jget_def state_names_def py_in_def in_unit_def
        digest_json_def zero_hash_def)
  show "external_args demo_intent demo_args"
    by (simp add: external_args_def demo_args_def demo_intent_def canonical_external_state_def jget_def
        validate_external_state_binding_def)
  show "regular (opt_obj (ig_execution_graph demo_args))" by (simp add: demo_args_def opt_obj_def)
  have "verify_effective_action demo_intent demo_effective =
      Inr (True, ''execution action is within effective authority'')" by code_simp
  then show "ceiling_args demo_intent demo_args" by (simp add: ceiling_args_def demo_args_def)
qed

lemma demo_accepted:
  "\<exists>auth. demo_auth = Inr auth \<and>
     verify_execution_authorization zero_hash demo_crypto (cy_public demo_crypto ''k'') 1100
       (JObj (signed_dict auth)) = Inr (True, ''valid execution authorization'')"
proof -
  obtain auth where auth: "demo_auth = Inr auth" using demo_issued by blast
  with issue_verifies [OF demo_crypto_correct zero_hash_hex auth [unfolded demo_auth_def]
      demo_fits(1) _ demo_fits(2-6), of 1100]
  show ?thesis by (intro exI [of _ auth]) simp
qed

section \<open>Properties\<close>

text \<open>C17: an authorization the verifier accepts carries a signature of the issuer over its payload, is within its
  lifetime, names the exact action and its bearer, holds a capability and a dynamic authority state with a
  multiplier between 0 and 1, and the action is within the signed ceiling and is the one the wire artifact
  and the external state were derived from.\<close>

theorem authorization_safe:
  assumes "verify_execution_authorization H E key now auth = Inr (True, r)"
  shows "\<exists>d p s a. auth = JObj d \<and> jget d ''payload'' = JObj p \<and> jget d ''signature'' = JStr s \<and>
     verify_b64 E key s (canon (JObj p)) \<and> promises H now p a"
proof -
  have g: "list_all (\<lambda>g. g = Pass) (authorization_guards H E key now auth)"
    using assms by (simp add: verify_execution_authorization_def verdict_of_accepts)
  obtain d where d: "auth = JObj d"
    using g by (auto simp: authorization_guards_def Let_def guard_iff is_obj_iff)
  obtain p where p: "fld auth ''payload'' = JObj p"
    using g by (auto simp: authorization_guards_def Let_def guard_iff is_obj_iff)
  have parts: "authority_guard H (JObj p) = Pass" 
    "list_all (\<lambda>g. g = Pass) (lifetime_guards now (JObj p))"
    "list_all (\<lambda>g. g = Pass) (action_guards H (JObj p))"
    "list_all (\<lambda>g. g = Pass) (artifact_guards H (JObj p))"
    "list_all (\<lambda>g. g = Pass) (state_guards H (JObj p))"
    "list_all (\<lambda>g. g = Pass) (effective_guards H (JObj p))"
    "signature_guard E key (fld auth ''signature'') (JObj p) = Pass"
    "print_field (JObj p) ''capability_sha256'' = Pass"
    "\<not> (\<not> is_str (jget p ''capability_id'') \<or> str_val (jget p ''capability_id'') = [])"
    using g p by (simp_all add: authorization_guards_def Let_def simple_guards)
  obtain a where a: "binds H p ''action'' ''action_sha256'' a"
    "py_eq (jget a ''intent_id'') (jget p ''intent_id'')" "py_eq (jget a ''agent_id'') (jget p ''agent_id'')"
    using action_guards_Pass [OF parts(3)] by blast
  then have pa: "jget p ''action'' = JObj a" by (simp add: binds_def)
  note eff = effective_guards_Pass [OF parts(6) pa]
  have "authority_bound H p" by (rule authority_guard_Pass [OF parts(1)]) (use eff in simp)
  moreover have "execution_bound H p a"
    using artifact_guards_Pass [OF parts(4) pa] state_guards_Pass [OF parts(5) pa]
    by (auto simp: execution_bound_def)
  moreover have "bearer_bound p a"
    using a parts(8,9) by (auto simp: bearer_bound_def print_field_def simple_guards is_str_iff)
  moreover have "in_lifetime p now" using parts(2) by (simp add: lifetime_guards_Pass)
  moreover obtain s where "jget d ''signature'' = JStr s" "verify_b64 E key s (canon (JObj p))"
    using parts(7) d by (auto simp: guard_iff)
  ultimately show ?thesis using d p a eff(1) by (auto simp: promises_def)
qed

theorem authorization_safe_witness:
  "\<exists>auth p a. demo_auth = Inr auth \<and> sd_payload auth = p \<and> promises zero_hash 1100 p a"
proof -
  obtain auth where auth: "demo_auth = Inr auth"
    and v: "verify_execution_authorization zero_hash demo_crypto (cy_public demo_crypto ''k'') 1100
      (JObj (signed_dict auth)) = Inr (True, ''valid execution authorization'')"
    using demo_accepted by blast
  from authorization_safe [OF v] auth show ?thesis by (auto simp: jget_def)
qed



end
