(* ===== verification/Receipt_Boundary.thy ===== *)
theory Receipt_Boundary
  imports Receipt_Safety
begin

text \<open>
  The verifiers of \<open>attest/receipt.py\<close> on hostile input, and execution receipts: signed after an execution,
  accepted against their authorization, and bound to it.
\<close>

section \<open>Exceptions that leave a verifier\<close>

text \<open>
  A check is tame when every exception it raises is caught by the verifier or is one of the two that
  \<open>escapes\<close> lists.
\<close>

definition escapes :: "exn \<Rightarrow> bool" where
  "escapes e \<longleftrightarrow> e = OverflowError \<or> (\<exists>s. e = AttributeError s)"

definition tame :: "guard \<Rightarrow> bool" where
  "tame g \<longleftrightarrow> (\<forall>e. g = Throw e \<longrightarrow> malformed e \<or> escapes e)"

lemma malformed_simps [simp]:
  "malformed (KeyError s)" "malformed (TypeError s)" "malformed (ValueError s)" "malformed InvalidSignature"
  "escapes (AttributeError s)" "escapes OverflowError"
  by (simp_all add: malformed_def escapes_def)

lemma tame_simps [simp]:
  "tame Pass" "tame (Reject r)" "tame (Throw e) \<longleftrightarrow> malformed e \<or> escapes e"
  "tame (reject b r)" "tame (throw b e) \<longleftrightarrow> (b \<longrightarrow> malformed e \<or> escapes e)" "tame (has_get v)"
  by (auto simp: tame_def reject_def throw_def has_get_def)

lemma tame_first_fail [simp]: "list_all tame gs \<Longrightarrow> tame (first_fail gs)"
  by (induction gs) auto

lemma tame_block [simp]: "list_all tame gs \<Longrightarrow> tame (block b gs)"
  by (simp add: block_def)

lemma tame_has_key [simp]: "tame (has_key v k)"
  by (cases "(v, k)" rule: has_key.cases) simp_all

lemma tame_has_keys [simp]: "tame (has_keys v ks)"
  by (simp add: has_keys_def list_all_iff)

lemma tame_ask: "tame (ask v) \<longleftrightarrow> (\<forall>e. v = Inl e \<longrightarrow> malformed e \<or> escapes e)"
  by (auto simp: ask_def split: sum.splits)

lemma tame_signature [simp]: "tame (signature_guard E key s p)"
  by (simp add: signature_guard_def split: json.splits option.splits)

lemma tame_verdict:
  assumes "list_all tame gs"
  shows "verdict_of bad good gs = Inl e \<Longrightarrow> escapes e"
    and "open_verdict good gs = Inl e \<Longrightarrow> malformed e \<or> escapes e"
  using tame_first_fail [OF assms]
  by (auto simp: verdict_of_def open_verdict_def split: guard.splits if_splits)

lemma tame_policy_version: "verify_policy_version H E key v = Inl e \<Longrightarrow> escapes e"
  unfolding verify_policy_version_def
  by (rule tame_verdict(1)) (auto simp: policy_version_guards_def Let_def)

lemma tame_ask_policy [simp]: "tame (ask (verify_policy_version H E key v))"
  by (auto simp: tame_ask dest: tame_policy_version)

lemma tame_attached [simp]: "tame (attached_policy_guard H E key p)"
  by (simp add: attached_policy_guard_def Let_def)

lemma contains_Inl: "contains x v = Inl e \<Longrightarrow> malformed e"
  by (cases v) (auto split: json.splits if_splits)

lemma tame_effective: "verify_effective_action a eff = Inl e \<Longrightarrow> malformed e \<or> escapes e"
proof -
  have field: "tame (field_guard a eff f)" for f
    by (auto simp: field_guard_def not_in_def Let_def dest: contains_Inl split: sum.splits)
  have purpose: "tame (purpose_guard a eff)"
  proof -
    have "elements v = Inl e \<Longrightarrow> malformed e" for v e by (cases v) auto
    then show ?thesis by (auto simp: purpose_guard_def Let_def split: json.splits sum.splits)
  qed
  have ctxs: "tame (contexts_guard a eff)"
    by (auto simp: contexts_guard_def context_guard_def list_all_iff split: json.splits prod.splits)
  have limits: "tame (limits_guard a eff)"
    by (auto simp: limits_guard_def amount_guard_def Let_def dest: contains_Inl split: sum.splits option.splits)
  show "verify_effective_action a eff = Inl e \<Longrightarrow> malformed e \<or> escapes e"
    unfolding verify_effective_action_def
    by (rule tame_verdict(2)) (simp_all add: field purpose ctxs limits)
qed

lemma tame_asks [simp]: "tame (ask (Inr r))" "tame (ask (verify_effective_action a eff))"
  by (auto simp: tame_ask dest: tame_effective)

lemma tame_groups [simp]:
  "list_all tame (lifetime_guards now (JObj p))" "list_all tame (action_guards H p')"
  "list_all tame (bound_guards H p' k1 k2 r1 r2)" 
  "tame (identity_guard p')" "tame (text_field p' k)" "tame (print_field p' k)"
  by (simp_all add: lifetime_guards_def action_guards_def bound_guards_def identity_guard_def text_field_def
      print_field_def Let_def)

lemma tame_graph [simp]: "list_all tame (graph_guards H p)"
  by (auto simp: graph_guards_def execution_graph_digest_def normalize_execution_graph_def Let_def bindE_def
      split: sum.splits json.splits if_splits)

lemma tame_multiplier [simp]: "tame (multiplier_guard v)"
  by (auto simp: multiplier_guard_def py_float_def split: json.splits sum.splits xnum.splits)

lemma tame_authority [simp]: "tame (authority_guard H p)"
  by (simp add: authority_guard_def authority_policy_guards_def Let_def)

lemma tame_bound_groups [simp]:
  "list_all tame (artifact_guards H p)" "list_all tame (state_guards H p)" "list_all tame (effective_guards H p)"
  by (auto simp: artifact_guards_def state_guards_def effective_guards_def Let_def)

lemma tame_authorization: "list_all tame (authorization_guards H E key now auth)"
  by (simp add: authorization_guards_def Let_def lifetime_guards_def)


lemma tame_same [simp]: "tame (same_key p a k r)" "list_all tame (map (same_field p a) krs)"
  by (auto simp: same_key_def same_field_def list_all_iff split: prod.splits)

lemma tame_against: "list_all tame (against_guards H p a)"
  by (simp only: against_guards_def Let_def list_all_append list.pred_inject tame_simps tame_same tame_block
      tame_has_key simp_thms)

lemma tame_execution_receipt: "list_all tame (execution_receipt_guards H E key receipt authorization)"
  by (simp add: execution_receipt_guards_def Let_def tame_against split: option.splits)

section \<open>Execution receipts\<close>

lemma receipt_fields:
  fixes H ap action x uuid now
  defines "P \<equiv> receipt_body H ap action x uuid now"
  shows "jget P ''execution_receipt_version'' = JInt 1"
    "jget P ''receipt_id'' = or_else (xr_receipt_id x) (JStr uuid)"
    "jget P ''authorization_sha256'' = or_else (xr_authorization_sha256 x) (JStr (digest_json H (JObj ap)))"
    "jget P ''status'' = JStr (xr_status x)" "jget P ''transaction_ref'' = xr_transaction_ref x"
    "jget P ''authorization_id'' = jget ap ''authorization_id''" "jget P ''intent_id'' = jget ap ''intent_id''"
    "jget P ''policy_sha256'' = jget ap ''policy_sha256''"
    "jget P ''signed_policy_version'' = jget ap ''signed_policy_version''"
    "jget P ''policy_version_sha256'' = jget ap ''policy_version_sha256''"
    "jget P ''action_sha256'' = jget ap ''action_sha256''"
    "list_all (\<lambda>k. jget P k = jget ap k) copied_fields"
    "list_all (\<lambda>k. \<exists>v. dget P k = Some v) [''execution_receipt_version'', ''status'', ''receipt_id'',
       ''authorization_id'', ''intent_id'', ''transaction_ref'', ''action_sha256'']"
  unfolding P_def by (simp_all add: receipt_body_def copied_fields_def jget_def)

lemma payload_Inr:
  assumes "execution_receipt_payload H authorization x uuid now = Inr P"
    and "dget authorization ''payload'' = Some (JObj ap)"
  shows "\<exists>action. P = receipt_body H ap action x uuid now \<and> xr_status x \<in> set receipt_statuses \<and>
    list_all (\<lambda>k. \<exists>v. dget ap k = Some v) [''authorization_id'', ''intent_id'', ''action_sha256'']"
  using assms
  by (auto simp: execution_receipt_payload_def bindE_Inr_iff jindex_obj_def jindex_def
      split: if_splits option.splits)

definition receipt_ready :: "hash \<Rightarrow> jdict \<Rightarrow> receipt_args \<Rightarrow> string \<Rightarrow> bool" where
  "receipt_ready H ap x uuid \<longleftrightarrow> regular (JObj ap) \<and> xr_authorization_sha256 x = JNull \<and>
     truthy (or_else (xr_receipt_id x) (JStr uuid)) \<and>
     (xr_status x = ''FAILED'' \<or> truthy (xr_transaction_ref x)) \<and>
     truthy (jget ap ''authorization_id'') \<and> truthy (jget ap ''intent_id'') \<and>
     str_len64 (jget ap ''action_sha256'') \<and>
     (jget ap ''genesis_authority'' = JNull \<or>
      (\<exists>gen. binds H ap ''genesis_authority'' ''genesis_authority_sha256'' gen))"

lemma same_guards_Pass:
  "same_key (JObj P) (JObj a) k r = Pass \<longleftrightarrow> dget P k \<noteq> None \<and> dget a k \<noteq> None \<and> py_eq (jget P k) (jget a k)"
  "same_field (JObj P) (JObj a) (k, r) = Pass \<longleftrightarrow> py_eq (jget P k) (jget a k)"
  by (auto simp: same_key_def same_field_def guard_iff differs_def)

lemma against_issued:
  assumes "receipt_ready H ap x uuid" and "dget authorization ''payload'' = Some (JObj ap)"
    and "list_all (\<lambda>k. \<exists>v. dget ap k = Some v) [''authorization_id'', ''intent_id'', ''action_sha256'']"
  shows "list_all (\<lambda>g. g = Pass)
     (against_guards H (JObj (receipt_body H ap action x uuid now)) (JObj authorization))"
proof -
  let ?P = "receipt_body H ap action x uuid now"
  have self: "py_eq (jget ap k) (jget ap k)" for k
    using assms(1) regular_jget [of ap k] by (simp add: receipt_ready_def py_eq_refl)
  have copied: "jget ?P k = jget ap k" if "k \<in> set copied_fields" for k
    using receipt_fields(12) [of H ap action x uuid now] that by (auto simp: list_all_iff)
  note copies = copied [of "''identity_id''"] copied [of "''identity_sha256''"] copied [of "''capability_id''"]
    copied [of "''capability_sha256''"] copied [of "''authority_state''"] copied [of "''authority_state_sha256''"]
    copied [of "''authority_multiplier''"] copied [of "''authority_ledger_head_hash''"]
    copied [of "''authority_policy_sha256''"] copied [of "''authority_policy''"]
    copied [of "''authority_policy_artifact_sha256''"] copied [of "''genesis_authority''"]
    copied [of "''genesis_authority_sha256''"]
  have j: "jget authorization ''payload'' = JObj ap" using assms(2) by (simp add: jget_def)
  have sha: "jget ?P ''authorization_sha256'' = JStr (digest_json H (JObj ap))"
    using assms(1) by (simp add: receipt_fields receipt_ready_def or_else_def)
  have gen: "jget ap ''genesis_authority'' = JNull \<or> (is_obj (jget ap ''genesis_authority'') \<and>
      is_str (jget ap ''genesis_authority_sha256'') \<and>
      digest_is H (jget ap ''genesis_authority'') (jget ap ''genesis_authority_sha256''))"
    using assms(1) by (auto simp: receipt_ready_def binds_def digest_is_def)
  show ?thesis
    unfolding against_guards_def Let_def fld.simps j
    using receipt_fields(13) [of H ap action x uuid now] assms(3) gen
    by (auto simp: same_guards_Pass simple_guards has_key_Pass assms(2) copies [simplified copied_fields_def, simplified] self
        receipt_fields(4-11) sha differs_def j)
qed

lemma execution_receipt_guards_Pass:
  assumes "dget d ''payload'' = Some (JObj p)" and "dget d ''signature'' = Some sig"
    and "dget d ''algorithm'' = Some (JStr ''Ed25519'')"
    and "list_all (\<lambda>k. \<exists>v. dget p k = Some v) [''execution_receipt_version'', ''status'', ''receipt_id'',
       ''authorization_id'', ''intent_id'', ''transaction_ref'', ''action_sha256'']"
  shows "list_all (\<lambda>g. g = Pass) (execution_receipt_guards H E key (JObj d) (Some a)) \<longleftrightarrow>
     py_eq (jget p ''execution_receipt_version'') (JInt 1) \<and> hashable (jget p ''status'') \<and>
     py_in (jget p ''status'') (map JStr receipt_statuses) \<and>
     truthy (jget p ''receipt_id'') \<and> truthy (jget p ''authorization_id'') \<and> truthy (jget p ''intent_id'') \<and>
     str_len64 (jget p ''authorization_sha256'') \<and>
     (jget p ''status'' = JStr ''FAILED'' \<or> truthy (jget p ''transaction_ref'')) \<and>
     str_len64 (jget p ''action_sha256'') \<and> signature_guard E key sig (JObj p) = Pass \<and>
     list_all (\<lambda>g. g = Pass) (against_guards H (JObj p) a)"
proof -
  have j: "jget d ''payload'' = JObj p" "jget d ''signature'' = sig" "jget d ''algorithm'' = JStr ''Ed25519''"
    using assms by (simp_all add: jget_def)
  show ?thesis using assms(4)
    by (auto simp: execution_receipt_guards_def Let_def simple_guards has_key_Pass j assms(1-3) differs_def)
qed

lemma executed_verifies:
  assumes "crypto_correct E" and "hex_hash H" and "receipt_ready H ap x uuid"
    and "dget authorization ''payload'' = Some (JObj ap)"
    and "sign_execution_receipt H E k authorization x uuid now = Inr receipt"
  shows "verify_execution_receipt H E (cy_public E k) (JObj (signed_dict receipt)) (Some (JObj authorization)) =
     Inr (True, ''valid execution receipt'')"
proof -
  obtain P where P: "execution_receipt_payload H authorization x uuid now = Inr P" "receipt = sign_doc E k P"
    using assms(5) by (auto simp: sign_execution_receipt_def bindE_Inr_iff)
  obtain action where body: "P = receipt_body H ap action x uuid now" and st: "xr_status x \<in> set receipt_statuses"
    and ks: "list_all (\<lambda>k. \<exists>v. dget ap k = Some v) [''authorization_id'', ''intent_id'', ''action_sha256'']"
    using payload_Inr [OF P(1) assms(4)] by blast
  note sig = sign_doc_verifies [OF assms(1), of k P]
  note against = against_issued [OF assms(3,4) ks, of action now, folded body]
  note f = receipt_fields [of H ap action x uuid now, folded body]
  have sha: "str_len64 (jget P ''authorization_sha256'')"
    using assms(3) by (simp add: f receipt_ready_def or_else_def str_len64_iff digest_json_def hex_hashD [OF assms(2)])
  have status: "py_in (jget P ''status'') (map JStr receipt_statuses)" "hashable (jget P ''status'')"
    using st by (auto simp: f py_in_def list_ex_iff)
  have rest: "py_eq (jget P ''execution_receipt_version'') (JInt 1)"
    "truthy (jget P ''receipt_id'')" "truthy (jget P ''authorization_id'')" "truthy (jget P ''intent_id'')"
    "jget P ''status'' = JStr ''FAILED'' \<or> truthy (jget P ''transaction_ref'')"
    "str_len64 (jget P ''action_sha256'')"
    using assms(3) by (auto simp: f(1-11) receipt_ready_def)
  show ?thesis
    unfolding verify_execution_receipt_def verdict_of_accepts P(2)
    unfolding execution_receipt_guards_Pass [OF signed_dict_keys, of "sign_doc E k P", unfolded sign_doc_simps(1), OF f(13)]
    by (intro conjI refl) (fact sig against sha status rest)+
qed

lemma receipt_digest:
  assumes "verify_execution_receipt H E key receipt (Some (JObj a)) = Inr (True, r)"
  shows "fld (fld receipt ''payload'') ''authorization_sha256'' = JStr (digest_json H (jget a ''payload''))"
  using assms
  by (simp add: verify_execution_receipt_def verdict_of_accepts execution_receipt_guards_def Let_def
      against_guards_def simple_guards)

section \<open>A concrete execution\<close>

definition demo_executed :: jdict where
  "demo_executed = [(''authorization_id'', JStr ''x1''), (''decision_receipt_sha256'', JStr ''d''),
     (''intent_id'', JStr ''i1''), (''agent_id'', JStr ''agent''), (''action'', JObj demo_intent),
     (''action_sha256'', JStr (zero_hash []))]"

definition demo_outcome :: receipt_args where
  "demo_outcome = \<lparr> xr_status = ''CONFIRMED'', xr_transaction_ref = JStr ''tx'', xr_executor = ''local'',
     xr_error = JNull, xr_receipt_id = JNull, xr_previous = JNull, xr_confirmation_ref = JNull,
     xr_confirmation_data = JNull, xr_scope = JNull, xr_authorization_sha256 = JNull \<rparr>"

definition demo_signed :: "jdict \<Rightarrow> signed_doc res" where
  "demo_signed rest = sign_execution_receipt zero_hash demo_crypto ''k''
     ((''payload'', JObj demo_executed) # rest) demo_outcome ''u1'' 1000"

lemma demo_ready: "receipt_ready zero_hash demo_executed demo_outcome ''u1''"
  by (simp add: receipt_ready_def demo_executed_def demo_outcome_def demo_intent_def jget_def or_else_def
      str_len64_iff zero_hash_def)

lemma demo_signed_same: "demo_signed rest = demo_signed []" "\<exists>receipt. demo_signed [] = Inr receipt"
  by (simp_all add: demo_signed_def sign_execution_receipt_def execution_receipt_payload_def jindex_obj_def
      jindex_def demo_executed_def demo_outcome_def receipt_statuses_def)

lemma demo_receipt_verifies:
  "demo_signed [] = Inr receipt \<Longrightarrow>
     verify_execution_receipt zero_hash demo_crypto (cy_public demo_crypto ''k'') (JObj (signed_dict receipt))
       (Some (JObj ((''payload'', JObj demo_executed) # rest))) = Inr (True, ''valid execution receipt'')"
  using demo_signed_same(1) [of rest]
  by (intro executed_verifies [OF demo_crypto_correct zero_hash_hex demo_ready, where now = 1000])
    (simp_all add: demo_signed_def)

section \<open>Properties\<close>

text \<open>C19: on any input whatsoever, the two verifiers of the execution boundary either return a verdict or raise
  AttributeError (an artifact that is not an object) or OverflowError (an integer multiplier no float can
  hold); every other exception is turned into a rejection.\<close>

theorem verifier_errors:
  assumes "verify_execution_authorization H E key now v = Inl e \<or> verify_execution_receipt H E key v a = Inl e"
  shows "e = OverflowError \<or> (\<exists>s. e = AttributeError s)"
  using assms tame_verdict(1) [OF tame_authorization] tame_verdict(1) [OF tame_execution_receipt]
  unfolding verify_execution_authorization_def verify_execution_receipt_def escapes_def by blast

theorem verifier_errors_witness:
  "\<exists>e. verify_execution_authorization zero_hash demo_crypto ''k'' 0 JNull = Inl e \<and>
     (e = OverflowError \<or> (\<exists>s. e = AttributeError s))"
proof -
  have "verify_execution_authorization zero_hash demo_crypto ''k'' 0 JNull = Inl (AttributeError ''get'')"
    by (simp add: verify_execution_authorization_def verdict_of_def authorization_guards_def has_get_def
        throw_def malformed_def Let_def)
  with verifier_errors [OF disjI1 [OF this]] show ?thesis by blast
qed





text \<open>C0: an amount text that is not a decimal number makes the decision receipt verifier raise
  InvalidOperation, which its \<open>except\<close> clause does not list, instead of rejecting the receipt.\<close>

theorem malformed_amount_escapes:
  "verify_receipt H E key (JObj [(''payload'', JObj [(''intent'', JObj [(''intent_id'', JStr ''i''),
       (''agent_id'', JStr ''a''), (''action_type'', JStr ''t''), (''target'', JStr ''x''),
       (''amount_exact'', JStr ''ten'')]),
     (''decision'', JObj [(''intent_id'', JStr ''i''), (''agent_id'', JStr ''a'')]),
     (''policy_sha256'', JStr [])]), (''signature'', JStr []), (''algorithm'', JStr ''Ed25519'')]) =
   Inl InvalidOperation"
proof -
  have "parse_decimal ''ten'' = None" by code_simp
  then show ?thesis
    by (simp add: verify_receipt_def verdict_of_def receipt_guards_def Let_def has_keys_def jget_def throw_def
        reject_def malformed_def)
qed

end
