(* ===== verification/Networks.thy ===== *)
theory Networks
  imports Json
begin

text \<open>
  \<open>enforcement/networks.py\<close>: the registry that maps network names and chain ids to descriptors.
  \<open>UnsupportedNetworkError\<close> is a ValueError.
\<close>

record network_descriptor =
  nt_name :: string
  nt_family :: string
  nt_chain_id :: "int option"
  nt_native_asset :: "string option"
  nt_execution_supported :: bool
  nt_aliases :: "string list"

definition evm_network :: "string \<Rightarrow> int \<Rightarrow> string \<Rightarrow> string list \<Rightarrow> network_descriptor" where
  "evm_network name chain asset aliases = \<lparr> nt_name = name, nt_family = ''evm'', nt_chain_id = Some chain,
     nt_native_asset = Some asset, nt_execution_supported = True, nt_aliases = aliases \<rparr>"

definition default_networks :: "network_descriptor list" where
  "default_networks = [
     evm_network ''ethereum'' 1 ''ETH'' [''mainnet'', ''eth''],
     evm_network ''base'' 8453 ''ETH'' [],
     evm_network ''arbitrum'' 42161 ''ETH'' [''arbitrum-one''],
     evm_network ''optimism'' 10 ''ETH'' [''op''],
     evm_network ''polygon'' 137 ''POL'' [''matic''],
     evm_network ''bnb-smart-chain'' 56 ''BNB'' [''bsc'', ''bnb''],
     evm_network ''avalanche'' 43114 ''AVAX'' [''avax'', ''c-chain''],
     evm_network ''linea'' 59144 ''ETH'' [],
     evm_network ''zksync-era'' 324 ''ETH'' [''zksync''],
     evm_network ''arc'' 5042 ''USDC'' [],
     \<lparr> nt_name = ''solana'', nt_family = ''solana'', nt_chain_id = None, nt_native_asset = Some ''SOL'',
       nt_execution_supported = True, nt_aliases = [''sol''] \<rparr>]"

record network_registry =
  nr_by_name :: "network_descriptor dict"
  nr_by_chain :: "(int \<times> network_descriptor) list"

definition norm_name :: "string \<Rightarrow> string" where
  "norm_name s = str_lower (str_strip s)"

fun set_names :: "network_descriptor dict \<Rightarrow> string list \<Rightarrow> network_descriptor \<Rightarrow> network_descriptor dict" where
  "set_names d [] n = d"
| "set_names d (v # vs) n = set_names (dset d (norm_name v) n) vs n"

definition register_network :: "network_registry \<Rightarrow> network_descriptor \<Rightarrow> network_registry" where
  "register_network r n = r\<lparr>
     nr_by_name := set_names (nr_by_name r) (nt_name n # nt_aliases n) n,
     nr_by_chain := (case nt_chain_id n of None \<Rightarrow> nr_by_chain r | Some c \<Rightarrow> (c, n) # nr_by_chain r)\<rparr>"

definition new_network_registry :: "network_descriptor list \<Rightarrow> network_registry" where
  "new_network_registry ns = fold (\<lambda>n r. register_network r n) ns \<lparr> nr_by_name = [], nr_by_chain = [] \<rparr>"

definition resolve_network :: "network_registry \<Rightarrow> string \<Rightarrow> network_descriptor res" where
  "resolve_network r name = (case dget (nr_by_name r) (norm_name name) of
     None \<Rightarrow> Inl (ValueError (''unknown network: '' @ name)) | Some n \<Rightarrow> Inr n)"

definition resolve_chain :: "network_registry \<Rightarrow> int \<Rightarrow> network_descriptor res" where
  "resolve_chain r chain = (case map_of (nr_by_chain r) chain of
     None \<Rightarrow> Inl (ValueError (''unknown chain_id='' @ int_str chain)) | Some n \<Rightarrow> Inr n)"

definition resolve_evm_chain :: "network_registry \<Rightarrow> int \<Rightarrow> string option \<Rightarrow> network_descriptor res" where
  "resolve_evm_chain r chain name = (if chain \<le> 0 then Inl (ValueError ''chain_id must be a positive integer'')
     else (case map_of (nr_by_chain r) chain of
         Some n \<Rightarrow> Inr n
       | None \<Rightarrow> Inr \<lparr> nt_name = (case name of Some (c # s) \<Rightarrow> c # s
             | _ \<Rightarrow> ''evm-'' @ int_str chain), nt_family = ''evm'', nt_chain_id = Some chain,
           nt_native_asset = None, nt_execution_supported = True, nt_aliases = [] \<rparr>))"

datatype adapter_family = EvmFamily | SolanaFamily

definition network_adapter :: "network_registry \<Rightarrow> string \<Rightarrow> adapter_family res" where
  "network_adapter r name = bindE (resolve_network r name) (\<lambda>n.
     let none = Inl (ValueError (''no execution adapter for '' @ nt_name n @ '' ('' @ nt_family n @ '')''))
     in if \<not> nt_execution_supported n then none
        else if nt_family n = ''evm'' then Inr EvmFamily
        else if nt_family n = ''solana'' then Inr SolanaFamily else none)"

definition evm_adapter_for :: "network_registry \<Rightarrow> int \<Rightarrow> adapter_family res" where
  "evm_adapter_for r chain = bindE (resolve_evm_chain r chain None) (\<lambda>n.
     if nt_family n \<noteq> ''evm'' then Inl (ValueError (''chain_id='' @ int_str chain @ '' is not EVM'')) else Inr EvmFamily)"

section \<open>Lookups\<close>

lemma dget_set_names:
  "dget (set_names d vs n) k = (if k \<in> norm_name ` set vs then Some n else dget d k)"
  by (induction vs arbitrary: d) auto

lemma resolve_registered:
  assumes "norm_name name \<in> norm_name ` set (nt_name n # nt_aliases n)"
  shows "resolve_network (register_network r n) name = Inr n"
  using assms by (auto simp: resolve_network_def register_network_def dget_set_names)

lemma network_adapter_family:
  "network_adapter r name = Inr f \<Longrightarrow> \<exists>n. resolve_network r name = Inr n \<and> nt_execution_supported n \<and>
     nt_family n = (case f of EvmFamily \<Rightarrow> ''evm'' | SolanaFamily \<Rightarrow> ''solana'')"
  by (auto simp: network_adapter_def bindE_Inr_iff Let_def split: if_splits)

end
