(* ===== verification/Gate.thy ===== *)
theory Gate
  imports Receipt Networks Storage_Audit
begin

text \<open>
  The execution boundary: \<open>enforcement/local.py\<close> (the one-time gate), \<open>tool.py\<close>, \<open>http.py\<close>, \<open>evm.py\<close>
  and \<open>solana.py\<close> (the adapters).  A side effect is a callback of the caller: a function from its
  argument to its result or exception.  The world is the database connection and the log of the calls
  of the callback, each with the authorization it was made for; the log is what the theorems are about.
\<close>

section \<open>The world\<close>

record world =
  wd_conn :: "db conn"
  wd_calls :: "(json \<times> json) list"

type_synonym 'a act = "(world, 'a) sm"

text \<open>The callback: what it answers, and nothing else is known of it.\<close>

type_synonym callback = "json \<Rightarrow> json res"

definition on_conn :: "'a st \<Rightarrow> 'a act" where
  "on_conn m = (\<lambda>w. case m (wd_conn w) of (c, r) \<Rightarrow> (w\<lparr>wd_conn := c\<rparr>, r))"

definition call :: "callback \<Rightarrow> json \<Rightarrow> json \<Rightarrow> json act" where
  "call f auth arg = (\<lambda>w. (w\<lparr>wd_calls := wd_calls w @ [(auth, arg)]\<rparr>, f arg))"

text \<open>The \<open>i\<close>-th reading of \<open>int(time.time())\<close> of an operation; an inner operation reads on from there.\<close>

type_synonym ticks = "nat \<Rightarrow> int"

definition later :: "nat \<Rightarrow> ticks \<Rightarrow> ticks" where
  "later n c = (\<lambda>i. c (n + i))"

section \<open>The local gate\<close>

text \<open>\<open>authorization["payload"]\<close> and \<open>authorization["payload"]["action"]\<close>\<close>

definition auth_payload :: "json \<Rightarrow> json" where
  "auth_payload auth = fld auth ''payload''"

definition auth_action :: "json \<Rightarrow> json" where
  "auth_action auth = fld (auth_payload auth) ''action''"

definition gate_guards :: "hash \<Rightarrow> crypto \<Rightarrow> string \<Rightarrow> ticks \<Rightarrow> json \<Rightarrow> guard list" where
  "gate_guards H E key c auth = [
     ask (verify_execution_authorization H E key (c 0) auth),
     reject (int_val (fld (auth_payload auth) ''issued_at'') > c 1) ''execution authorization is not active yet'']"

definition gate_validate :: "hash \<Rightarrow> crypto \<Rightarrow> string \<Rightarrow> ticks \<Rightarrow> json \<Rightarrow> verdict" where
  "gate_validate H E key c auth = open_verdict ''execution authorization validated'' (gate_guards H E key c auth)"

text \<open>The four fields are texts: the verifier has checked them.\<close>

definition consume_nonce_of :: "json \<Rightarrow> xnum \<Rightarrow> (bool \<times> string) st" where
  "consume_nonce_of payload t =
     bindS (consume_execution_nonce (str_val (fld payload ''nonce'')) (str_val (fld payload ''authorization_id''))
        (str_val (fld payload ''intent_id'')) (str_val (fld payload ''agent_id'')) t) (\<lambda>consumed.
     if \<not> consumed then returnS (False, ''execution authorization already consumed'')
     else returnS (True, ''execution authorization consumed''))"

text \<open>\<open>ok, reason = validate(); if not ok: return False, reason\<close>, then the nonce.\<close>

definition consume_with :: "verdict \<Rightarrow> json \<Rightarrow> xnum \<Rightarrow> (bool \<times> string) st" where
  "consume_with v auth t = bindS (liftS v) (\<lambda>(ok, reason).
     if \<not> ok then returnS (False, reason) else consume_nonce_of (auth_payload auth) t)"

definition gate_consume :: "hash \<Rightarrow> crypto \<Rightarrow> string \<Rightarrow> ticks \<Rightarrow> json \<Rightarrow> xnum \<Rightarrow> (bool \<times> string) st" where
  "gate_consume H E key c auth t = consume_with (gate_validate H E key c auth) auth t"

section \<open>Adapters\<close>

text \<open>
  What the router and the gate use of an adapter: its class, the scopes it claims, its own check, the
  argument it hands to the callback after consumption, and the argument when it runs bound to an external
  state (None for the stub of the protocol class, which does nothing).  Every adapter of the sources calls
  the callback once, as the last thing it does.
\<close>

record adapter =
  ad_module :: string
  ad_class :: string
  ad_scope :: string
  ad_state_scope :: "string option"
  ad_check :: "json \<Rightarrow> verdict"
  ad_argument :: "json \<Rightarrow> json res"
  ad_bound :: "(json \<Rightarrow> json \<Rightarrow> json res) option"

definition execute_after_consume :: "adapter \<Rightarrow> json \<Rightarrow> callback \<Rightarrow> json act" where
  "execute_after_consume a auth f = bindS (liftS (ad_argument a auth)) (\<lambda>arg. call f auth arg)"

definition execute_bound_after_consume :: "adapter \<Rightarrow> json \<Rightarrow> json \<Rightarrow> callback \<Rightarrow> json act" where
  "execute_bound_after_consume a auth state f = (case ad_bound a of
     None \<Rightarrow> returnS JNull
   | Some g \<Rightarrow> bindS (liftS (g auth state)) (\<lambda>arg. call f auth arg))"

definition adapter_validate :: "hash \<Rightarrow> crypto \<Rightarrow> string \<Rightarrow> ticks \<Rightarrow> adapter \<Rightarrow> json \<Rightarrow> verdict" where
  "adapter_validate H E key c a auth =
     bindE (ad_check a auth) (\<lambda>(ok, reason). if \<not> ok then Inr (False, reason) else gate_validate H E key c auth)"

text \<open>
  \<open>consume\<close> of an adapter validates, and consumes through the gate, which validates again; for a
  subclass of the gate the second validation is the subclass's own.
\<close>

definition adapter_consume :: "hash \<Rightarrow> crypto \<Rightarrow> string \<Rightarrow> ticks \<Rightarrow> bool \<Rightarrow> adapter \<Rightarrow> json \<Rightarrow> xnum \<Rightarrow>
    (bool \<times> string) st" where
  "adapter_consume H E key c subclass a auth t =
     bindS (liftS (adapter_validate H E key c a auth)) (\<lambda>(ok, reason).
     if \<not> ok then returnS (False, reason)
     else consume_with (if subclass then adapter_validate H E key (later 2 c) a auth
       else gate_validate H E key (later 2 c) auth) auth t)"

text \<open>\<open>ok, reason = consume(); if not ok: raise PermissionError(reason)\<close>, then the side effect.\<close>

definition after_consume :: "(bool \<times> string) st \<Rightarrow> json act \<Rightarrow> json act" where
  "after_consume consume effect = bindS (on_conn consume) (\<lambda>(ok, reason).
     if \<not> ok then raiseS (PermissionError reason) else effect)"

text \<open>A subclass of the gate runs its own \<open>consume\<close>; the chain adapters run the gate's.\<close>

definition adapter_execute :: "hash \<Rightarrow> crypto \<Rightarrow> string \<Rightarrow> ticks \<Rightarrow> bool \<Rightarrow> adapter \<Rightarrow> json \<Rightarrow> callback \<Rightarrow> xnum \<Rightarrow>
    json act" where
  "adapter_execute H E key c subclass a auth f t = after_consume
     (if subclass then adapter_consume H E key c True a auth t else gate_consume H E key c auth t)
     (execute_after_consume a auth f)"

definition adapter_execute_bound :: "hash \<Rightarrow> crypto \<Rightarrow> string \<Rightarrow> ticks \<Rightarrow> bool \<Rightarrow> adapter \<Rightarrow> json \<Rightarrow> json \<Rightarrow> callback \<Rightarrow>
    xnum \<Rightarrow> json act" where
  "adapter_execute_bound H E key c subclass a auth state f t = after_consume
     (if subclass then adapter_consume H E key c True a auth t else gate_consume H E key c auth t)
     (execute_bound_after_consume a auth state f)"

subsection \<open>The gate itself\<close>

text \<open>\<open>authorization["payload"]["action"]\<close>, with the exceptions of the subscripts.\<close>

definition subscript :: "json \<Rightarrow> string \<Rightarrow> json res" where
  "subscript v k = (case v of JObj d \<Rightarrow> jindex d k | _ \<Rightarrow> Inl (TypeError k))"

definition action_argument :: "json \<Rightarrow> json res" where
  "action_argument auth = bindE (subscript auth ''payload'') (\<lambda>p. subscript p ''action'')"

definition gate_adapter :: adapter where
  "gate_adapter = \<lparr> ad_module = ''enforcement.local'', ad_class = ''ExecutionGate'', ad_scope = ''direct'',
     ad_state_scope = None, ad_check = (\<lambda>auth. Inr (True, [])), ad_argument = action_argument,
     ad_bound = Some (\<lambda>auth state. action_argument auth) \<rparr>"

definition gate_execute :: "hash \<Rightarrow> crypto \<Rightarrow> string \<Rightarrow> ticks \<Rightarrow> json \<Rightarrow> callback \<Rightarrow> xnum \<Rightarrow> json act" where
  "gate_execute H E key c auth f t = after_consume (gate_consume H E key c auth t)
     (execute_after_consume gate_adapter auth f)"

definition gate_execute_bound :: "hash \<Rightarrow> crypto \<Rightarrow> string \<Rightarrow> ticks \<Rightarrow> json \<Rightarrow> json \<Rightarrow> callback \<Rightarrow> xnum \<Rightarrow> json act" where
  "gate_execute_bound H E key c auth state f t = after_consume (gate_consume H E key c auth t)
     (execute_bound_after_consume gate_adapter auth state f)"

text \<open>\<open>except (KeyError, TypeError, ValueError) as exc: return False, str(exc)\<close>\<close>

definition refused :: "exn \<Rightarrow> bool" where
  "refused e = (case e of KeyError _ \<Rightarrow> True | TypeError _ \<Rightarrow> True | ValueError _ \<Rightarrow> True | _ \<Rightarrow> False)"

definition check_of :: "'a res \<Rightarrow> verdict" where
  "check_of r = (case r of Inr _ \<Rightarrow> Inr (True, [])
     | Inl e \<Rightarrow> if refused e then Inr (False, exn_text e) else Inl e)"


subsection \<open>Tools\<close>

text \<open>\<open>v.get(k)\<close>\<close>

definition get_of :: "json \<Rightarrow> string \<Rightarrow> json res" where
  "get_of v k = (case v of JObj d \<Rightarrow> Inr (jget d k) | _ \<Rightarrow> Inl (AttributeError ''get''))"

definition tool_name :: "json \<Rightarrow> string res" where
  "tool_name auth = bindE (action_argument auth) (\<lambda>action. bindE (get_of action ''action_type'') (\<lambda>ty.
     if ty \<noteq> JStr ''mcp.tool.call'' then Inl (ValueError ''tool adapter requires action_type=mcp.tool.call'')
     else bindE (get_of action ''target'') (\<lambda>target.
       if \<not> is_str target \<or> str_val target = [] then Inl (ValueError ''tool action has no target'')
       else Inr (str_val target))))"

text \<open>A registered handler: the fingerprint of its code, and what it does.\<close>

type_synonym handlers = "(string \<times> callback) dict"

definition tool_guards :: "handlers \<Rightarrow> json \<Rightarrow> string \<Rightarrow> guard list" where
  "tool_guards hs auth tool =
     (let graph = fld (fld (auth_action auth) ''metadata'') ''execution_graph'';
          declared = fld graph ''handler_sha256'' in [
      reject (dget hs tool = None) (''tool is not registered: '' @ tool),
      block (truthy declared) [reject
        (case dget hs tool of None \<Rightarrow> False | Some (fp, f) \<Rightarrow> declared \<noteq> JStr fp) ''execution handler drift'']])"

definition tool_check :: "handlers \<Rightarrow> json \<Rightarrow> verdict" where
  "tool_check hs auth = bindE (check_of (tool_name auth)) (\<lambda>(ok, reason).
     if \<not> ok then Inr (False, reason)
     else bindE (tool_name auth) (\<lambda>tool. open_verdict [] (tool_guards hs auth tool)))"

definition tool_adapter :: "handlers \<Rightarrow> adapter" where
  "tool_adapter hs = gate_adapter\<lparr>ad_module := ''enforcement.tool'', ad_class := ''ToolExecutionAdapter'',
     ad_check := tool_check hs\<rparr>"

definition execute_registered :: "hash \<Rightarrow> crypto \<Rightarrow> string \<Rightarrow> ticks \<Rightarrow> handlers \<Rightarrow> json \<Rightarrow> xnum \<Rightarrow> json act" where
  "execute_registered H E key c hs auth t = bindS (liftS (tool_name auth)) (\<lambda>tool.
     case dget hs tool of
       None \<Rightarrow> raiseS (PermissionError (''tool is not registered: '' @ tool))
     | Some (fp, f) \<Rightarrow> adapter_execute H E key c True (tool_adapter hs) auth f t)"

subsection \<open>HTTP\<close>

definition opt_header :: "json \<Rightarrow> json" where
  "opt_header m = (case m of JObj d \<Rightarrow> jget_or d ''headers'' (JObj []) | _ \<Rightarrow> JNull)"

definition http_request :: "json \<Rightarrow> jdict res" where
  "http_request auth = bindE (action_argument auth) (\<lambda>action. bindE (get_of action ''action_type'') (\<lambda>ty.
     if ty \<noteq> JStr ''api.request'' then Inl (ValueError ''HTTP adapter requires action_type=api.request'')
     else (let m = fld action ''metadata''; method = fld m ''method''; url = fld m ''url'' in
       if \<not> is_obj m then Inl (ValueError ''HTTP action metadata must be an object'')
       else if blank method then Inl (ValueError ''HTTP action has no method'')
       else if blank url then Inl (ValueError ''HTTP action has no URL'')
       else if differs (fld action ''target'') url
         then Inl (ValueError ''HTTP action target does not match signed URL'')
       else if \<not> is_obj (opt_header m) then Inl (ValueError ''HTTP action headers must be an object'')
       else Inr [(''method'', JStr (str_upper (str_val method))), (''url'', url),
         (''headers'', opt_header m), (''body'', fld m ''body'')])))"

definition http_adapter :: adapter where
  "http_adapter = gate_adapter\<lparr>ad_module := ''enforcement.http'', ad_class := ''HTTPExecutionAdapter'',
     ad_check := (\<lambda>auth. check_of (http_request auth))\<rparr>"

definition execute_request :: "hash \<Rightarrow> crypto \<Rightarrow> string \<Rightarrow> ticks \<Rightarrow> json \<Rightarrow> callback \<Rightarrow> xnum \<Rightarrow> json act" where
  "execute_request H E key c auth transport t = bindS (liftS (http_request auth)) (\<lambda>request.
     after_consume (adapter_consume H E key c True http_adapter auth t) (call transport auth (JObj request)))"

subsection \<open>EVM\<close>

text \<open>\<open>isinstance(v, int)\<close> holds for booleans too.\<close>

fun int_like :: "json \<Rightarrow> int option" where
  "int_like (JInt i) = Some i"
| "int_like (JBool b) = Some (if b then 1 else 0)"
| "int_like _ = None"

definition starts_0x :: "json \<Rightarrow> bool" where
  "starts_0x v \<longleftrightarrow> is_str v \<and> take 2 (str_val v) = ''0x''"

definition raw_ok :: "json \<Rightarrow> bool" where
  "raw_ok v \<longleftrightarrow> starts_0x v \<and> length (str_val v) > 2 \<and> even (length (drop 2 (str_val v))) \<and>
     list_all is_hex_digit (drop 2 (str_val v))"

definition evm_transaction :: "json \<Rightarrow> jdict res" where
  "evm_transaction action = bindE (get_of action ''metadata'') (\<lambda>m.
     if \<not> is_obj m then Inl (ValueError ''authorized action is missing metadata'')
     else (case fld m ''evm_transaction'' of
       JObj tx \<Rightarrow>
         (let chain = jget tx ''chain_id''; dest = jget tx ''to''; value = jget_or tx ''value_wei'' (JInt 0);
              data = jget_or tx ''data'' (JStr ''0x''); raw = jget tx ''signed_raw_transaction'' in
          if (case int_like chain of None \<Rightarrow> True | Some i \<Rightarrow> i \<le> 0) then Inl (ValueError ''invalid EVM chain_id'')
          else if \<not> is_str dest \<or> str_val dest = [] then Inl (ValueError ''invalid EVM to address'')
          else if (case int_like value of None \<Rightarrow> True | Some i \<Rightarrow> i < 0)
            then Inl (ValueError ''invalid EVM value_wei'')
          else if \<not> starts_0x data then Inl (ValueError ''invalid EVM calldata'')
          else if raw \<noteq> JNull \<and> \<not> raw_ok raw
            then Inl (ValueError ''invalid signed EVM transaction encoding'')
          else Inr ([(''chain_id'', chain), (''to'', dest), (''value_wei'', value), (''data'', data)] @
            (if raw \<noteq> JNull then [(''signed_raw_transaction'', raw)] else [])))
     | _ \<Rightarrow> Inl (ValueError ''authorized action is missing evm_transaction'')))"

definition evm_argument :: "json \<Rightarrow> json res" where
  "evm_argument auth = bindE (action_argument auth) (\<lambda>action.
     bindE (evm_transaction action) (\<lambda>tx. Inr (JObj tx)))"

definition word_ref :: "json \<Rightarrow> bool" where
  "word_ref v \<longleftrightarrow> starts_0x v \<and> length (str_val v) = 66"

definition atomic_guard_binding :: "hash \<Rightarrow> json \<Rightarrow> json \<Rightarrow> jdict res" where
  "atomic_guard_binding H auth state = bindE (get_of state ''atomic_guard'') (\<lambda>b. case b of
     JObj binding \<Rightarrow>
       (let guard = jget binding ''address''; sha = jget binding ''data_sha256'' in
        if \<not> list_all (\<lambda>k. is_str (jget binding k) \<and> str_val (jget binding k) \<noteq> [])
            [''address'', ''oracle'', ''reference'', ''expected'', ''data_sha256'']
          then Inl (ValueError ''invalid atomic_guard commitment'')
        else if \<not> word_ref (jget binding ''reference'') then Inl (ValueError ''invalid atomic_guard reference'')
        else if \<not> word_ref (jget binding ''expected'') then Inl (ValueError ''invalid atomic_guard expected value'')
        else if length (str_val sha) \<noteq> 64 \<or> \<not> list_all is_hex_digit (str_val sha)
          then Inl (ValueError ''invalid atomic_guard calldata digest'')
        else bindE (action_argument auth) (\<lambda>action. bindE (evm_transaction action) (\<lambda>tx.
          if str_lower (str_val (jget tx ''to'')) \<noteq> str_lower (str_val guard)
            then Inl (ValueError ''EVM transaction does not target the committed atomic guard'')
          else if H (str_val (jget tx ''data'')) \<noteq> str_lower (str_val sha)
            then Inl (ValueError ''EVM transaction calldata does not match atomic guard commitment'')
          else Inr binding)))
   | _ \<Rightarrow> Inl (ValueError ''EVM state binding is missing atomic_guard commitment''))"

definition evm_bound :: "hash \<Rightarrow> json \<Rightarrow> json \<Rightarrow> json res" where
  "evm_bound H auth state = bindE (get_of state ''kind'') (\<lambda>kind.
     if kind \<noteq> JStr ''evm.state'' then Inl (ValueError ''atomic EVM enforcement requires evm.state'')
     else bindE (atomic_guard_binding H auth state) (\<lambda>_. evm_argument auth))"

text \<open>The subscripts of \<open>validate\<close> stand outside its \<open>try\<close>.\<close>

definition evm_adapter :: "hash \<Rightarrow> adapter" where
  "evm_adapter H = \<lparr> ad_module = ''enforcement.evm'', ad_class = ''EVMExecutionAdapter'', ad_scope = ''direct'',
     ad_state_scope = Some ''atomic'',
     ad_check = (\<lambda>auth. bindE (action_argument auth) (\<lambda>action. check_of (evm_transaction action))),
     ad_argument = evm_argument, ad_bound = Some (evm_bound H) \<rparr>"

subsection \<open>Solana\<close>

definition solana_transaction :: "json \<Rightarrow> jdict res" where
  "solana_transaction action = bindE (get_of action ''metadata'') (\<lambda>m.
     if \<not> is_obj m then Inl (ValueError ''authorized action is missing metadata'')
     else (let raw = fld m ''solana_transaction'' in
       if \<not> is_str raw \<or> str_val raw = []
         then Inl (ValueError ''authorized action is missing solana_transaction'')
       else if b64decode (str_val raw) = None then Inl (ValueError ''invalid Solana transaction encoding'')
       else Inr [(''encoding'', JStr ''base64''), (''serialized_transaction'', raw)]))"

definition solana_argument :: "json \<Rightarrow> json res" where
  "solana_argument auth = bindE (action_argument auth) (\<lambda>action.
     bindE (solana_transaction action) (\<lambda>tx. Inr (JObj tx)))"

definition solana_adapter :: adapter where
  "solana_adapter = \<lparr> ad_module = ''enforcement.solana'', ad_class = ''SolanaExecutionAdapter'',
     ad_scope = ''direct'', ad_state_scope = None, ad_check = (\<lambda>auth. check_of (solana_argument auth)),
     ad_argument = solana_argument, ad_bound = None \<rparr>"

end
