(* ===== verification/One_Time.thy ===== *)
theory One_Time
  imports Storage_Audit
begin

text \<open>
  The contract of a store of one-time keys, what its clients may rely on, and the proof that the nonce
  table of \<open>core/storage.py\<close> provides it.
\<close>

locale one_time_store =
  fixes used :: "'s \<Rightarrow> 'k set"
    and sound :: "'s \<Rightarrow> bool"
    and consume :: "'k \<Rightarrow> 's \<Rightarrow> 's \<times> bool res"
  assumes consume_total: "sound s \<Longrightarrow> \<exists>b. snd (consume k s) = Inr b"
    and consume_fresh: "sound s \<Longrightarrow> consume k s = (s', Inr True) \<Longrightarrow> k \<notin> used s \<and> k \<in> used s'"
    and consume_known: "sound s \<Longrightarrow> k \<in> used s \<Longrightarrow> snd (consume k s) = Inr False"
    and consume_keeps: "sound s \<Longrightarrow> sound (fst (consume k s)) \<and> used s \<subseteq> used (fst (consume k s))"
begin

text \<open>The keys a client has acted upon, in order: never one twice, and all of them used.\<close>

definition spent :: "'k list \<Rightarrow> 's \<Rightarrow> bool" where
  "spent ks s \<longleftrightarrow> sound s \<and> distinct ks \<and> set ks \<subseteq> used s"

lemma spent_forward: "spent ks s \<Longrightarrow> sound s' \<Longrightarrow> used s \<subseteq> used s' \<Longrightarrow> spent ks s'"
  by (auto simp: spent_def)

lemma spent_consume:
  assumes "spent ks s" and "consume k s = (s', r)"
  shows "spent ks s'" and "r = Inr True \<Longrightarrow> spent (ks @ [k]) s'"
  using assms consume_keeps [of s k] consume_fresh [of s k s'] by (auto simp: spent_def)

text \<open>Once a key was granted, no later attempt is, whatever happens in between.\<close>

lemma granted_once:
  assumes "sound s" and "consume k s = (s', Inr True)" and "sound s''" and "used s' \<subseteq> used s''"
  shows "snd (consume k s'') = Inr False"
  using assms consume_fresh [of s k s'] consume_known [of s'' k] by blast

end

definition used_nonces :: "db conn \<Rightarrow> string set" where
  "used_nonces c = en_nonce ` set (t_nonces (disk c))"

lemma used_nonces_mono: "db_le (disk c) (disk c') \<Longrightarrow> used_nonces c \<subseteq> used_nonces c'"
  by (auto simp: used_nonces_def db_le_def only_grows_iff)

text \<open>The effect of \<open>consume_execution_nonce\<close>: the row is committed, or everything pending is undone.\<close>

lemma consume_execution_nonce_spec:
  "consume_execution_nonce n a i g t c =
    (let row = \<lparr> en_nonce = n, en_authorization_id = a, en_intent_id = i, en_agent_id = g, en_consumed_at = t \<rparr>
     in if n \<in> en_nonce ` set (t_nonces (cur c)) then (c\<lparr>work := None\<rparr>, Inr False)
        else (c\<lparr>disk := (cur c)\<lparr>t_nonces := t_nonces (cur c) @ [row]\<rparr>, work := None\<rparr>, Inr True))"
  by (auto simp: consume_execution_nonce_def on_integrity_def catchS_def bindS_apply insert_nonce_def
      dml_ins_Inr nonce_clash_def list_ex_iff Let_def)

interpretation nonce_store: one_time_store used_nonces dbo.conn_ok
  "\<lambda>n. consume_execution_nonce n a i g t" for a i g t
proof
  fix s k
  assume ok: "dbo.conn_ok s"
  show "\<exists>b. snd (consume_execution_nonce k a i g t s) = Inr b"
    by (auto simp: consume_execution_nonce_spec Let_def)
  show "snd (consume_execution_nonce k a i g t s) = Inr False" if "k \<in> used_nonces s"
    using ok that by (auto simp: consume_execution_nonce_spec used_nonces_def dbo.conn_ok_def db_le_def only_grows_iff)
  show "k \<notin> used_nonces s \<and> k \<in> used_nonces s'" if "consume_execution_nonce k a i g t s = (s', Inr True)" for s'
    using ok that by (auto simp: consume_execution_nonce_spec used_nonces_def dbo.conn_ok_def db_le_def
        only_grows_iff Let_def split: if_splits)
  have "dbo.advances (consume_execution_nonce k a i g t)" by (intro keeps_intros)
  then show "dbo.conn_ok (fst (consume_execution_nonce k a i g t s)) \<and>
      used_nonces s \<subseteq> used_nonces (fst (consume_execution_nonce k a i g t s))"
    using ok used_nonces_mono by (auto simp: dbo.advances_def)
qed

end
