(* ===== verification/Boundary.thy ===== *)
theory Boundary
  imports Gate One_Time
begin

text \<open>
  What the boundary of \<open>Gate\<close> guarantees in any interleaving of its operations: the side effects that
  happened have different nonces, all of them consumed.
\<close>

section \<open>The invariant\<close>

definition call_nonce :: "json \<Rightarrow> string" where
  "call_nonce auth = str_val (fld (auth_payload auth) ''nonce'')"

definition called_nonces :: "world \<Rightarrow> string list" where
  "called_nonces w = map (\<lambda>c. call_nonce (fst c)) (wd_calls w)"

definition boundary_ok :: "world \<Rightarrow> bool" where
  "boundary_ok w \<longleftrightarrow> nonce_store.spent (called_nonces w) (wd_conn w)"

lemma boundary_okD: "boundary_ok w \<Longrightarrow> distinct (called_nonces w)"
  by (simp add: boundary_ok_def nonce_store.spent_def)

lemma keeps_on_conn [keeps_intros]:
  assumes "dbo.advances m"
  shows "keeps boundary_ok (on_conn m)"
  unfolding keeps_def
proof (intro allI impI)
  fix w assume ok: "boundary_ok w"
  obtain c r where m: "m (wd_conn w) = (c, r)" by fastforce
  with ok assms have "dbo.conn_ok c" "db_le (disk (wd_conn w)) (disk c)"
    by (auto simp: boundary_ok_def nonce_store.spent_def dest!: dbo.advancesD)
  with ok m show "boundary_ok (fst (on_conn m w))"
    by (auto simp: boundary_ok_def on_conn_def called_nonces_def dest!: used_nonces_mono
        intro: nonce_store.spent_forward)
qed

lemma consume_with_advances [keeps_intros]: "dbo.advances (consume_with v auth t)"
  unfolding consume_with_def consume_nonce_of_def by (intro keeps_intros)

lemma gate_consume_advances [keeps_intros]: "dbo.advances (gate_consume H E key c auth t)"
  unfolding gate_consume_def by (intro keeps_intros)

lemma adapter_consume_advances [keeps_intros]: "dbo.advances (adapter_consume H E key c b a auth t)"
  unfolding adapter_consume_def by (intro keeps_intros)

text \<open>A consumption grants the nonce of its authorization, and nothing else can.\<close>

definition grants :: "json \<Rightarrow> (bool \<times> string) st \<Rightarrow> bool" where
  "grants auth m \<longleftrightarrow> (\<forall>s s' r ks. nonce_store.spent ks s \<longrightarrow> m s = (s', Inr (True, r)) \<longrightarrow>
     nonce_store.spent (ks @ [call_nonce auth]) s')"

lemma consume_nonce_grants: "grants auth (consume_nonce_of (auth_payload auth) t)"
  unfolding grants_def
proof (intro allI impI)
  fix s s' r ks
  assume ok: "nonce_store.spent ks s" and m: "consume_nonce_of (auth_payload auth) t s = (s', Inr (True, r))"
  then have "consume_execution_nonce (call_nonce auth) (str_val (fld (auth_payload auth) ''authorization_id''))
      (str_val (fld (auth_payload auth) ''intent_id'')) (str_val (fld (auth_payload auth) ''agent_id'')) t s =
      (s', Inr True)"
    by (auto simp: consume_nonce_of_def bindS_Inr_iff call_nonce_def split: if_splits)
  with ok show "nonce_store.spent (ks @ [call_nonce auth]) s'" by (rule nonce_store.spent_consume(2)) simp
qed

lemma grants_with: "grants auth (consume_with v auth t)"
  using consume_nonce_grants [of auth t]
  by (cases v) (auto simp: consume_with_def grants_def split: if_splits)

lemma grants_gate: "grants auth (gate_consume H E key c auth t)"
  by (simp add: gate_consume_def grants_with)

lemma grants_adapter: "grants auth (adapter_consume H E key c b a auth t)"
  using grants_with [of auth]
  by (cases "adapter_validate H E key c a auth") (auto simp: adapter_consume_def grants_def split: if_splits)

text \<open>An effect that makes at most one call, for its authorization.\<close>

definition one_call :: "json \<Rightarrow> json act \<Rightarrow> bool" where
  "one_call auth e \<longleftrightarrow> (\<forall>w. wd_conn (fst (e w)) = wd_conn w \<and>
     (wd_calls (fst (e w)) = wd_calls w \<or> (\<exists>arg. wd_calls (fst (e w)) = wd_calls w @ [(auth, arg)])))"

lemma one_call_call: "one_call auth (call f auth arg)"
  by (simp add: one_call_def call_def)

lemma one_call_lift: "(\<And>x. one_call auth (k x)) \<Longrightarrow> one_call auth (bindS (liftS r) k)"
  by (cases r) (auto simp: one_call_def)

lemma one_call_after: "one_call auth (execute_after_consume a auth f)"
  unfolding execute_after_consume_def by (intro one_call_lift one_call_call)

lemma one_call_bound: "one_call auth (execute_bound_after_consume a auth state f)"
proof (cases "ad_bound a")
  case None
  then show ?thesis by (simp add: execute_bound_after_consume_def one_call_def)
next
  case (Some g)
  then show ?thesis
    unfolding execute_bound_after_consume_def by (auto intro!: one_call_lift one_call_call)
qed

lemma keeps_after_consume:
  assumes adv: "dbo.advances m" and gr: "grants auth m" and one: "one_call auth e"
  shows "keeps boundary_ok (after_consume m e)"
  unfolding keeps_def
proof (intro allI impI)
  fix w assume ok: "boundary_ok w"
  obtain c r where m: "m (wd_conn w) = (c, r)" by fastforce
  have ok': "boundary_ok (w\<lparr>wd_conn := c\<rparr>)"
    using keepsD [OF keeps_on_conn [OF adv] ok] m by (simp add: on_conn_def)
  show "boundary_ok (fst (after_consume m e w))"
  proof (cases "\<exists>reason. r = Inr (True, reason)")
    case True
    then obtain reason where r: "r = Inr (True, reason)" by blast
    let ?w = "w\<lparr>wd_conn := c\<rparr>"
    have "nonce_store.spent (called_nonces w @ [call_nonce auth]) c"
      using gr ok m r by (auto simp: grants_def boundary_ok_def)
    moreover have "after_consume m e w = e ?w"
      by (simp add: after_consume_def bindS_apply on_conn_def m r)
    moreover have "wd_conn (fst (e ?w)) = c" using one by (simp add: one_call_def)
    moreover have "called_nonces (fst (e ?w)) \<in> {called_nonces w, called_nonces w @ [call_nonce auth]}"
      using one [unfolded one_call_def, rule_format, of ?w] by (auto simp: called_nonces_def)
    ultimately show ?thesis using ok' by (auto simp: boundary_ok_def nonce_store.spent_def)
  next
    case False
    then show ?thesis using ok' m by (auto simp: after_consume_def bindS_apply on_conn_def split: sum.splits)
  qed
qed

lemma keeps_gate [keeps_intros]:
  "keeps boundary_ok (gate_execute H E key c auth f t)"
  "keeps boundary_ok (gate_execute_bound H E key c auth state f t)"
  "keeps boundary_ok (adapter_execute H E key c b a auth f t)"
  "keeps boundary_ok (adapter_execute_bound H E key c b a auth state f t)"
  "keeps boundary_ok (execute_registered H E key c hs auth t)"
  "keeps boundary_ok (execute_request H E key c auth f t)"
  unfolding gate_execute_def gate_execute_bound_def adapter_execute_def adapter_execute_bound_def
    execute_registered_def execute_request_def
  by (auto intro!: keeps_intros keeps_after_consume grants_gate grants_adapter one_call_after one_call_bound
      one_call_call split: option.splits prod.splits)

end
