(* ===== verification/Router.thy ===== *)
theory Router
  imports Boundary
begin

text \<open>
  \<open>enforcement/router.py\<close>: the router resolves the adapter of an authorized action, runs every check
  before the one-time consumption, and leaves a signed receipt whatever happens.
\<close>

record router =
  rt_networks :: network_registry
  rt_generic :: "adapter dict"
  rt_state_registry :: "verifier dict option"
  rt_state_verifier :: "(json \<Rightarrow> json \<Rightarrow> verdict) option"
  rt_private_key :: "string option"

section \<open>Resolving the adapter\<close>

definition router_action :: "json \<Rightarrow> jdict res" where
  "router_action auth = (case action_argument auth of
     Inl _ \<Rightarrow> Inl (ValueError ''authorization is missing payload.action'')
   | Inr (JObj a) \<Rightarrow> Inr a
   | Inr _ \<Rightarrow> Inl (ValueError ''authorization action must be an object''))"

text \<open>The family of the wire artifact, and the artifact.\<close>

definition wire_artifact :: "jdict \<Rightarrow> (string \<times> jdict) option" where
  "wire_artifact action = (let m = jget action ''metadata'' in
     case fld m ''evm_transaction'' of
       JObj tx \<Rightarrow> Some (''evm'', tx)
     | _ \<Rightarrow> (case fld m ''solana_transaction'' of
         JStr raw \<Rightarrow> Some (''solana'', [(''serialized_transaction'', JStr raw)])
       | _ \<Rightarrow> None))"

definition validate_network_binding :: "jdict \<Rightarrow> int option \<Rightarrow> unit res" where
  "validate_network_binding action expected = (case expected of
     None \<Rightarrow> Inr ()
   | Some chain \<Rightarrow> (case wire_artifact action of
       None \<Rightarrow> Inr ()
     | Some (f, tx) \<Rightarrow> if dget tx ''chain_id'' = None then Inr ()
         else if differs (jget tx ''chain_id'') (JInt chain)
         then Inl (ValueError (''EVM chain_id mismatch: network='' @ json_text (jget action ''network'') @
           '' expected='' @ int_str chain @ '' actual='' @ json_text (jget tx ''chain_id'')))
         else Inr ()))"

definition family_adapter :: "hash \<Rightarrow> adapter_family \<Rightarrow> adapter" where
  "family_adapter H f = (case f of EvmFamily \<Rightarrow> evm_adapter H | SolanaFamily \<Rightarrow> solana_adapter)"

definition unsupported :: "string \<Rightarrow> adapter res" where
  "unsupported network = Inl (ValueError (''unsupported execution network: '' @ network))"

text \<open>An action on a network the registry does not know.\<close>

definition unknown_adapter :: "hash \<Rightarrow> network_registry \<Rightarrow> jdict \<Rightarrow> string \<Rightarrow> adapter res" where
  "unknown_adapter H reg action network =
     (let m = jget action ''metadata''; chain = fld (fld m ''evm_transaction'') ''chain_id'' in
      if fld m ''network_family'' = JStr ''evm'' \<and> map_option fst (wire_artifact action) = Some ''evm''
      then (case int_like chain of
          Some i \<Rightarrow> if 0 < i then bindE (resolve_evm_chain reg i (Some network)) (\<lambda>d.
              bindE (validate_network_binding action (nt_chain_id d)) (\<lambda>_. Inr (evm_adapter H)))
            else unsupported network
        | None \<Rightarrow> unsupported network)
      else unsupported network)"

definition known_adapter :: "hash \<Rightarrow> network_registry \<Rightarrow> jdict \<Rightarrow> string \<Rightarrow> network_descriptor \<Rightarrow> adapter res" where
  "known_adapter H reg action network d = (case wire_artifact action of
     None \<Rightarrow> Inr gate_adapter
   | Some (family, tx) \<Rightarrow> if nt_family d \<noteq> family
       then Inl (ValueError (''execution family mismatch: network='' @ nt_family d @ '' artifact='' @ family))
       else bindE (network_adapter reg network) (\<lambda>f.
         bindE (validate_network_binding action (nt_chain_id d)) (\<lambda>_. Inr (family_adapter H f))))"

definition network_route :: "hash \<Rightarrow> network_registry \<Rightarrow> jdict \<Rightarrow> adapter res" where
  "network_route H reg action = (let network = jget action ''network'' in
     if blank network then Inl (ValueError ''authorized action has no network'')
     else (case resolve_network reg (str_val network) of
       Inr d \<Rightarrow> known_adapter H reg action (str_val network) d
     | Inl _ \<Rightarrow> unknown_adapter H reg action (str_val network)))"

definition router_adapter :: "hash \<Rightarrow> router \<Rightarrow> json \<Rightarrow> adapter res" where
  "router_adapter H r auth = bindE (router_action auth) (\<lambda>action.
     let ty = jget action ''action_type'' in
     if \<not> hashable ty then Inl (TypeError ''unhashable type'')
     else (case (if is_str ty then dget (rt_generic r) (str_val ty) else None) of
         Some a \<Rightarrow> Inr a
       | None \<Rightarrow> network_route H (rt_networks r) action))"

section \<open>The checks\<close>

definition verify_authorization :: "hash \<Rightarrow> crypto \<Rightarrow> string \<Rightarrow> int \<Rightarrow> json \<Rightarrow> unit res" where
  "verify_authorization H E key now auth = bindE (verify_execution_authorization H E key now auth) (\<lambda>(valid, reason).
     if valid then Inr () else Inl (ValueError (''execution authorization rejected: '' @ reason)))"

text \<open>\<open>if not ok: raise ValueError(reason)\<close>\<close>

definition demand :: "bool \<times> string \<Rightarrow> unit res" where
  "demand v = (if fst v then Inr () else Inl (ValueError (snd v)))"

definition live_verdict :: "router \<Rightarrow> json \<Rightarrow> json \<Rightarrow> verdict" where
  "live_verdict r binding action = (case rt_state_registry r of
     Some reg \<Rightarrow> Inr (verify_live reg binding action)
   | None \<Rightarrow> (case rt_state_verifier r of
       Some v \<Rightarrow> v binding action
     | None \<Rightarrow> Inl (ValueError ''live external state verifier is required before execution'')))"

definition requirement_check :: "json \<Rightarrow> json \<Rightarrow> unit res" where
  "requirement_check requirement expected = (if requirement = JNull then Inr ()
     else bindE (demand (validate_external_state_requirement requirement)) (\<lambda>_.
       if differs (fld expected ''kind'') (fld requirement ''kind'')
       then Inl (ValueError ''external state kind does not satisfy policy requirement'') else Inr ()))"

text \<open>The verified binding, or None when the action has none and needs none.\<close>

definition router_external_state :: "router \<Rightarrow> json \<Rightarrow> json option res" where
  "router_external_state r auth =
     (let payload = auth_payload auth; expected = fld payload ''external_state'' in
      bindE (router_action auth) (\<lambda>action.
      if \<not> is_obj expected then Inl (ValueError ''execution authorization is missing external state binding'')
      else bindE (demand (verify_external_state_binding expected (JObj action))) (\<lambda>_.
      if \<not> truthy expected then
        (if truthy (fld payload ''external_state_required'')
         then Inl (ValueError ''external state binding required before execution'') else Inr None)
      else bindE (requirement_check (fld payload ''external_state_requirement'') expected) (\<lambda>_.
        bindE (live_verdict r expected (JObj action)) (\<lambda>(ok, reason).
        if \<not> ok then Inl (ValueError (''external state drift: '' @ reason)) else Inr (Some expected))))))"

definition actual_graph :: "adapter \<Rightarrow> jdict \<Rightarrow> json" where
  "actual_graph a action = JObj [(''module'', JStr (ad_module a)), (''hook'', JStr (ad_class a)),
     (''router'', JStr ''ExecutionRouter''), (''target'', jget action ''target''),
     (''enforcement_scope'', JStr (ad_scope a))]"

definition router_execution_path :: "json \<Rightarrow> adapter \<Rightarrow> unit res" where
  "router_execution_path auth a = bindE (router_action auth) (\<lambda>action.
     let expected = fld (auth_payload auth) ''execution_graph''; ea = fld (auth_payload auth) ''execution_artifact'' in
     if \<not> is_obj expected then Inl (ValueError ''execution authorization is missing execution graph binding'')
     else if \<not> truthy expected then Inr ()
     else bindE (verify_execution_graph expected (actual_graph a action)) (\<lambda>v.
       bindE (demand v) (\<lambda>_.
       if \<not> is_obj ea then Inl (ValueError ''execution authorization is missing execution artifact binding'')
       else demand (verify_execution_artifact ea (JObj action)))))"

definition validate_adapter :: "hash \<Rightarrow> crypto \<Rightarrow> string \<Rightarrow> ticks \<Rightarrow> adapter \<Rightarrow> json \<Rightarrow> unit res" where
  "validate_adapter H E key c a auth = bindE (adapter_validate H E key c a auth) demand"

text \<open>Everything before the consumption: the adapter and the verified binding.\<close>

definition preflight :: "hash \<Rightarrow> crypto \<Rightarrow> string \<Rightarrow> ticks \<Rightarrow> router \<Rightarrow> json \<Rightarrow> (adapter \<times> json option) res" where
  "preflight H E key c r auth =
     bindE (verify_authorization H E key (c 0) auth) (\<lambda>_.
     bindE (router_adapter H r auth) (\<lambda>a.
     bindE (validate_adapter H E key (later 1 c) a auth) (\<lambda>_.
     bindE (router_execution_path auth a) (\<lambda>_.
     bindE (router_external_state r auth) (\<lambda>state. Inr (a, state))))))"

section \<open>Consuming and executing\<close>

definition router_consume :: "hash \<Rightarrow> crypto \<Rightarrow> string \<Rightarrow> ticks \<Rightarrow> router \<Rightarrow> json \<Rightarrow> xnum \<Rightarrow> (bool \<times> string) st" where
  "router_consume H E key c r auth t = catchS
     (bindS (liftS (preflight H E key c r auth)) (\<lambda>_. consume_nonce_of (auth_payload auth) t))
     (\<lambda>e. if refused e then Some (returnS (False, exn_text e)) else None)"

text \<open>A required and present state needs an adapter that enforces it atomically.\<close>

definition atomic_needed :: "json \<Rightarrow> json option \<Rightarrow> bool" where
  "atomic_needed auth state \<longleftrightarrow> truthy (fld (auth_payload auth) ''external_state_required'') \<and>
     (case state of None \<Rightarrow> False | Some v \<Rightarrow> truthy v)"

definition router_effect :: "adapter \<Rightarrow> json \<Rightarrow> json option \<Rightarrow> callback \<Rightarrow> json act" where
  "router_effect a auth state f = (if atomic_needed auth state
     then execute_bound_after_consume a auth (the state) f
     else execute_after_consume a auth f)"

definition router_execute :: "hash \<Rightarrow> crypto \<Rightarrow> string \<Rightarrow> ticks \<Rightarrow> router \<Rightarrow> json \<Rightarrow> callback \<Rightarrow> xnum \<Rightarrow> json act" where
  "router_execute H E key c r auth f t = bindS (liftS (preflight H E key c r auth)) (\<lambda>(a, state).
     if atomic_needed auth state \<and> ad_state_scope a \<noteq> Some ''atomic''
     then raiseS (ValueError ''atomic external state enforcement is required: adapter does not provide atomic enforcement'')
     else after_consume (consume_nonce_of (auth_payload auth) t) (router_effect a auth state f))"

section \<open>Receipts\<close>

definition transaction_ref :: "json \<Rightarrow> string option" where
  "transaction_ref result = (case result of
     JStr s \<Rightarrow> if s \<noteq> [] then Some s else None
   | JObj d \<Rightarrow> (case find (\<lambda>v. is_str v \<and> str_val v \<noteq> [])
         (map (jget d) [''transaction_hash'', ''tx_hash'', ''signature'']) of
       None \<Rightarrow> None | Some v \<Rightarrow> Some (str_val v))
   | _ \<Rightarrow> None)"

definition outcome_args :: "string \<Rightarrow> json \<Rightarrow> string \<Rightarrow> json \<Rightarrow> json \<Rightarrow> receipt_args" where
  "outcome_args status ref executor error scope = \<lparr> xr_status = status, xr_transaction_ref = ref,
     xr_executor = executor, xr_error = error, xr_receipt_id = JNull, xr_previous = JNull,
     xr_confirmation_ref = JNull, xr_confirmation_data = JNull, xr_scope = scope,
     xr_authorization_sha256 = JNull \<rparr>"

definition adapter_scope :: "hash \<Rightarrow> router \<Rightarrow> json \<Rightarrow> json" where
  "adapter_scope H r auth = (case router_adapter H r auth of Inl _ \<Rightarrow> JNull | Inr a \<Rightarrow> opt_str (ad_state_scope a))"

text \<open>\<open>receipt_ids i\<close> and \<open>signed_at i\<close> are the fresh identifier and the clock of the \<open>i\<close>-th signing.\<close>

definition submitted :: "hash \<Rightarrow> crypto \<Rightarrow> string \<Rightarrow> jdict \<Rightarrow> string \<Rightarrow> json \<Rightarrow> string \<Rightarrow> int \<Rightarrow> json \<Rightarrow> signed_doc res" where
  "submitted H E k auth executor scope uuid now result = (case transaction_ref result of
     None \<Rightarrow> Inl (ValueError ''broadcaster returned no transaction reference'')
   | Some ref \<Rightarrow> sign_execution_receipt H E k auth (outcome_args ''SUBMITTED'' (JStr ref) executor JNull scope) uuid now)"

definition failed_receipt :: "hash \<Rightarrow> crypto \<Rightarrow> string \<Rightarrow> jdict \<Rightarrow> string \<Rightarrow> json \<Rightarrow> string \<Rightarrow> int \<Rightarrow> exn \<Rightarrow> signed_doc res" where
  "failed_receipt H E k auth executor scope uuid now e =
     sign_execution_receipt H E k auth (outcome_args ''FAILED'' JNull executor (JStr (exn_text e)) scope) uuid now"

definition stored_receipt :: "json \<Rightarrow> json option st" where
  "stored_receipt auth = bindS (liftS (bindE (subscript auth ''payload'') (\<lambda>p.
     bindE (subscript p ''authorization_id'') col_text))) (\<lambda>aid.
     case aid of None \<Rightarrow> returnS None | Some i \<Rightarrow> execution_receipt_by_authorization i)"

text \<open>\<open>ExecutionReceipt(payload=v["payload"], signature=v["signature"], ...)\<close>\<close>

definition reload_receipt :: "json \<Rightarrow> jdict res" where
  "reload_receipt v = bindE (subscript v ''payload'') (\<lambda>p. bindE (subscript v ''signature'') (\<lambda>s.
     Inr [(''payload'', p), (''signature'', s),
       (''algorithm'', jget_or (obj_val v) ''algorithm'' (JStr ''Ed25519''))]))"

definition attempt :: "hash \<Rightarrow> crypto \<Rightarrow> string \<Rightarrow> ticks \<Rightarrow> router \<Rightarrow> string \<Rightarrow> jdict \<Rightarrow> callback \<Rightarrow> string \<Rightarrow>
    (nat \<Rightarrow> string) \<Rightarrow> (nat \<Rightarrow> int) \<Rightarrow> xnum \<Rightarrow> signed_doc act" where
  "attempt H E key c r k auth f executor receipt_ids signed_at t =
     (let scope = adapter_scope H r (JObj auth) in catchS
       (bindS (liftS (router_adapter H r (JObj auth))) (\<lambda>_.
        bindS (router_execute H E key c r (JObj auth) f t) (\<lambda>result.
        liftS (submitted H E k auth executor scope (receipt_ids 0) (signed_at 0) result))))
       (\<lambda>e. Some (liftS (failed_receipt H E k auth executor scope (receipt_ids 1) (signed_at 1) e))))"

definition execute_with_receipt :: "hash \<Rightarrow> crypto \<Rightarrow> string \<Rightarrow> ticks \<Rightarrow> router \<Rightarrow> jdict \<Rightarrow> callback \<Rightarrow> string \<Rightarrow>
    (nat \<Rightarrow> string) \<Rightarrow> (nat \<Rightarrow> int) \<Rightarrow> xnum \<Rightarrow> xnum \<Rightarrow> jdict act" where
  "execute_with_receipt H E key c r auth f executor receipt_ids signed_at t t' = (case rt_private_key r of
     None \<Rightarrow> raiseS (ValueError ''execution receipt signing key is required'')
   | Some k \<Rightarrow> bindS (on_conn (stored_receipt (JObj auth))) (\<lambda>existing. case existing of
       Some v \<Rightarrow> liftS (reload_receipt v)
     | None \<Rightarrow> bindS (attempt H E key c r k auth f executor receipt_ids signed_at t) (\<lambda>receipt.
         bindS (on_conn (record_execution_receipt (signed_dict receipt) t')) (\<lambda>_.
         returnS (signed_dict receipt)))))"


section \<open>Confirmation\<close>

definition receipt_digest_of :: "hash \<Rightarrow> jdict \<Rightarrow> string" where
  "receipt_digest_of H receipt = digest_json H (JObj receipt)"

text \<open>The authorization a confirmation is signed from, rebuilt from the current receipt.\<close>

definition rebuilt_keys :: "string list" where
  "rebuilt_keys = [''authorization_id'', ''decision_receipt_sha256'', ''policy_sha256'', ''signed_policy_version'',
     ''policy_version_sha256'', ''intent_id'', ''agent_id'', ''action_sha256'', ''identity_id'', ''identity_sha256'',
     ''capability_id'', ''capability_sha256'', ''authority_state'', ''authority_state_sha256'',
     ''authority_multiplier'', ''authority_policy_sha256'', ''authority_policy'',
     ''authority_policy_artifact_sha256'', ''genesis_authority'', ''genesis_authority_sha256'']"

definition rebuilt_authorization :: "jdict \<Rightarrow> jdict" where
  "rebuilt_authorization current = [(''payload'', JObj (map (\<lambda>k. (k, jget current k)) rebuilt_keys @
     [(''action'', JObj [(''network'', jget current ''network'')])]))]"

definition confirm_args :: "hash \<Rightarrow> jdict \<Rightarrow> jdict \<Rightarrow> jdict \<Rightarrow> string \<Rightarrow> string \<Rightarrow> json \<Rightarrow> json \<Rightarrow> receipt_args" where
  "confirm_args H receipt current confirmation executor state ref receipt_id = \<lparr> xr_status = state, xr_transaction_ref = ref,
     xr_executor = executor, xr_error = jget confirmation ''error'', xr_receipt_id = receipt_id,
     xr_previous = JStr (receipt_digest_of H receipt),
     xr_confirmation_ref = or_else (jget confirmation ''block_ref'') (jget confirmation ''slot''),
     xr_confirmation_data = JObj confirmation, xr_scope = jget current ''execution_external_state_scope'',
     xr_authorization_sha256 = jget current ''authorization_sha256'' \<rparr>"

text \<open>The receipt a confirmation leads to; \<open>Inr None\<close> while the transaction is pending.\<close>

datatype confirmed = Kept jdict | Updated signed_doc

definition confirmed_receipt :: "hash \<Rightarrow> crypto \<Rightarrow> string \<Rightarrow> jdict \<Rightarrow> jdict \<Rightarrow> string \<Rightarrow> string \<Rightarrow> int \<Rightarrow>
    confirmed option res" where
  "confirmed_receipt H E k receipt confirmation executor uuid now =
     bindE (jindex_obj receipt ''payload'') (\<lambda>current.
     let state = jget confirmation ''state'';
         ref = or_else (jget confirmation ''transaction_ref'') (jget current ''transaction_ref'') in
     if state = JStr ''PENDING'' then Inr None
     else if jget current ''status'' \<noteq> JStr ''SUBMITTED''
     then bindE (reload_receipt (JObj receipt)) (\<lambda>d. Inr (Some (Kept d)))
     else if \<not> hashable state then Inl (TypeError ''unhashable type'')
     else if state \<noteq> JStr ''CONFIRMED'' \<and> state \<noteq> JStr ''FAILED'' then Inl (ValueError ''invalid confirmation state'')
     else if \<not> truthy ref then Inl (ValueError ''confirmation is missing transaction reference'')
     else if differs ref (jget current ''transaction_ref'')
     then Inl (ValueError ''confirmation transaction reference mismatch'')
     else bindE (need_keys [''authorization_id'', ''decision_receipt_sha256'', ''intent_id'', ''agent_id'',
         ''action_sha256''] current) (\<lambda>_. bindE (jindex current ''receipt_id'') (\<lambda>rid.
       bindE (sign_execution_receipt H E k (rebuilt_authorization current)
         (confirm_args H receipt current confirmation executor (str_val state) ref rid) uuid now)
         (\<lambda>d. Inr (Some (Updated d))))))"

definition confirm_execution_receipt :: "hash \<Rightarrow> crypto \<Rightarrow> router \<Rightarrow> jdict \<Rightarrow> jdict \<Rightarrow> string \<Rightarrow> string \<Rightarrow> int \<Rightarrow>
    xnum \<Rightarrow> jdict option st" where
  "confirm_execution_receipt H E r receipt confirmation executor uuid now t = (case rt_private_key r of
     None \<Rightarrow> raiseS (ValueError ''execution receipt signing key is required'')
   | Some k \<Rightarrow> bindS (liftS (confirmed_receipt H E k receipt confirmation executor uuid now)) (\<lambda>v. case v of
       None \<Rightarrow> returnS None
     | Some (Kept d) \<Rightarrow> returnS (Some d)
     | Some (Updated d) \<Rightarrow> bindS (update_execution_receipt (signed_dict d) t) (\<lambda>_.
         returnS (Some (signed_dict d)))))"

section \<open>The router keeps the boundary\<close>

lemma one_call_router: "one_call auth (router_effect a auth state f)"
  by (simp add: router_effect_def one_call_after one_call_bound)

lemma consume_nonce_advances [keeps_intros]: "dbo.advances (consume_nonce_of p t)"
  unfolding consume_nonce_of_def by (intro keeps_intros)

lemma router_consume_advances [keeps_intros]: "dbo.advances (router_consume H E key c r auth t)"
  unfolding router_consume_def by (intro keeps_intros) (auto intro!: keeps_intros split: if_splits)

lemma keeps_router_execute [keeps_intros]: "keeps boundary_ok (router_execute H E key c r auth f t)"
  unfolding router_execute_def
  by (intro keeps_intros keeps_after_consume [where auth = auth] consume_nonce_grants one_call_router)

lemma stored_receipt_advances [keeps_intros]: "dbo.advances (stored_receipt auth)"
  unfolding stored_receipt_def by (intro keeps_intros)

lemma keeps_execute_with_receipt [keeps_intros]:
  "keeps boundary_ok (execute_with_receipt H E key c r auth f executor ids signed t t')"
  unfolding execute_with_receipt_def attempt_def Let_def
  by (intro keeps_intros) (auto intro!: keeps_intros)

lemma confirm_advances [keeps_intros]:
  "dbo.advances (confirm_execution_receipt H E r receipt conf executor uuid now t)"
  unfolding confirm_execution_receipt_def
  by (intro keeps_intros) (auto intro!: keeps_intros split: confirmed.splits)

end
