(* ===== verification/Router_Safety.thy ===== *)
theory Router_Safety
  imports Router Receipt_Boundary
begin

text \<open>
  The guarantees of the execution boundary over whole runs: one side effect per nonce, no side effect
  before every check has passed and the nonce is committed, and a receipt for every attempt.
\<close>

section \<open>Runs\<close>

text \<open>
  Any sequence of operations of the gate, of the adapters and of the router, with any adapters,
  authorizations, callbacks and clocks, interleaved with any storage method (all of them advance the
  database) and any other process on the same file that does.
\<close>

inductive boundary_run :: "hash \<Rightarrow> crypto \<Rightarrow> string \<Rightarrow> world \<Rightarrow> world \<Rightarrow> bool" for H E key w where
  stay: "boundary_run H E key w w"
| gate: "boundary_run H E key w v \<Longrightarrow> boundary_run H E key w (fst (gate_execute H E key c auth f t v))"
| gate_bound: "boundary_run H E key w v \<Longrightarrow>
    boundary_run H E key w (fst (gate_execute_bound H E key c auth state f t v))"
| adapter: "boundary_run H E key w v \<Longrightarrow> boundary_run H E key w (fst (adapter_execute H E key c b a auth f t v))"
| adapter_bound: "boundary_run H E key w v \<Longrightarrow>
    boundary_run H E key w (fst (adapter_execute_bound H E key c b a auth state f t v))"
| tool: "boundary_run H E key w v \<Longrightarrow> boundary_run H E key w (fst (execute_registered H E key c hs auth t v))"
| http: "boundary_run H E key w v \<Longrightarrow> boundary_run H E key w (fst (execute_request H E key c auth f t v))"
| route: "boundary_run H E key w v \<Longrightarrow> boundary_run H E key w (fst (router_execute H E key c r auth f t v))"
| receipt: "boundary_run H E key w v \<Longrightarrow>
    boundary_run H E key w (fst (execute_with_receipt H E key c r a f executor ids signed t t' v))"
| storage: "boundary_run H E key w v \<Longrightarrow> dbo.advances (m :: unit st) \<Longrightarrow>
    boundary_run H E key w (fst (on_conn m v))"

lemma boundary_run_ok: "boundary_run H E key w v \<Longrightarrow> boundary_ok w \<Longrightarrow> boundary_ok v"
  by (induction rule: boundary_run.induct) (auto intro!: keepsD keeps_intros)

section \<open>What precedes a side effect\<close>

lemma preflight_Inr:
  assumes "preflight H E key c r auth = Inr (a, state)"
  shows "\<exists>reason. verify_execution_authorization H E key (c 0) auth = Inr (True, reason)"
    and "router_adapter H r auth = Inr a" and "validate_adapter H E key (later 1 c) a auth = Inr ()"
    and "router_execution_path auth a = Inr ()" and "router_external_state r auth = Inr state"
  using assms by (auto simp: preflight_def verify_authorization_def bindE_Inr_iff split: if_splits)

lemma consume_nonce_of_True:
  assumes "consume_nonce_of p t s = (s', Inr (True, m))" and "dbo.conn_ok s"
  shows "str_val (fld p ''nonce'') \<notin> used_nonces s" and "str_val (fld p ''nonce'') \<in> used_nonces s'"
  using assms nonce_store.consume_fresh [of s "str_val (fld p ''nonce'')"]
  by (auto simp: consume_nonce_of_def bindS_Inr_iff split: if_splits)

lemma after_consume_calls:
  assumes "one_call auth e" and "wd_calls (fst (after_consume m e w)) \<noteq> wd_calls w"
  shows "\<exists>c reason. m (wd_conn w) = (c, Inr (True, reason)) \<and> wd_conn (fst (after_consume m e w)) = c \<and>
     (\<exists>arg. wd_calls (fst (after_consume m e w)) = wd_calls w @ [(auth, arg)])"
proof -
  obtain c r where m: "m (wd_conn w) = (c, r)" by fastforce
  show ?thesis
  proof (cases "\<exists>reason. r = Inr (True, reason)")
    case True
    with m have "after_consume m e w = e (w\<lparr>wd_conn := c\<rparr>)"
      by (auto simp: after_consume_def bindS_apply on_conn_def)
    with assms m True assms(1) [unfolded one_call_def, rule_format, of "w\<lparr>wd_conn := c\<rparr>"]
    show ?thesis by auto
  next
    case False
    with m have "wd_calls (fst (after_consume m e w)) = wd_calls w"
      by (auto simp: after_consume_def bindS_apply on_conn_def split: sum.splits)
    with assms(2) show ?thesis by simp
  qed
qed

section \<open>Attempts and their receipts\<close>

lemma consume_nonce_of_receipts:
  assumes "work s = None"
  shows "work (fst (consume_nonce_of p t s)) = None \<and>
    t_receipts (disk (fst (consume_nonce_of p t s))) = t_receipts (disk s)"
  using assms by (auto simp: consume_nonce_of_def bindS_apply consume_execution_nonce_spec Let_def cur_idle)

definition same_receipts :: "world \<Rightarrow> world \<Rightarrow> bool" where
  "same_receipts v w \<longleftrightarrow> work (wd_conn w) = None \<and> t_receipts (disk (wd_conn w)) = t_receipts (disk (wd_conn v))"

lemma router_execute_receipts:
  assumes "work (wd_conn w) = None"
  shows "same_receipts w (fst (router_execute H E key c r auth f t w))"
proof -
  have after: "same_receipts w (fst (after_consume (consume_nonce_of p t) e w))" if one: "one_call auth e" for p e
  proof -
    obtain s v where m: "consume_nonce_of p t (wd_conn w) = (s, v)" by fastforce
    with consume_nonce_of_receipts [OF assms, of p t] have s: "same_receipts w (w\<lparr>wd_conn := s\<rparr>)"
      by (simp add: same_receipts_def)
    moreover have "wd_conn (fst (e (w\<lparr>wd_conn := s\<rparr>))) = s" using one by (simp add: one_call_def)
    ultimately show ?thesis
      by (auto simp: after_consume_def bindS_apply on_conn_def m same_receipts_def split: sum.splits)
  qed
  show ?thesis
    using assms after [OF one_call_router]
    by (cases "preflight H E key c r auth") (auto simp: router_execute_def same_receipts_def)
qed

text \<open>The fields a receipt copies into columns.\<close>

definition receiptable :: "jdict \<Rightarrow> bool" where
  "receiptable p \<longleftrightarrow> (\<exists>a i g d act. dget p ''authorization_id'' = Some (JStr a) \<and> dget p ''intent_id'' = Some (JStr i) \<and>
     dget p ''agent_id'' = Some (JStr g) \<and> dget p ''decision_receipt_sha256'' = Some d \<and>
     dget p ''action'' = Some (JObj act) \<and> dget p ''action_sha256'' \<noteq> None \<and>
     (truthy (jget act ''network'') \<longrightarrow> is_str (jget act ''network'')))"

definition unrecorded :: "jdict \<Rightarrow> string \<Rightarrow> db \<Rightarrow> bool" where
  "unrecorded p uuid d \<longleftrightarrow> list_all (\<lambda>r. er_receipt_id r \<noteq> uuid \<and>
     JStr (er_authorization_id r) \<noteq> jget p ''authorization_id'') (t_receipts d)"

lemma receipt_columns:
  fixes H ap action x uuid now
  defines "P \<equiv> receipt_body H ap (JObj action) x uuid now"
  shows "dget P ''receipt_id'' = Some (or_else (xr_receipt_id x) (JStr uuid))"
    "dget P ''authorization_id'' = Some (jget ap ''authorization_id'')"
    "dget P ''intent_id'' = Some (jget ap ''intent_id'')" "dget P ''agent_id'' = Some (jget ap ''agent_id'')"
    "dget P ''status'' = Some (JStr (xr_status x))" "jget P ''network'' = jget action ''network''"
    "jget P ''transaction_ref'' = xr_transaction_ref x"
  unfolding P_def by (simp_all add: receipt_body_def copied_fields_def jget_def)

lemma signable:
  assumes "dget auth ''payload'' = Some (JObj p)" and "receiptable p" and "xr_status x \<in> set receipt_statuses"
    and "dget p ''action'' = Some (JObj act)"
  shows "sign_execution_receipt H E k auth x uuid now = Inr (sign_doc E k (receipt_body H p (JObj act) x uuid now))"
  using assms
  by (auto simp: receiptable_def sign_execution_receipt_def execution_receipt_payload_def jindex_obj_def jindex_def)

lemma recorded:
  assumes "work s = None" and "receiptable p" and "unrecorded p uuid (disk s)" and "uuid \<noteq> []"
    and "truthy (jget act ''network'') \<longrightarrow> is_str (jget act ''network'')"
    and "xr_receipt_id x = JNull" and "xr_transaction_ref x = JNull \<or> is_str (xr_transaction_ref x)"
  shows "\<exists>s' row. record_execution_receipt (signed_dict (sign_doc E k (receipt_body H p (JObj act) x uuid now))) t s =
      (s', Inr ()) \<and> work s' = None \<and> t_receipts (disk s') = t_receipts (disk s) @ [row] \<and>
      er_json row = JObj (signed_dict (sign_doc E k (receipt_body H p (JObj act) x uuid now))) \<and>
      JStr (er_authorization_id row) = jget p ''authorization_id''"
proof -
  let ?P = "receipt_body H p (JObj act) x uuid now"
  obtain a i g where f: "jget p ''authorization_id'' = JStr a" "jget p ''intent_id'' = JStr i" "jget p ''agent_id'' = JStr g"
    using assms(2) by (auto simp: receiptable_def jget_def)
  obtain net where net: "(if truthy (jget act ''network'') then col_text_nn (jget act ''network'') else Inr []) = Inr net"
    using assms(5) by (cases "truthy (jget act ''network'')") (auto simp: is_str_iff)
  obtain ref where ref: "col_text (xr_transaction_ref x) = Inr ref" using assms(7) by (auto simp: is_str_iff)
  have rid: "or_else (xr_receipt_id x) (JStr uuid) = JStr uuid" using assms(4,6) by (simp add: or_else_def)
  define row where "row = \<lparr> er_receipt_id = uuid, er_authorization_id = a, er_intent_id = i, er_agent_id = g,
     er_network = net, er_status = xr_status x, er_transaction_ref = ref,
     er_json = JObj (signed_dict (sign_doc E k ?P)), er_signature = sd_signature (sign_doc E k ?P), er_created_at = t \<rparr>"
  have fresh: "\<not> list_ex (receipt_clash row) (t_receipts (cur s))"
    using assms(1,3) f by (auto simp: list_ex_iff unrecorded_def list_all_iff receipt_clash_def row_def cur_idle)
  have p: "jindex_obj (signed_dict (sign_doc E k ?P)) ''payload'' = Inr ?P"
    "jindex (signed_dict (sign_doc E k ?P)) ''signature'' = Inr (JStr (sd_signature (sign_doc E k ?P)))"
    by (simp_all add: jindex_obj_def jindex_def)
  have cols: "jindex ?P ''receipt_id'' = Inr (JStr uuid)" "jindex ?P ''authorization_id'' = Inr (JStr a)"
    "jindex ?P ''intent_id'' = Inr (JStr i)" "jindex ?P ''agent_id'' = Inr (JStr g)"
    "jindex ?P ''status'' = Inr (JStr (xr_status x))"
    by (simp_all add: jindex_def receipt_columns rid f)
  have "record_execution_receipt (signed_dict (sign_doc E k ?P)) t s =
      (s\<lparr>disk := (cur s)\<lparr>t_receipts := t_receipts (cur s) @ [row]\<rparr>, work := None\<rparr>, Inr ())"
    unfolding record_execution_receipt_def
    using fresh net ref
    by (cases "truthy (jget act ''network'')")
      (simp_all add: p cols receipt_columns bindS_apply on_integrity_def catchS_def insert_receipt_def dml_ins_Inr row_def)
  moreover have "er_json row = JObj (signed_dict (sign_doc E k ?P))" "er_authorization_id row = a"
    by (simp_all only: row_def receipt_row.simps)
  ultimately show ?thesis using assms(1) f(1)
    by (intro exI [of _ "s\<lparr>disk := (cur s)\<lparr>t_receipts := t_receipts (cur s) @ [row]\<rparr>, work := None\<rparr>"]
        exI [of _ row]) (simp add: cur_idle del: sign_doc_simps)
qed

lemma outcome_args_simps [simp]:
  "xr_status (outcome_args st ref ex er sc) = st" "xr_transaction_ref (outcome_args st ref ex er sc) = ref"
  "xr_receipt_id (outcome_args st ref ex er sc) = JNull"
  by (simp_all add: outcome_args_def)

lemma attempt_signs:
  assumes "dget auth ''payload'' = Some (JObj p)" and "receiptable p" and "work (wd_conn w) = None"
    and "dget p ''action'' = Some (JObj act)"
  shows "\<exists>w' x uuid now. attempt H E key c r k auth f executor ids signed t w =
      (w', Inr (sign_doc E k (receipt_body H p (JObj act) x uuid now))) \<and> same_receipts w w' \<and>
      uuid \<in> {ids 0, ids 1} \<and> xr_status x \<in> {''SUBMITTED'', ''FAILED''} \<and> xr_receipt_id x = JNull \<and>
      (xr_transaction_ref x = JNull \<or> is_str (xr_transaction_ref x))"
proof -
  let ?scope = "adapter_scope H r (JObj auth)"
  let ?failed = "\<lambda>e. outcome_args ''FAILED'' JNull executor (JStr (exn_text e)) ?scope"
  let ?ok = "\<lambda>ref. outcome_args ''SUBMITTED'' (JStr ref) executor JNull ?scope"
  have failing: "failed_receipt H E k auth executor ?scope (ids 1) (signed 1) e =
      Inr (sign_doc E k (receipt_body H p (JObj act) (?failed e) (ids 1) (signed 1)))" for e
    unfolding failed_receipt_def by (rule signable [OF assms(1,2) _ assms(4)]) (simp add: receipt_statuses_def)
  have submitting: "submitted H E k auth executor ?scope (ids 0) (signed 0) v =
      Inr (sign_doc E k (receipt_body H p (JObj act) (?ok ref) (ids 0) (signed 0)))"
    if "transaction_ref v = Some ref" for v ref
    unfolding submitted_def that option.case
    by (rule signable [OF assms(1,2) _ assms(4)]) (simp add: receipt_statuses_def)
  define body where "body = bindS (liftS (router_adapter H r (JObj auth))) (\<lambda>_.
    bindS (router_execute H E key c r (JObj auth) f t) (\<lambda>result.
    liftS (submitted H E k auth executor ?scope (ids 0) (signed 0) result)))"
  obtain w1 v where b: "body w = (w1, v)" by fastforce
  have same: "same_receipts w w1"
    using b router_execute_receipts [OF assms(3), of H E key c r "JObj auth" f t] assms(3)
    by (cases "router_adapter H r (JObj auth)")
      (auto simp: body_def bindS_apply same_receipts_def split: prod.splits sum.splits)
  have at': "attempt H E key c r k auth f executor ids signed t w = (case v of Inr d \<Rightarrow> (w1, Inr d)
      | Inl e \<Rightarrow> (w1, failed_receipt H E k auth executor ?scope (ids 1) (signed 1) e))"
    using b by (auto simp: attempt_def Let_def body_def [symmetric] catchS_def split: sum.splits)
  show ?thesis
  proof (cases v)
    case (Inl e)
    with at' failing [of e] same show ?thesis
      by (intro exI [of _ w1] exI [of _ "?failed e"] exI [of _ "ids 1"] exI [of _ "signed 1"]) simp
  next
    case (Inr d)
    with b obtain result where d: "submitted H E k auth executor ?scope (ids 0) (signed 0) result = Inr d"
      by (auto simp: body_def bindS_Inr_iff)
    moreover from this obtain ref where "transaction_ref result = Some ref"
      by (auto simp: submitted_def split: option.splits)
    ultimately show ?thesis using at' Inr submitting [of result ref] same
      by (intro exI [of _ w1] exI [of _ "?ok ref"] exI [of _ "ids 0"] exI [of _ "signed 0"]) simp
  qed
qed

lemma stored_later:
  assumes "work s = None" and "t_receipts (disk s) = rs @ [row]"
    and "list_all (\<lambda>r. JStr (er_authorization_id r) \<noteq> jget p ''authorization_id'') rs"
    and "JStr (er_authorization_id row) = jget p ''authorization_id''" and "dget auth ''payload'' = Some (JObj p)"
  shows "stored_receipt (JObj auth) s = (s, Inr (Some (er_json row)))"
proof -
  have p: "dget p ''authorization_id'' = Some (JStr (er_authorization_id row))"
    using dget_jget [OF assms(4) [symmetric]] by simp
  have "select_one (\<lambda>r. er_authorization_id r = er_authorization_id row) rs = None"
    using assms(3) by (auto simp: select_one_None list_all_iff assms(4) [symmetric])
  then have "select_one (\<lambda>r. er_authorization_id r = er_authorization_id row) (rs @ [row]) = Some row"
    by (simp add: select_one_append) (simp add: select_one_def)
  with assms(1,2,5) p show ?thesis
    by (simp add: stored_receipt_def subscript_def jindex_def execution_receipt_by_authorization_def cur_idle)
qed

lemma reload_signed: "reload_receipt (JObj (signed_dict d)) = Inr (signed_dict d)"
  by (simp add: reload_receipt_def subscript_def jindex_def signed_dict_def jget_or_def)

lemma execute_with_receipt_records:
  assumes "rt_private_key r = Some k" and "dget auth ''payload'' = Some (JObj p)" and "receiptable p"
    and "work (wd_conn w) = None" and "unrecorded p (ids 0) (disk (wd_conn w))" and "unrecorded p (ids 1) (disk (wd_conn w))"
    and "ids 0 \<noteq> []" and "ids 1 \<noteq> []"
  shows "\<exists>w' d row. execute_with_receipt H E key c r auth f executor ids signed t t' w = (w', Inr (signed_dict d)) \<and>
     (\<exists>st. dget (sd_payload d) ''status'' = Some (JStr st) \<and> st \<in> {''SUBMITTED'', ''FAILED''}) \<and>
     work (wd_conn w') = None \<and> t_receipts (disk (wd_conn w')) = t_receipts (disk (wd_conn w)) @ [row] \<and>
     er_json row = JObj (signed_dict d) \<and> JStr (er_authorization_id row) = jget p ''authorization_id''"
proof -
  obtain act where act: "dget p ''action'' = Some (JObj act)"
      "truthy (jget act ''network'') \<longrightarrow> is_str (jget act ''network'')" and
    aid: "\<exists>a. dget p ''authorization_id'' = Some (JStr a)"
    using assms(3) by (auto simp: receiptable_def)
  have none: "stored_receipt (JObj auth) (wd_conn w) = (wd_conn w, Inr None)"
    using aid assms(2,4,5)
    by (auto simp: stored_receipt_def subscript_def jindex_def execution_receipt_by_authorization_def cur_idle
        select_one_None unrecorded_def list_all_iff jget_def)
  obtain w' x uuid now where at': "attempt H E key c r k auth f executor ids signed t w =
      (w', Inr (sign_doc E k (receipt_body H p (JObj act) x uuid now)))" and same: "same_receipts w w'"
    and x: "uuid \<in> {ids 0, ids 1}" "xr_status x \<in> {''SUBMITTED'', ''FAILED''}" "xr_receipt_id x = JNull"
      "xr_transaction_ref x = JNull \<or> is_str (xr_transaction_ref x)"
    using attempt_signs [OF assms(2-4) act(1)] by blast
  have u: "unrecorded p uuid (disk (wd_conn w'))" "uuid \<noteq> []" "work (wd_conn w') = None"
    using x(1) same assms(5-8) by (auto simp: same_receipts_def unrecorded_def)
  obtain s' row where rec: "record_execution_receipt
        (signed_dict (sign_doc E k (receipt_body H p (JObj act) x uuid now))) t' (wd_conn w') = (s', Inr ())"
    "work s' = None" "t_receipts (disk s') = t_receipts (disk (wd_conn w')) @ [row]"
    "er_json row = JObj (signed_dict (sign_doc E k (receipt_body H p (JObj act) x uuid now)))"
    "JStr (er_authorization_id row) = jget p ''authorization_id''"
    using recorded [OF u(3) assms(3) u(1,2) act(2) x(3,4)] by blast
  have "execute_with_receipt H E key c r auth f executor ids signed t t' w =
      (w'\<lparr>wd_conn := s'\<rparr>, Inr (signed_dict (sign_doc E k (receipt_body H p (JObj act) x uuid now))))"
    using none at' rec(1) assms(1)
    by (simp add: execute_with_receipt_def bindS_apply on_conn_def)
  with rec(2-5) same x(2) show ?thesis
    by (intro exI conjI) (auto simp: same_receipts_def receipt_columns)
qed

section \<open>A concrete run\<close>

definition demo_router :: router where
  "demo_router = \<lparr> rt_networks = new_network_registry default_networks, rt_generic = [], rt_state_registry = None,
     rt_state_verifier = None, rt_private_key = Some ''k'' \<rparr>"

definition demo_authorization :: jdict where
  "demo_authorization = signed_dict (sign_doc demo_crypto ''k'' demo_payload)"

definition idle_world :: world where
  "idle_world = \<lparr> wd_conn = \<lparr> disk = empty_db, work = None \<rparr>, wd_calls = [] \<rparr>"

lemma demo_verifies: "verify_execution_authorization zero_hash demo_crypto (cy_public demo_crypto ''k'') 1100
   (JObj demo_authorization) = Inr (True, ''valid execution authorization'')"
  using demo_accepted by (auto simp: demo_issued demo_authorization_def)

lemma demo_fields:
  "auth_payload (JObj demo_authorization) = JObj demo_payload"
  "jget demo_payload ''action'' = JObj demo_intent" "jget demo_payload ''issued_at'' = JInt 1000"
  "jget demo_payload ''nonce'' = JStr ''i1''"
  "jget demo_payload ''execution_graph'' = JObj []" "jget demo_payload ''external_state'' = JObj []"
  "jget demo_payload ''external_state_required'' = JBool False"
  "jget demo_payload ''external_state_requirement'' = JNull"
proof -
  have "canonical_external_state (JObj demo_intent) = []" by code_simp
  then show "jget demo_payload ''external_state'' = JObj []" by (simp add: demo_payload_def auth_fields)
  show "auth_payload (JObj demo_authorization) = JObj demo_payload"
    by (simp add: auth_payload_def demo_authorization_def jget_def)
qed (simp_all add: demo_payload_def auth_fields demo_args_def opt_obj_def)

lemma demo_gets:
  "dget demo_authorization ''payload'' = Some (JObj demo_payload)"
  "dget demo_payload ''action'' = Some (JObj demo_intent)"
  using demo_fields(2) by (simp_all add: demo_authorization_def dget_jget)

lemma demo_action: "action_argument (JObj demo_authorization) = Inr (JObj demo_intent)"
  by (simp add: action_argument_def subscript_def jindex_def demo_gets)

lemma demo_adapter: "router_adapter zero_hash demo_router (JObj demo_authorization) = Inr gate_adapter"
proof -
  have "resolve_network (new_network_registry default_networks) ''base'' = Inr (evm_network ''base'' 8453 ''ETH'' [])"
    by code_simp
  moreover have "jget demo_intent ''network'' = JStr ''base''" "wire_artifact demo_intent = None" by code_simp+
  ultimately have "network_route zero_hash (new_network_registry default_networks) demo_intent = Inr gate_adapter"
    by (simp add: network_route_def blank_def known_adapter_def str_strip_def is_space_char_def Let_def)
  then show ?thesis
    by (simp add: router_adapter_def router_action_def demo_action demo_router_def)
      (simp add: demo_intent_def jget_def )
qed

lemma demo_preflight:
  "preflight zero_hash demo_crypto (cy_public demo_crypto ''k'') (\<lambda>_. 1100) demo_router (JObj demo_authorization) =
     Inr (gate_adapter, None)"
proof -
  have "verify_external_state_binding (JObj []) (JObj demo_intent) = (True, ''no external state binding'')"
    by code_simp
  moreover have "gate_validate zero_hash demo_crypto (cy_public demo_crypto ''k'') (later 1 (\<lambda>_. 1100))
      (JObj demo_authorization) = Inr (True, ''execution authorization validated'')"
    using demo_verifies by (simp add: gate_validate_def gate_guards_def later_def demo_fields open_verdict_def
        ask_def simple_guards)
  ultimately show ?thesis using demo_verifies demo_adapter
  by (simp add: preflight_def verify_authorization_def validate_adapter_def adapter_validate_def gate_adapter_def
      router_execution_path_def router_external_state_def router_action_def
      demo_action demo_fields demand_def)
qed

lemma demo_effect:
  "\<exists>s. router_execute zero_hash demo_crypto (cy_public demo_crypto ''k'') (\<lambda>_. 1100) demo_router
      (JObj demo_authorization) (\<lambda>_. Inr (JStr ''tx'')) (Fin 1100) idle_world =
     (\<lparr>wd_conn = s, wd_calls = [(JObj demo_authorization, JObj demo_intent)]\<rparr>, Inr (JStr ''tx''))"
  by (simp add: router_execute_def demo_preflight atomic_needed_def after_consume_def router_effect_def
      execute_after_consume_def bindS_apply on_conn_def consume_nonce_of_def consume_execution_nonce_spec Let_def
      idle_world_def demo_fields empty_db_def call_def)
    (simp add: gate_adapter_def demo_action call_def)

lemma idle_world_ok: "dbo.conn_ok (wd_conn idle_world)"
  by (simp add: idle_world_def dbo.conn_ok_def dbo.R_refl)

section \<open>Properties\<close>

text \<open>C27: over any run of the execution boundary, with any mix of gates, adapters, routers, callbacks that
  fail, retries and other storage operations, no two side effects are made for authorizations with the
  same nonce, and every side effect that was made has its nonce committed as consumed.\<close>

theorem one_effect_per_nonce:
  assumes "boundary_run H E key w v" and "wd_calls w = []" and "dbo.conn_ok (wd_conn w)"
  shows "distinct (map (call_nonce \<circ> fst) (wd_calls v)) \<and>
     (call_nonce \<circ> fst) ` set (wd_calls v) \<subseteq> en_nonce ` set (t_nonces (disk (wd_conn v)))"
proof -
  have "boundary_ok w" using assms(2,3) by (simp add: boundary_ok_def called_nonces_def nonce_store.spent_def)
  with boundary_run_ok [OF assms(1)] have "boundary_ok v" by simp
  then show ?thesis
    by (auto simp: boundary_ok_def nonce_store.spent_def called_nonces_def call_nonce_def
        used_nonces_def comp_def)
qed

theorem one_effect_per_nonce_witness:
  "\<exists>v :: world. wd_calls v = [(JObj demo_authorization, JObj demo_intent)] \<and>
     (call_nonce \<circ> fst) ` set (wd_calls v) \<subseteq> en_nonce ` set (t_nonces (disk (wd_conn v)))"
proof -
  obtain s where s: "router_execute zero_hash demo_crypto (cy_public demo_crypto ''k'') (\<lambda>_. 1100) demo_router
      (JObj demo_authorization) (\<lambda>_. Inr (JStr ''tx'')) (Fin 1100) idle_world =
     (\<lparr>wd_conn = s, wd_calls = [(JObj demo_authorization, JObj demo_intent)]\<rparr>, Inr (JStr ''tx''))"
    using demo_effect by blast
  define v where "v = \<lparr>wd_conn = s, wd_calls = [(JObj demo_authorization, JObj demo_intent)]\<rparr>"
  have calls: "wd_calls v = [(JObj demo_authorization, JObj demo_intent)]" by (simp add: v_def)
  have "boundary_run zero_hash demo_crypto (cy_public demo_crypto ''k'') idle_world v"
    using boundary_run.route [OF boundary_run.stay, of zero_hash demo_crypto "cy_public demo_crypto ''k''" idle_world
        "\<lambda>_. 1100" demo_router "JObj demo_authorization" "\<lambda>_. Inr (JStr ''tx'')" "Fin 1100"]
    by (simp only: s v_def fst_conv)
  from one_effect_per_nonce [OF this _ idle_world_ok] have
    "(call_nonce \<circ> fst) ` set (wd_calls v) \<subseteq> en_nonce ` set (t_nonces (disk (wd_conn v)))"
    by (simp add: idle_world_def)
  with calls show ?thesis by blast
qed



text \<open>C29: every attempt leaves a receipt.  With a signing key, an authorization that has the fields a receipt
  copies and no receipt yet, \<open>execute_with_receipt\<close> always returns, whatever fails on the way (an invalid
  authorization, an unsupported network, a replay, a broadcaster that raises), the SUBMITTED or FAILED receipt
  it returns is stored, and every later call returns that receipt and does nothing else.\<close>

theorem attempt_leaves_receipt:
  assumes "rt_private_key r = Some k" and "dget auth ''payload'' = Some (JObj p)" and "receiptable p"
    and "work (wd_conn w) = None" and "unrecorded p (ids 0) (disk (wd_conn w))" and "unrecorded p (ids 1) (disk (wd_conn w))"
    and "ids 0 \<noteq> []" and "ids 1 \<noteq> []"
  shows "\<exists>w' d row. execute_with_receipt H E key c r auth f executor ids signed t t' w = (w', Inr (signed_dict d)) \<and>
     (\<exists>st. dget (sd_payload d) ''status'' = Some (JStr st) \<and> st \<in> {''SUBMITTED'', ''FAILED''}) \<and>
     t_receipts (disk (wd_conn w')) = t_receipts (disk (wd_conn w)) @ [row] \<and> er_json row = JObj (signed_dict d) \<and>
     (\<forall>c f executor ids signed t t'. execute_with_receipt H E key c r auth f executor ids signed t t' w' =
        (w', Inr (signed_dict d)))"
proof -
  obtain w' d row st where x: "execute_with_receipt H E key c r auth f executor ids signed t t' w = (w', Inr (signed_dict d))"
      "dget (sd_payload d) ''status'' = Some (JStr st)" "st \<in> {''SUBMITTED'', ''FAILED''}"
      "work (wd_conn w') = None" "t_receipts (disk (wd_conn w')) = t_receipts (disk (wd_conn w)) @ [row]"
      "er_json row = JObj (signed_dict d)" "JStr (er_authorization_id row) = jget p ''authorization_id''"
    using execute_with_receipt_records [OF assms] by blast
  have "list_all (\<lambda>r. JStr (er_authorization_id r) \<noteq> jget p ''authorization_id'') (t_receipts (disk (wd_conn w)))"
    using assms(5) by (auto simp: unrecorded_def list_all_iff)
  note stored = stored_later [OF x(4,5) this x(7) assms(2)]
  have "execute_with_receipt H E key c r auth f executor ids signed t t' w' = (w', Inr (signed_dict d))"
    for c f executor ids signed t t'
    using assms(1) by (simp add: execute_with_receipt_def bindS_apply on_conn_def stored x(6) reload_signed)
  with x show ?thesis by blast
qed

theorem attempt_leaves_receipt_witness:
  "\<exists>w' d row. execute_with_receipt zero_hash demo_crypto (cy_public demo_crypto ''k'') (\<lambda>_. 1100) demo_router
      demo_authorization (\<lambda>_. Inr (JStr ''tx'')) ''verigate'' (\<lambda>_. ''r1'') (\<lambda>_. 1100) (Fin 1100) (Fin 1100) idle_world =
        (w', Inr (signed_dict d)) \<and> t_receipts (disk (wd_conn w')) = [row] \<and> er_json row = JObj (signed_dict d)"
proof -
  have p: "receiptable demo_payload"
    by (simp add: receiptable_def demo_payload_def demo_gets authorization_payload_def demo_intent_def demo_args_def
        demo_receipt_def jget_def Let_def)
  have idle: "work (wd_conn idle_world) = None" "t_receipts (disk (wd_conn idle_world)) = []"
    by (simp_all add: idle_world_def empty_db_def)
  have u: "unrecorded demo_payload ''r1'' (disk (wd_conn idle_world))" by (simp add: unrecorded_def idle)
  have "rt_private_key demo_router = Some ''k''" by (simp add: demo_router_def)
  from attempt_leaves_receipt [OF this demo_gets(1) p idle(1), of "\<lambda>_. ''r1''"] u idle(2)
  show ?thesis by fastforce
qed

end
