(* ===== verification/Intent_Graph.thy ===== *)
theory Intent_Graph
  imports Models
begin

text \<open>
  \<open>core/intent_graph.py\<close>: plans as graphs, their validation by depth-first search and the builder.
  Sets are lists; the search threads its two sets and its error list through the recursion.
\<close>

section \<open>Graphs\<close>

datatype node_type = GOAL | INTENT | SUB_INTENT | ACTION | CONSEQUENCE

datatype relation = CONTAINS | DEPENDS_ON | PRODUCES | CAUSES

definition node_type_str :: "node_type \<Rightarrow> string" where
  "node_type_str t = (case t of GOAL \<Rightarrow> ''GOAL'' | INTENT \<Rightarrow> ''INTENT'' | SUB_INTENT \<Rightarrow> ''SUB_INTENT''
     | ACTION \<Rightarrow> ''ACTION'' | CONSEQUENCE \<Rightarrow> ''CONSEQUENCE'')"

definition relation_str :: "relation \<Rightarrow> string" where
  "relation_str r = (case r of CONTAINS \<Rightarrow> ''CONTAINS'' | DEPENDS_ON \<Rightarrow> ''DEPENDS_ON''
     | PRODUCES \<Rightarrow> ''PRODUCES'' | CAUSES \<Rightarrow> ''CAUSES'')"

record intent_node =
  nd_id :: string
  nd_type :: node_type
  nd_label :: string
  nd_metadata :: jdict

record intent_edge =
  ie_source :: string
  ie_relation :: relation
  ie_target :: string

record intent_graph =
  gr_id :: string
  gr_nodes :: "intent_node list"
  gr_edges :: "intent_edge list"
  gr_version :: int

definition node_dict :: "intent_node \<Rightarrow> json" where
  "node_dict n = JObj [(''node_id'', JStr (nd_id n)), (''node_type'', JStr (node_type_str (nd_type n))),
     (''label'', JStr (nd_label n)), (''metadata'', JObj (nd_metadata n))]"

definition edge_dict :: "intent_edge \<Rightarrow> json" where
  "edge_dict e = JObj [(''source_id'', JStr (ie_source e)),
     (''relation'', JStr (relation_str (ie_relation e))), (''target_id'', JStr (ie_target e))]"

definition graph_dict :: "intent_graph \<Rightarrow> jdict" where
  "graph_dict g = [(''graph_id'', JStr (gr_id g)), (''version'', JInt (gr_version g)),
     (''nodes'', JList (map node_dict (gr_nodes g))), (''edges'', JList (map edge_dict (gr_edges g)))]"

definition graph_digest :: "hash \<Rightarrow> intent_graph \<Rightarrow> string" where
  "graph_digest H g = digest_ascii H (JObj (graph_dict g))"

definition graph_node :: "intent_graph \<Rightarrow> string \<Rightarrow> intent_node res" where
  "graph_node g i = (case find (\<lambda>n. nd_id n = i) (gr_nodes g) of
     None \<Rightarrow> Inl (KeyError (''unknown intent graph node: '' @ i)) | Some n \<Rightarrow> Inr n)"

definition graph_actions :: "intent_graph \<Rightarrow> intent_node list" where
  "graph_actions g = filter (\<lambda>n. nd_type n = ACTION) (gr_nodes g)"

definition deps :: "intent_edge list \<Rightarrow> string \<Rightarrow> string list" where
  "deps es i = map ie_target (filter (\<lambda>e. ie_source e = i \<and> ie_relation e = DEPENDS_ON) es)"

definition dependencies_of :: "intent_graph \<Rightarrow> string \<Rightarrow> string list" where
  "dependencies_of g i = deps (gr_edges g) i"

section \<open>Validation\<close>

definition cycle_error :: string where
  "cycle_error = ''intent graph contains a dependency cycle''"

definition edge_ids :: "intent_edge list \<Rightarrow> string set" where
  "edge_ids es = set (map ie_source es) \<union> set (map ie_target es)"

lemma finite_edge_ids [simp]: "finite (edge_ids es)"
  by (simp add: edge_ids_def)

lemma deps_ids: "deps es i \<noteq> [] \<Longrightarrow> i \<in> edge_ids es"
  by (auto simp: deps_def edge_ids_def filter_empty_conv)

text \<open>
  \<open>visit\<close>, with \<open>ws\<close> the set \<open>visiting\<close> (the path of the recursion) and \<open>vs\<close> the set \<open>visited\<close>;
  \<open>visits\<close> is its loop over a list of nodes.
\<close>

function (sequential) visit :: "intent_edge list \<Rightarrow> string list \<Rightarrow> string \<Rightarrow> string list \<times> string list \<Rightarrow>
    string list \<times> string list"
  and visits :: "intent_edge list \<Rightarrow> string list \<Rightarrow> string list \<Rightarrow> string list \<times> string list \<Rightarrow>
    string list \<times> string list" where
  "visit es ws i (vs, errs) =
     (if List.member ws i then (vs, errs @ [cycle_error])
      else if List.member vs i then (vs, errs)
      else if deps es i = [] then (i # vs, errs)
      else (case visits es (i # ws) (deps es i) (vs, errs) of (vs', errs') \<Rightarrow> (i # vs', errs')))"
| "visits es ws [] st = st"
| "visits es ws (i # is) st = visits es ws is (visit es ws i st)"
  by pat_completeness auto

text \<open>The path grows within the finitely many nodes of the edges, so the search ends.\<close>

termination
proof (relation "measures [\<lambda>x. case x of Inl (es, ws, i, st) \<Rightarrow> card (edge_ids es - set ws)
      | Inr (es, ws, is, st) \<Rightarrow> card (edge_ids es - set ws),
    \<lambda>x. case x of Inl (es, ws, i, st) \<Rightarrow> 0 | Inr (es, ws, is, st) \<Rightarrow> Suc (length is)]", goal_cases)
  case (2 es ws i vs errs)
  then have "edge_ids es - set (i # ws) \<subset> edge_ids es - set ws" using deps_ids [of es i] by auto
  then have "card (edge_ids es - set (i # ws)) < card (edge_ids es - set ws)"
    by (intro psubset_card_mono) auto
  then show ?case by simp
qed simp_all

fun uniq :: "string list \<Rightarrow> string list" where
  "uniq [] = []"
| "uniq (x # xs) = x # uniq (filter (\<lambda>y. y \<noteq> x) xs)"

definition node_ids :: "intent_graph \<Rightarrow> string list" where
  "node_ids g = map nd_id (gr_nodes g)"

definition unknown_edge :: "intent_graph \<Rightarrow> intent_edge \<Rightarrow> bool" where
  "unknown_edge g e \<longleftrightarrow> \<not> List.member (node_ids g) (ie_source e) \<or> \<not> List.member (node_ids g) (ie_target e)"

definition validate :: "intent_graph \<Rightarrow> bool \<times> string list" where
  "validate g =
     (let e1 = (if distinct (node_ids g) then [] else [''intent graph contains duplicate node ids'']);
          e2 = map (\<lambda>e. ''intent graph edge references unknown node'') (filter (unknown_edge g) (gr_edges g));
          errs = snd (visits (gr_edges g) [] (node_ids g) ([], e1 @ e2))
      in (errs = [], uniq errs))"

section \<open>The builder\<close>

record graph_builder =
  gb_id :: string
  gb_nodes :: "intent_node dict"
  gb_edges :: "intent_edge list"

definition new_builder :: "string \<Rightarrow> graph_builder" where
  "new_builder i = \<lparr> gb_id = i, gb_nodes = [], gb_edges = [] \<rparr>"

definition add_node :: "graph_builder \<Rightarrow> string \<Rightarrow> node_type \<Rightarrow> string \<Rightarrow> jdict \<Rightarrow> graph_builder res" where
  "add_node b i t label metadata = (if dget (gb_nodes b) i \<noteq> None
     then Inl (ValueError (''duplicate intent graph node: '' @ i))
     else Inr (b\<lparr>gb_nodes := dset (gb_nodes b) i
       \<lparr> nd_id = i, nd_type = t, nd_label = label, nd_metadata = metadata \<rparr>\<rparr>))"

definition add_action :: "hash \<Rightarrow> graph_builder \<Rightarrow> action_intent \<Rightarrow> string option \<Rightarrow> graph_builder res" where
  "add_action H b a label = add_node b (ai_intent_id a) ACTION
     (case label of None \<Rightarrow> ai_action_type a | Some l \<Rightarrow> if l = [] then ai_action_type a else l)
     [(''action_intent'', JObj (action_dict a)), (''context_digest'', JStr (context_digest H a))]"

definition link :: "graph_builder \<Rightarrow> string \<Rightarrow> relation \<Rightarrow> string \<Rightarrow> graph_builder res" where
  "link b source r target = (if dget (gb_nodes b) source = None \<or> dget (gb_nodes b) target = None
     then Inl (KeyError ''intent graph link references unknown node'')
     else Inr (b\<lparr>gb_edges := gb_edges b @ [\<lparr> ie_source = source, ie_relation = r, ie_target = target \<rparr>]\<rparr>))"

definition builder_graph :: "graph_builder \<Rightarrow> intent_graph" where
  "builder_graph b = \<lparr> gr_id = gb_id b, gr_nodes = map snd (gb_nodes b), gr_edges = gb_edges b,
     gr_version = 1 \<rparr>"

definition build :: "graph_builder \<Rightarrow> intent_graph res" where
  "build b = (case validate (builder_graph b) of (valid, errors) \<Rightarrow>
     if valid then Inr (builder_graph b)
     else Inl (ValueError (join ''; '' errors)))"

section \<open>What validation accepts\<close>

text \<open>The dependency relation of a graph: \<open>i\<close> depends on \<open>j\<close>.\<close>

definition dep_rel :: "intent_edge list \<Rightarrow> (string \<times> string) set" where
  "dep_rel es = {(i, j). j \<in> set (deps es i)}"

lemma dep_rel_code: "dep_rel es = (\<lambda>e. (ie_source e, ie_target e)) ` {e \<in> set es. ie_relation e = DEPENDS_ON}"
  by (auto simp: dep_rel_def deps_def)

text \<open>A list in which the dependencies of every node come after it, as the search collects \<open>visited\<close>.\<close>

fun ordered :: "intent_edge list \<Rightarrow> string list \<Rightarrow> bool" where
  "ordered es [] \<longleftrightarrow> True"
| "ordered es (i # is) \<longleftrightarrow> i \<notin> set is \<and> set (deps es i) \<subseteq> set is \<and> ordered es is"

lemma ordered_closed:
  assumes "ordered es is" and "i \<in> set is" and "(i, j) \<in> (dep_rel es)\<^sup>*"
  shows "j \<in> set is"
  using assms(3) assms(1,2)
proof (induction rule: rtrancl_induct)
  case (step j k)
  then have "j \<in> set is" and "k \<in> set (deps es j)" by (simp_all add: dep_rel_def)
  with \<open>ordered es is\<close> show ?case by (induction "is") auto
qed

lemma ordered_no_cycle: "ordered es is \<Longrightarrow> i \<in> set is \<Longrightarrow> (i, i) \<notin> (dep_rel es)\<^sup>+"
proof (induction "is")
  case (Cons x xs)
  show ?case
  proof (cases "i = x")
    case True
    show ?thesis
    proof
      assume "(i, i) \<in> (dep_rel es)\<^sup>+"
      then obtain j where "(i, j) \<in> dep_rel es" and "(j, i) \<in> (dep_rel es)\<^sup>*" by (blast dest: tranclD)
      moreover from this Cons.prems True have "j \<in> set xs" by (auto simp: dep_rel_def)
      ultimately show False using Cons.prems True ordered_closed [of es xs j i] by simp
    qed
  qed (use Cons in simp)
qed simp

text \<open>Errors are only added.\<close>

lemma visit_errors:
  "\<exists>ys. snd (visit es ws i st) = snd st @ ys"
  "\<exists>ys. snd (visits es ws is st) = snd st @ ys"
proof (induction es ws i st and es ws "is" st rule: visit_visits.induct)
  case (1 es ws i vs errs)
  then show ?case by (auto split: prod.splits)
next
  case (3 es ws i "is" st)
  from 3(1) obtain xs where "snd (visit es ws i st) = snd st @ xs" by blast
  moreover from 3(2) obtain ys
    where "snd (visits es ws is (visit es ws i st)) = snd (visit es ws i st) @ ys" by blast
  ultimately show ?case by simp
qed simp

lemma visits_quiet:
  assumes "snd (visits es ws (i # is) st) = snd st"
  shows "snd (visit es ws i st) = snd st"
    and "snd (visits es ws is (visit es ws i st)) = snd (visit es ws i st)"
proof -
  obtain xs where xs: "snd (visit es ws i st) = snd st @ xs" using visit_errors(1) by blast
  obtain ys where "snd (visits es ws is (visit es ws i st)) = snd (visit es ws i st) @ ys"
    using visit_errors(2) by blast
  with xs assms show "snd (visit es ws i st) = snd st"
    and "snd (visits es ws is (visit es ws i st)) = snd (visit es ws i st)" by auto
qed

text \<open>A search without error extends an ordered list, off the path, by the nodes asked for.\<close>

definition searched :: "intent_edge list \<Rightarrow> string list \<Rightarrow> string list \<Rightarrow> string list \<Rightarrow> bool" where
  "searched es ws vs vs' \<longleftrightarrow> ordered es vs' \<and> set ws \<inter> set vs' = {} \<and> set vs \<subseteq> set vs'"

lemma visit_sound:
  "snd (visit es ws i st) = snd st \<Longrightarrow> ordered es (fst st) \<Longrightarrow> set ws \<inter> set (fst st) = {} \<Longrightarrow>
     searched es ws (fst st) (fst (visit es ws i st)) \<and> i \<in> set (fst (visit es ws i st))"
  "snd (visits es ws is st) = snd st \<Longrightarrow> ordered es (fst st) \<Longrightarrow> set ws \<inter> set (fst st) = {} \<Longrightarrow>
     searched es ws (fst st) (fst (visits es ws is st)) \<and> set is \<subseteq> set (fst (visits es ws is st))"
proof (induction es ws i st and es ws "is" st rule: visit_visits.induct)
  case (1 es ws i vs errs)
  show ?case
  proof (cases "List.member ws i \<or> List.member vs i \<or> deps es i = []")
    case True
    with "1.prems" show ?thesis by (auto simp: searched_def split: if_splits)
  next
    case False
    obtain vs' errs' where v: "visits es (i # ws) (deps es i) (vs, errs) = (vs', errs')" by fastforce
    with False "1.prems" 1(1) have "searched es (i # ws) vs vs' \<and> set (deps es i) \<subseteq> set vs'"
      by auto
    with False v show ?thesis by (auto simp: searched_def)
  qed
next
  case (3 es ws i "is" st)
  note q = visits_quiet [OF "3.prems"(1)]
  from "3.IH"(1) [OF q(1)] "3.prems"
  have a: "searched es ws (fst st) (fst (visit es ws i st)) \<and> i \<in> set (fst (visit es ws i st))" by simp
  with "3.IH"(2) [OF q(2)]
  have "searched es ws (fst (visit es ws i st)) (fst (visits es ws is (visit es ws i st))) \<and>
      set is \<subseteq> set (fst (visits es ws is (visit es ws i st)))" by (auto simp: searched_def)
  with a show ?case by (auto simp: searched_def)
qed (auto simp: searched_def)

text \<open>In an acyclic graph the search meets no node of its own path.\<close>

definition reaches :: "intent_edge list \<Rightarrow> string list \<Rightarrow> string \<Rightarrow> bool" where
  "reaches es ws i \<longleftrightarrow> (\<forall>w \<in> set ws. (w, i) \<in> (dep_rel es)\<^sup>+)"

lemma visit_complete:
  "acyclic (dep_rel es) \<Longrightarrow> reaches es ws i \<Longrightarrow> snd (visit es ws i st) = snd st"
  "acyclic (dep_rel es) \<Longrightarrow> list_all (reaches es ws) is \<Longrightarrow> snd (visits es ws is st) = snd st"
proof (induction es ws i st and es ws "is" st rule: visit_visits.induct)
  case (1 es ws i vs errs)
  then have off: "\<not> List.member ws i" by (auto simp: reaches_def acyclic_def)
  have "reaches es (i # ws) d" if "d \<in> set (deps es i)" for d
    using that "1.prems"(2) by (auto simp: reaches_def dep_rel_def intro: trancl_into_trancl)
  then have "list_all (reaches es (i # ws)) (deps es i)" by (simp add: list_all_iff)
  with 1 off show ?case by (auto split: prod.splits)
qed auto

lemma visits_errors_are_cycles:
  "set (snd (visit es ws i st)) \<subseteq> insert cycle_error (set (snd st))"
  "set (snd (visits es ws is st)) \<subseteq> insert cycle_error (set (snd st))"
proof (induction es ws i st and es ws "is" st rule: visit_visits.induct)
  case (1 es ws i vs errs)
  then show ?case by (auto split: prod.splits)
next
  case (3 es ws i "is" st)
  then show ?case by (simp only: visits.simps) blast
qed auto

lemma visits_ok_iff:
  assumes "edge_ids es \<subseteq> set is"
  shows "snd (visits es [] is ([], errs)) = errs \<longleftrightarrow> acyclic (dep_rel es)"
proof
  assume "snd (visits es [] is ([], errs)) = errs"
  then have "searched es [] [] (fst (visits es [] is ([], errs))) \<and>
      set is \<subseteq> set (fst (visits es [] is ([], errs)))"
    using visit_sound(2) [of es "[]" "is" "([], errs)"] by simp
  then have o: "ordered es (fst (visits es [] is ([], errs)))"
    and sub: "set is \<subseteq> set (fst (visits es [] is ([], errs)))" by (auto simp: searched_def)
  show "acyclic (dep_rel es)"
    unfolding acyclic_def
  proof (intro allI notI)
    fix i assume c: "(i, i) \<in> (dep_rel es)\<^sup>+"
    then obtain j where "(i, j) \<in> dep_rel es" by (blast dest: tranclD)
    then have "i \<in> edge_ids es" by (auto simp: dep_rel_def deps_def edge_ids_def)
    with sub assms ordered_no_cycle [OF o] c show False by blast
  qed
next
  assume "acyclic (dep_rel es)"
  then show "snd (visits es [] is ([], errs)) = errs"
    using visit_complete(2) [of es "[]" "is" "([], errs)"] by (simp add: reaches_def list_all_iff)
qed

lemma known_edges: "filter (unknown_edge g) (gr_edges g) = [] \<longleftrightarrow> edge_ids (gr_edges g) \<subseteq> set (node_ids g)"
  by (auto simp: filter_empty_conv unknown_edge_def edge_ids_def)

lemma uniq_Nil [simp]: "uniq xs = [] \<longleftrightarrow> xs = []"
  by (cases xs) auto

lemma uniq_same: "set xs = {x} \<Longrightarrow> uniq xs = [x]"
  by (cases xs) (auto simp: filter_empty_conv)

text \<open>C25: \<open>IntentGraph.validate\<close> accepts a plan exactly when its node ids are distinct, its edges join known
  nodes and the dependency relation has no cycle of any length.\<close>

theorem validate_iff:
  "validate g = (True, []) \<longleftrightarrow>
     distinct (node_ids g) \<and> edge_ids (gr_edges g) \<subseteq> set (node_ids g) \<and> acyclic (dep_rel (gr_edges g))"
proof -
  define pre where "pre = (if distinct (node_ids g) then [] else [''intent graph contains duplicate node ids'']) @
    map (\<lambda>e. ''intent graph edge references unknown node'') (filter (unknown_edge g) (gr_edges g))"
  define errs where "errs = snd (visits (gr_edges g) [] (node_ids g) ([], pre))"
  have v: "validate g = (errs = [], uniq errs)" by (simp only: validate_def errs_def pre_def Let_def)
  have pre: "pre = [] \<longleftrightarrow> distinct (node_ids g) \<and> edge_ids (gr_edges g) \<subseteq> set (node_ids g)"
    by (simp add: pre_def known_edges)
  obtain ys where "errs = pre @ ys"
    using visit_errors(2) [of "gr_edges g" "[]" "node_ids g" "([], pre)"] by (auto simp: errs_def)
  then have "errs = [] \<longleftrightarrow> pre = [] \<and> errs = pre" by auto
  moreover have "edge_ids (gr_edges g) \<subseteq> set (node_ids g) \<Longrightarrow> errs = pre \<longleftrightarrow> acyclic (dep_rel (gr_edges g))"
    unfolding errs_def by (rule visits_ok_iff)
  ultimately show ?thesis using v pre by auto
qed

section \<open>What the builder builds\<close>

inductive built :: "hash \<Rightarrow> graph_builder \<Rightarrow> bool" for H where
  built_new: "built H (new_builder i)"
| built_node: "built H b \<Longrightarrow> add_node b i t label metadata = Inr b' \<Longrightarrow> built H b'"
| built_action: "built H b \<Longrightarrow> add_action H b a label' = Inr b' \<Longrightarrow> built H b'"
| built_link: "built H b \<Longrightarrow> link b source r target = Inr b' \<Longrightarrow> built H b'"

definition well_built :: "graph_builder \<Rightarrow> bool" where
  "well_built b \<longleftrightarrow> distinct (dkeys (gb_nodes b)) \<and> list_all (\<lambda>(k, n). nd_id n = k) (gb_nodes b) \<and>
     edge_ids (gb_edges b) \<subseteq> set (dkeys (gb_nodes b))"

lemma well_built_keys: "well_built b \<Longrightarrow> map (nd_id \<circ> snd) (gb_nodes b) = dkeys (gb_nodes b)"
  by (auto simp: well_built_def dkeys_def list_all_iff)

lemma dset_fresh: "k \<notin> set (dkeys d) \<Longrightarrow> dset d k v = d @ [(k, v)]"
  by (induction d) (auto simp: dkeys_def)

lemma add_node_well_built:
  "well_built b \<Longrightarrow> add_node b i t label metadata = Inr b' \<Longrightarrow> well_built b'"
  unfolding add_node_def dget_dkeys [symmetric]
  by (auto simp: well_built_def dset_fresh dkeys_def split: if_splits)

lemma link_well_built: "well_built b \<Longrightarrow> link b source r target = Inr b' \<Longrightarrow> well_built b'"
  using dget_dkeys [of source "gb_nodes b"] dget_dkeys [of target "gb_nodes b"]
  by (auto simp: well_built_def link_def edge_ids_def image_subset_iff split: if_splits)

lemma built_well: "built H b \<Longrightarrow> well_built b"
proof (induction rule: built.induct)
  case (built_action b a label' b')
  then show ?case by (auto simp: add_action_def intro: add_node_well_built)
qed (auto intro: add_node_well_built link_well_built,
  simp add: well_built_def new_builder_def edge_ids_def dkeys_def)

text \<open>C26: A plan put together with the builder is built exactly when its dependencies are acyclic, and is refused
  with the one message for a cycle otherwise: the builder's own checks leave nothing else to find.\<close>

theorem build_iff:
  assumes "built H b"
  shows "build b = (if acyclic (dep_rel (gb_edges b)) then Inr (builder_graph b)
     else Inl (ValueError cycle_error))"
proof -
  let ?es = "gb_edges b" and ?is = "map (nd_id \<circ> snd) (gb_nodes b)"
  let ?errs = "snd (visits ?es [] ?is ([], []))"
  from built_well [OF assms] have d: "distinct ?is" and sub: "edge_ids ?es \<subseteq> set ?is"
    using well_built_keys [OF built_well [OF assms]] by (auto simp: well_built_def)
  have "filter (unknown_edge (builder_graph b)) ?es = []"
    using known_edges [of "builder_graph b"] sub by (simp add: builder_graph_def node_ids_def)
  with d have v: "validate (builder_graph b) = (?errs = [], uniq ?errs)"
    by (simp add: validate_def builder_graph_def node_ids_def Let_def)
  have "set ?errs \<subseteq> {cycle_error}" using visits_errors_are_cycles(2) [of ?es "[]" ?is "([], [])"] by simp
  then have "?errs \<noteq> [] \<Longrightarrow> uniq ?errs = [cycle_error]" by (intro uniq_same) (cases ?errs; auto)
  with visits_ok_iff [OF sub, of "[]"] v show ?thesis by (auto simp: build_def)
qed

definition demo_node :: "string \<Rightarrow> string \<times> intent_node" where
  "demo_node i = (i, \<lparr> nd_id = i, nd_type = ACTION, nd_label = i, nd_metadata = [] \<rparr>)"

definition demo_dep :: "string \<Rightarrow> string \<Rightarrow> intent_edge" where
  "demo_dep i j = \<lparr> ie_source = i, ie_relation = DEPENDS_ON, ie_target = j \<rparr>"

definition demo_builder :: "intent_edge list \<Rightarrow> graph_builder" where
  "demo_builder es = \<lparr> gb_id = ''g'', gb_nodes = map demo_node [''a'', ''b''], gb_edges = es \<rparr>"

lemma demo_built: "built H (demo_builder [demo_dep ''a'' ''b'', demo_dep ''b'' ''a''])"
proof -
  have "built H \<lparr> gb_id = ''g'', gb_nodes = [demo_node ''a''], gb_edges = [] \<rparr>"
    by (rule built_node [OF built_new [of H "''g''"], of "''a''" ACTION "''a''" "[]"])
      (simp add: add_node_def new_builder_def demo_node_def)
  then have "built H (demo_builder [])"
    by (rule built_node [where i = "''b''" and t = ACTION and label = "''b''" and metadata = "[]"])
      (simp add: add_node_def demo_builder_def demo_node_def)
  then have "built H (demo_builder [demo_dep ''a'' ''b''])"
    by (rule built_link [where source = "''a''" and r = DEPENDS_ON and target = "''b''"])
      (simp add: link_def demo_builder_def demo_node_def demo_dep_def)
  then show ?thesis
    by (rule built_link [where source = "''b''" and r = DEPENDS_ON and target = "''a''"])
      (simp add: link_def demo_builder_def demo_node_def demo_dep_def)
qed

lemma demo_cyclic: "\<not> acyclic (dep_rel [demo_dep ''a'' ''b'', demo_dep ''b'' ''a''])"
proof -
  let ?r = "dep_rel [demo_dep ''a'' ''b'', demo_dep ''b'' ''a'']"
  have "(''a'', ''b'') \<in> ?r" "(''b'', ''a'') \<in> ?r"
    by (simp_all add: dep_rel_def deps_def demo_dep_def)
  then have "(''a'', ''a'') \<in> ?r\<^sup>+" by (meson r_into_trancl' trancl_into_trancl)
  then show ?thesis by (auto simp: acyclic_def)
qed

lemma build_iff_witness:
  "build (demo_builder [demo_dep ''a'' ''b'', demo_dep ''b'' ''a'']) = Inl (ValueError cycle_error)"
  using build_iff [OF demo_built] demo_cyclic by (simp add: demo_builder_def)

end
