(* ===== verification/Plan_Authority.thy ===== *)
theory Plan_Authority
  imports Intent_Graph Dynamic Text_Format
begin

text \<open>
  \<open>core/authority_protocol.py\<close> (the authority envelope, the request, the transition and the exact ceiling) and
  \<open>core/authority_intent_graph.py\<close> (which actions of a plan are within the current authority).
\<close>

section \<open>The authority protocol\<close>

datatype lifecycle_stage = IDENTIFY | PROPOSE | VERIFY | DECIDE | AUTHORIZE | ENFORCE | OBSERVE | PROVE | LEARN

definition stage_str :: "lifecycle_stage \<Rightarrow> string" where
  "stage_str s = (case s of IDENTIFY \<Rightarrow> ''IDENTIFY'' | PROPOSE \<Rightarrow> ''PROPOSE'' | VERIFY \<Rightarrow> ''VERIFY''
     | DECIDE \<Rightarrow> ''DECIDE'' | AUTHORIZE \<Rightarrow> ''AUTHORIZE'' | ENFORCE \<Rightarrow> ''ENFORCE'' | OBSERVE \<Rightarrow> ''OBSERVE''
     | PROVE \<Rightarrow> ''PROVE'' | LEARN \<Rightarrow> ''LEARN'')"

text \<open>Its \<open>AuthorityState\<close> has the names and values of the one of \<open>core/authority_state.py\<close>.\<close>

record authority =
  au_id :: string
  au_agent_id :: string
  au_identity_id :: string
  au_capability_id :: string
  au_capability_version :: int
  au_capability_sha256 :: string
  au_state :: authority_state
  au_multiplier :: xnum
  au_epoch :: int
  au_ledger_head_hash :: string
  au_effective_from :: num
  au_expires_at :: "num option"
  au_parent :: "string option"
  au_evidence :: "string list"
  au_metadata :: jdict

definition authority_dict :: "authority \<Rightarrow> jdict" where
  "authority_dict a = [
     (''authority_id'', JStr (au_id a)), (''agent_id'', JStr (au_agent_id a)),
     (''identity_id'', JStr (au_identity_id a)), (''capability_id'', JStr (au_capability_id a)),
     (''capability_version'', JInt (au_capability_version a)),
     (''capability_sha256'', JStr (au_capability_sha256 a)), (''state'', JStr (state_str (au_state a))),
     (''multiplier'', JFloat (au_multiplier a)), (''epoch'', JInt (au_epoch a)),
     (''ledger_head_hash'', JStr (au_ledger_head_hash a)), (''effective_from'', num_json (au_effective_from a)),
     (''expires_at'', opt_num (au_expires_at a)), (''parent_authority_id'', opt_str (au_parent a)),
     (''evidence_refs'', str_list (au_evidence a)), (''metadata'', JObj (au_metadata a))]"

text \<open>\<open>canonical_digest\<close> of the protocol is \<open>digest_json\<close>: the same separators, sorting and encoding.\<close>

definition authority_digest :: "hash \<Rightarrow> authority \<Rightarrow> string" where
  "authority_digest H a = digest_json H (JObj (authority_dict a))"

record authority_request =
  rq_intent_id :: string
  rq_agent_id :: string
  rq_identity_id :: string
  rq_requested_capability :: "string option"
  rq_parent_intent_id :: "string option"
  rq_stage :: lifecycle_stage
  rq_requested_at :: num
  rq_id :: string
  rq_metadata :: jdict

definition request_dict :: "authority_request \<Rightarrow> jdict" where
  "request_dict r = [
     (''request_id'', JStr (rq_id r)), (''intent_id'', JStr (rq_intent_id r)), (''agent_id'', JStr (rq_agent_id r)),
     (''identity_id'', JStr (rq_identity_id r)), (''requested_capability'', opt_str (rq_requested_capability r)),
     (''parent_intent_id'', opt_str (rq_parent_intent_id r)), (''lifecycle_stage'', JStr (stage_str (rq_stage r))),
     (''requested_at'', num_json (rq_requested_at r)), (''metadata'', JObj (rq_metadata r))]"

definition request_digest :: "hash \<Rightarrow> authority_request \<Rightarrow> string" where
  "request_digest H r = digest_json H (JObj (request_dict r))"

record authority_transition =
  tr_from :: authority_state
  tr_to :: authority_state
  tr_reason :: string
  tr_evidence :: "string list"
  tr_epoch :: int
  tr_occurred_at :: num

definition transition_dict :: "authority_transition \<Rightarrow> jdict" where
  "transition_dict t = [
     (''from_state'', JStr (state_str (tr_from t))), (''to_state'', JStr (state_str (tr_to t))),
     (''reason'', JStr (tr_reason t)), (''evidence_refs'', str_list (tr_evidence t)),
     (''epoch'', JInt (tr_epoch t)), (''occurred_at'', num_json (tr_occurred_at t))]"

subsection \<open>The exact ceiling\<close>

text \<open>\<open>Decimal(str(v))\<close> of a number or a text; None when the conversion fails.\<close>

definition ceiling_decimal :: "pynum + string \<Rightarrow> xnum option" where
  "ceiling_decimal v = (case v of
     Inl (PBool _) \<Rightarrow> None
   | Inl p \<Rightarrow> Some (to_decimal p)
   | Inr text \<Rightarrow> map_option dec_x (parse_decimal text))"

text \<open>The product is computed in the default context: rounded to 28 significant digits.\<close>

definition authority_ceiling_allows :: "pynum + string \<Rightarrow> pynum + string \<Rightarrow> pynum + string \<Rightarrow> bool" where
  "authority_ceiling_allows static_limit factor_arg requested_amount =
     (case (ceiling_decimal static_limit, ceiling_decimal factor_arg, ceiling_decimal requested_amount) of
       (Some (Fin limit), Some (Fin factor), Some (Fin requested)) \<Rightarrow>
         if limit < 0 \<or> factor < 0 \<or> factor > 1 \<or> requested < 0 then False
         else requested \<le> dec_mul limit factor
     | _ \<Rightarrow> False)"

section \<open>The actions of a plan\<close>

definition text_arg :: "jdict \<Rightarrow> string \<Rightarrow> string option \<Rightarrow> string res" where
  "text_arg d k fallback = (case dget d k of
     None \<Rightarrow> (case fallback of None \<Rightarrow> Inl (TypeError k) | Some s \<Rightarrow> Inr s)
   | Some (JStr s) \<Rightarrow> Inr s | Some _ \<Rightarrow> Inl (TypeError k))"

definition opt_text_arg :: "jdict \<Rightarrow> string \<Rightarrow> string option res" where
  "opt_text_arg d k = (case jget d k of JNull \<Rightarrow> Inr None | JStr s \<Rightarrow> Inr (Some s) | _ \<Rightarrow> Inl (TypeError k))"

definition obj_arg :: "jdict \<Rightarrow> string \<Rightarrow> jdict res" where
  "obj_arg d k = (case dget d k of None \<Rightarrow> Inr [] | Some (JObj v) \<Rightarrow> Inr v | Some _ \<Rightarrow> Inl (TypeError k))"

definition num_arg :: "jdict \<Rightarrow> string \<Rightarrow> num \<Rightarrow> num res" where
  "num_arg d k fallback = (case dget d k of None \<Rightarrow> Inr fallback | Some (JInt i) \<Rightarrow> Inr (NInt i)
     | Some (JFloat x) \<Rightarrow> Inr (NFlt x) | Some _ \<Rightarrow> Inl (TypeError k))"

text \<open>An amount that was a Decimal travels as text; a text that is not a number fails when it is converted.\<close>

definition amount_arg :: "jdict \<Rightarrow> pynum option res" where
  "amount_arg d = (case jget d ''amount'' of
     JNull \<Rightarrow> Inr None | JInt i \<Rightarrow> Inr (Some (PNum (NInt i))) | JFloat x \<Rightarrow> Inr (Some (PNum (NFlt x)))
   | JBool b \<Rightarrow> Inr (Some (PBool b))
   | JStr s \<Rightarrow> (case parse_decimal s of None \<Rightarrow> Inl InvalidOperation | Some v \<Rightarrow> Inr (Some (PDec v)))
   | _ \<Rightarrow> Inl (TypeError ''amount''))"

definition action_keys :: "string list" where
  "action_keys = [''agent_id'', ''action_type'', ''target'', ''resource'', ''amount'', ''amount_exact'', ''asset'',
     ''network'', ''purpose'', ''declared_context'', ''input_provenance'', ''parent_intent_id'',
     ''requested_capability'', ''constraints'', ''metadata'', ''intent_id'', ''timestamp'']"

text \<open>
  \<open>ActionIntent(**payload)\<close>: unknown and missing names are a TypeError.  A value of a type the
  annotations exclude is a TypeError here; Python would build the object and fail at its first use.
  \<open>uuid\<close> and \<open>now\<close> are the default id and timestamp.
\<close>

definition action_of_payload :: "string \<Rightarrow> num \<Rightarrow> jdict \<Rightarrow> action_intent res" where
  "action_of_payload uuid now d =
     (if \<not> list_all (List.member action_keys) (dkeys d) then Inl (TypeError ''unexpected keyword argument'')
      else bindE (text_arg d ''agent_id'' None) (\<lambda>agent. bindE (text_arg d ''action_type'' None) (\<lambda>ty.
       bindE (text_arg d ''target'' None) (\<lambda>target. bindE (text_arg d ''resource'' (Some [])) (\<lambda>resource.
       bindE (amount_arg d) (\<lambda>amount. bindE (opt_text_arg d ''amount_exact'') (\<lambda>exact.
       bindE (opt_text_arg d ''asset'') (\<lambda>asset. bindE (opt_text_arg d ''network'') (\<lambda>network.
       bindE (text_arg d ''purpose'' (Some [])) (\<lambda>purpose. bindE (obj_arg d ''declared_context'') (\<lambda>ctx.
       bindE (obj_arg d ''input_provenance'') (\<lambda>prov. bindE (opt_text_arg d ''parent_intent_id'') (\<lambda>parent.
       bindE (opt_text_arg d ''requested_capability'') (\<lambda>requested. bindE (obj_arg d ''constraints'') (\<lambda>cs.
       bindE (obj_arg d ''metadata'') (\<lambda>meta. bindE (text_arg d ''intent_id'' (Some uuid)) (\<lambda>iid.
       bindE (num_arg d ''timestamp'' now) (\<lambda>ts. Inr
         \<lparr> ai_agent_id = agent, ai_action_type = ty, ai_target = target, ai_resource = resource,
           ai_amount = amount, ai_amount_exact = exact, ai_asset = asset, ai_network = network,
           ai_purpose = purpose, ai_declared_context = ctx, ai_input_provenance = prov,
           ai_parent_intent_id = parent, ai_requested_capability = requested, ai_constraints = cs,
           ai_metadata = meta, ai_intent_id = iid, ai_timestamp = ts \<rparr>))))))))))))))))))"

section \<open>Assessments\<close>

datatype plan_status = ELIGIBLE | BLOCKED

definition status_str :: "plan_status \<Rightarrow> string" where
  "status_str s = (case s of ELIGIBLE \<Rightarrow> ''ELIGIBLE'' | BLOCKED \<Rightarrow> ''BLOCKED'')"

record assessment =
  aa_graph_id :: string
  aa_graph_digest :: string
  aa_node_id :: string
  aa_intent_id :: string
  aa_agent_id :: string
  aa_authority_digest :: string
  aa_capability_digest :: string
  aa_status :: plan_status
  aa_decision :: decision_kind
  aa_reason :: string
  aa_dependencies :: "(string \<times> plan_status) list"

definition assessment_dict :: "assessment \<Rightarrow> jdict" where
  "assessment_dict a = [
     (''graph_id'', JStr (aa_graph_id a)), (''graph_digest'', JStr (aa_graph_digest a)),
     (''node_id'', JStr (aa_node_id a)), (''intent_id'', JStr (aa_intent_id a)),
     (''agent_id'', JStr (aa_agent_id a)), (''authority_digest'', JStr (aa_authority_digest a)),
     (''capability_digest'', JStr (aa_capability_digest a)), (''status'', JStr (status_str (aa_status a))),
     (''decision'', JStr (decision_str (aa_decision a))), (''reason'', JStr (aa_reason a)),
     (''dependency_statuses'', JList (map (\<lambda>(i, s). JList [JStr i, JStr (status_str s)]) (aa_dependencies a)))]"

definition assessment_digest :: "hash \<Rightarrow> assessment \<Rightarrow> string" where
  "assessment_digest H a = digest_json H (JObj (assessment_dict a))"

text \<open>\<open>is_execution_authorization\<close>\<close>

definition is_execution_authorization :: "assessment \<Rightarrow> bool" where
  "is_execution_authorization a = False"

record plan =
  pl_graph :: intent_graph
  pl_authority :: authority
  pl_capability :: capability

definition new_plan :: "hash \<Rightarrow> intent_graph \<Rightarrow> authority \<Rightarrow> capability \<Rightarrow> plan res" where
  "new_plan H g a c =
     (if cap_agent_id c \<noteq> au_agent_id a then Inl (ValueError ''capability agent does not match authority agent'')
      else if cap_id c \<noteq> au_capability_id a then Inl (ValueError ''capability does not match authority'')
      else if cap_version c \<noteq> au_capability_version a
      then Inl (ValueError ''capability version does not match authority'')
      else if capability_digest H c \<noteq> au_capability_sha256 a
      then Inl (ValueError ''capability digest does not match authority'')
      else Inr \<lparr> pl_graph = g, pl_authority = a, pl_capability = c \<rparr>)"

definition assessed :: "hash \<Rightarrow> plan \<Rightarrow> string \<Rightarrow> action_intent \<Rightarrow> plan_status \<Rightarrow> string \<Rightarrow>
    (string \<times> plan_status) list \<Rightarrow> assessment" where
  "assessed H pl i a status reason statuses = \<lparr> aa_graph_id = gr_id (pl_graph pl),
     aa_graph_digest = graph_digest H (pl_graph pl), aa_node_id = i, aa_intent_id = ai_intent_id a,
     aa_agent_id = ai_agent_id a, aa_authority_digest = authority_digest H (pl_authority pl),
     aa_capability_digest = capability_digest H (pl_capability pl), aa_status = status,
     aa_decision = (if status = ELIGIBLE then ALLOW else BLOCK), aa_reason = reason,
     aa_dependencies = statuses \<rparr>"

text \<open>\<open>_action\<close>; \<open>ids i\<close> and \<open>born i\<close> are the defaults for the id and the timestamp of a payload without them.\<close>

definition plan_action :: "(string \<Rightarrow> string) \<Rightarrow> (string \<Rightarrow> num) \<Rightarrow> plan \<Rightarrow> string \<Rightarrow> action_intent res" where
  "plan_action ids born pl i = bindE (graph_node (pl_graph pl) i) (\<lambda>n.
     case jget (nd_metadata n) ''action_intent'' of
       JObj payload \<Rightarrow> action_of_payload (ids i) (born i) payload
     | _ \<Rightarrow> Inl (ValueError (''ACTION node '' @ quoted i @ '' has no ActionIntent payload'')))"

text \<open>The node, its type and its action.\<close>

definition node_action :: "(string \<Rightarrow> string) \<Rightarrow> (string \<Rightarrow> num) \<Rightarrow> plan \<Rightarrow> string \<Rightarrow> action_intent res" where
  "node_action ids born pl i = bindE (graph_node (pl_graph pl) i) (\<lambda>n.
     if nd_type n \<noteq> ACTION then Inl (ValueError ''authority assessment requires an ACTION node'')
     else plan_action ids born pl i)"

text \<open>The checks of the action itself: a reason against it, or None.\<close>

definition ceiling_refuses :: "plan \<Rightarrow> action_intent \<Rightarrow> bool res" where
  "ceiling_refuses pl a = bindE (exact_amount a) (\<lambda>requested. case requested of
     None \<Rightarrow> Inr False
   | Some v \<Rightarrow> (case dget (cap_max_per_action (pl_capability pl)) (asset_key a) of
       None \<Rightarrow> Inr False
     | Some static_limit \<Rightarrow> Inr (\<not> authority_ceiling_allows (Inl (PNum static_limit))
         (Inl (PNum (NFlt (au_multiplier (pl_authority pl))))) (Inl (PDec v)))))"

definition action_refusal :: "plan \<Rightarrow> num \<Rightarrow> action_intent \<Rightarrow> string option res" where
  "action_refusal pl now a =
     (if au_state (pl_authority pl) = SUSPENDED then Inr (Some ''authority is suspended'')
      else if ai_agent_id a \<noteq> au_agent_id (pl_authority pl)
      then Inr (Some ''action agent does not match authority'')
      else if (case ai_requested_capability a of None \<Rightarrow> False
          | Some c \<Rightarrow> c \<noteq> [] \<and> c \<noteq> au_capability_id (pl_authority pl))
      then Inr (Some ''requested capability does not match authority'')
      else bindE (permits (pl_capability pl) a now) (\<lambda>(permitted, reason).
        if \<not> permitted then Inr (Some reason)
        else bindE (ceiling_refuses pl a) (\<lambda>refuses.
          if refuses then Inr (Some ''action exceeds current dynamic authority ceiling'') else Inr None)))"

definition conclude :: "hash \<Rightarrow> plan \<Rightarrow> num \<Rightarrow> string \<Rightarrow> action_intent \<Rightarrow> (string \<times> plan_status) list \<Rightarrow>
    assessment res" where
  "conclude H pl now i a statuses = bindE (action_refusal pl now a) (\<lambda>refusal. case refusal of
     Some reason \<Rightarrow> Inr (assessed H pl i a BLOCKED reason statuses)
   | None \<Rightarrow> Inr (assessed H pl i a ELIGIBLE
       ''action is within current authority and dependencies are eligible'' statuses))"

text \<open>
  \<open>_assess\<close>, with \<open>ws\<close> the set \<open>visiting\<close>, and its loop over the dependencies, which stops at the first that
  is not eligible.  \<open>clk ws\<close> is the clock when the node at the end of the path \<open>ws\<close> is decided.
\<close>

function (sequential) assess :: "hash \<Rightarrow> (string list \<Rightarrow> num) \<Rightarrow> (string \<Rightarrow> action_intent res) \<Rightarrow> plan \<Rightarrow>
    string list \<Rightarrow> string \<Rightarrow> assessment res"
  and assess_deps :: "hash \<Rightarrow> (string list \<Rightarrow> num) \<Rightarrow> (string \<Rightarrow> action_intent res) \<Rightarrow> plan \<Rightarrow>
    string list \<Rightarrow> string list \<Rightarrow> (string \<times> plan_status) list \<Rightarrow>
    (string option \<times> (string \<times> plan_status) list) res" where
  "assess H clk acts pl ws i = (case acts i of
     Inl e \<Rightarrow> Inl e
   | Inr a \<Rightarrow>
     if List.member ws i then Inr (assessed H pl i a BLOCKED cycle_error [])
     else if dependencies_of (pl_graph pl) i = [] then conclude H pl (clk (i # ws)) i a []
     else (case assess_deps H clk acts pl (i # ws) (dependencies_of (pl_graph pl) i) [] of
       Inl e \<Rightarrow> Inl e
     | Inr (Some d, statuses) \<Rightarrow>
         Inr (assessed H pl i a BLOCKED (''dependency '' @ quoted d @ '' is not authority-eligible'') statuses)
     | Inr (None, statuses) \<Rightarrow> conclude H pl (clk (i # ws)) i a statuses))"
| "assess_deps H clk acts pl ws [] acc = Inr (None, acc)"
| "assess_deps H clk acts pl ws (d # ds) acc = (case assess H clk acts pl ws d of
     Inl e \<Rightarrow> Inl e
   | Inr x \<Rightarrow> if aa_status x \<noteq> ELIGIBLE then Inr (Some d, acc @ [(d, aa_status x)])
       else assess_deps H clk acts pl ws ds (acc @ [(d, aa_status x)]))"
  by pat_completeness auto

text \<open>As in the validation, the path grows within the finitely many nodes of the edges.\<close>

termination
proof (relation "measures [\<lambda>x. case x of
      Inl (H, clk, acts, pl, ws, i) \<Rightarrow> card (edge_ids (gr_edges (pl_graph pl)) - set ws)
    | Inr (H, clk, acts, pl, ws, is, acc) \<Rightarrow> card (edge_ids (gr_edges (pl_graph pl)) - set ws),
    \<lambda>x. case x of Inl _ \<Rightarrow> 0 | Inr (H, clk, acts, pl, ws, is, acc) \<Rightarrow> Suc (length is)]", goal_cases)
  case (2 H clk acts pl ws i a)
  let ?E = "edge_ids (gr_edges (pl_graph pl))"
  from 2 have "?E - set (i # ws) \<subset> ?E - set ws"
    using deps_ids [of "gr_edges (pl_graph pl)" i] by (auto simp: dependencies_of_def)
  then have "card (?E - set (i # ws)) < card (?E - set ws)" by (intro psubset_card_mono) auto
  then show ?case by simp
qed simp_all

declare assess.simps [simp del]

definition assess_node :: "hash \<Rightarrow> (string list \<Rightarrow> num) \<Rightarrow> (string \<Rightarrow> string) \<Rightarrow> (string \<Rightarrow> num) \<Rightarrow> plan \<Rightarrow> string \<Rightarrow>
    assessment res" where
  "assess_node H clk ids born pl i = assess H clk (node_action ids born pl) pl [] i"

fun assess_each :: "(string \<Rightarrow> assessment res) \<Rightarrow> string list \<Rightarrow> assessment list res" where
  "assess_each f [] = Inr []"
| "assess_each f (i # is) = bindE (f i) (\<lambda>x. bindE (assess_each f is) (\<lambda>xs. Inr (x # xs)))"

definition assess_all :: "hash \<Rightarrow> (string list \<Rightarrow> num) \<Rightarrow> (string \<Rightarrow> string) \<Rightarrow> (string \<Rightarrow> num) \<Rightarrow> plan \<Rightarrow>
    assessment list res" where
  "assess_all H clk ids born pl =
     assess_each (assess_node H clk ids born pl) (map nd_id (graph_actions (pl_graph pl)))"

section \<open>What an eligible assessment means\<close>

text \<open>The action of a node passes its own checks.\<close>

definition fits :: "(string \<Rightarrow> action_intent res) \<Rightarrow> plan \<Rightarrow> num \<Rightarrow> string \<Rightarrow> bool" where
  "fits acts pl now i \<longleftrightarrow> (\<exists>a. acts i = Inr a \<and> action_refusal pl now a = Inr None)"

definition eligible :: "assessment res \<Rightarrow> bool" where
  "eligible r \<longleftrightarrow> (\<exists>x. r = Inr x \<and> aa_status x = ELIGIBLE)"

lemma assessed_status [simp]: "aa_status (assessed H pl i a status reason statuses) = status"
  by (simp add: assessed_def)

lemma eligible_Inl [simp]: "\<not> eligible (Inl e)" by (simp add: eligible_def)

lemma eligible_Inr [simp]: "eligible (Inr x) \<longleftrightarrow> aa_status x = ELIGIBLE" by (simp add: eligible_def)

lemma eligible_conclude: "eligible (conclude H pl now i a statuses) \<longleftrightarrow> action_refusal pl now a = Inr None"
  by (auto simp: conclude_def eligible_def bindE_Inr_iff split: option.splits)

lemma assess_deps_eligible:
  "(\<exists>statuses. assess_deps H clk acts pl ws ds acc = Inr (None, statuses)) \<longleftrightarrow>
     (\<forall>d\<in>set ds. eligible (assess H clk acts pl ws d))"
  by (induction ds arbitrary: acc) (auto simp: eligible_def split: sum.splits)

lemma assess_eligible:
  "eligible (assess H clk acts pl ws i) \<longleftrightarrow> i \<notin> set ws \<and> fits acts pl (clk (i # ws)) i \<and>
     (\<forall>d\<in>set (dependencies_of (pl_graph pl) i). eligible (assess H clk acts pl (i # ws) d))"
proof (cases "acts i")
  case (Inr a)
  show ?thesis
  proof (cases "i \<in> set ws \<or> dependencies_of (pl_graph pl) i = []")
    case True
    with Inr show ?thesis by (auto simp: assess.simps [of H clk acts pl ws i] eligible_conclude fits_def)
  next
    case False
    note deps = assess_deps_eligible [of H clk acts pl "i # ws" "dependencies_of (pl_graph pl) i" "[]"]
    show ?thesis
      using Inr False deps
      by (auto simp: assess.simps [of H clk acts pl ws i] eligible_conclude fits_def split: sum.splits option.splits)
  qed
qed (simp add: assess.simps fits_def)

lemma assess_reachable:
  defines "R pl \<equiv> dep_rel (gr_edges (pl_graph pl))"
  shows "eligible (assess H (\<lambda>_. now) acts pl ws i) \<longleftrightarrow>
     (\<forall>j. (i, j) \<in> (R pl)\<^sup>* \<longrightarrow> fits acts pl now j \<and> j \<notin> set ws \<and> (j, j) \<notin> (R pl)\<^sup>+)"
proof (induction "card (edge_ids (gr_edges (pl_graph pl)) - set ws)" arbitrary: ws i rule: less_induct)
  case less
  let ?E = "edge_ids (gr_edges (pl_graph pl))" and ?R = "R pl"
  have step: "d \<in> set (dependencies_of (pl_graph pl) i) \<longleftrightarrow> (i, d) \<in> ?R" for d
    by (simp add: R_def dep_rel_def dependencies_of_def)
  have IH: "eligible (assess H (\<lambda>_. now) acts pl (i # ws) d) \<longleftrightarrow>
      (\<forall>j. (d, j) \<in> ?R\<^sup>* \<longrightarrow> fits acts pl now j \<and> j \<notin> set (i # ws) \<and> (j, j) \<notin> ?R\<^sup>+)"
    if "(i, d) \<in> ?R" "i \<notin> set ws" for d
  proof (rule less)
    have "i \<in> ?E" using that(1) deps_ids [of "gr_edges (pl_graph pl)" i] by (force simp: R_def dep_rel_def)
    then have "?E - set (i # ws) \<subset> ?E - set ws" using that(2) by auto
    then show "card (?E - set (i # ws)) < card (?E - set ws)" by (intro psubset_card_mono) auto
  qed
  have "eligible (assess H (\<lambda>_. now) acts pl ws i) \<longleftrightarrow> i \<notin> set ws \<and> fits acts pl now i \<and>
      (\<forall>d j. (i, d) \<in> ?R \<longrightarrow> (d, j) \<in> ?R\<^sup>* \<longrightarrow> fits acts pl now j \<and> j \<notin> set (i # ws) \<and> (j, j) \<notin> ?R\<^sup>+)"
    using IH unfolding assess_eligible [of H "\<lambda>_. now" acts pl ws i] by (simp only: Ball_def step) blast
  also have "\<dots> \<longleftrightarrow> (\<forall>j. (i, j) \<in> ?R\<^sup>* \<longrightarrow> fits acts pl now j \<and> j \<notin> set ws \<and> (j, j) \<notin> ?R\<^sup>+)" (is "?l \<longleftrightarrow> ?r")
  proof
    assume l: ?l
    have "(i, i) \<notin> ?R\<^sup>+" using l by (auto dest!: tranclD)
    with l show ?r by (metis converse_rtranclE insertI2 list.simps(15))
  next
    assume r: ?r
    then have "(i, i) \<notin> ?R\<^sup>+" by blast
    with r show ?l by (auto intro: converse_rtrancl_into_rtrancl rtrancl_into_trancl2)
  qed
  finally show ?case .
qed

section \<open>Properties\<close>

text \<open>C30: a plan action is assessed ELIGIBLE exactly when every action it depends on, directly or not, and itself,
  passes its own checks (state, agent, capability, scope and exact ceiling), and no dependency cycle is
  reachable from it; on any graph, validated or not, the assessment ends.\<close>

theorem plan_eligible_iff:
  "(\<exists>x. assess_node H (\<lambda>_. now) ids born pl i = Inr x \<and> aa_status x = ELIGIBLE) \<longleftrightarrow>
     {j. (i, j) \<in> (dep_rel (gr_edges (pl_graph pl)))\<^sup>*} \<subseteq>
     {j. fits (node_action ids born pl) pl now j \<and> (j, j) \<notin> (dep_rel (gr_edges (pl_graph pl)))\<^sup>+}"
  using assess_reachable [of H now "node_action ids born pl" pl "[]" i]
  by (auto simp: assess_node_def eligible_def)

section \<open>A plan carries the action it was given\<close>

text \<open>An amount that is not a Decimal is read back as it was; a Decimal travels as its text.\<close>

lemma plan_carries_action:
  assumes "\<forall>v. ai_amount a \<noteq> Some (PDec v)"
  shows "action_of_payload uuid now (action_dict a) = Inr a"
proof -
  consider "ai_amount a = None" | b where "ai_amount a = Some (PBool b)" | k where "ai_amount a = Some (PNum (NInt k))"
    | x where "ai_amount a = Some (PNum (NFlt x))"
    using assms by (metis not_None_eq num.exhaust pynum.exhaust)
  then have amount: "amount_arg (action_dict a) = Inr (ai_amount a)"
    by cases (simp_all add: amount_arg_def action_dict_def jget_def amount_json_def)
  have stamp: "num_arg (action_dict a) ''timestamp'' now = Inr (ai_timestamp a)"
    by (cases "ai_timestamp a") (simp_all add: num_arg_def action_dict_def)
  have opts: "opt_text_arg (action_dict a) ''amount_exact'' = Inr (ai_amount_exact a)"
    "opt_text_arg (action_dict a) ''asset'' = Inr (ai_asset a)"
    "opt_text_arg (action_dict a) ''network'' = Inr (ai_network a)"
    "opt_text_arg (action_dict a) ''parent_intent_id'' = Inr (ai_parent_intent_id a)"
    "opt_text_arg (action_dict a) ''requested_capability'' = Inr (ai_requested_capability a)"
    by (simp_all add: opt_text_arg_def action_dict_def jget_def opt_str_def split: option.splits)
  have keys: "list_all (List.member action_keys) (dkeys (action_dict a))"
    by (simp add: action_keys_def action_dict_def dkeys_def)
  show ?thesis
    unfolding action_of_payload_def amount opts stamp
    using keys by (simp add: text_arg_def obj_arg_def action_dict_def)
qed

end
