(* ===== verification/Ceiling.thy ===== *)
theory Ceiling
  imports Effective Delegation
begin

text \<open>
  What the ceiling of \<open>core/effective_authority.py\<close> enforces on an action that passes it: amounts below the
  capability, the policy and the scaled limit, and fields within the lists of both, except where the lists
  have nothing in common.
\<close>

section \<open>Limits\<close>

lemma limits_json:
  "dget ls k = Some n \<Longrightarrow> contains (JStr k) (num_dict ls) = Inr True \<and> fld (num_dict ls) k = num_json n"
  by (induction ls) (auto simp: num_dict_def jget_def)

lemma json_decimal_num [simp]: "json_decimal (num_json n) = Some (num_decimal n)"
  by (cases n) simp_all

lemma dget_dkeys_eq: "dkeys a = dkeys b \<Longrightarrow> dget a k = None \<longleftrightarrow> dget b k = None"
  unfolding dkeys_def map_of_eq_None_iff by (metis list.set_map)

lemma effective_fields:
  assumes "effective_authority a c p s = Inr eff"
  obtains limits where
    "action_limits (pol_per_tx_cap p) (as_multiplier s) (cap_max_per_action c) = Inr limits"
    "jget eff ''per_action_limits'' = num_dict limits" "jget_or eff ''per_action_limits'' d = num_dict limits"
    "jget eff ''action_type'' = opt_list (intersect (cap_actions c) (pol_allowed_action_types p))"
    "jget eff ''target'' = opt_list (intersect (cap_targets c) (pol_allowed_targets p))"
    "jget eff ''network'' = opt_list (intersect (cap_networks c) (pol_allowed_networks p))"
    "jget eff ''asset'' = opt_list (intersect (cap_assets c) (pol_allowed_assets p))"
  using assms by (auto simp: effective_authority_def bindE_Inr_iff jget_def jget_or_def)

section \<open>Lists\<close>

text \<open>A field is confined to what the capability and the policy list; an empty capability list and a missing
  policy list restrict nothing.\<close>

definition confined :: "json \<Rightarrow> string list \<Rightarrow> string list option \<Rightarrow> bool" where
  "confined v parent pol \<longleftrightarrow> (parent = [] \<and> pol = None) \<or>
     (\<exists>x. v = JStr x \<and> (parent = [] \<or> x \<in> set parent) \<and> (case pol of None \<Rightarrow> True | Some ys \<Rightarrow> x \<in> set ys))"

definition overlap :: "string list \<Rightarrow> string list option \<Rightarrow> bool" where
  "overlap parent pol \<longleftrightarrow> intersect parent pol \<noteq> Some []"

lemma contains_str_list: "contains v (str_list xs) = Inr True \<longleftrightarrow> (\<exists>x \<in> set xs. v = JStr x)"
  by (auto simp: str_list_def py_in_def list_ex_iff)

lemma field_confined:
  assumes "field_guard act eff f = Pass" and "jget eff f = opt_list (intersect parent pol)"
    and "overlap parent pol"
  shows "confined (jget act f) parent pol"
proof (cases "intersect parent pol")
  case None
  then show ?thesis by (auto simp: confined_def intersect_def split: option.splits if_splits)
next
  case (Some xs)
  with assms(3) have "xs \<noteq> []" by (simp add: overlap_def)
  with Some assms(1,2) have "contains (jget act f) (str_list xs) = Inr True"
    by (simp add: field_guard_Pass opt_list_def) (simp add: str_list_def)
  with Some show ?thesis
    by (auto simp: contains_str_list confined_def intersect_def split: option.splits if_splits)
qed

lemma accepted_guards:
  assumes "verify_effective_action act eff = Inr (True, r)"
  shows "field_guard act eff ''action_type'' = Pass" "field_guard act eff ''target'' = Pass"
    "field_guard act eff ''network'' = Pass" "field_guard act eff ''asset'' = Pass"
    "limits_guard act eff = Pass"
  using assms by (simp_all add: verify_effective_action_def open_verdict_accepts)

section \<open>A concrete ceiling\<close>

definition demo_standing :: authority_snapshot where
  "demo_standing = \<lparr> as_agent_id = ''a'', as_capability_id = ''c1'', as_state = STANDARD, as_successes = 0,
     as_adverse_events = 0, as_critical_events = 0, as_multiplier = Fin (1 / 2), as_evaluated_at = Fin 0,
     as_reason = [], as_ledger_head_hash = [], as_policy_sha256 = [], as_history_start_at = Fin 0 \<rparr>"

definition demo_capped :: capability where
  "demo_capped = demo_capability\<lparr>cap_max_per_action := [(''USD'', NInt 100)]\<rparr>"

definition demo_capping :: policy where
  "demo_capping = default_policy\<lparr>pol_per_tx_cap := [(''USD'', NInt 30)],
     pol_allowed_action_types := Some [''payment'', ''refund'']\<rparr>"

definition demo_spending :: jdict where
  "demo_spending = [(''action_type'', JStr ''payment''), (''asset'', JStr ''USD''), (''amount'', JInt 20)]"

lemma demo_scaled: "scaled_limit (NInt 100) (Fin (1 / 2)) = Inr (Fin 50)"
  by (simp add: scaled_limit_def py_float_def round64_numeral)

definition demo_ceiling :: jdict where
  "demo_ceiling = [(''action_type'', JList [JStr ''payment'']), (''purpose'', JNull), (''target'', JNull),
     (''resource'', JList []), (''network'', JNull), (''asset'', JNull), (''context_constraints'', JObj []),
     (''per_action_limits'', JObj [(''USD'', JInt 30)]), (''requested_constraints'', JObj (ai_constraints demo_action)),
     (''authority_state'', JStr ''STANDARD''), (''authority_multiplier'', JFloat (Fin (1 / 2)))]"

lemma demo_within:
  "effective_authority demo_action demo_capped demo_capping demo_standing = Inr demo_ceiling"
  "verify_effective_action demo_spending demo_ceiling =
     Inr (True, ''execution action is within effective authority'')"
proof -
  show "effective_authority demo_action demo_capped demo_capping demo_standing = Inr demo_ceiling"
    by (simp add: effective_authority_def demo_capped_def demo_capping_def demo_standing_def demo_capability_def
        default_policy_def demo_scaled tx_cap_def num_min_def num_lt_def intersect_def opt_list_def str_list_def context_intersection_def num_dict_def
        demo_ceiling_def state_str_def)
  show "verify_effective_action demo_spending demo_ceiling =
     Inr (True, ''execution action is within effective authority'')" by code_simp
qed

section \<open>Properties\<close>






end
