(* ===== verification/Authorization.thy ===== *)
theory Authorization
  imports Receipt_Safety Plan_Authority Ceiling
begin

text \<open>
  \<open>core/authorization.py\<close>: the service that turns a decision into a signed decision receipt and, for ALLOW,
  into a one-time execution authorization.  The registries are the ones of \<open>Registry\<close> on the same
  connection; their presence is a boolean argument.
\<close>

section \<open>The decision receipt\<close>

definition receipt_pair :: "signed_doc \<Rightarrow> signed_doc option \<Rightarrow> jdict" where
  "receipt_pair receipt execution = [(''decision_receipt'', JObj (signed_dict receipt)),
     (''execution_authorization'', case execution of None \<Rightarrow> JNull | Some d \<Rightarrow> JObj (signed_dict d))]"

definition same_subject :: "hash \<Rightarrow> action_intent \<Rightarrow> guardrail_decision \<Rightarrow> unit res" where
  "same_subject H a d =
     (if ai_intent_id a \<noteq> gd_intent_id d \<or> ai_agent_id a \<noteq> gd_agent_id d
      then Inl (ValueError ''action and decision identities do not match'')
      else if gd_context_digest d \<noteq> [] \<and> gd_context_digest d \<noteq> context_digest H a
      then Inl (ValueError ''action context does not match the authorized decision'')
      else Inr ())"

definition issue_decision_receipt :: "hash \<Rightarrow> crypto \<Rightarrow> string \<Rightarrow> action_intent \<Rightarrow> guardrail_decision \<Rightarrow> string \<Rightarrow>
    jdict option \<Rightarrow> jdict res" where
  "issue_decision_receipt H E key a d pdigest signed_policy =
     bindE (same_subject H a d) (\<lambda>_.
     bindE (sign_receipt H E key a d pdigest signed_policy) (\<lambda>receipt. Inr (receipt_pair receipt None)))"

section \<open>The arguments of an issue\<close>

record issue_args =
  is_nonce :: "string option"
  is_ttl :: json
  is_capability :: "capability option"
  is_capability_registry :: bool
  is_identity :: "agent_identity option"
  is_identity_registry :: bool
  is_authority :: "authority_snapshot option"
  is_authority_policy :: "authority_policy option"
  is_policy :: "policy option"
  is_signed_policy :: "jdict option"
  is_assessment :: "assessment option"

definition signed_policy_check :: "hash \<Rightarrow> jdict \<Rightarrow> string \<Rightarrow> policy option \<Rightarrow> unit res" where
  "signed_policy_check H sp pdigest p = (case jget sp ''payload'' of
     JObj payload \<Rightarrow> all_of [
       need (jget payload ''policy_sha256'' = JStr pdigest)
         (PermissionError ''signed policy version does not match policy digest''),
       need (case p of None \<Rightarrow> True | Some pol \<Rightarrow> jget payload ''policy_sha256'' = JStr (policy_digest H pol))
         (PermissionError ''signed policy version does not match supplied policy'')]
   | _ \<Rightarrow> Inl (PermissionError ''invalid signed policy version''))"

definition assessment_check :: "action_intent \<Rightarrow> assessment \<Rightarrow> unit res" where
  "assessment_check a x = all_of [
     need (aa_status x = ELIGIBLE) (PermissionError ''authority assessment is not execution-eligible''),
     need (\<not> is_execution_authorization x)
       (ValueError ''authority assessment cannot itself be execution authorization''),
     need (aa_intent_id x = ai_intent_id a \<and> aa_agent_id x = ai_agent_id a)
       (ValueError ''authority assessment does not match action'')]"

text \<open>\<open>isinstance(ttl, bool) or not isinstance(ttl, int)\<close>, the nonce, the policy and the assessment.\<close>

definition issue_checks :: "hash \<Rightarrow> action_intent \<Rightarrow> guardrail_decision \<Rightarrow> string \<Rightarrow> issue_args \<Rightarrow> unit res" where
  "issue_checks H a d pdigest x = all_of [
     same_subject H a d,
     need (is_int (is_ttl x)) (ValueError ''ttl_seconds must be an integer''),
     need (0 < int_val (is_ttl x)) (ValueError ''ttl_seconds must be positive''),
     need (int_val (is_ttl x) \<le> max_ttl) (PermissionError ''execution authorization ttl exceeds maximum''),
     need (case is_nonce x of None \<Rightarrow> True | Some n \<Rightarrow> n = ai_intent_id a)
       (PermissionError ''execution authorization nonce must equal intent_id''),
     need (case is_policy x of None \<Rightarrow> True | Some p \<Rightarrow> policy_digest H p = pdigest)
       (PermissionError ''supplied policy does not match policy digest''),
     (case is_signed_policy x of None \<Rightarrow> Inr () | Some sp \<Rightarrow> signed_policy_check H sp pdigest (is_policy x)),
     (case is_assessment x of None \<Rightarrow> Inr () | Some y \<Rightarrow> assessment_check a y)]"

section \<open>The capability, the identity and the authority\<close>

text \<open>
  The clock readings of one issue: 0 for the scope check, 1 for \<open>now\<close>, 2 for the identity registry, from
  3 on for the capability registry.
\<close>

definition current_capability :: "hash \<Rightarrow> (nat \<Rightarrow> xnum) \<Rightarrow> action_intent \<Rightarrow> bool \<Rightarrow> capability \<Rightarrow> capability st" where
  "current_capability H clk a registry c =
     (if ai_requested_capability a \<noteq> None \<and> ai_requested_capability a \<noteq> Some (cap_id c)
      then raiseS (PermissionError ''requested capability does not match supplied capability'')
      else bindS (if registry then bindS (capability_resolve (cap_id c) (\<lambda>i. clk (3 + i))) (\<lambda>resolved.
            if capability_digest H resolved \<noteq> capability_digest H c
            then raiseS (PermissionError ''supplied capability does not match registered capability'')
            else returnS resolved)
          else if cap_delegated_from c \<noteq> None
          then raiseS (PermissionError ''delegated capability requires registry-backed authority-chain verification'')
          else returnS c) (\<lambda>current.
        bindS (liftS (permits current a (NFlt (clk 0)))) (\<lambda>(permitted, reason).
        if \<not> permitted then raiseS (PermissionError reason) else returnS current)))"

text \<open>\<open>remaining = expires_at - now\<close>, a float subtraction.\<close>

definition expiry_check :: "string \<Rightarrow> num option \<Rightarrow> xnum \<Rightarrow> int \<Rightarrow> unit res" where
  "expiry_check what expires now ttl = (case expires of
     None \<Rightarrow> Inr ()
   | Some e \<Rightarrow> bindE (py_float (PNum e)) (\<lambda>f. let remaining = f_sub f now in all_of [
       need (\<not> x_le remaining (Fin 0))
         (PermissionError (what @ '' expires before execution authorization can be issued'')),
       need (\<not> x_lt remaining (Fin (of_int ttl)))
         (PermissionError (''execution authorization ttl exceeds '' @ what @ '' expiry''))]))"

definition current_identity :: "hash \<Rightarrow> (nat \<Rightarrow> xnum) \<Rightarrow> bool \<Rightarrow> agent_identity \<Rightarrow> agent_identity st" where
  "current_identity H clk registry i =
     (if \<not> registry then raiseS (PermissionError ''executable identity binding requires registry-backed verification'')
      else bindS (identity_resolve (id_key_id i) (clk 2)) (\<lambda>resolved.
        if identity_digest H resolved \<noteq> identity_digest H i
        then raiseS (PermissionError ''supplied identity does not match registered identity'')
        else returnS resolved))"

definition capability_bearer_check :: "capability option \<Rightarrow> agent_identity option \<Rightarrow> unit res" where
  "capability_bearer_check c i = (case Option.bind c cap_identity_id of
     None \<Rightarrow> Inr ()
   | Some own \<Rightarrow> need (map_option id_key_id i = Some own) (PermissionError ''capability identity mismatch''))"

definition authority_check :: "action_intent \<Rightarrow> capability \<Rightarrow> authority_policy option \<Rightarrow> authority_snapshot \<Rightarrow>
    unit res" where
  "authority_check a c ap s = all_of [
     need (as_agent_id s = ai_agent_id a) (PermissionError ''authority agent mismatch''),
     need (as_capability_id s = cap_id c) (PermissionError ''authority capability mismatch''),
     need (case ap of None \<Rightarrow> True | Some p \<Rightarrow> x_eq (as_multiplier s) (multiplier p (as_state s)))
       (PermissionError ''authority multiplier does not match authority state''),
     need (as_state s \<noteq> SUSPENDED \<and> \<not> x_le (as_multiplier s) (Fin 0))
       (PermissionError ''suspended authority cannot mint execution authorization'')]"

text \<open>The bearer of an issue: the capability, the identity, as resolved.\<close>

definition option_st :: "('b \<Rightarrow> 'b st) \<Rightarrow> 'b option \<Rightarrow> 'b option st" where
  "option_st f v = (case v of None \<Rightarrow> returnS None | Some x \<Rightarrow> bindS (f x) (\<lambda>y. returnS (Some y)))"

definition issue_bearer :: "hash \<Rightarrow> (nat \<Rightarrow> xnum) \<Rightarrow> action_intent \<Rightarrow> guardrail_decision \<Rightarrow> issue_args \<Rightarrow>
    (capability option \<times> agent_identity option) st" where
  "issue_bearer H clk a d x =
     bindS (option_st (current_capability H clk a (is_capability_registry x)) (is_capability x)) (\<lambda>c.
     bindS (liftS (all_of [
       need (case is_identity x of None \<Rightarrow> True | Some i \<Rightarrow> id_agent_id i = ai_agent_id a)
         (PermissionError ''identity agent mismatch''),
       expiry_check ''capability'' (Option.bind c cap_expires_at) (clk 1) (int_val (is_ttl x)),
       expiry_check ''identity'' (Option.bind (is_identity x) id_expires_at) (clk 1) (int_val (is_ttl x))])) (\<lambda>_.
     bindS (if gd_decision d = ALLOW then option_st (current_identity H clk (is_identity_registry x)) (is_identity x)
       else returnS (is_identity x)) (\<lambda>i.
     bindS (liftS (all_of [capability_bearer_check c i,
       (case (c, is_authority x) of (Some cap, Some s) \<Rightarrow> authority_check a cap (is_authority_policy x) s
        | _ \<Rightarrow> Inr ())])) (\<lambda>_. returnS (c, i)))))"

section \<open>Minting\<close>

text \<open>\<open>dict((action.metadata or {}).get("execution_graph") or {})\<close>: what is not a dictionary is refused.\<close>

definition declared_graph :: "action_intent \<Rightarrow> jdict res" where
  "declared_graph a = (let g = jget (ai_metadata a) ''execution_graph'' in
     if \<not> truthy g then Inr []
     else (case g of JObj d \<Rightarrow> Inr d
       | JStr s \<Rightarrow> Inl (ValueError ''dictionary update sequence'') | _ \<Rightarrow> Inl (TypeError ''not iterable'')))"

definition genesis_dict :: "hash \<Rightarrow> assessment \<Rightarrow> jdict" where
  "genesis_dict H y = [
     (''protocol'', JStr ''genesis-2.0''),
     (''intent_graph_digest'', JStr (aa_graph_digest y)),
     (''intent_graph_node_id'', JStr (aa_node_id y)),
     (''authority_assessment_digest'', JStr (assessment_digest H y)),
     (''authority_digest'', JStr (aa_authority_digest y)),
     (''capability_digest'', JStr (aa_capability_digest y))]"

definition mint_args :: "hash \<Rightarrow> capability \<Rightarrow> agent_identity option \<Rightarrow> authority_snapshot \<Rightarrow> policy \<Rightarrow> issue_args \<Rightarrow>
    jdict \<Rightarrow> jdict \<Rightarrow> jdict option \<Rightarrow> auth_args" where
  "mint_args H c i s p x effective graph requirement = \<lparr>
     ig_capability_id = Some (cap_id c), ig_capability_version = Some (cap_version c),
     ig_capability_sha256 = Some (capability_digest H c), ig_identity_id = map_option id_key_id i,
     ig_identity_sha256 = map_option (identity_digest H) i,
     ig_authority_state = Some (snapshot_dict s), ig_authority_state_sha256 = Some (snapshot_digest H s),
     ig_authority_multiplier = Some (as_multiplier s), ig_ledger_head = Some (as_ledger_head_hash s),
     ig_authority_policy_sha256 = Some (as_policy_sha256 s),
     ig_authority_policy = map_option authority_policy_dict (is_authority_policy x),
     ig_effective_authority = Some effective, ig_execution_graph = Some graph,
     ig_genesis_authority = map_option (genesis_dict H) (is_assessment x),
     ig_external_state_required = (pol_require_external_state p \<or> requirement \<noteq> None),
     ig_external_state_requirement = requirement \<rparr>"

definition mint :: "hash \<Rightarrow> crypto \<Rightarrow> string \<Rightarrow> int \<Rightarrow> action_intent \<Rightarrow> signed_doc \<Rightarrow> capability option \<Rightarrow>
    agent_identity option \<Rightarrow> issue_args \<Rightarrow> signed_doc res" where
  "mint H E key now a receipt c i x = (case (c, is_authority x, is_policy x) of
     (Some cap, Some s, Some p) \<Rightarrow>
       bindE (effective_authority a cap p s) (\<lambda>effective.
       bindE (declared_graph a) (\<lambda>graph.
       bindE (external_state_requirement_for_action (JList (pol_external_state_requirements p)) (action_dict a))
         (\<lambda>requirement.
       issue_execution_authorization H E key receipt (ai_intent_id a) (is_ttl x) now
         (mint_args H cap i s p x effective graph requirement))))
   | _ \<Rightarrow> Inl (PermissionError
       ''executable authorization requires capability, dynamic authority, and policy binding''))"

definition issue :: "hash \<Rightarrow> crypto \<Rightarrow> string \<Rightarrow> (nat \<Rightarrow> xnum) \<Rightarrow> int \<Rightarrow> action_intent \<Rightarrow> guardrail_decision \<Rightarrow> string \<Rightarrow>
    issue_args \<Rightarrow> (signed_doc \<times> signed_doc option) st" where
  "issue H E key clk now a d pdigest x =
     bindS (liftS (issue_checks H a d pdigest x)) (\<lambda>_.
     bindS (issue_bearer H clk a d x) (\<lambda>(c, i).
     bindS (liftS (sign_receipt H E key a d pdigest (is_signed_policy x))) (\<lambda>receipt.
     if gd_decision d \<noteq> ALLOW then returnS (receipt, None)
     else bindS (liftS (mint H E key now a receipt c i x)) (\<lambda>execution. returnS (receipt, Some execution)))))"

section \<open>What an issue has checked\<close>

lemma is_int_val: "is_int v \<Longrightarrow> v = JInt (int_val v)"
  by (cases v) (simp_all add: is_int_def)

lemma current_capability_Inr:
  assumes "current_capability H clk a registry c s = (s', Inr c')"
  shows "s' = s \<and> (\<exists>r. permits c' a (NFlt (clk 0)) = Inr (True, r)) \<and>
     capability_digest H c' = capability_digest H c \<and>
     (if registry then capability_resolve (cap_id c) (\<lambda>i. clk (3 + i)) s = (s, Inr c')
      else c' = c \<and> cap_delegated_from c = None)"
proof -
  have reads: "capability_resolve i k s = (t, v) \<Longrightarrow> t = s" for i k t and v :: "capability res"
    by (auto simp: capability_resolve_def storage_capability_def effective_active_def bindS_apply query_def
        split: option.splits sum.splits if_splits)
  then show ?thesis using assms
    by (auto simp: current_capability_def bindS_Inr_iff split: if_splits)
qed

lemma current_identity_Inr:
  assumes "current_identity H clk registry i s = (s', Inr i')"
  shows "s' = s \<and> registry \<and> identity_resolve (id_key_id i) (clk 2) s = (s, Inr i') \<and>
     identity_digest H i' = identity_digest H i"
proof -
  have reads: "identity_resolve k t s = (u, v) \<Longrightarrow> u = s" for k t u and v :: "agent_identity res"
    by (auto simp: identity_resolve_def storage_identity_def identity_is_active_def bindS_apply query_def
        split: option.splits sum.splits if_splits)
  then show ?thesis using assms
    by (auto simp: current_identity_def bindS_Inr_iff split: if_splits)
qed

lemma receipt_parts:
  assumes "sign_receipt H E key a d pdigest sp = Inr receipt"
  shows "dget (sd_payload receipt) ''intent'' = Some (JObj (action_dict a))"
    and "dget (sd_payload receipt) ''decision'' = Some (JObj (decision_dict d))"
    and "dget (sd_payload receipt) ''policy_sha256'' = Some (JStr pdigest)"
    and "dget (sd_payload receipt) ''signed_policy_version'' = Some (opt_obj sp)"
  using assms by (auto simp: sign_receipt_def receipt_payload_def Let_def bindE_Inr_iff split: option.splits)

lemma issued_payload:
  assumes "issue_execution_authorization H E key receipt nonce (JInt ttl) now g = Inr auth"
    and "dget (sd_payload receipt) ''intent'' = Some (JObj intent)"
  shows "\<exists>dec pd graph. auth = sign_doc E key (authorization_payload H receipt nonce ttl now g intent dec pd graph) \<and>
     dget intent ''intent_id'' = Some (JStr nonce) \<and>
     jindex (sd_payload receipt) ''policy_sha256'' = Inr pd \<and> normalize_execution_graph (opt_obj (ig_execution_graph g)) = Inr graph"
  using assms
  by (auto simp: issue_execution_authorization_def Let_def bindE_Inr_iff jindex_obj_def jindex_def
      split: if_splits option.splits json.splits)

lemma mint_Inr:
  assumes "mint H E key now a receipt c i x = Inr auth"
  shows "\<exists>cap sn p eff g req. c = Some cap \<and> is_authority x = Some sn \<and> is_policy x = Some p \<and>
     effective_authority a cap p sn = Inr eff \<and> declared_graph a = Inr g \<and>
     external_state_requirement_for_action (JList (pol_external_state_requirements p)) (action_dict a) = Inr req \<and>
     issue_execution_authorization H E key receipt (ai_intent_id a) (is_ttl x) now
       (mint_args H cap i sn p x eff g req) = Inr auth"
  using assms by (auto simp: mint_def bindE_Inr_iff split: option.splits)

text \<open>What a successful issue has established.\<close>

definition bearer_of :: "hash \<Rightarrow> (nat \<Rightarrow> xnum) \<Rightarrow> action_intent \<Rightarrow> issue_args \<Rightarrow> capability \<Rightarrow> agent_identity option \<Rightarrow>
    db conn \<Rightarrow> bool" where
  "bearer_of H clk a x c i s \<longleftrightarrow>
     (\<exists>r. permits c a (NFlt (clk 0)) = Inr (True, r)) \<and>
     (\<exists>c0. is_capability x = Some c0 \<and> capability_digest H c = capability_digest H c0 \<and>
       (if is_capability_registry x then capability_resolve (cap_id c0) (\<lambda>i. clk (3 + i)) s = (s, Inr c)
        else c = c0 \<and> cap_delegated_from c = None)) \<and>
     (case i of None \<Rightarrow> cap_identity_id c = None
      | Some j \<Rightarrow> cap_identity_id c \<in> {None, Some (id_key_id j)} \<and>
          (\<exists>k. identity_resolve k (clk 2) s = (s, Inr j)))"

definition standing :: "action_intent \<Rightarrow> issue_args \<Rightarrow> capability \<Rightarrow> authority_snapshot \<Rightarrow> bool" where
  "standing a x c sn \<longleftrightarrow> as_agent_id sn = ai_agent_id a \<and> as_capability_id sn = cap_id c \<and>
     as_state sn \<noteq> SUSPENDED \<and> \<not> x_le (as_multiplier sn) (Fin 0) \<and>
     (case is_authority_policy x of None \<Rightarrow> True | Some p \<Rightarrow> x_eq (as_multiplier sn) (multiplier p (as_state sn)))"

lemma issue_bearer_Inr:
  assumes "issue_bearer H clk a d x s = (s', Inr (Some c, i))" and "gd_decision d = ALLOW"
  shows "s' = s \<and> bearer_of H clk a x c i s \<and> (\<forall>sn. is_authority x = Some sn \<longrightarrow> standing a x c sn)"
proof -
  obtain s1 ci where c: "option_st (current_capability H clk a (is_capability_registry x)) (is_capability x) s = (s1, Inr ci)"
    and rest: "bindS (option_st (current_identity H clk (is_identity_registry x)) (is_identity x)) (\<lambda>i.
       bindS (liftS (all_of [capability_bearer_check ci i,
         (case (ci, is_authority x) of (Some cap, Some s) \<Rightarrow> authority_check a cap (is_authority_policy x) s
          | _ \<Rightarrow> Inr ())])) (\<lambda>_. returnS (ci, i))) s1 = (s', Inr (Some c, i))"
    using assms by (auto simp: issue_bearer_def bindS_Inr_iff)
  from rest have ci: "ci = Some c" by (auto simp: bindS_Inr_iff)
  with c obtain c0 where c0: "is_capability x = Some c0" "current_capability H clk a (is_capability_registry x) c0 s = (s1, Inr c)"
    by (auto simp: option_st_def bindS_Inr_iff split: option.splits)
  note cap = current_capability_Inr [OF c0(2)]
  from rest ci obtain s2 where i: "option_st (current_identity H clk (is_identity_registry x)) (is_identity x) s1 = (s2, Inr i)"
    and chk: "capability_bearer_check (Some c) i = Inr ()" "s' = s2"
      "case is_authority x of None \<Rightarrow> True | Some sn \<Rightarrow> authority_check a c (is_authority_policy x) sn = Inr ()"
    by (auto simp: bindS_Inr_iff all_of_Inr split: option.splits)
  have id: "s2 = s1 \<and> (case i of None \<Rightarrow> True | Some j \<Rightarrow> (\<exists>k. identity_resolve k (clk 2) s1 = (s1, Inr j)))"
    using i by (auto simp: option_st_def bindS_Inr_iff dest!: current_identity_Inr split: option.splits)
  have "bearer_of H clk a x c i s"
    using cap c0(1) id chk(1)
    by (auto simp: bearer_of_def capability_bearer_check_def split: option.splits)
  moreover have "standing a x c sn" if "is_authority x = Some sn" for sn
    using chk(3) that by (simp add: authority_check_def all_of_Inr standing_def)
  ultimately show ?thesis using cap id chk(2) by simp
qed

section \<open>What an issue establishes\<close>

lemma issue_established:
  assumes "issue H E key clk now a d pdigest x s = (s', Inr (receipt, Some auth))"
  shows "s' = s \<and> same_subject H a d = Inr () \<and> gd_decision d = ALLOW \<and>
     (case is_assessment x of None \<Rightarrow> True | Some y \<Rightarrow> aa_status y = ELIGIBLE \<and> aa_intent_id y = ai_intent_id a) \<and>
     (\<exists>c i sn p eff ttl. is_authority x = Some sn \<and> is_policy x = Some p \<and> policy_digest H p = pdigest \<and>
        is_ttl x = JInt ttl \<and> 0 < ttl \<and> ttl \<le> 300 \<and> bearer_of H clk a x c i s \<and> standing a x c sn \<and>
        effective_authority a c p sn = Inr eff \<and>
        (let P = sd_payload auth in jget P ''action'' = JObj (action_dict a) \<and> jget P ''nonce'' = JStr (ai_intent_id a) \<and>
           jget P ''capability_sha256'' = JStr (capability_digest H c) \<and>
           jget P ''identity_sha256'' = opt_str (map_option (identity_digest H) i) \<and>
           jget P ''authority_state_sha256'' = JStr (snapshot_digest H sn) \<and>
           jget P ''effective_authority'' = JObj eff \<and> jget P ''policy_sha256'' = JStr pdigest \<and>
           jget P ''issued_at'' = JInt now \<and> jget P ''expires_at'' = JInt (now + ttl)))"
proof -
  have checks: "issue_checks H a d pdigest x = Inr ()"
    using assms by (auto simp: issue_def bindS_Inr_iff)
  obtain s1 c i where b: "issue_bearer H clk a d x s = (s1, Inr (c, i))" and allow: "gd_decision d = ALLOW"
    and r: "sign_receipt H E key a d pdigest (is_signed_policy x) = Inr receipt" "s' = s1"
    and m: "mint H E key now a receipt c i x = Inr auth"
    using assms by (auto simp: issue_def bindS_Inr_iff split: if_splits)
  obtain cap sn p eff g req where mm: "c = Some cap" "is_authority x = Some sn" "is_policy x = Some p"
     "effective_authority a cap p sn = Inr eff"
     "issue_execution_authorization H E key receipt (ai_intent_id a) (is_ttl x) now
       (mint_args H cap i sn p x eff g req) = Inr auth"
    using mint_Inr [OF m] by blast
  note bearer = issue_bearer_Inr [OF b [unfolded mm(1)] allow]
  have k: "same_subject H a d = Inr ()" "is_int (is_ttl x)" "0 < int_val (is_ttl x)" "int_val (is_ttl x) \<le> max_ttl"
    "policy_digest H p = pdigest"
    "case is_assessment x of None \<Rightarrow> True | Some y \<Rightarrow> aa_status y = ELIGIBLE \<and> aa_intent_id y = ai_intent_id a"
    using checks mm(3) by (auto simp: issue_checks_def assessment_check_def all_of_Inr split: option.splits)
  let ?ttl = "int_val (is_ttl x)"
  have ttl: "is_ttl x = JInt ?ttl" using k(2) by (rule is_int_val)
  obtain dec pd graph where au: "auth = sign_doc E key (authorization_payload H receipt (ai_intent_id a) ?ttl now
      (mint_args H cap i sn p x eff g req) (action_dict a) dec pd graph)"
    "jindex (sd_payload receipt) ''policy_sha256'' = Inr pd"
    using issued_payload [OF _ receipt_parts(1) [OF r(1)]] mm(5) ttl by metis
  have "pd = JStr pdigest" using au(2) receipt_parts(3) [OF r(1)] by (simp add: jindex_def)
  with au(1) have payload: "let P = sd_payload auth in jget P ''action'' = JObj (action_dict a) \<and>
      jget P ''nonce'' = JStr (ai_intent_id a) \<and> jget P ''capability_sha256'' = JStr (capability_digest H cap) \<and>
      jget P ''identity_sha256'' = opt_str (map_option (identity_digest H) i) \<and>
      jget P ''authority_state_sha256'' = JStr (snapshot_digest H sn) \<and>
      jget P ''effective_authority'' = JObj eff \<and> jget P ''policy_sha256'' = JStr pdigest \<and>
      jget P ''issued_at'' = JInt now \<and> jget P ''expires_at'' = JInt (now + ?ttl)"
    by (simp add: Let_def auth_fields mint_args_def opt_str_def opt_obj_def)
  have "s' = s" "bearer_of H clk a x cap i s" "standing a x cap sn" using bearer mm(2) r(2) by simp_all
  moreover have "?ttl \<le> 300" using k(4) by (simp add: max_ttl_def)
  ultimately show ?thesis using k allow mm ttl payload by blast
qed

section \<open>A concrete issue\<close>

definition demo_request :: action_intent where
  "demo_request = demo_action\<lparr>ai_agent_id := ''a''\<rparr>"

definition demo_allow :: guardrail_decision where
  "demo_allow = \<lparr> gd_intent_id = ai_intent_id demo_request, gd_agent_id = ''a'', gd_decision = ALLOW,
     gd_matched_rules = [], gd_context_digest = [], gd_evaluated_at = NInt 0 \<rparr>"

definition demo_issue :: issue_args where
  "demo_issue = \<lparr> is_nonce = None, is_ttl = JInt 300, is_capability = Some demo_capability,
     is_capability_registry = False, is_identity = None, is_identity_registry = False,
     is_authority = Some demo_standing, is_authority_policy = None, is_policy = Some default_policy,
     is_signed_policy = None, is_assessment = None \<rparr>"

lemma demo_issue_checks: "issue_checks zero_hash demo_request demo_allow (policy_digest zero_hash default_policy) demo_issue = Inr ()"
  by (simp add: issue_checks_def all_of_Inr demo_issue_def same_subject_def demo_allow_def is_int_def max_ttl_def
      demo_request_def)

lemma demo_capability_fields:
  "cap_expires_at demo_capability = None" "cap_identity_id demo_capability = None" "cap_delegated_from demo_capability = None"
  "cap_id demo_capability = ''c1''" "ai_requested_capability demo_request = None" "ai_agent_id demo_request = ''a''"
  by (simp_all add: demo_capability_def demo_request_def demo_action_def as_action_intent_def)

lemma demo_issue_bearer:
  "issue_bearer zero_hash (\<lambda>_. Fin 0) demo_request demo_allow demo_issue fresh = (fresh, Inr (Some demo_capability, None))"
proof -
  have "permits demo_capability demo_request (NFlt (Fin 0)) = Inr (True, ''capability permits action'')"
    by (simp add: permits_def demo_capability_def demo_request_def demo_action_def as_action_intent_def demo_payment_def
        lower_mem_iff)
  then have "current_capability zero_hash (\<lambda>_. Fin 0) demo_request False demo_capability fresh = (fresh, Inr demo_capability)"
    by (simp add: current_capability_def demo_capability_fields bindS_apply)
  then show ?thesis
    by (simp add: issue_bearer_def option_st_def demo_issue_def demo_allow_def bindS_apply demo_capability_fields
        expiry_check_def capability_bearer_check_def authority_check_def demo_standing_def all_of.simps need_def)
qed

lemma demo_mint:
  assumes r: "sign_receipt zero_hash demo_crypto ''k'' demo_request demo_allow pd sp = Inr receipt"
    and x: "is_authority x = Some sn" "is_policy x = Some default_policy" "is_ttl x = JInt 300"
  shows "\<exists>auth. mint zero_hash demo_crypto ''k'' 1000 demo_request receipt (Some demo_capability) None x = Inr auth \<and>
     (\<exists>i. dget (sd_payload auth) ''authorization_id'' = Some (JStr i))"
proof -
  have ea: "\<exists>eff. effective_authority demo_request demo_capability default_policy sn = Inr eff"
    by (simp add: effective_authority_def demo_capability_def)
  have meta: "declared_graph demo_request = Inr []"
    by (simp add: declared_graph_def demo_request_def demo_action_def as_action_intent_def demo_payment_def jget_def)
  have ext: "external_state_requirement_for_action (JList (pol_external_state_requirements default_policy))
      (action_dict demo_request) = Inr None"
    by (simp add: external_state_requirement_for_action_def default_policy_def Let_def)
  show ?thesis
    using ea meta ext receipt_parts [OF r] x
    by (auto simp: mint_def issue_execution_authorization_def Let_def jindex_obj_def jindex_def
        decision_dict_def demo_allow_def decision_str_def is_int_def max_ttl_def mint_args_def opt_obj_def
        normalize_execution_graph_def action_dict_def sign_doc_def authorization_payload_def)
qed

lemma demo_receipt:
  "(\<And>v. sp = Some v \<Longrightarrow> \<exists>p. jindex v ''payload'' = Inr p) \<Longrightarrow>
     \<exists>r. sign_receipt zero_hash demo_crypto ''k'' demo_request demo_allow pd sp = Inr r"
  by (cases sp) (auto simp: sign_receipt_def receipt_payload_def Let_def)

lemma demo_minted:
  "\<exists>receipt auth. issue zero_hash demo_crypto ''k'' (\<lambda>_. Fin 0) 1000 demo_request demo_allow
     (policy_digest zero_hash default_policy) demo_issue fresh = (fresh, Inr (receipt, Some auth))"
proof -
  have x: "is_signed_policy demo_issue = None" "is_authority demo_issue = Some demo_standing"
    "is_policy demo_issue = Some default_policy" "is_ttl demo_issue = JInt 300"
    by (simp_all add: demo_issue_def)
  obtain receipt where r: "sign_receipt zero_hash demo_crypto ''k'' demo_request demo_allow
      (policy_digest zero_hash default_policy) None = Inr receipt"
    using demo_receipt [of None] by auto
  from demo_mint [OF r x(2-4)] demo_issue_checks demo_issue_bearer r show ?thesis
    by (auto simp: issue_def bindS_apply x) (simp add: demo_allow_def)
qed

section \<open>Property\<close>

text \<open>C31: an execution authorization is issued only for an ALLOW decision about the very action, under the very
  policy; its capability permits the action (and with a registry is the registered capability, active along its
  whole chain), its identity is the registered one, the authority is not suspended, the assessment of the plan
  was ELIGIBLE, the lifetime is at most 300 seconds; and the signed payload binds exactly these.\<close>

theorem issue_safe:
  assumes "issue H E key clk now a d pdigest x s = (s', Inr (receipt, Some auth))"
  shows "s' = s \<and> same_subject H a d = Inr () \<and> gd_decision d = ALLOW \<and>
     (case is_assessment x of None \<Rightarrow> True | Some y \<Rightarrow> aa_status y = ELIGIBLE \<and> aa_intent_id y = ai_intent_id a) \<and>
     (\<exists>c i sn p eff ttl. is_authority x = Some sn \<and> is_policy x = Some p \<and> policy_digest H p = pdigest \<and>
        is_ttl x = JInt ttl \<and> 0 < ttl \<and> ttl \<le> 300 \<and> bearer_of H clk a x c i s \<and> standing a x c sn \<and>
        effective_authority a c p sn = Inr eff \<and>
        (let P = sd_payload auth in jget P ''action'' = JObj (action_dict a) \<and> jget P ''nonce'' = JStr (ai_intent_id a) \<and>
           jget P ''capability_sha256'' = JStr (capability_digest H c) \<and>
           jget P ''identity_sha256'' = opt_str (map_option (identity_digest H) i) \<and>
           jget P ''authority_state_sha256'' = JStr (snapshot_digest H sn) \<and>
           jget P ''effective_authority'' = JObj eff \<and> jget P ''policy_sha256'' = JStr pdigest \<and>
           jget P ''issued_at'' = JInt now \<and> jget P ''expires_at'' = JInt (now + ttl)))"
  by (rule issue_established [OF assms])

theorem issue_safe_witness:
  "\<exists>receipt auth. issue zero_hash demo_crypto ''k'' (\<lambda>_. Fin 0) 1000 demo_request demo_allow
       (policy_digest zero_hash default_policy) demo_issue fresh = (fresh, Inr (receipt, Some auth)) \<and>
     jget (sd_payload auth) ''nonce'' = JStr (ai_intent_id demo_request) \<and>
     jget (sd_payload auth) ''action'' = JObj (action_dict demo_request)"
proof -
  obtain receipt auth where "issue zero_hash demo_crypto ''k'' (\<lambda>_. Fin 0) 1000 demo_request demo_allow
     (policy_digest zero_hash default_policy) demo_issue fresh = (fresh, Inr (receipt, Some auth))"
    using demo_minted by blast
  with issue_safe [OF this] show ?thesis by (auto simp: Let_def)
qed

end
