(* ===== verification/Governance.thy ===== *)
theory Governance
  imports Policy_Version Dynamic Registry
begin

text \<open>
  \<open>core/governance.py\<close>: signed authority resets, governance policies and members, multi-party actions and
  approvals, the quorum, and the two services that end a suspension.  A public key is its raw bytes.
\<close>

section \<open>Numbers of a parsed document\<close>

text \<open>\<open>isinstance(v, (int, float)) and not isinstance(v, bool)\<close>\<close>

definition json_num :: "json \<Rightarrow> num option" where
  "json_num v = (case v of JInt i \<Rightarrow> Some (NInt i) | JFloat x \<Rightarrow> Some (NFlt x) | _ \<Rightarrow> None)"

definition num_of :: "json \<Rightarrow> num" where
  "num_of v = (case json_num v of None \<Rightarrow> NInt 0 | Some n \<Rightarrow> n)"

text \<open>\<open>a - b\<close>: exact for two ints, a float otherwise.\<close>

definition num_sub :: "num \<Rightarrow> num \<Rightarrow> num res" where
  "num_sub a b = (case (a, b) of
     (NInt i, NInt j) \<Rightarrow> Inr (NInt (i - j))
   | _ \<Rightarrow> bindE (py_float (PNum a)) (\<lambda>x. bindE (py_float (PNum b)) (\<lambda>y. Inr (NFlt (f_sub x y)))))"

definition num_add :: "num \<Rightarrow> num \<Rightarrow> num res" where
  "num_add a b = (case (a, b) of
     (NInt i, NInt j) \<Rightarrow> Inr (NInt (i + j))
   | _ \<Rightarrow> bindE (py_float (PNum a)) (\<lambda>x. bindE (py_float (PNum b)) (\<lambda>y. Inr (NFlt (f_add x y)))))"

text \<open>\<open>a <= b\<close> of two values of a stored document\<close>

definition json_le :: "json \<Rightarrow> json \<Rightarrow> bool res" where
  "json_le a b = (case (num_value a, num_value b) of (Some x, Some y) \<Rightarrow> Inr (x_le x y)
     | _ \<Rightarrow> (case (a, b) of (JStr s, JStr t) \<Rightarrow> Inr (s \<le> t) | _ \<Rightarrow> Inl (TypeError ''<='')))"

text \<open>\<open>v + 1\<close>\<close>

definition json_succ :: "json \<Rightarrow> json res" where
  "json_succ v = (case v of JInt i \<Rightarrow> Inr (JInt (i + 1)) | JBool b \<Rightarrow> Inr (JInt (if b then 2 else 1))
     | JFloat x \<Rightarrow> Inr (JFloat (f_add x (Fin 1))) | _ \<Rightarrow> Inl (TypeError ''+''))"

definition empty_text :: "json \<Rightarrow> bool" where
  "empty_text v \<longleftrightarrow> \<not> is_str v \<or> str_val v = []"

section \<open>A reset signed by one governor\<close>

record authority_reset =
  ar_id :: string
  ar_agent_id :: string
  ar_capability_id :: string
  ar_governor_id :: string
  ar_epoch :: int
  ar_reason :: string
  ar_issued_at :: num
  ar_nonce :: string

definition reset_dict :: "authority_reset \<Rightarrow> jdict" where
  "reset_dict r = [
     (''governance_version'', JInt 1), (''action'', JStr ''AUTHORITY_RESET''), (''reset_id'', JStr (ar_id r)),
     (''agent_id'', JStr (ar_agent_id r)), (''capability_id'', JStr (ar_capability_id r)),
     (''governor_id'', JStr (ar_governor_id r)), (''epoch'', JInt (ar_epoch r)), (''reason'', JStr (ar_reason r)),
     (''issued_at'', num_json (ar_issued_at r)), (''nonce'', JStr (ar_nonce r))]"

definition governor_id :: "hash \<Rightarrow> string \<Rightarrow> string" where
  "governor_id H raw_key = H raw_key"

definition sign_authority_reset :: "crypto \<Rightarrow> string \<Rightarrow> authority_reset \<Rightarrow> signed_doc" where
  "sign_authority_reset E key r = sign_doc E key (reset_dict r)"

definition reset_text_fields :: "string list" where
  "reset_text_fields = [''reset_id'', ''agent_id'', ''capability_id'', ''governor_id'', ''reason'', ''nonce'']"

definition reset_guards :: "hash \<Rightarrow> crypto \<Rightarrow> string \<Rightarrow> xnum \<Rightarrow> json \<Rightarrow> guard list" where
  "reset_guards H E key now signed = (let payload = fld signed ''payload''; issued = fld payload ''issued_at'' in
     [has_get signed,
      reject (fld signed ''algorithm'' \<noteq> JStr ''Ed25519'') ''unsupported signature algorithm'',
      has_key signed ''payload'', has_get payload,
      reject (differs (fld payload ''governance_version'') (JInt 1)) ''unsupported governance version'',
      reject (fld payload ''action'' \<noteq> JStr ''AUTHORITY_RESET'') ''unsupported governance action''] @
     map (\<lambda>k. reject (empty_text (fld payload k)) (''invalid governance field: '' @ k)) reset_text_fields @
     [reject (\<not> is_int (fld payload ''epoch'') \<or> int_val (fld payload ''epoch'') < 1) ''invalid governance epoch'',
      reject (json_num issued = None) ''invalid governance issued_at'',
      reject (num_lt (NFlt (f_add now (Fin 60))) (num_of issued)) ''governance action is too far in the future'',
      reject (num_lt (num_of issued) (NFlt (f_sub now (Fin (30 * 24 * 3600))))) ''governance action is too old'',
      reject (fld payload ''governor_id'' \<noteq> JStr (governor_id H key)) ''governor identity mismatch'',
      has_key signed ''signature'',
      signature_guard E key (fld signed ''signature'') payload])"

definition verify_authority_reset :: "hash \<Rightarrow> crypto \<Rightarrow> string \<Rightarrow> xnum \<Rightarrow> json \<Rightarrow> verdict" where
  "verify_authority_reset H E key now signed = verdict_of ''invalid or tampered authority reset''
     ''valid authority reset'' (reset_guards H E key now signed)"

text \<open>\<open>issued\<close>, \<open>rid\<close> and \<open>nonce\<close> are the arguments, or the clock and fresh identifiers.\<close>

definition create_authority_reset :: "hash \<Rightarrow> crypto \<Rightarrow> string \<Rightarrow> string \<Rightarrow> string \<Rightarrow> int \<Rightarrow> string \<Rightarrow> num \<Rightarrow> string \<Rightarrow>
    string \<Rightarrow> signed_doc res" where
  "create_authority_reset H E key agent capability epoch reason issued rid nonce =
     (if str_strip reason = [] then Inl (ValueError ''reset reason is required'')
      else if epoch < 1 then Inl (ValueError ''epoch must be >= 1'')
      else Inr (sign_authority_reset E key \<lparr> ar_id = rid, ar_agent_id = agent, ar_capability_id = capability,
        ar_governor_id = governor_id H (cy_public E key), ar_epoch = epoch, ar_reason = reason,
        ar_issued_at = issued, ar_nonce = nonce \<rparr>))"

section \<open>When a reset is admissible\<close>

text \<open>The checks both services make; \<open>payload\<close> was verified, so its fields are texts and numbers.\<close>

definition epoch_check :: "json \<Rightarrow> json option \<Rightarrow> unit res" where
  "epoch_check payload latest = (case latest of
     None \<Rightarrow> need (\<not> differs (fld payload ''epoch'') (JInt 1)) (PermissionError ''invalid authority reset epoch'')
   | Some v \<Rightarrow> bindE (as_dict v) (\<lambda>d. bindE (jindex_obj d ''payload'') (\<lambda>p.
       bindE (bindE (jindex p ''epoch'') json_succ) (\<lambda>expected.
       bindE (need (\<not> differs (fld payload ''epoch'') expected)
         (PermissionError ''invalid authority reset epoch'')) (\<lambda>_.
       bindE (jindex p ''issued_at'') (\<lambda>before.
       bindE (json_le (fld payload ''issued_at'') before) (\<lambda>not_newer.
       need (\<not> not_newer) (PermissionError ''authority reset timestamp is not newer''))))))))"

text \<open>\<open>max((event["occurred_at"] for ... ), default=0.0)\<close> over the critical events.\<close>

definition latest_critical :: "event_row list \<Rightarrow> xnum" where
  "latest_critical events = (case map ev_occurred_at (filter (\<lambda>e. ev_event_type e \<in> set critical_events) events) of
     [] \<Rightarrow> Fin 0 | t # ts \<Rightarrow> foldl py_max t ts)"

definition reset_checks :: "hash \<Rightarrow> (nat \<Rightarrow> xnum) \<Rightarrow> json \<Rightarrow> (authority_snapshot \<times> event_row list) st" where
  "reset_checks H clk payload = (let agent = str_val (fld payload ''agent_id'');
       capability_id = str_val (fld payload ''capability_id'') in
     bindS (storage_capability capability_id) (\<lambda>r. case r of
       None \<Rightarrow> raiseS (LookupError ''capability not found'')
     | Some c \<Rightarrow>
       bindS (guardS (cap_agent_id c = agent) (PermissionError ''governance agent does not match capability'')) (\<lambda>_.
       bindS (capability_is_active (cap_id c) (clk 0)) (\<lambda>active.
       bindS (guardS active (PermissionError ''cannot reset revoked or expired capability'')) (\<lambda>_.
       bindS (case cap_identity_id c of None \<Rightarrow> returnS True
         | Some i \<Rightarrow> if i = [] then returnS True else identity_is_active i (clk 1)) (\<lambda>holder.
       bindS (guardS holder (PermissionError ''cannot reset capability with inactive identity'')) (\<lambda>_.
       bindS (latest_authority_reset agent capability_id) (\<lambda>latest.
       bindS (liftS (epoch_check payload latest)) (\<lambda>_.
       bindS (snapshot H default_authority_policy agent capability_id (clk 2) (clk 3)) (\<lambda>snap.
       bindS (guardS (as_state snap = SUSPENDED) (PermissionError ''authority reset requires suspended state'')) (\<lambda>_.
       bindS (authority_events agent capability_id None) (\<lambda>events.
       bindS (liftS (json_le (fld payload ''issued_at'') (JFloat (latest_critical events)))) (\<lambda>stale.
       bindS (guardS (\<not> stale)
         (PermissionError ''governance reset must be issued after the latest critical incident'')) (\<lambda>_.
       returnS (snap, events)))))))))))))))"

text \<open>The snapshot after the reset, as of the time it was issued (an int is taken as the float it equals).\<close>

definition refreshed :: "hash \<Rightarrow> json \<Rightarrow> xnum \<Rightarrow> authority_snapshot st" where
  "refreshed H payload t = bindS (liftS (float_arg (fld payload ''issued_at''))) (\<lambda>now.
     snapshot H default_authority_policy (str_val (fld payload ''agent_id''))
       (str_val (fld payload ''capability_id'')) now t)"

text \<open>\<open>ok, reason = ...; if not ok: raise PermissionError(reason)\<close>\<close>

definition permit :: "verdict \<Rightarrow> unit res" where
  "permit v = bindE v (\<lambda>(ok, reason). need ok (PermissionError reason))"

definition governance_reset :: "hash \<Rightarrow> crypto \<Rightarrow> string \<Rightarrow> (nat \<Rightarrow> xnum) \<Rightarrow> jdict \<Rightarrow> authority_snapshot st" where
  "governance_reset H E key clk signed =
     bindS (liftS (permit (verify_authority_reset H E key (clk 4) (JObj signed)))) (\<lambda>_.
     let payload = fld (JObj signed) ''payload'' in
     bindS (reset_checks H clk payload) (\<lambda>_.
     bindS (register_authority_reset signed [] (\<lambda>_. clk 5) (clk 5)) (\<lambda>_.
     refreshed H payload (clk 6))))"

section \<open>Governance policies\<close>

record governance_member =
  gm_governor_id :: string
  gm_role :: string
  gm_public_key_b64 :: string

definition member_from_public_key :: "hash \<Rightarrow> string \<Rightarrow> string \<Rightarrow> governance_member" where
  "member_from_public_key H raw role = \<lparr> gm_governor_id = governor_id H raw, gm_role = role,
     gm_public_key_b64 = b64encode raw \<rparr>"

definition member_dict :: "governance_member \<Rightarrow> json" where
  "member_dict m = JObj [(''governor_id'', JStr (gm_governor_id m)), (''role'', JStr (gm_role m)),
     (''public_key_b64'', JStr (gm_public_key_b64 m))]"

definition member_key :: "governance_member \<Rightarrow> string res" where
  "member_key m = (case decode_key (gm_public_key_b64 m) of
     None \<Rightarrow> Inl (ValueError ''invalid governance public key'') | Some raw \<Rightarrow> Inr raw)"

record governance_policy =
  gp_policy_id :: string
  gp_version :: int
  gp_threshold :: int
  gp_members :: "governance_member list"
  gp_required_roles :: "(string \<times> int) list"
  gp_max_lifetime :: int
  gp_allowed_actions :: "string list"

definition dict_of :: "(string \<times> 'v) list \<Rightarrow> 'v dict" where
  "dict_of kvs = foldl (\<lambda>d (k, v). dset d k v) [] kvs"

definition governance_policy_dict :: "governance_policy \<Rightarrow> jdict" where
  "governance_policy_dict p = [
     (''governance_version'', JInt 1), (''policy_id'', JStr (gp_policy_id p)), (''version'', JInt (gp_version p)),
     (''threshold'', JInt (gp_threshold p)), (''members'', JList (map member_dict (gp_members p))),
     (''required_roles'', JObj (map (\<lambda>(k, n). (k, JInt n)) (dict_of (gp_required_roles p)))),
     (''max_approval_lifetime_seconds'', JInt (gp_max_lifetime p)),
     (''allowed_actions'', str_list (gp_allowed_actions p))]"

definition governance_policy_digest :: "hash \<Rightarrow> governance_policy \<Rightarrow> string" where
  "governance_policy_digest H p = digest_json H (JObj (governance_policy_dict p))"

fun check_members :: "hash \<Rightarrow> string list \<Rightarrow> string list \<Rightarrow> governance_member list \<Rightarrow> unit res" where
  "check_members H ids keys [] = Inr ()"
| "check_members H ids keys (m # ms) =
     (if gm_governor_id m = [] \<or> gm_role m = [] then Inl (ValueError ''governance members require id and role'')
      else if gm_governor_id m \<in> set ids then Inl (ValueError ''duplicate governance member'')
      else bindE (member_key m) (\<lambda>raw.
        if governor_id H raw \<noteq> gm_governor_id m then Inl (ValueError ''governance member fingerprint mismatch'')
        else if gm_public_key_b64 m \<in> set keys then Inl (ValueError ''duplicate governance public key'')
        else check_members H (gm_governor_id m # ids) (gm_public_key_b64 m # keys) ms))"

fun check_roles :: "governance_member list \<Rightarrow> string list \<Rightarrow> (string \<times> int) list \<Rightarrow> unit res" where
  "check_roles ms seen [] = Inr ()"
| "check_roles ms seen ((role, least) # rs) =
     (if role = [] \<or> least < 1 then Inl (ValueError ''invalid required governance role'')
      else if role \<in> set seen then Inl (ValueError ''duplicate required governance role'')
      else if int (length (filter (\<lambda>m. gm_role m = role) ms)) < least
      then Inl (ValueError ''required role exceeds role membership'')
      else check_roles ms (role # seen) rs)"

definition validate_governance_policy :: "hash \<Rightarrow> governance_policy \<Rightarrow> unit res" where
  "validate_governance_policy H p = all_of [
     need (\<not> (gp_version p < 1 \<or> gp_threshold p < 1))
       (ValueError ''invalid governance policy version or threshold''),
     need (gp_threshold p \<le> int (length (gp_members p))) (ValueError ''governance threshold exceeds member count''),
     need (0 < gp_max_lifetime p) (ValueError ''approval lifetime must be positive''),
     check_members H [] [] (gp_members p),
     check_roles (gp_members p) [] (gp_required_roles p)]"

section \<open>Actions and approvals\<close>

record governance_action =
  ga_id :: string
  ga_action :: string
  ga_agent_id :: string
  ga_capability_id :: string
  ga_epoch :: int
  ga_reason :: string
  ga_policy_sha256 :: string
  ga_issued_at :: num
  ga_expires_at :: num
  ga_nonce :: string

definition governance_action_dict :: "governance_action \<Rightarrow> jdict" where
  "governance_action_dict a = [
     (''governance_version'', JInt 1), (''action'', JStr (ga_action a)), (''action_id'', JStr (ga_id a)),
     (''agent_id'', JStr (ga_agent_id a)), (''capability_id'', JStr (ga_capability_id a)),
     (''epoch'', JInt (ga_epoch a)), (''reason'', JStr (ga_reason a)), (''policy_sha256'', JStr (ga_policy_sha256 a)),
     (''governance_policy_sha256'', JStr (ga_policy_sha256 a)), (''issued_at'', num_json (ga_issued_at a)),
     (''expires_at'', num_json (ga_expires_at a)), (''nonce'', JStr (ga_nonce a))]"

text \<open>The digest of every kind of governance action: \<open>_canonical(action.as_dict())\<close>, hashed.\<close>

definition governance_digest :: "hash \<Rightarrow> json \<Rightarrow> string" where
  "governance_digest H payload = digest_json H payload"

text \<open>\<open>expiry <= issued or expiry - issued > lifetime\<close>; the default expiry is \<open>issued + lifetime\<close>.\<close>

definition action_expiry :: "governance_policy \<Rightarrow> num \<Rightarrow> num option \<Rightarrow> exn \<Rightarrow> num res" where
  "action_expiry p issued expires e =
     bindE (case expires of None \<Rightarrow> num_add issued (NInt (gp_max_lifetime p)) | Some x \<Rightarrow> Inr x) (\<lambda>expiry.
     if num_le expiry issued then Inl e
     else bindE (num_sub expiry issued) (\<lambda>d. if num_lt (NInt (gp_max_lifetime p)) d then Inl e else Inr expiry))"

definition create_governance_action :: "hash \<Rightarrow> string \<Rightarrow> string \<Rightarrow> string \<Rightarrow> int \<Rightarrow> string \<Rightarrow> governance_policy \<Rightarrow>
    num \<Rightarrow> num option \<Rightarrow> string \<Rightarrow> string \<Rightarrow> governance_action res" where
  "create_governance_action H action agent capability epoch reason p issued expires aid nonce =
     bindE (validate_governance_policy H p) (\<lambda>_.
     bindE (all_of [
       need (action \<in> set (gp_allowed_actions p)) (ValueError ''governance action is not allowed by policy''),
       need (\<not> (epoch < 1 \<or> str_strip reason = [])) (ValueError ''invalid governance action'')]) (\<lambda>_.
     bindE (action_expiry p issued expires (ValueError ''invalid governance action expiry'')) (\<lambda>expiry.
     Inr \<lparr> ga_id = aid, ga_action = action, ga_agent_id = agent, ga_capability_id = capability, ga_epoch = epoch,
       ga_reason = reason, ga_policy_sha256 = governance_policy_digest H p, ga_issued_at = issued,
       ga_expires_at = expiry, ga_nonce = nonce \<rparr>)))"

record governance_approval =
  gx_action_digest :: string
  gx_governor_id :: string
  gx_role :: string
  gx_approval_id :: string
  gx_issued_at :: num
  gx_expires_at :: num
  gx_nonce :: string

definition approval_payload :: "governance_approval \<Rightarrow> jdict" where
  "approval_payload a = [
     (''governance_version'', JInt 1), (''action_digest'', JStr (gx_action_digest a)),
     (''governor_id'', JStr (gx_governor_id a)), (''role'', JStr (gx_role a)),
     (''approval_id'', JStr (gx_approval_id a)), (''issued_at'', num_json (gx_issued_at a)),
     (''expires_at'', num_json (gx_expires_at a)), (''nonce'', JStr (gx_nonce a))]"

definition sign_governance_approval :: "hash \<Rightarrow> crypto \<Rightarrow> string \<Rightarrow> json \<Rightarrow> num \<Rightarrow> string \<Rightarrow> num \<Rightarrow> num option \<Rightarrow>
    string \<Rightarrow> string \<Rightarrow> signed_doc res" where
  "sign_governance_approval H E key action action_expires role issued expires aid nonce =
     bindE (case expires of Some x \<Rightarrow> Inr x
       | None \<Rightarrow> bindE (num_add issued (NInt 300)) (\<lambda>x. Inr (if num_lt x action_expires then x else action_expires)))
     (\<lambda>expiry. Inr (sign_doc E key (approval_payload \<lparr> gx_action_digest = governance_digest H action,
       gx_governor_id = governor_id H (cy_public E key), gx_role = role, gx_approval_id = aid,
       gx_issued_at = issued, gx_expires_at = expiry, gx_nonce = nonce \<rparr>)))"

definition member_for_governor :: "governance_policy \<Rightarrow> string \<Rightarrow> governance_member option" where
  "member_for_governor p governor = find (\<lambda>m. gm_governor_id m = governor) (gp_members p)"

text \<open>The four checks of the validity period; \<open>what\<close> names the document in the reasons.\<close>

definition outlives :: "governance_policy \<Rightarrow> json \<Rightarrow> bool" where
  "outlives p payload = (case num_sub (num_of (fld payload ''expires_at'')) (num_of (fld payload ''issued_at'')) of
     Inr d \<Rightarrow> num_lt (NInt (gp_max_lifetime p)) d | Inl _ \<Rightarrow> False)"

definition period_guards :: "governance_policy \<Rightarrow> xnum \<Rightarrow> string \<Rightarrow> json \<Rightarrow> guard list" where
  "period_guards p now what payload = (let i = num_of (fld payload ''issued_at''); e = num_of (fld payload ''expires_at'') in [
     reject (num_lt (NFlt (f_add now (Fin 60))) i) (what @ '' is too far in the future''),
     reject (num_le e (NFlt now)) (what @ '' has expired''),
     reject (num_le e i) (what @ '' expiry is invalid''),
     tries (num_sub e i),
     reject (outlives p payload) (what @ '' lifetime exceeds policy'')])"

definition approval_texts :: "string list" where
  "approval_texts = [''action_digest'', ''governor_id'', ''role'', ''approval_id'', ''nonce'']"

definition signer_of :: "governance_policy \<Rightarrow> json \<Rightarrow> governance_member option" where
  "signer_of p payload = (case member_for_governor p (str_val (fld payload ''governor_id'')) of
     None \<Rightarrow> None | Some m \<Rightarrow> if JStr (gm_role m) = fld payload ''role'' then Some m else None)"

definition signer_key :: "governance_member option \<Rightarrow> string" where
  "signer_key m = (case m of None \<Rightarrow> [] | Some x \<Rightarrow> (case member_key x of Inl _ \<Rightarrow> [] | Inr raw \<Rightarrow> raw))"

definition approval_guards :: "hash \<Rightarrow> crypto \<Rightarrow> governance_policy \<Rightarrow> xnum \<Rightarrow> json \<Rightarrow> guard list" where
  "approval_guards H E p now signed = (let payload = fld signed ''payload''; m = signer_of p payload in
     [tries (validate_governance_policy H p), has_get signed,
      reject (fld signed ''algorithm'' \<noteq> JStr ''Ed25519'') ''unsupported governance approval algorithm'',
      has_key signed ''payload'', has_get payload,
      reject (differs (fld payload ''governance_version'') (JInt 1)) ''unsupported governance approval version'',
      reject (list_ex (\<lambda>k. empty_text (fld payload k)) approval_texts) ''invalid governance approval fields'',
      reject (json_num (fld payload ''issued_at'') = None) ''invalid governance approval issued_at'',
      reject (json_num (fld payload ''expires_at'') = None) ''invalid governance approval expires_at''] @
     period_guards p now ''governance approval'' payload @
     [reject (m = None) ''governance signer is not authorized for this role'',
      tries (case m of None \<Rightarrow> Inr [] | Some x \<Rightarrow> member_key x),
      has_key signed ''signature'',
      signature_guard E (signer_key m) (fld signed ''signature'') payload])"

definition verify_governance_approval :: "hash \<Rightarrow> crypto \<Rightarrow> governance_policy \<Rightarrow> xnum \<Rightarrow> json \<Rightarrow> verdict" where
  "verify_governance_approval H E p now signed = verdict_of ''invalid or tampered governance approval''
     ''valid governance approval'' (approval_guards H E p now signed)"

section \<open>The quorum\<close>

definition action_texts :: "string list" where
  "action_texts = [''action'', ''action_id'', ''reason'', ''nonce'']"

definition governing_sha :: "json \<Rightarrow> json" where
  "governing_sha payload = or_else (fld payload ''governance_policy_sha256'') (fld payload ''policy_sha256'')"

definition numeric_guard :: "json \<Rightarrow> string \<Rightarrow> guard" where
  "numeric_guard payload k = reject (json_num (fld payload k) = None) (''invalid governance action '' @ k)"

definition reset_action_guards :: "json \<Rightarrow> guard list" where
  "reset_action_guards payload = [
     reject (\<not> is_int (fld payload ''epoch'') \<or> int_val (fld payload ''epoch'') < 1) ''invalid governance action epoch'',
     reject (list_ex (\<lambda>k. empty_text (fld payload k)) [''agent_id'', ''capability_id'', ''policy_sha256''])
       ''invalid governance action fields'']"

definition quorum_action_guards :: "hash \<Rightarrow> governance_policy \<Rightarrow> xnum \<Rightarrow> json \<Rightarrow> guard list" where
  "quorum_action_guards H p now payload = [
     reject (\<not> is_obj payload) ''invalid governance action payload'',
     reject (differs (fld payload ''governance_version'') (JInt 1)) ''unsupported governance action version'',
     reject (list_ex (\<lambda>k. empty_text (fld payload k)) action_texts) ''invalid governance action fields'',
     reject (empty_text (governing_sha payload)) ''missing governance policy fingerprint'',
     reject (governing_sha payload \<noteq> JStr (governance_policy_digest H p)) ''governance policy fingerprint mismatch'',
     reject (str_val (fld payload ''action'') \<notin> set (gp_allowed_actions p)) ''governance action is not allowed'',
     numeric_guard payload ''issued_at'', numeric_guard payload ''expires_at''] @
     period_guards p now ''governance action'' payload @
     [block (fld payload ''action'' = JStr ''AUTHORITY_RESET'') (reset_action_guards payload)]"

record tally =
  ta_governors :: "string list"
  ta_nonces :: "string list"
  ta_roles :: "int dict"
  ta_valid :: int

definition no_votes :: tally where
  "no_votes = \<lparr> ta_governors = [], ta_nonces = [], ta_roles = [], ta_valid = 0 \<rparr>"

definition role_count :: "tally \<Rightarrow> string \<Rightarrow> int" where
  "role_count t role = (case dget (ta_roles t) role of None \<Rightarrow> 0 | Some n \<Rightarrow> n)"

text \<open>The guards of one approval, which is verified before its payload is read.\<close>

definition vote_guard :: "hash \<Rightarrow> crypto \<Rightarrow> governance_policy \<Rightarrow> xnum \<Rightarrow> string \<Rightarrow> tally \<Rightarrow> json \<Rightarrow> guard" where
  "vote_guard H E p now digest t signed = (let vote = fld signed ''payload'' in first_fail [
     ask (verify_governance_approval H E p now signed),
     reject (fld vote ''action_digest'' \<noteq> JStr digest) ''governance approval targets a different action'',
     reject (str_val (fld vote ''governor_id'') \<in> set (ta_governors t)) ''duplicate governance signer'',
     reject (str_val (fld vote ''nonce'') \<in> set (ta_nonces t)) ''duplicate governance approval nonce''])"

definition count_vote :: "tally \<Rightarrow> json \<Rightarrow> tally" where
  "count_vote t signed = (let vote = fld signed ''payload''; role = str_val (fld vote ''role'') in
     t\<lparr> ta_governors := str_val (fld vote ''governor_id'') # ta_governors t,
        ta_nonces := str_val (fld vote ''nonce'') # ta_nonces t,
        ta_roles := dset (ta_roles t) role (role_count t role + 1),
        ta_valid := ta_valid t + 1 \<rparr>)"

text \<open>The loop over the approvals: the guard that stopped it, or \<open>Pass\<close>, and the tally.\<close>

fun tally_votes :: "hash \<Rightarrow> crypto \<Rightarrow> governance_policy \<Rightarrow> xnum \<Rightarrow> string \<Rightarrow> tally \<Rightarrow> json list \<Rightarrow>
    guard \<times> tally" where
  "tally_votes H E p now digest t [] = (Pass, t)"
| "tally_votes H E p now digest t (a # as) = (case vote_guard H E p now digest t a of
     Pass \<Rightarrow> tally_votes H E p now digest (count_vote t a) as
   | g \<Rightarrow> (g, t))"

definition role_guard :: "tally \<Rightarrow> string \<times> int \<Rightarrow> guard" where
  "role_guard t = (\<lambda>(role, least). reject (role_count t role < least)
     (''required governance role missing: '' @ role))"

text \<open>
  \<open>payload\<close> is \<open>action.as_dict()\<close> of an action object or the dictionary itself; the digest of a
  GovernanceAction is the one of its dictionary.
\<close>

definition quorum_guards :: "hash \<Rightarrow> crypto \<Rightarrow> governance_policy \<Rightarrow> xnum \<Rightarrow> json \<Rightarrow> json list \<Rightarrow> guard list" where
  "quorum_guards H E p now payload approvals =
     (let votes = tally_votes H E p now (governance_digest H payload) no_votes approvals in
     tries (validate_governance_policy H p) # quorum_action_guards H p now payload @
     [fst votes, reject (ta_valid (snd votes) < gp_threshold p) ''governance threshold not reached''] @
     map (role_guard (snd votes)) (gp_required_roles p))"

definition verify_governance_quorum ::
    "hash \<Rightarrow> crypto \<Rightarrow> governance_policy \<Rightarrow> xnum \<Rightarrow> json \<Rightarrow> json list \<Rightarrow> verdict" where
  "verify_governance_quorum H E p now payload approvals =
     open_verdict ''governance quorum satisfied'' (quorum_guards H E p now payload approvals)"

section \<open>A reset by quorum\<close>

text \<open>\<open>GovernanceAction(...).as_dict()\<close> of the verified payload's fields; a missing key raises.\<close>

definition rebuilt_keys :: "string list" where
  "rebuilt_keys = [''action_id'', ''action'', ''agent_id'', ''capability_id'', ''epoch'', ''reason'',
     ''policy_sha256'', ''issued_at'', ''expires_at'', ''nonce'']"

definition rebuilt_action :: "json \<Rightarrow> jdict" where
  "rebuilt_action payload = (''governance_version'', JInt 1) #
     map (\<lambda>k. (k, fld payload k)) [''action'', ''action_id'', ''agent_id'', ''capability_id'', ''epoch'', ''reason'',
       ''policy_sha256''] @
     [(''governance_policy_sha256'', fld payload ''policy_sha256'')] @
     map (\<lambda>k. (k, fld payload k)) [''issued_at'', ''expires_at'', ''nonce'']"

definition multiparty_envelope :: "hash \<Rightarrow> governance_policy \<Rightarrow> json \<Rightarrow> json list \<Rightarrow> jdict" where
  "multiparty_envelope H p payload approvals = [
     (''payload'', JObj (rebuilt_action payload)), (''approvals'', JList approvals),
     (''policy'', JObj (governance_policy_dict p)),
     (''governance_policy_sha256'', JStr (governance_policy_digest H p)),
     (''algorithm'', JStr ''Ed25519-MULTIPARTY'')]"

definition quorum_reset_checks :: "hash \<Rightarrow> governance_policy \<Rightarrow> xnum \<Rightarrow> json \<Rightarrow> unit res" where
  "quorum_reset_checks H p now payload = all_of [
     need (fld payload ''action'' = JStr ''AUTHORITY_RESET'')
       (PermissionError ''unsupported multi-party governance action''),
     need (fld payload ''policy_sha256'' = JStr (governance_policy_digest H p))
       (PermissionError ''governance policy fingerprint mismatch''),
     need (\<not> num_lt (NFlt (f_add now (Fin 60))) (num_of (fld payload ''issued_at'')))
       (PermissionError ''governance action is too far in the future'')]"

definition multiparty_governance_reset :: "hash \<Rightarrow> crypto \<Rightarrow> governance_policy \<Rightarrow> (nat \<Rightarrow> xnum) \<Rightarrow> json \<Rightarrow> json list \<Rightarrow>
    authority_snapshot st" where
  "multiparty_governance_reset H E p clk payload approvals =
     bindS (liftS (permit (verify_governance_quorum H E p (clk 4) payload approvals))) (\<lambda>_.
     bindS (liftS (quorum_reset_checks H p (clk 4) payload)) (\<lambda>_.
     bindS (reset_checks H clk payload) (\<lambda>_.
     bindS (liftS (need_keys rebuilt_keys (obj_val payload))) (\<lambda>_.
     bindS (register_authority_reset (multiparty_envelope H p payload approvals) approvals
       (\<lambda>n. clk (7 + n)) (clk 5)) (\<lambda>_.
     refreshed H payload (clk 6))))))"

end
