(* ===== verification/Policy_Control.thy ===== *)
theory Policy_Control
  imports Governance
begin

text \<open>
  \<open>core/policy_version.py\<close>, governed publication and control: a policy version enters its lineage, and is
  frozen or rolled back, only by an action that a quorum approved.
\<close>

section \<open>The actions governors approve\<close>

text \<open>The fields taken from a signed policy keep the value they have there.\<close>

record policy_change_action =
  pa_action_id :: string
  pa_policy_id :: json
  pa_policy_sha256 :: json
  pa_version :: json
  pa_source_ref :: json
  pa_parent_sha256 :: json
  pa_governance_sha256 :: string
  pa_reason :: string
  pa_issued_at :: num
  pa_expires_at :: num
  pa_nonce :: string

definition policy_change_dict :: "policy_change_action \<Rightarrow> jdict" where
  "policy_change_dict a = [
     (''governance_version'', JInt 1), (''action'', JStr ''POLICY_CHANGE''), (''action_id'', JStr (pa_action_id a)),
     (''policy_id'', pa_policy_id a), (''policy_sha256'', pa_policy_sha256 a),
     (''policy_version_number'', pa_version a), (''source_ref'', pa_source_ref a),
     (''parent_sha256'', pa_parent_sha256 a), (''governance_policy_sha256'', JStr (pa_governance_sha256 a)),
     (''reason'', JStr (pa_reason a)), (''issued_at'', num_json (pa_issued_at a)),
     (''expires_at'', num_json (pa_expires_at a)), (''nonce'', JStr (pa_nonce a))]"

definition create_policy_change_action :: "hash \<Rightarrow> jdict \<Rightarrow> governance_policy \<Rightarrow> string \<Rightarrow> num \<Rightarrow> num option \<Rightarrow>
    string \<Rightarrow> string \<Rightarrow> policy_change_action res" where
  "create_policy_change_action H signed gp reason issued expires aid nonce =
     bindE (all_of [validate_governance_policy H gp,
       need (''POLICY_CHANGE'' \<in> set (gp_allowed_actions gp))
         (ValueError ''governance policy does not allow policy changes''),
       need (str_strip reason \<noteq> []) (ValueError ''policy change reason is required'')]) (\<lambda>_.
     bindE (jindex_obj signed ''payload'') (\<lambda>p.
     bindE (action_expiry gp issued expires (ValueError ''invalid policy governance action expiry'')) (\<lambda>expiry.
     bindE (jindex p ''policy_id'') (\<lambda>pid. bindE (jindex p ''policy_sha256'') (\<lambda>sha.
     bindE (jindex p ''version'') (\<lambda>version. bindE (jindex p ''source_ref'') (\<lambda>source.
     Inr \<lparr> pa_action_id = aid, pa_policy_id = pid, pa_policy_sha256 = sha, pa_version = version,
       pa_source_ref = source, pa_parent_sha256 = jget p ''parent_sha256'',
       pa_governance_sha256 = governance_policy_digest H gp, pa_reason = reason, pa_issued_at = issued,
       pa_expires_at = expiry, pa_nonce = nonce \<rparr>)))))))"

record policy_control_request =
  pq_action_id :: string
  pq_action :: string
  pq_policy_id :: string
  pq_current_sha256 :: string
  pq_target_sha256 :: "string option"
  pq_target_version :: "int option"
  pq_governance_sha256 :: string
  pq_reason :: string
  pq_issued_at :: num
  pq_expires_at :: num
  pq_nonce :: string

definition opt_int :: "int option \<Rightarrow> json" where
  "opt_int v = (case v of None \<Rightarrow> JNull | Some i \<Rightarrow> JInt i)"

definition policy_control_dict :: "policy_control_request \<Rightarrow> jdict" where
  "policy_control_dict a = [
     (''governance_version'', JInt 1), (''action'', JStr (pq_action a)), (''action_id'', JStr (pq_action_id a)),
     (''policy_id'', JStr (pq_policy_id a)), (''current_policy_sha256'', JStr (pq_current_sha256 a)),
     (''target_policy_sha256'', opt_str (pq_target_sha256 a)), (''target_version'', opt_int (pq_target_version a)),
     (''governance_policy_sha256'', JStr (pq_governance_sha256 a)), (''reason'', JStr (pq_reason a)),
     (''issued_at'', num_json (pq_issued_at a)), (''expires_at'', num_json (pq_expires_at a)),
     (''nonce'', JStr (pq_nonce a))]"

text \<open>The checks of the target: a rollback needs one, a freeze must not have one.\<close>

definition control_target_check :: "string \<Rightarrow> string \<Rightarrow> string option \<Rightarrow> int option \<Rightarrow> unit res" where
  "control_target_check action current target version =
     (if action = ''POLICY_ROLLBACK'' then all_of [
        need (given target \<noteq> None \<and> (\<exists>n \<in> set_option version. 1 \<le> n))
          (ValueError ''rollback requires target policy digest and version''),
        need (target \<noteq> Some current) (ValueError ''rollback target must differ from current policy'')]
      else need (target = None \<and> version = None) (ValueError ''freeze cannot specify a rollback target''))"

definition create_policy_control_action :: "hash \<Rightarrow> string \<Rightarrow> string \<Rightarrow> string \<Rightarrow> governance_policy \<Rightarrow> string \<Rightarrow>
    string option \<Rightarrow> int option \<Rightarrow> num \<Rightarrow> num option \<Rightarrow> string \<Rightarrow> string \<Rightarrow> policy_control_request res" where
  "create_policy_control_action H action pid current gp reason target version issued expires aid nonce =
     bindE (all_of [validate_governance_policy H gp,
       need (action \<in> {''POLICY_FREEZE'', ''POLICY_ROLLBACK''}) (ValueError ''unsupported policy control action''),
       need (action \<in> set (gp_allowed_actions gp)) (ValueError ''governance policy does not allow policy control''),
       need (\<not> (current = [] \<or> pid = [] \<or> str_strip reason = []))
         (ValueError ''policy control requires policy, digest and reason''),
       control_target_check action current target version]) (\<lambda>_.
     bindE (action_expiry gp issued expires (ValueError ''invalid policy control action expiry'')) (\<lambda>expiry.
     Inr \<lparr> pq_action_id = aid, pq_action = action, pq_policy_id = pid, pq_current_sha256 = current,
       pq_target_sha256 = target, pq_target_version = version,
       pq_governance_sha256 = governance_policy_digest H gp, pq_reason = reason, pq_issued_at = issued,
       pq_expires_at = expiry, pq_nonce = nonce \<rparr>))"

section \<open>Publication\<close>

text \<open>The fields of the action that must equal those of the signed policy, in the order of the source.\<close>

definition bound_fields :: "(string \<times> string) list" where
  "bound_fields = [(''policy_id'', ''policy_id''), (''policy_sha256'', ''policy_sha256''),
     (''policy_version_number'', ''version''), (''source_ref'', ''source_ref''), (''parent_sha256'', ''parent_sha256'')]"

definition binding_check :: "json \<Rightarrow> json \<Rightarrow> string \<times> string \<Rightarrow> unit res" where
  "binding_check payload policy = (\<lambda>(k, j). need (\<not> differs (fld payload k) (fld policy j))
     (PermissionError (''policy governance action does not match signed policy: '' @ k)))"

definition publish_checks :: "hash \<Rightarrow> governance_policy \<Rightarrow> json \<Rightarrow> json \<Rightarrow> unit res" where
  "publish_checks H gp payload policy = all_of (
     need (fld payload ''action'' = JStr ''POLICY_CHANGE'') (PermissionError ''unsupported policy governance action'') #
     map (binding_check payload policy) bound_fields @
     [need (fld payload ''governance_policy_sha256'' = JStr (governance_policy_digest H gp))
        (PermissionError ''governance policy fingerprint mismatch'')])"

text \<open>The place in the lineage: \<open>latest\<close> is the row with the highest version.\<close>

definition lineage_check :: "json \<Rightarrow> change_row option \<Rightarrow> unit res" where
  "lineage_check policy latest = (let version = fld policy ''version''; parent = fld policy ''parent_sha256'' in
     case latest of
       None \<Rightarrow> need (\<not> differs version (JInt 1) \<and> parent = JNull)
         (PermissionError ''first governed policy version must start at 1'')
     | Some r \<Rightarrow> all_of [
         need (\<not> differs version (JInt (gc_version r + 1)))
           (PermissionError ''governed policy version must increment monotonically''),
         need (parent = JStr (gc_policy_sha256 r))
           (PermissionError ''governed policy parent does not match latest version'')])"

definition publish_envelope :: "hash \<Rightarrow> governance_policy \<Rightarrow> jdict \<Rightarrow> json \<Rightarrow> json list \<Rightarrow> jdict" where
  "publish_envelope H gp signed payload approvals = [
     (''policy_version'', JObj signed), (''governance_action'', payload), (''approvals'', JList approvals),
     (''governance_policy'', JObj (governance_policy_dict gp)),
     (''governance_policy_sha256'', JStr (governance_policy_digest H gp)),
     (''algorithm'', JStr ''Ed25519-POLICY-MULTIPARTY'')]"

definition publish :: "hash \<Rightarrow> crypto \<Rightarrow> string \<Rightarrow> governance_policy \<Rightarrow> (nat \<Rightarrow> xnum) \<Rightarrow> jdict \<Rightarrow> json \<Rightarrow> json list \<Rightarrow>
    unit st" where
  "publish H E key gp clk signed payload approvals =
     bindS (liftS (permit (verify_policy_version H E key (JObj signed)))) (\<lambda>_.
     bindS (liftS (permit (verify_governance_quorum H E gp (clk 0) payload approvals))) (\<lambda>_.
     let policy = fld (JObj signed) ''payload'' in
     bindS (liftS (publish_checks H gp payload policy)) (\<lambda>_.
     bindS (governed_policy_change_by_sha (str_val (fld policy ''policy_sha256''))) (\<lambda>existing.
     bindS (guardS (existing = None) (PermissionError ''governed policy version already published'')) (\<lambda>_.
     bindS (latest_governed_policy_version (str_val (fld policy ''policy_id''))) (\<lambda>latest.
     bindS (liftS (lineage_check policy latest)) (\<lambda>_.
     register_governed_policy_change signed (publish_envelope H gp signed payload approvals) approvals
       (\<lambda>n. clk (3 + n)) (clk 1) (clk 2))))))))"

definition governed :: "string \<Rightarrow> json option st" where
  "governed sha = governed_policy_change_by_sha sha"

section \<open>Freeze and rollback\<close>

text \<open>\<open>governed["policy_version"]["payload"]\<close>\<close>

definition governed_payload :: "json \<Rightarrow> jdict res" where
  "governed_payload v = bindE (as_dict v) (\<lambda>d. bindE (jindex_obj d ''policy_version'') (\<lambda>s. jindex_obj s ''payload''))"

text \<open>A lookup by a value of the action; NULL matches no row.\<close>

definition change_by_value :: "json \<Rightarrow> json option st" where
  "change_by_value v = bindS (liftS (col_text v)) (\<lambda>c. case c of None \<Rightarrow> returnS None
     | Some s \<Rightarrow> governed_policy_change_by_sha s)"

definition control_by_value :: "json \<Rightarrow> control_row option st" where
  "control_by_value v = bindS (liftS (col_text v)) (\<lambda>c. case c of None \<Rightarrow> returnS None
     | Some s \<Rightarrow> policy_control s)"

definition same_lineage :: "jdict \<Rightarrow> jdict \<Rightarrow> string \<Rightarrow> unit res" where
  "same_lineage p payload who = bindE (jindex p ''policy_id'') (\<lambda>a. bindE (jindex payload ''policy_id'') (\<lambda>b.
     need (\<not> differs a b) (PermissionError (who @ '' belongs to another policy lineage''))))"

definition active_sha :: "control_row option \<Rightarrow> json \<Rightarrow> json" where
  "active_sha current claimed = (case current of None \<Rightarrow> claimed | Some r \<Rightarrow> JStr (pc_active_sha256 r))"

definition rollback_target :: "jdict \<Rightarrow> json \<Rightarrow> json st" where
  "rollback_target payload current = (let sha = jget payload ''target_policy_sha256'' in
     bindS (change_by_value sha) (\<lambda>r. case r of
       None \<Rightarrow> raiseS (PermissionError ''rollback target is not governed'')
     | Some v \<Rightarrow>
       bindS (liftS (governed_payload v)) (\<lambda>target.
       bindS (liftS (same_lineage target payload ''rollback target'')) (\<lambda>_.
       bindS (liftS (bindE (jindex target ''version'') (\<lambda>n.
         need (\<not> differs n (jget payload ''target_version'')) (PermissionError ''rollback target version mismatch'')))) (\<lambda>_.
       bindS (guardS (differs sha current) (PermissionError ''rollback target must differ from current policy''))
         (\<lambda>_. returnS sha))))))"

definition control_envelope :: "hash \<Rightarrow> governance_policy \<Rightarrow> jdict \<Rightarrow> json list \<Rightarrow> json \<Rightarrow> bool \<Rightarrow> jdict" where
  "control_envelope H gp payload approvals active frozen = [
     (''governance_action'', JObj payload), (''approvals'', JList approvals),
     (''governance_policy'', JObj (governance_policy_dict gp)),
     (''governance_policy_sha256'', JStr (governance_policy_digest H gp)),
     (''active_policy_sha256'', active), (''frozen'', JBool frozen),
     (''algorithm'', JStr ''Ed25519-POLICY-CONTROL-MULTIPARTY'')]"

text \<open>The checks up to the current control of the policy.\<close>

definition control_current :: "hash \<Rightarrow> governance_policy \<Rightarrow> jdict \<Rightarrow> control_row option st" where
  "control_current H gp payload =
     bindS (policy_control_action (str_val (jget payload ''action_id''))) (\<lambda>seen.
     bindS (guardS (seen = None) (PermissionError ''policy control action already registered'')) (\<lambda>_.
     bindS (liftS (all_of [
       need (jget payload ''action'' \<in> {JStr ''POLICY_FREEZE'', JStr ''POLICY_ROLLBACK''})
         (PermissionError ''unsupported policy control action''),
       need (jget payload ''governance_policy_sha256'' = JStr (governance_policy_digest H gp))
         (PermissionError ''governance policy fingerprint mismatch'')])) (\<lambda>_.
     bindS (liftS (jindex payload ''current_policy_sha256'')) (\<lambda>claimed.
     bindS (change_by_value claimed) (\<lambda>r. case r of
       None \<Rightarrow> raiseS (PermissionError ''current policy is not governed'')
     | Some v \<Rightarrow>
       bindS (liftS (governed_payload v)) (\<lambda>policy.
       bindS (liftS (same_lineage policy payload ''current policy'')) (\<lambda>_.
       bindS (control_by_value (jget payload ''policy_id'')) (\<lambda>current.
       bindS (guardS (\<not> differs (active_sha current claimed) claimed)
         (PermissionError ''policy control action targets a stale active policy'')) (\<lambda>_.
       returnS current)))))))))"

definition apply_control :: "hash \<Rightarrow> crypto \<Rightarrow> governance_policy \<Rightarrow> (nat \<Rightarrow> xnum) \<Rightarrow> json \<Rightarrow> json list \<Rightarrow> unit st" where
  "apply_control H E gp clk action approvals =
     bindS (liftS (permit (verify_governance_quorum H E gp (clk 0) action approvals))) (\<lambda>_.
     let payload = obj_val action; claimed = jget payload ''current_policy_sha256'' in
     bindS (control_current H gp payload) (\<lambda>current.
     bindS (if jget payload ''action'' = JStr ''POLICY_FREEZE''
       then bindS (guardS (\<not> (\<exists>r \<in> set_option current. pc_frozen r)) (PermissionError ''policy is already frozen''))
         (\<lambda>_. returnS (claimed, True))
       else bindS (rollback_target payload claimed) (\<lambda>sha. returnS (sha, False))) (\<lambda>(active, frozen).
     bindS (liftS (bindE (col_text_nn (jget payload ''policy_id'')) (\<lambda>pid. bindE (col_text_nn active) (\<lambda>sha.
       Inr (pid, sha))))) (\<lambda>(pid, sha).
     apply_policy_control pid sha frozen (control_envelope H gp payload approvals active frozen) (clk 1) (clk 2)))))"

end
