(* ===== verification/Quorum.thy ===== *)
theory Quorum
  imports Governance
begin

text \<open>
  What a satisfied quorum means: distinct members of the policy, each of whom signed an approval of this
  very action, in the number and the roles that the policy asks for.
\<close>

section \<open>Policies\<close>

lemma check_members_Inr:
  "check_members H ids keys ms = Inr u \<Longrightarrow>
     distinct (map gm_governor_id ms) \<and> set ids \<inter> set (map gm_governor_id ms) = {} \<and>
     (\<forall>m\<in>set ms. \<exists>raw. member_key m = Inr raw \<and> governor_id H raw = gm_governor_id m)"
proof (induction ms arbitrary: ids keys)
  case (Cons m ms)
  then obtain raw where "member_key m = Inr raw" "governor_id H raw = gm_governor_id m"
    "gm_governor_id m \<notin> set ids"
    "check_members H (gm_governor_id m # ids) (gm_public_key_b64 m # keys) ms = Inr u"
    by (auto simp: bindE_Inr_iff split: if_splits)
  with Cons.IH [of "gm_governor_id m # ids" "gm_public_key_b64 m # keys"] show ?case by auto
qed simp

lemma validated_members:
  assumes "validate_governance_policy H p = Inr u"
  shows "distinct (map gm_governor_id (gp_members p))"
    and "m \<in> set (gp_members p) \<Longrightarrow> \<exists>raw. member_key m = Inr raw \<and> governor_id H raw = gm_governor_id m"
  using assms check_members_Inr [of H "[]" "[]" "gp_members p"]
  by (auto simp: validate_governance_policy_def all_of_Inr)

section \<open>Approvals\<close>

text \<open>What an accepted approval proves: member \<open>m\<close> signed, with the key the policy lists, this payload.\<close>

definition endorses :: "hash \<Rightarrow> crypto \<Rightarrow> governance_policy \<Rightarrow> xnum \<Rightarrow> string \<Rightarrow> governance_member \<Rightarrow> json \<Rightarrow> bool" where
  "endorses H E p now digest m signed \<longleftrightarrow> (let vote = fld signed ''payload'' in
     m \<in> set (gp_members p) \<and>
     (\<exists>raw s. member_key m = Inr raw \<and> governor_id H raw = gm_governor_id m \<and>
        fld signed ''signature'' = JStr s \<and> verify_b64 E raw s (canon vote)) \<and>
     fld vote ''action_digest'' = JStr digest \<and> fld vote ''governor_id'' = JStr (gm_governor_id m) \<and>
     fld vote ''role'' = JStr (gm_role m) \<and>
     (\<exists>n. json_num (fld vote ''expires_at'') = Some n \<and> \<not> num_le n (NFlt now)))"

lemma member_for_governor_Some:
  "member_for_governor p g = Some m \<Longrightarrow> m \<in> set (gp_members p) \<and> gm_governor_id m = g"
  by (auto simp: member_for_governor_def find_Some_iff)

lemma signer_of_Some:
  "signer_of p vote = Some m \<Longrightarrow> m \<in> set (gp_members p) \<and>
     gm_governor_id m = str_val (fld vote ''governor_id'') \<and> fld vote ''role'' = JStr (gm_role m)"
  by (auto simp: signer_of_def split: option.splits if_splits dest: member_for_governor_Some)

lemma not_empty_text: "\<not> empty_text v \<longleftrightarrow> (\<exists>s. v = JStr s \<and> s \<noteq> [])"
  by (cases v) (auto simp: empty_text_def)

lemma approval_accepted:
  assumes "verify_governance_approval H E p now signed = Inr (True, r)"
    and "fld (fld signed ''payload'') ''action_digest'' = JStr digest"
  shows "\<exists>m. signer_of p (fld signed ''payload'') = Some m \<and> endorses H E p now digest m signed"
proof -
  let ?v = "fld signed ''payload''"
  from assms(1) have g: "list_all (\<lambda>g. g = Pass) (approval_guards H E p now signed)"
    by (simp add: verify_governance_approval_def verdict_of_accepts)
  then obtain u where u: "validate_governance_policy H p = Inr u"
    by (auto simp: approval_guards_def Let_def guard_iff)
  from g obtain m where m: "signer_of p ?v = Some m"
    by (auto simp: approval_guards_def Let_def guard_iff)
  note of_m = signer_of_Some [OF m]
  then obtain raw where raw: "member_key m = Inr raw" "governor_id H raw = gm_governor_id m"
    using validated_members(2) [OF u] by blast
  from g m raw obtain s where s: "fld signed ''signature'' = JStr s" "verify_b64 E raw s (canon ?v)"
    by (auto simp: approval_guards_def Let_def guard_iff signer_key_def)
  from g have "\<not> empty_text (fld ?v ''governor_id'')"
    by (auto simp: approval_guards_def Let_def guard_iff list_ex_iff approval_texts_def)
  then have gov: "fld ?v ''governor_id'' = JStr (gm_governor_id m)" using of_m by (auto simp: not_empty_text)
  from g obtain n where n: "json_num (fld ?v ''expires_at'') = Some n" "\<not> num_le n (NFlt now)"
    by (auto simp: approval_guards_def Let_def guard_iff period_guards_def num_of_def)
  from of_m raw s gov n m assms(2) show ?thesis unfolding endorses_def Let_def by blast
qed

section \<open>The tally\<close>

definition tally_of :: "tally \<Rightarrow> governance_member list \<Rightarrow> bool" where
  "tally_of t ms \<longleftrightarrow> set (ta_governors t) = set (map gm_governor_id ms) \<and> ta_valid t = int (length ms) \<and>
     (\<forall>role. role_count t role = int (length (filter (\<lambda>m. gm_role m = role) ms)))"

lemma tally_of_empty: "tally_of no_votes []"
  by (simp add: tally_of_def no_votes_def role_count_def)

lemma count_vote_tally:
  assumes "tally_of t ms" and "endorses H E p now digest m a"
  shows "tally_of (count_vote t a) (ms @ [m])"
  using assms by (auto simp: tally_of_def count_vote_def endorses_def Let_def role_count_def)

lemma tally_votes_Pass:
  assumes "tally_votes H E p now digest t as = (Pass, t')" and "tally_of t ms"
    and "distinct (map gm_governor_id ms)"
  shows "\<exists>new. list_all2 (endorses H E p now digest) new as \<and> tally_of t' (ms @ new) \<and>
    distinct (map gm_governor_id (ms @ new))"
  using assms
proof (induction as arbitrary: t ms)
  case Nil
  then show ?case by auto
next
  case (Cons a as)
  then have v: "vote_guard H E p now digest t a = Pass"
    and rest: "tally_votes H E p now digest (count_vote t a) as = (Pass, t')"
    by (auto split: guard.splits)
  from v obtain r where "verify_governance_approval H E p now a = Inr (True, r)"
    "fld (fld a ''payload'') ''action_digest'' = JStr digest"
    "str_val (fld (fld a ''payload'') ''governor_id'') \<notin> set (ta_governors t)"
    by (auto simp: vote_guard_def Let_def guard_iff simp del: first_fail.simps)
  with approval_accepted obtain m where m: "endorses H E p now digest m a"
    and new: "gm_governor_id m \<notin> set (ta_governors t)"
    by (fastforce simp: endorses_def Let_def)
  from Cons.IH [OF rest count_vote_tally [OF Cons.prems(2) m]] new Cons.prems(2,3)
  obtain more where "list_all2 (endorses H E p now digest) more as" "tally_of t' ((ms @ [m]) @ more)"
    "distinct (map gm_governor_id ((ms @ [m]) @ more))" by (auto simp: tally_of_def)
  with m show ?case by (intro exI [of _ "m # more"]) auto
qed

lemma role_guard_Pass [guard_iff]: "role_guard t r = Pass \<longleftrightarrow> snd r \<le> role_count t (fst r)"
  by (cases r) (auto simp: role_guard_def guard_iff)

section \<open>An example\<close>

text \<open>Two governors; the hash keeps the first byte only, which is enough to tell them apart.\<close>

definition first_byte :: hash where
  "first_byte s = take 1 s"

definition demo_governance :: governance_policy where
  "demo_governance = \<lparr> gp_policy_id = ''g'', gp_version = 1, gp_threshold = 2,
     gp_members = [member_from_public_key first_byte (cy_public demo_crypto ''a'') ''ops'',
       member_from_public_key first_byte (cy_public demo_crypto ''b'') ''risk''],
     gp_required_roles = [(''risk'', 1)], gp_max_lifetime = 300, gp_allowed_actions = [''AUTHORITY_RESET''] \<rparr>"

definition demo_action :: governance_action where
  "demo_action = \<lparr> ga_id = ''r1'', ga_action = ''AUTHORITY_RESET'', ga_agent_id = ''agent'',
     ga_capability_id = ''cap'', ga_epoch = 1, ga_reason = ''reviewed'',
     ga_policy_sha256 = governance_policy_digest first_byte demo_governance, ga_issued_at = NFlt (Fin 1000),
     ga_expires_at = NFlt (Fin 1200), ga_nonce = ''n'' \<rparr>"

definition demo_vote :: "string \<Rightarrow> string \<Rightarrow> json" where
  "demo_vote key role = JObj (signed_dict (sign_doc demo_crypto key (approval_payload
     \<lparr> gx_action_digest = governance_digest first_byte (JObj (governance_action_dict demo_action)),
       gx_governor_id = governor_id first_byte (cy_public demo_crypto key), gx_role = role, gx_approval_id = key,
       gx_issued_at = NInt 1000, gx_expires_at = NInt 1200, gx_nonce = key \<rparr>)))"

lemma demo_keys:
  "length (cy_public demo_crypto k) = 32"
  "decode_key (b64encode (cy_public demo_crypto k)) = Some (cy_public demo_crypto k)"
  using demo_crypto_correct by (simp_all add: crypto_correct_def decode_encoded_key)

lemma demo_governors:
  "governor_id first_byte (cy_public demo_crypto ''a'') = ''a''"
  "governor_id first_byte (cy_public demo_crypto ''b'') = ''b''"
  by (simp_all add: governor_id_def first_byte_def demo_crypto_def)

lemma demo_digest: "governance_digest first_byte (JObj d) = ''{''"
  by (simp add: governance_digest_def digest_json_def first_byte_def)

lemma demo_keys_differ:
  "b64encode (cy_public demo_crypto ''b'') \<noteq> b64encode (cy_public demo_crypto ''a'')"
proof
  assume "b64encode (cy_public demo_crypto ''b'') = b64encode (cy_public demo_crypto ''a'')"
  then have "cy_public demo_crypto ''b'' = cy_public demo_crypto ''a''" by (metis b64decode_encode option.inject)
  with demo_governors show False by simp
qed

lemma demo_governance_valid: "validate_governance_policy first_byte demo_governance = Inr ()"
  by (simp add: validate_governance_policy_def all_of_Inr demo_governance_def member_from_public_key_def
      demo_governors member_key_def demo_keys demo_keys_differ)

lemma signed_fields:
  "jget (signed_dict s) ''payload'' = JObj (sd_payload s)" "jget (signed_dict s) ''signature'' = JStr (sd_signature s)"
  "jget (signed_dict s) ''algorithm'' = JStr ''Ed25519''"
  by (simp_all add: jget_def)

definition plain_vote :: "hash \<Rightarrow> crypto \<Rightarrow> string \<Rightarrow> string \<Rightarrow> string \<Rightarrow> string \<Rightarrow> jdict" where
  "plain_vote H E digest key role vote_id = approval_payload \<lparr> gx_action_digest = digest,
     gx_governor_id = governor_id H (cy_public E key), gx_role = role, gx_approval_id = vote_id,
     gx_issued_at = NInt 1000, gx_expires_at = NInt 1200, gx_nonce = vote_id \<rparr>"

text \<open>A member's vote, signed with the member's key and within its lifetime, is accepted.\<close>

lemma plain_vote_valid:
  assumes E: "crypto_correct E" and p: "validate_governance_policy H p = Inr ()" "200 \<le> gp_max_lifetime p"
    and signer: "find (\<lambda>m. gm_governor_id m = governor_id H (cy_public E key)) (gp_members p) = Some m"
      "gm_role m = role" "member_key m = Inr (cy_public E key)"
    and given: "digest \<noteq> []" "governor_id H (cy_public E key) \<noteq> []" "role \<noteq> []" "vote_id \<noteq> []"
  shows "verify_governance_approval H E p (Fin 1010)
      (JObj (signed_dict (sign_doc E key (plain_vote H E digest key role vote_id)))) =
    Inr (True, ''valid governance approval'')"
proof -
  define vote where "vote = plain_vote H E digest key role vote_id"
  have fields: "jget vote ''action_digest'' = JStr digest" "jget vote ''governor_id'' = JStr (governor_id H (cy_public E key))"
    "jget vote ''role'' = JStr role" "jget vote ''approval_id'' = JStr vote_id"
    "jget vote ''nonce'' = JStr vote_id" "jget vote ''issued_at'' = JInt 1000"
    "jget vote ''expires_at'' = JInt 1200" "jget vote ''governance_version'' = JInt 1"
    by (simp_all add: vote_def plain_vote_def approval_payload_def jget_def)
  have period: "list_all (\<lambda>g. g = Pass) (period_guards p (Fin 1010) ''governance approval'' (JObj vote))"
    using p(2) by (simp add: period_guards_def fields num_of_def json_num_def guard_iff outlives_def num_sub_def
        round64_numeral Let_def num_lt_def num_le_def)
  have sig: "signer_of p (JObj vote) = Some m"
    using signer by (simp add: signer_of_def fields member_for_governor_def)
  show ?thesis
    using sign_doc_verifies [OF E, of key vote] p(1) given
    by (simp add: verify_governance_approval_def verdict_of_accepts approval_guards_def vote_def [symmetric] fields period
        sig signer(3) signer_key_def simple_guards has_key_Pass differs_def approval_texts_def empty_text_def json_num_def
        Let_def signed_fields del: signature_guard_Pass)
qed

lemma demo_vote_valid:
  assumes "(key, role) \<in> {(''a'', ''ops''), (''b'', ''risk'')}"
  shows "verify_governance_approval first_byte demo_crypto demo_governance (Fin 1010) (demo_vote key role) =
    Inr (True, ''valid governance approval'')"
proof -
  have v: "demo_vote key role = JObj (signed_dict (sign_doc demo_crypto key (plain_vote first_byte demo_crypto
      (governance_digest first_byte (JObj (governance_action_dict demo_action))) key role key)))"
    by (simp add: demo_vote_def plain_vote_def)
  show ?thesis unfolding v
    using assms demo_governance_valid
    by (intro plain_vote_valid [OF demo_crypto_correct, where m = "member_from_public_key first_byte (cy_public demo_crypto key) role"])
       (auto simp: demo_governance_def member_from_public_key_def demo_governors member_key_def demo_keys demo_digest)
qed

lemma demo_vote_fields:
  "fld (fld (demo_vote key role) ''payload'') ''action_digest'' =
     JStr (governance_digest first_byte (JObj (governance_action_dict demo_action)))"
  "fld (fld (demo_vote key role) ''payload'') ''governor_id'' =
     JStr (governor_id first_byte (cy_public demo_crypto key))"
  "fld (fld (demo_vote key role) ''payload'') ''nonce'' = JStr key"
  "fld (fld (demo_vote key role) ''payload'') ''role'' = JStr role"
  by (simp_all add: demo_vote_def signed_fields approval_payload_def jget_def)

lemma demo_quorum:
  "verify_governance_quorum first_byte demo_crypto demo_governance (Fin 1010)
     (JObj (governance_action_dict demo_action)) [demo_vote ''a'' ''ops'', demo_vote ''b'' ''risk''] =
   Inr (True, ''governance quorum satisfied'')"
proof -
  let ?d = "governance_digest first_byte (JObj (governance_action_dict demo_action))"
  have votes: "\<exists>t. tally_votes first_byte demo_crypto demo_governance (Fin 1010) ?d no_votes
      [demo_vote ''a'' ''ops'', demo_vote ''b'' ''risk''] = (Pass, t) \<and> ta_valid t = 2 \<and> role_count t ''risk'' = 1"
    by (simp add: vote_guard_def Let_def demo_vote_valid demo_vote_fields demo_governors count_vote_def no_votes_def
        role_count_def ask_def reject_def)
  have sha: "governance_policy_digest first_byte p = ''{''" for p
    by (simp add: governance_policy_digest_def digest_json_def first_byte_def)
  have action: "list_all (\<lambda>g. g = Pass) (quorum_action_guards first_byte demo_governance (Fin 1010)
      (JObj (governance_action_dict demo_action)))"
    by (simp add: quorum_action_guards_def governance_action_dict_def jget_def sha demo_action_def simple_guards
        differs_def action_texts_def empty_text_def governing_sha_def or_else_def demo_governance_def
        numeric_guard_def json_num_def period_guards_def num_of_def Let_def num_lt_def num_le_def round64_numeral
        num_sub_def outlives_def py_float_def reset_action_guards_def is_int_def f_sub_def)
  have policy: "gp_threshold demo_governance = 2" "gp_required_roles demo_governance = [(''risk'', 1)]"
    by (simp_all add: demo_governance_def)
  from votes show ?thesis
    unfolding verify_governance_quorum_def open_verdict_accepts quorum_guards_def Let_def
    by (auto simp: action demo_governance_valid simple_guards role_guard_Pass policy simp del: tally_votes.simps)
qed

section \<open>Properties\<close>

text \<open>C32: a quorum is accepted only for an unexpired action that the policy allows, when distinct members of
  the policy, at least as many as the threshold and enough of every required role, each signed an
  unexpired approval of the digest of this action.\<close>

theorem quorum_safe:
  assumes "verify_governance_quorum H E p now payload approvals = Inr (True, r)"
  shows "\<exists>signers. distinct (map gm_governor_id signers) \<and>
    list_all2 (endorses H E p now (governance_digest H payload)) signers approvals \<and>
    gp_threshold p \<le> int (length signers) \<and>
    (\<forall>(role, least)\<in>set (gp_required_roles p). least \<le> int (length (filter (\<lambda>m. gm_role m = role) signers))) \<and>
    (\<exists>action. fld payload ''action'' = JStr action \<and> action \<in> set (gp_allowed_actions p)) \<and>
    (\<exists>n. json_num (fld payload ''expires_at'') = Some n \<and> \<not> num_le n (NFlt now))"
proof -
  obtain g t where t: "tally_votes H E p now (governance_digest H payload) no_votes approvals = (g, t)" by fastforce
  from assms have all: "list_all (\<lambda>g. g = Pass) (quorum_guards H E p now payload approvals)"
    by (simp add: verify_governance_quorum_def open_verdict_accepts)
  with t have g: "g = Pass" and th: "gp_threshold p \<le> ta_valid t"
    and roles: "list_all (\<lambda>r. snd r \<le> role_count t (fst r)) (gp_required_roles p)"
    and act: "list_all (\<lambda>g. g = Pass) (quorum_action_guards H p now payload)"
    by (auto simp: quorum_guards_def Let_def guard_iff list.pred_map comp_def)
  from tally_votes_Pass [OF t [unfolded g] tally_of_empty] obtain signers where
    "list_all2 (endorses H E p now (governance_digest H payload)) signers approvals" "tally_of t signers"
    "distinct (map gm_governor_id signers)" by auto
  moreover from act have "\<exists>action. fld payload ''action'' = JStr action \<and> action \<in> set (gp_allowed_actions p)"
    by (auto simp: quorum_action_guards_def guard_iff action_texts_def list_ex_iff not_empty_text)
  moreover from act have "\<exists>n. json_num (fld payload ''expires_at'') = Some n \<and> \<not> num_le n (NFlt now)"
    by (auto simp: quorum_action_guards_def guard_iff period_guards_def Let_def num_of_def numeric_guard_def)
  ultimately show ?thesis using th roles by (intro exI [of _ signers]) (auto simp: tally_of_def list_all_iff)
qed


theorem quorum_safe_witness:
  "\<exists>signers. distinct (map gm_governor_id signers) \<and>
    list_all2 (endorses first_byte demo_crypto demo_governance (Fin 1010)
       (governance_digest first_byte (JObj (governance_action_dict demo_action)))) signers
      [demo_vote ''a'' ''ops'', demo_vote ''b'' ''risk''] \<and> 2 \<le> int (length signers)"
proof -
  have "gp_threshold demo_governance = 2" by (simp add: demo_governance_def)
  with quorum_safe [OF demo_quorum] show ?thesis by auto
qed

end
