(* ===== verification/Recovery.thy ===== *)
theory Recovery
  imports Quorum Authority_Levels
begin

text \<open>
  What a governance reset achieves: the scope is no longer suspended, because the reset is the latest one
  and no critical event lies after it.
\<close>

section \<open>The database a reset relies on\<close>

text \<open>The epoch column repeats the epoch of the stored document, and no stored time is NULL.\<close>

definition epoch_in :: "json \<Rightarrow> json option" where
  "epoch_in signed = Option.bind (dget (obj_val signed) ''payload'') (\<lambda>p. dget (obj_val p) ''epoch'')"

definition recoverable :: "db \<Rightarrow> bool" where
  "recoverable d \<longleftrightarrow> (\<forall>r\<in>set (t_resets d). epoch_in (rs_signed r) = Some (JInt (rs_epoch r))) \<and>
     (\<forall>e\<in>set (t_events d). ev_occurred_at e \<noteq> NaN)"

lemma events_after_save [simp]:
  "t_events (save_state s t d) = t_events d" "t_resets (save_state s t d) = t_resets d"
  by (simp_all add: save_state_def put_state_def)

lemma events_since_save [simp]: "events_since a k s (save_state r t d) = events_since a k s d"
  by (simp add: events_since_def)

lemma reset_checks_Inr:
  assumes "reset_checks H clk payload c = (c1, Inr (snap, events))"
  defines "a \<equiv> str_val (fld payload ''agent_id'')" and "k \<equiv> str_val (fld payload ''capability_id'')"
  shows "epoch_check payload (reset_in a k (cur c)) = Inr ()"
    and "json_le (fld payload ''issued_at'') (JFloat (latest_critical (events_since a k None (cur c)))) = Inr False"
    and "t_resets (cur c1) = t_resets (cur c) \<and> t_events (cur c1) = t_events (cur c)"
  using assms(1)
  by (auto simp: reset_checks_def Let_def storage_capability_def capability_is_active_def identity_is_active_def
      latest_authority_reset_def reset_in_def bindS_apply snapshot_spec authority_events_def a_def k_def
      split: option.splits if_splits sum.splits)


section \<open>The times\<close>

lemma latest_fold:
  "t \<noteq> NaN \<Longrightarrow> NaN \<notin> set ts \<Longrightarrow> foldl py_max t ts \<noteq> NaN \<and> (\<forall>u\<in>set (t # ts). x_le u (foldl py_max t ts))"
proof (induction ts arbitrary: t)
  case (Cons u ts)
  then have m: "py_max t u \<noteq> NaN" "x_le t (py_max t u)" "x_le u (py_max t u)"
    by (auto simp: py_max_def x_not_lt) (cases t; cases u; simp)
  from Cons.IH [OF m(1)] Cons.prems(2) have "foldl py_max (py_max t u) ts \<noteq> NaN"
    "\<forall>v\<in>set (py_max t u # ts). x_le v (foldl py_max (py_max t u) ts)" by auto
  with m show ?case by (auto intro: x_le_trans)
qed simp

lemma latest_critical_bound:
  assumes "\<forall>e\<in>set events. ev_occurred_at e \<noteq> NaN" and "e \<in> set events" and "ev_event_type e \<in> set critical_events"
  shows "x_le (ev_occurred_at e) (latest_critical events)"
proof -
  let ?ts = "map ev_occurred_at (filter (\<lambda>e. ev_event_type e \<in> set critical_events) events)"
  have e: "ev_occurred_at e \<in> set ?ts" "NaN \<notin> set ?ts" using assms by auto
  then obtain t ts where ts: "?ts = t # ts" by (cases ?ts) auto
  with e have "t \<noteq> NaN" "NaN \<notin> set ts" by auto
  with latest_fold [of t ts] e(1) show ?thesis unfolding ts latest_critical_def by auto
qed

text \<open>A window that starts with the reset holds no critical event, so the scope is not suspended.\<close>

lemma history_after_reset:
  assumes "history_start p (Fin x) (Some v) = Inr start" and "reset_time v = Inr (Fin x)"
  shows "start = NaN \<or> x_le (Fin x) start"
  using assms by (cases start) (auto simp: history_start_def bindE_Inr_iff py_max_def split: if_splits)

lemma recovered_state:
  assumes snap: "snapshot_of H default_authority_policy a k (Fin x) d = Inr s"
    and reset: "reset_in a k d = Some v" "reset_time v = Inr (Fin x)"
    and stale: "json_le (JFloat (Fin x)) (JFloat (latest_critical (events_since a k None d))) = Inr False"
    and times: "\<forall>e\<in>set (t_events d). ev_occurred_at e \<noteq> NaN"
  shows "as_state s \<noteq> SUSPENDED"
proof -
  obtain start where st: "history_start default_authority_policy (Fin x) (Some v) = Inr start"
    "as_critical_events s = count_events critical_events (events_since a k (Some start) d)"
    using snap reset(1) by (auto simp: snapshot_of_def bindE_Inr_iff Let_def)
  have late: "\<not> x_le (Fin x) (latest_critical (events_since a k None d))"
    using stale by (simp add: json_le_def)
  have "\<not> (ev_event_type e \<in> set critical_events)" if "e \<in> set (events_since a k (Some start) d)" for e
  proof
    assume crit: "ev_event_type e \<in> set critical_events"
    from that have e: "e \<in> set (events_since a k None d)" "x_le start (ev_occurred_at e)"
      by (auto simp: events_since_def)
    with history_after_reset [OF st(1) reset(2)] have "x_le (Fin x) (ev_occurred_at e)"
      by (auto intro: x_le_trans)
    moreover have "x_le (ev_occurred_at e) (latest_critical (events_since a k None d))"
      using times e(1) crit by (intro latest_critical_bound) (auto simp: events_since_def)
    ultimately show False using late x_le_trans by blast
  qed
  then have "as_critical_events s = 0" by (simp add: st(2) count_events_def filter_empty_conv)
  with snapshot_of_Inr(4) [OF snap] reset(1) show ?thesis
    by (auto simp: classify_def default_authority_policy_def split: if_splits)
qed


section \<open>The stored reset\<close>

definition same_history :: "db \<Rightarrow> db \<Rightarrow> bool" where
  "same_history d e \<longleftrightarrow> t_resets e = t_resets d \<and> t_events e = t_events d"

lemma on_integrity_raise: "on_integrity m (raiseS e) c = (c', Inr x) \<longleftrightarrow> m c = (c', Inr x)"
  by (auto simp: on_integrity_def catchS_def bindS_apply split: prod.splits sum.splits)

lemma insert_approvals_history:
  "insert_approvals as clk n c = (c', Inr u) \<Longrightarrow> same_history (cur c) (cur c')"
proof (induction as arbitrary: n c)
  case (Cons a as)
  then obtain d p c1 where one: "insert_approval (approval_row_for d p (clk n)) c = (c1, Inr ())"
    and more: "insert_approvals as clk (Suc n) c1 = (c', Inr u)"
    by (auto simp: bindS_Inr_iff)
  from one have "same_history (cur c) (cur c1)"
    by (auto simp: insert_approval_def dml_def ins_def bindE_Inr_iff same_history_def split: sum.splits)
  with Cons.IH [OF more] show ?case by (auto simp: same_history_def)
qed (simp add: same_history_def)

lemma register_reset_Inr:
  assumes "register_authority_reset signed approvals clk t c = (c', Inr u)"
  shows "\<exists>p r. jindex_obj signed ''payload'' = Inr p \<and> reset_row_for signed p t = Inr r \<and>
    t_resets (cur c') = t_resets (cur c) @ [r] \<and> t_events (cur c') = t_events (cur c)"
proof -
  from assms obtain p c1 c2 where p: "jindex_obj signed ''payload'' = Inr p"
    and c1: "insert_approvals approvals clk 0 c = (c1, Inr ())"
    and c2: "insert_reset (reset_row_for signed p t) c1 = (c2, Inr ())" and c': "c' = c2\<lparr>disk := cur c2, work := None\<rparr>"
    by (auto simp: register_authority_reset_def on_integrity_raise bindS_Inr_iff)
  from c2 obtain r where "reset_row_for signed p t = Inr r" "t_resets (cur c2) = t_resets (cur c1) @ [r]"
    "t_events (cur c2) = t_events (cur c1)"
    by (auto simp: insert_reset_def dml_def ins_def bindE_Inr_iff insert_row_Inr split: sum.splits)
  with insert_approvals_history [OF c1] p c' show ?thesis by (auto simp: same_history_def cur_idle)
qed

lemma jindex_obj_Inr: "jindex_obj d k = Inr p \<longleftrightarrow> dget d k = Some (JObj p)"
proof -
  have "(case v of JObj q \<Rightarrow> Inr q | _ \<Rightarrow> Inl (TypeError k)) = Inr p \<longleftrightarrow> v = JObj p" for v
    by (cases v) auto
  then show ?thesis by (auto simp: jindex_obj_def jindex_Inr bindE_Inr_iff)
qed

lemma max_row_last: "\<forall>s\<in>set rs. f s < f r \<Longrightarrow> max_row f (rs @ [r]) = Some r"
  by (induction rs) auto

lemma json_succ_JInt: "json_succ (JInt i) = Inr (JInt (i + 1))"
  by (simp add: json_succ_def)

text \<open>The reset just stored is the one the next snapshot reads.\<close>

lemma stored_is_latest:
  assumes ok: "recoverable d" and "epoch_check payload (reset_in a k d) = Inr ()"
    and "fld payload ''epoch'' = JInt (rs_epoch r)" and "rs_agent_id r = a" and "rs_capability_id r = k"
    and "t_resets e = t_resets d @ [r]"
  shows "reset_in a k e = Some (rs_signed r)"
proof -
  have "rs_epoch s < rs_epoch r" if s: "s \<in> set (resets_of a k d)" for s
  proof -
    from s obtain m where m: "max_row rs_epoch (resets_of a k d) = Some m" by (cases "max_row rs_epoch (resets_of a k d)") auto
    from max_row_Some [OF m] s have mb: "m \<in> set (resets_of a k d)" "rs_epoch s \<le> rs_epoch m" by auto
    with ok have "epoch_in (rs_signed m) = Some (JInt (rs_epoch m))" by (simp add: recoverable_def resets_of_def)
    with assms(2,3) m have "rs_epoch r = rs_epoch m + 1"
      by (auto simp: epoch_check_def reset_in_def as_dict_def jindex_obj_Inr jindex_Inr bindE_Inr_iff epoch_in_def
          json_succ_JInt differs_def split: json.splits)
    with mb(2) show ?thesis by simp
  qed
  moreover have "resets_of a k e = resets_of a k d @ [r]" using assms(4-6) by (simp add: resets_of_def)
  ultimately show ?thesis by (simp add: reset_in_def max_row_last)
qed


lemma reset_row_fields:
  assumes "reset_row_for signed p t = Inr r" and "jget p ''epoch'' = JInt e"
  shows "rs_epoch r = e" "jget p ''agent_id'' = JStr (rs_agent_id r)"
    "jget p ''capability_id'' = JStr (rs_capability_id r)" "rs_signed r = JObj signed"
proof -
  have nn: "col_text_nn v = Inr c \<longleftrightarrow> v = JStr c" for v c by (cases v) auto
  show "rs_epoch r = e" "jget p ''agent_id'' = JStr (rs_agent_id r)"
    "jget p ''capability_id'' = JStr (rs_capability_id r)" "rs_signed r = JObj signed"
    using assms by (auto simp: reset_row_for_def bindE_Inr_iff sql_int_def nn split: if_splits)
qed

definition same_reset :: "json \<Rightarrow> jdict \<Rightarrow> bool" where
  "same_reset payload p \<longleftrightarrow>
     (\<forall>k\<in>{''agent_id'', ''capability_id'', ''epoch'', ''issued_at''}. jget p k = fld payload k)"

lemma stored_reset_recovers:
  assumes ok: "recoverable (cur c)" and checks: "reset_checks H clk payload c = (c1, Inr y)"
    and store: "register_authority_reset signed approvals clk' t c1 = (c2, Inr u)"
    and fresh: "refreshed H payload t' c2 = (c3, Inr snap)"
    and p: "jindex_obj signed ''payload'' = Inr p" "same_reset payload p"
    and num: "fld payload ''epoch'' = JInt e" "fld payload ''issued_at'' = JFloat (Fin x)"
  shows "as_state snap \<noteq> SUSPENDED \<and> recoverable (cur c3) \<and>
    reset_in (str_val (fld payload ''agent_id'')) (str_val (fld payload ''capability_id'')) (cur c3) =
      Some (JObj signed)"
proof -
  let ?a = "str_val (fld payload ''agent_id'')" and ?k = "str_val (fld payload ''capability_id'')"
  obtain sn es where y: "y = (sn, es)" by fastforce
  note chk = reset_checks_Inr [OF checks [unfolded y]]
  from register_reset_Inr [OF store] p(1) obtain r where r: "reset_row_for signed p t = Inr r"
    "t_resets (cur c2) = t_resets (cur c) @ [r]" "t_events (cur c2) = t_events (cur c)"
    using chk(3) by auto
  note row = reset_row_fields [OF r(1), of e]
  have ep: "jget p ''epoch'' = JInt e" and key: "?a = rs_agent_id r" "?k = rs_capability_id r"
    using p(2) num row by (simp_all add: same_reset_def)
  have epoch: "epoch_in (rs_signed r) = Some (JInt (rs_epoch r))"
    using p(1) ep row(1,4) by (auto simp: epoch_in_def jindex_obj_Inr jget_def split: option.splits)
  have new: "reset_in ?a ?k (cur c2) = Some (JObj signed)"
    using stored_is_latest [OF ok chk(1) _ _ _ r(2)] row(1,4) ep num key by simp
  have ok2: "recoverable (cur c2)" using ok epoch r(2,3) by (auto simp: recoverable_def)
  have since: "events_since ?a ?k None (cur c2) = events_since ?a ?k None (cur c)"
    using r(3) by (simp add: events_since_def)
  have tm: "reset_time (JObj signed) = Inr (Fin x)"
    using p num by (auto simp: reset_time_def as_dict_def same_reset_def jindex_def jget_def split: option.splits)
  from fresh num(2) have s: "snapshot_of H default_authority_policy ?a ?k (Fin x) (cur c2) = Inr snap"
    "c3 = c2\<lparr>disk := save_state snap t' (cur c2), work := None\<rparr>"
    by (auto simp: refreshed_def snapshot_spec split: sum.splits)
  have "as_state snap \<noteq> SUSPENDED"
    using recovered_state [OF s(1) new tm] chk(2) num(2) ok2 since by (auto simp: recoverable_def)
  with s(2) new ok2 show ?thesis by (auto simp: recoverable_def cur_idle reset_in_def resets_of_def)
qed


lemma permit_Inr: "permit v = Inr u \<longleftrightarrow> (\<exists>r. v = Inr (True, r))"
  by (cases v) (auto simp: permit_def)

lemma verified_reset:
  assumes "verify_authority_reset H E key now (JObj signed) = Inr (True, r)"
  shows "\<exists>p e. jindex_obj signed ''payload'' = Inr p \<and> fld (JObj signed) ''payload'' = JObj p \<and> jget p ''epoch'' = JInt e"
proof -
  from assms have "list_all (\<lambda>g. g = Pass) (reset_guards H E key now (JObj signed))"
    by (simp add: verify_authority_reset_def verdict_of_accepts)
  then show ?thesis
    by (auto simp: reset_guards_def Let_def guard_iff is_obj_iff is_int_iff jindex_obj_Inr jget_def)
qed

lemma quorum_reset_payload:
  assumes "verify_governance_quorum H E p now payload approvals = Inr (True, r)"
    and "quorum_reset_checks H p now payload = Inr u"
  shows "\<exists>e. fld payload ''epoch'' = JInt e"
proof -
  from assms(1) have "list_all (\<lambda>g. g = Pass) (quorum_action_guards H p now payload)"
    by (simp add: verify_governance_quorum_def open_verdict_accepts quorum_guards_def Let_def)
  moreover have "fld payload ''action'' = JStr ''AUTHORITY_RESET''"
    using assms(2) by (simp add: quorum_reset_checks_def all_of_Inr)
  ultimately show ?thesis
    by (auto simp: quorum_action_guards_def guard_iff reset_action_guards_def is_int_iff)
qed

lemma same_reset_rebuilt: "same_reset payload (rebuilt_action payload)"
  by (simp add: same_reset_def rebuilt_action_def jget_def)

section \<open>Properties\<close>

text \<open>C33: a governance reset, by one governor or by a quorum, ends the suspension: the snapshot it returns is
  not SUSPENDED, the reset is the one that later snapshots read, and the database stays recoverable.\<close>

theorem reset_recovers:
  assumes "recoverable (cur c)"
    and "governance_reset H E key clk signed c = (c', Inr snap) \<and> payload = fld (JObj signed) ''payload'' \<or>
      multiparty_governance_reset H E p clk payload approvals c = (c', Inr snap)"
    and "fld payload ''issued_at'' = JFloat (Fin x)"
  shows "as_state snap \<noteq> SUSPENDED \<and> recoverable (cur c') \<and>
    reset_in (str_val (fld payload ''agent_id'')) (str_val (fld payload ''capability_id'')) (cur c') \<noteq> None"
  using assms(2)
proof
  assume "governance_reset H E key clk signed c = (c', Inr snap) \<and> payload = fld (JObj signed) ''payload''"
  then obtain r y c1 c2 where "verify_authority_reset H E key (clk 4) (JObj signed) = Inr (True, r)"
    "reset_checks H clk payload c = (c1, Inr y)"
    "register_authority_reset signed [] (\<lambda>_. clk 5) (clk 5) c1 = (c2, Inr ())"
    "refreshed H payload (clk 6) c2 = (c', Inr snap)" and p: "payload = fld (JObj signed) ''payload''"
    by (auto simp: governance_reset_def bindS_Inr_iff permit_Inr Let_def simp del: fld.simps)
  with verified_reset obtain q e where "jindex_obj signed ''payload'' = Inr q" "payload = JObj q"
    "jget q ''epoch'' = JInt e" by metis
  with stored_reset_recovers [OF assms(1) \<open>reset_checks H clk payload c = (c1, Inr y)\<close>
      \<open>register_authority_reset signed [] (\<lambda>_. clk 5) (clk 5) c1 = (c2, Inr ())\<close>
      \<open>refreshed H payload (clk 6) c2 = (c', Inr snap)\<close>] assms(3)
  show ?thesis by (auto simp: same_reset_def)
next
  assume "multiparty_governance_reset H E p clk payload approvals c = (c', Inr snap)"
  then obtain r y c1 c2 where q: "verify_governance_quorum H E p (clk 4) payload approvals = Inr (True, r)"
    "quorum_reset_checks H p (clk 4) payload = Inr ()" and run: "reset_checks H clk payload c = (c1, Inr y)"
    "register_authority_reset (multiparty_envelope H p payload approvals) approvals (\<lambda>n. clk (7 + n)) (clk 5) c1 =
       (c2, Inr ())" "refreshed H payload (clk 6) c2 = (c', Inr snap)"
    by (auto simp: multiparty_governance_reset_def bindS_Inr_iff permit_Inr)
  from quorum_reset_payload [OF q] obtain e where "fld payload ''epoch'' = JInt e" by blast
  with stored_reset_recovers [OF assms(1) run _ same_reset_rebuilt] assms(3)
  show ?thesis by (auto simp: jindex_obj_Inr multiparty_envelope_def)
qed


section \<open>An example\<close>

definition frozen_capability :: capability where
  "frozen_capability = demo_capability\<lparr>cap_id := ''cap'', cap_agent_id := ''agent''\<rparr>"

definition frozen_scope :: "db conn" where
  "frozen_scope = fresh\<lparr>disk := empty_db\<lparr>t_capabilities := [\<lparr> cr_capability_id = ''cap'', cr_agent_id = ''agent'',
       cr_version = 1, cr_capability = frozen_capability, cr_sha256 = [], cr_status = ''ACTIVE'', cr_issued_at = Fin 0,
       cr_expires_at = None, cr_revoked_at = None, cr_created_at = Fin 0 \<rparr>],
     t_states := [\<lparr> st_agent_id = ''agent'', st_capability_id = ''cap'', st_state = ''SUSPENDED'',
       st_snapshot = JNull, st_updated_at = Fin 0 \<rparr>]\<rparr>\<rparr>"

definition demo_reset :: authority_reset where
  "demo_reset = \<lparr> ar_id = ''r'', ar_agent_id = ''agent'', ar_capability_id = ''cap'', ar_governor_id = ''a'',
     ar_epoch = 1, ar_reason = ''reviewed'', ar_issued_at = NFlt (Fin 1005), ar_nonce = ''n'' \<rparr>"

lemma demo_reset_fields:
  "jget (reset_dict demo_reset) ''agent_id'' = JStr ''agent''" "jget (reset_dict demo_reset) ''capability_id'' = JStr ''cap''"
  "jget (reset_dict demo_reset) ''epoch'' = JInt 1" "jget (reset_dict demo_reset) ''issued_at'' = JFloat (Fin 1005)"
  "jget (reset_dict demo_reset) ''governance_version'' = JInt 1" "jget (reset_dict demo_reset) ''action'' = JStr ''AUTHORITY_RESET''"
  "jget (reset_dict demo_reset) ''reset_id'' = JStr ''r''" "jget (reset_dict demo_reset) ''reason'' = JStr ''reviewed''"
  "jget (reset_dict demo_reset) ''nonce'' = JStr ''n''" "jget (reset_dict demo_reset) ''governor_id'' = JStr ''a''"
  by (simp_all add: reset_dict_def demo_reset_def jget_def)

abbreviation noon :: "nat \<Rightarrow> xnum" where
  "noon \<equiv> \<lambda>_. Fin 1010"

lemma demo_reset_verifies:
  "verify_authority_reset first_byte demo_crypto (cy_public demo_crypto ''a'') (Fin 1010)
     (JObj (signed_dict (sign_authority_reset demo_crypto ''a'' demo_reset))) = Inr (True, ''valid authority reset'')"
proof -
  have "round64 (- 2590990) = Fin (- 2590990)" using round64_int [of "- 2590990"] by simp
  then show ?thesis
    using sign_doc_verifies [OF demo_crypto_correct, of "''a''" "reset_dict demo_reset"]
    by (simp add: verify_authority_reset_def verdict_of_accepts reset_guards_def Let_def sign_authority_reset_def
        signed_fields demo_reset_fields simple_guards has_key_Pass differs_def reset_text_fields_def empty_text_def
        is_int_def json_num_def num_of_def num_lt_def round64_numeral f_sub_def demo_governors
        del: signature_guard_Pass)
qed

lemma frozen_scope_facts:
  "work frozen_scope = None" "find_capability ''cap'' (cur frozen_scope) = Some frozen_capability"
  "capability_active_at ''cap'' x (cur frozen_scope)" "reset_in ''agent'' ''cap'' (cur frozen_scope) = None"
  "events_since ''agent'' ''cap'' v (cur frozen_scope) = []" "t_resets (cur frozen_scope) = []"
  "t_events (cur frozen_scope) = []" "latest_state_in ''agent'' ''cap'' (cur frozen_scope) = Some ''SUSPENDED''"
  by (simp_all add: frozen_scope_def cur_def find_capability_def capability_row_of_def select_one_def
      capability_active_at_def not_expired_def reset_in_def resets_of_def events_since_def order_asc_def
      latest_state_in_def empty_db_def split: option.split)

lemma frozen_update: "cur (frozen_scope\<lparr>disk := d\<rparr>) = d"
  by (simp add: cur_def frozen_scope_facts)

lemma frozen_snapshot:
  "\<exists>s. snapshot_of first_byte default_authority_policy ''agent'' ''cap'' (Fin 1010) (cur frozen_scope) = Inr s \<and>
     as_state s = SUSPENDED"
  by (simp add: snapshot_of_def history_start_def frozen_scope_facts py_float_def default_authority_policy_def
      round64_numeral Let_def classify_def)

lemma demo_reset_checks:
  "\<exists>c1 y. reset_checks first_byte noon (JObj (reset_dict demo_reset)) frozen_scope = (c1, Inr y) \<and>
     t_resets (cur c1) = [] \<and> t_events (cur c1) = []"
proof -
  from frozen_snapshot obtain s where
    "snapshot_of first_byte default_authority_policy ''agent'' ''cap'' (Fin 1010) (cur frozen_scope) = Inr s"
    "as_state s = SUSPENDED" by blast
  moreover have "cap_agent_id frozen_capability = ''agent''" "cap_id frozen_capability = ''cap''"
    "cap_identity_id frozen_capability = None" by (simp_all add: frozen_capability_def demo_capability_def)
  moreover have "resets_of ''agent'' ''cap'' (cur frozen_scope) = []" using frozen_scope_facts(4) by (simp add: reset_in_def)
  ultimately show ?thesis
    by (simp add: reset_checks_def Let_def demo_reset_fields storage_capability_def bindS_apply frozen_scope_facts
        capability_is_active_def latest_authority_reset_def reset_in_def epoch_check_def differs_def snapshot_spec
        authority_events_def json_le_def latest_critical_def need_def
        frozen_update)
qed

lemma demo_reset_run:
  "\<exists>c' snap. governance_reset first_byte demo_crypto (cy_public demo_crypto ''a'') noon
     (signed_dict (sign_authority_reset demo_crypto ''a'' demo_reset)) frozen_scope = (c', Inr snap)"
proof -
  let ?s = "signed_dict (sign_authority_reset demo_crypto ''a'' demo_reset)"
  have pay: "fld (JObj ?s) ''payload'' = JObj (reset_dict demo_reset)"
    by (simp add: signed_fields sign_authority_reset_def)
  from demo_reset_checks obtain c1 y where c1:
    "reset_checks first_byte noon (JObj (reset_dict demo_reset)) frozen_scope = (c1, Inr y)"
    "t_resets (cur c1) = []" "t_events (cur c1) = []" by blast
  have keys: "need_keys reset_keys (reset_dict demo_reset) = Inr ()"
    by (simp add: reset_keys_def reset_dict_def jindex_def)
  have row: "\<exists>r. reset_row_for ?s (reset_dict demo_reset) (Fin 1010) = Inr r \<and> rs_signed r = JObj ?s"
    by (simp add: reset_row_for_def jget_def jget_or_def reset_dict_def demo_reset_def col_real_nn_def not_null_def
        sql_int_def int64_ok_def)
  then obtain r where r: "reset_row_for ?s (reset_dict demo_reset) (Fin 1010) = Inr r" "rs_signed r = JObj ?s" by blast
  obtain c2 where c2: "register_authority_reset ?s [] noon (Fin 1010) c1 = (c2, Inr ())" "t_resets (cur c2) = [r]"
    using c1(2) keys r by (simp add: register_authority_reset_def on_integrity_raise bindS_apply jindex_obj_def
        jindex_def sign_authority_reset_def insert_reset_def dml_def ins_def insert_row_def)
  have "rs_agent_id r = ''agent''" "rs_capability_id r = ''cap''"
    using reset_row_fields [OF r(1), of 1] by (simp_all add: demo_reset_fields)
  with c2(2) r(2) have "reset_in ''agent'' ''cap'' (cur c2) = Some (JObj ?s)"
    by (simp add: reset_in_def resets_of_def)
  moreover have "reset_time (JObj ?s) = Inr (Fin 1005)"
    by (simp add: reset_time_def as_dict_def jindex_obj_def jindex_def sign_authority_reset_def reset_dict_def demo_reset_def)
  ultimately have "\<exists>s. snapshot_of first_byte default_authority_policy ''agent'' ''cap'' (Fin 1005) (cur c2) = Inr s"
    by (simp add: snapshot_of_def history_start_def py_float_def default_authority_policy_def round64_numeral Let_def)
  then obtain c3 s where "refreshed first_byte (JObj (reset_dict demo_reset)) (Fin 1010) c2 = (c3, Inr s)"
    by (auto simp: refreshed_def demo_reset_fields snapshot_spec)
  with c1(1) c2(1) show ?thesis
    by (simp add: governance_reset_def bindS_apply demo_reset_verifies permit_def need_def Let_def pay [simplified])
qed

theorem reset_recovers_witness:
  "\<exists>c' snap. governance_reset first_byte demo_crypto (cy_public demo_crypto ''a'') noon
     (signed_dict (sign_authority_reset demo_crypto ''a'' demo_reset)) frozen_scope = (c', Inr snap) \<and>
   as_state snap \<noteq> SUSPENDED"
proof -
  obtain c' snap where run: "governance_reset first_byte demo_crypto (cy_public demo_crypto ''a'') noon
     (signed_dict (sign_authority_reset demo_crypto ''a'' demo_reset)) frozen_scope = (c', Inr snap)"
    using demo_reset_run by blast
  have "recoverable (cur frozen_scope)" by (simp add: recoverable_def frozen_scope_facts)
  moreover have "fld (JObj (signed_dict (sign_authority_reset demo_crypto ''a'' demo_reset))) ''payload'' =
      JObj (reset_dict demo_reset)" by (simp add: signed_fields sign_authority_reset_def)
  ultimately show ?thesis
    using reset_recovers [OF _ disjI1 [OF conjI [OF run refl]], of 1005] run demo_reset_fields(4) by auto
qed

end
