(* ===== verification/Lineage.thy ===== *)
theory Lineage
  imports Policy_Control Recovery
begin

text \<open>
  The contract of governed publication and control.  A policy's lineage is the list of its published digests;
  publication appends to it, control selects from it, and nothing else is visible to a reader.
\<close>

section \<open>The abstract machine\<close>

type_synonym lineage = "string \<Rightarrow> string list"

definition lineage_of :: "db \<Rightarrow> lineage" where
  "lineage_of d pid = map gc_policy_sha256 (filter (\<lambda>r. gc_policy_id r = pid) (t_changes d))"

definition published :: "lineage \<Rightarrow> string \<Rightarrow> bool" where
  "published L sha \<longleftrightarrow> (\<exists>pid. sha \<in> set (L pid))"

definition last_of :: "string list \<Rightarrow> string option" where
  "last_of xs = (if xs = [] then None else Some (last xs))"

text \<open>Append \<open>sha\<close> as version \<open>n\<close> with parent \<open>parent\<close>.\<close>

definition appends :: "string \<Rightarrow> string \<Rightarrow> int \<Rightarrow> string option \<Rightarrow> lineage \<Rightarrow> lineage \<Rightarrow> bool" where
  "appends pid sha n parent L M \<longleftrightarrow> \<not> published L sha \<and> n = int (length (L pid)) + 1 \<and>
     parent = last_of (L pid) \<and> M = L(pid := L pid @ [sha])"

section \<open>What the tables keep\<close>

definition policy_in :: "json \<Rightarrow> json option" where
  "policy_in envelope = Option.bind (dget (obj_val envelope) ''policy_version'') (\<lambda>s.
     dget (obj_val s) ''payload'')"

text \<open>
  Versions count up from one, the stored document repeats the policy identifier of its row, and a control
  points into the lineage of its policy.
\<close>

definition versions_from_one :: "db \<Rightarrow> bool" where
  "versions_from_one d \<longleftrightarrow> (\<forall>pid. let rows = filter (\<lambda>r. gc_policy_id r = pid) (t_changes d) in
     map gc_version rows = map int [1..<length rows + 1])"

definition envelopes_match :: "db \<Rightarrow> bool" where
  "envelopes_match d \<longleftrightarrow> (\<forall>r\<in>set (t_changes d). \<exists>p. governed_payload (gc_envelope r) = Inr p \<and>
     dget p ''policy_id'' = Some (JStr (gc_policy_id r)))"

definition controls_in_lineage :: "db \<Rightarrow> bool" where
  "controls_in_lineage d \<longleftrightarrow> (\<forall>r\<in>set (t_controls d). pc_active_sha256 r \<in> set (lineage_of d (pc_policy_id r)))"

definition governed_db :: "db \<Rightarrow> bool" where
  "governed_db d \<longleftrightarrow> versions_from_one d \<and> envelopes_match d \<and> controls_in_lineage d"

section \<open>Failing writes\<close>

text \<open>A write that raises leaves the governed tables as they were, committed and pending.\<close>

definition untouched :: "db \<Rightarrow> db conn \<Rightarrow> bool" where
  "untouched d c \<longleftrightarrow> t_changes (disk c) = t_changes d \<and> t_controls (disk c) = t_controls d \<and>
     t_changes (cur c) = t_changes d \<and> t_controls (cur c) = t_controls d"

definition fails_clean :: "('s \<Rightarrow> bool) \<Rightarrow> ('s, 'a) sm \<Rightarrow> bool" where
  "fails_clean P m \<longleftrightarrow> (\<forall>c c' e. P c \<longrightarrow> m c = (c', Inl e) \<longrightarrow> P c')"

lemma fails_cleanD: "fails_clean P m \<Longrightarrow> P c \<Longrightarrow> m c = (c', Inl e) \<Longrightarrow> P c'"
  by (simp add: fails_clean_def)

named_theorems clean_intros \<open>rules for operations that fail without a trace\<close>

lemma fails_clean_keeps [clean_intros]: "keeps P m \<Longrightarrow> fails_clean P m"
  unfolding fails_clean_def keeps_def by (metis fst_conv)

lemma fails_clean_bind [clean_intros]:
  "keeps P m \<Longrightarrow> (\<And>x. fails_clean P (f x)) \<Longrightarrow> fails_clean P (bindS m f)"
  by (auto simp: fails_clean_def keeps_def bindS_def split: prod.splits sum.splits) (metis fst_conv)+

lemma fails_clean_last:
  "fails_clean P m \<Longrightarrow> fails_clean P (bindS m (\<lambda>_. commit))"
  by (auto simp: fails_clean_def bindS_Inl_iff)

lemma fails_clean_integrity:
  assumes "fails_clean P m" and "\<And>c. P c \<Longrightarrow> P (c\<lparr>work := None\<rparr>)" 
  shows "fails_clean P (on_integrity m (raiseS e))"
  using assms
  by (auto simp: fails_clean_def on_integrity_def catchS_def bindS_apply split: prod.splits sum.splits if_splits)

lemma untouched_rollback: "untouched d c \<Longrightarrow> untouched d (c\<lparr>work := None\<rparr>)"
  by (simp add: untouched_def)

lemma untouched_dml:
  "(\<And>d e x. f d = Inr (e, x) \<Longrightarrow> t_changes e = t_changes d \<and> t_controls e = t_controls d) \<Longrightarrow>
     keeps (untouched D) (dml f)"
  by (auto simp: keeps_def dml_def untouched_def split: sum.splits)

lemma untouched_inserts [keeps_intros]:
  "keeps (untouched D) (insert_approval r1)" "keeps (untouched D) (insert_version r2)"
  "keeps (untouched D) (insert_control_action r3)"
  unfolding insert_approval_def insert_version_def insert_control_action_def
  by (rule untouched_dml; auto simp: ins_def bindE_Inr_iff)+

lemma untouched_approvals [keeps_intros]: "keeps (untouched D) (insert_approvals as clk n)"
  by (induction as arbitrary: n) (simp_all only: insert_approvals.simps, (intro keeps_intros | assumption)+)

lemma dml_fails_clean: "fails_clean (untouched D) (dml f)"
  by (auto simp: fails_clean_def dml_def untouched_def split: sum.splits)

lemma register_change_clean: "fails_clean (untouched D) (register_governed_policy_change s e as clk t u)"
  unfolding register_governed_policy_change_def
  by (intro fails_clean_bind fails_clean_integrity untouched_rollback fails_clean_last keeps_intros;
      (simp only: insert_change_def dml_fails_clean)?; intro fails_clean_keeps keeps_intros)

lemma fails_clean_prod:
  "(\<And>x y z. fails_clean P (f x y z)) \<Longrightarrow> fails_clean P (case r of (x, y, z) \<Rightarrow> f x y z)"
  by (cases r) simp

lemma apply_control_clean: "fails_clean (untouched D) (apply_policy_control p a f e t u)"
  unfolding apply_policy_control_def
  by (intro fails_clean_last fails_clean_prod fails_clean_bind fails_clean_integrity untouched_rollback
      dml_fails_clean keeps_intros)


section \<open>Publication\<close>

lemma text_column_Inr: "col_text_nn v = Inr c \<longleftrightarrow> v = JStr c"
  by (cases v) auto

text \<open>No change of the governed tables is pending.\<close>

definition settled :: "db conn \<Rightarrow> bool" where
  "settled c \<longleftrightarrow> untouched (cur c) c"

lemma settled_idle: "work c = None \<Longrightarrow> settled c"
  by (simp add: settled_def untouched_def cur_def)

lemma untouched_settled: "untouched d c \<Longrightarrow> settled c"
  by (simp add: settled_def untouched_def)

lemma keeps_tables: "keeps (untouched D) m \<Longrightarrow> untouched D c \<Longrightarrow> m c = (c', r) \<Longrightarrow> untouched D c'"
  by (rule keepsD_eq)

lemma insert_change_after:
  assumes "untouched (cur c) c2" and "insert_change row c2 = (c3, Inr x)"
  shows "\<exists>r. row = Inr r \<and> t_changes (cur c3) = t_changes (cur c) @ [r] \<and>
    t_controls (cur c3) = t_controls (cur c) \<and>
    (\<forall>s\<in>set (t_changes (cur c)). gc_policy_sha256 r \<noteq> gc_policy_sha256 s)"
  using assms
  by (auto simp: insert_change_def dml_def ins_def bindE_Inr_iff insert_row_Inr untouched_def change_clash_def
      split: sum.splits)

lemma bindS_InrE:
  assumes "bindS m f s = (t, Inr y)"
  obtains s' x where "m s = (s', Inr x)" "f x s' = (t, Inr y)"
  using assms by (auto simp: bindS_Inr_iff)

text \<open>The row that a successful publication inserts.\<close>

definition change_row_of :: "jdict \<Rightarrow> jdict \<Rightarrow> change_row \<Rightarrow> bool" where
  "change_row_of p envelope r \<longleftrightarrow> gc_envelope r = JObj envelope \<and>
     jget p ''policy_sha256'' = JStr (gc_policy_sha256 r) \<and> jget p ''policy_id'' = JStr (gc_policy_id r) \<and>
     col_int_nn (jget p ''version'') = Inr (gc_version r) \<and>
     col_text (jget p ''parent_sha256'') = Inr (gc_parent_sha256 r)"

lemma col_text_given: "bindE (jindex p k) col_text = Inr (Some s) \<Longrightarrow> jget p k = JStr s"
proof -
  have "col_text v = Inr (Some s) \<longleftrightarrow> v = JStr s" for v by (cases v) auto
  then show "bindE (jindex p k) col_text = Inr (Some s) \<Longrightarrow> ?thesis"
    by (auto simp: bindE_Inr_iff jindex_Inr jget_def)
qed

lemma register_change_Inr:
  assumes run: "register_governed_policy_change signed envelope as clk t u c = (c', Inr x)" and start: "settled c"
  shows "\<exists>p r. dget signed ''payload'' = Some (JObj p) \<and> change_row_of p envelope r \<and> work c' = None \<and>
    t_changes (cur c') = t_changes (cur c) @ [r] \<and> t_controls (cur c') = t_controls (cur c) \<and>
    (\<forall>s\<in>set (t_changes (cur c)). gc_policy_sha256 r \<noteq> gc_policy_sha256 s)"
  using run unfolding register_governed_policy_change_def on_integrity_raise
  apply (elim bindS_InrE)
  apply (simp only: liftS_apply query_apply on_integrity_raise prod.inject sum.inject)
  apply (elim conjE bindS_InrE)
  apply (simp only: liftS_apply query_apply commit_apply prod.inject sum.inject jindex_obj_Inr)
  apply (elim conjE, hypsubst_thin)
  subgoal premises ps for d0 p d1 a d2 u2 d3 sha c1 old d4 u3 c2 u4 c3 u5
  proof -
    have c1: "untouched (cur c) c1"
      by (rule keeps_tables [OF untouched_approvals start [unfolded settled_def] ps(3)])
    have "untouched (cur c) c2"
    proof (cases "Option.bind sha (\<lambda>s. version_of s (cur c1))")
      case None
      with ps(4) have "insert_version (version_row_for signed p t) c1 = (c2, Inr u3)"
        by (auto simp: bindS_Inr_iff simp del: need_keys.simps)
      with c1 show ?thesis by (blast intro: keeps_tables [OF untouched_inserts(2)])
    qed (use ps(4) c1 in \<open>auto split: if_splits\<close>)
    from insert_change_after [OF this ps(5)] obtain r where
      r: "bindE (not_null sha) (\<lambda>c1. bindE (col_text_nn (jget p ''policy_id'')) (\<lambda>c2.
        bindE (col_int_nn (jget p ''version'')) (\<lambda>c3. bindE (col_text (jget p ''parent_sha256'')) (\<lambda>c4.
        bindE (col_text_nn (jget a ''action_id'')) (\<lambda>c5. bindE (col_text_nn (jget a ''nonce'')) (\<lambda>c6.
        bindE (col_text_nn (jget envelope ''governance_policy_sha256'')) (\<lambda>c7.
          Inr \<lparr> gc_policy_sha256 = c1, gc_policy_id = c2, gc_version = c3, gc_parent_sha256 = c4,
            gc_action_id = c5, gc_action_nonce = c6, gc_governance_sha256 = c7,
            gc_envelope = JObj envelope, gc_created_at = u \<rparr>))))))) = Inr r"
      and after: "t_changes (cur c3) = t_changes (cur c) @ [r]" "t_controls (cur c3) = t_controls (cur c)"
        "\<forall>s\<in>set (t_changes (cur c)). gc_policy_sha256 r \<noteq> gc_policy_sha256 s" by blast
    from r obtain s where s: "sha = Some s" by (cases sha) (auto simp: not_null_def)
    with r ps(6) have "change_row_of p envelope r"
      by (auto simp: not_null_def bindE_Inr_iff change_row_of_def text_column_Inr col_text_given)
    with ps(1) after show ?thesis by (intro exI [of _ p] exI [of _ r]) (simp add: cur_def)
  qed
  done

section \<open>Publication refines appending\<close>

lemma max_row_counting:
  assumes "map gc_version rows = map int [1..<length rows + 1]"
  shows "max_row gc_version rows = (if rows = [] then None else Some (last rows))"
proof (cases rows rule: rev_cases)
  case (snoc xs r)
  with assms have "map gc_version xs = map int [1..<length rows]" "gc_version r = int (length rows)" by auto
  then have "\<forall>s\<in>set xs. gc_version s < gc_version r"
    by (metis (no_types, lifting) in_set_conv_nth length_map atLeastLessThan_iff image_iff imageI set_map set_upt of_nat_less_iff)
  then show ?thesis by (simp add: snoc max_row_last)
qed simp


lemma verified_policy:
  assumes "verify_policy_version H E key (JObj signed) = Inr (True, r)" and "dget signed ''payload'' = Some (JObj p)"
  shows "\<exists>n. jget p ''version'' = JInt n"
proof -
  from assms(1) have "list_all (\<lambda>g. g = Pass) (policy_version_guards H E key (JObj signed))"
    by (simp add: verify_policy_version_def verdict_of_accepts)
  with assms(2) show ?thesis
    by (auto simp: policy_version_guards_def Let_def guard_iff is_int_iff jget_def)
qed

lemma publish_clean: "fails_clean (untouched D) (publish H E key gp clk signed payload approvals)"
  unfolding publish_def Let_def governed_policy_change_by_sha_def latest_governed_policy_version_def
  by (intro fails_clean_bind register_change_clean keeps_intros)

lemma publish_Inr:
  assumes "publish H E key gp clk signed payload approvals c = (c', Inr u)" and "settled c"
  shows "\<exists>p r. dget signed ''payload'' = Some (JObj p) \<and>
    change_row_of p (publish_envelope H gp signed payload approvals) r \<and> work c' = None \<and>
    t_changes (cur c') = t_changes (cur c) @ [r] \<and> t_controls (cur c') = t_controls (cur c) \<and>
    (\<forall>s\<in>set (t_changes (cur c)). gc_policy_sha256 r \<noteq> gc_policy_sha256 s) \<and>
    jget p ''version'' = JInt (gc_version r) \<and>
    lineage_check (JObj p) (max_row gc_version (filter (\<lambda>s. gc_policy_id s = gc_policy_id r) (t_changes (cur c)))) = Inr ()"
proof -
  from assms(1) obtain r where ok: "verify_policy_version H E key (JObj signed) = Inr (True, r)"
    and reg: "register_governed_policy_change signed (publish_envelope H gp signed payload approvals) approvals
       (\<lambda>n. clk (3 + n)) (clk 1) (clk 2) c = (c', Inr u)"
    and lin: "lineage_check (jget signed ''payload'') (max_row gc_version
        (filter (\<lambda>s. gc_policy_id s = str_val (fld (jget signed ''payload'') ''policy_id'')) (t_changes (cur c)))) = Inr ()"
    by (auto simp: publish_def bindS_Inr_iff permit_Inr Let_def governed_policy_change_by_sha_def
        latest_governed_policy_version_def)
  from register_change_Inr [OF reg assms(2)] obtain p row where row: "dget signed ''payload'' = Some (JObj p)"
    "change_row_of p (publish_envelope H gp signed payload approvals) row" "work c' = None"
    "t_changes (cur c') = t_changes (cur c) @ [row]" "t_controls (cur c') = t_controls (cur c)"
    "\<forall>s\<in>set (t_changes (cur c)). gc_policy_sha256 row \<noteq> gc_policy_sha256 s" by blast
  have id: "jget p ''policy_id'' = JStr (gc_policy_id row)" and pay: "jget signed ''payload'' = JObj p"
    using row(1,2) by (simp_all add: change_row_of_def jget_def)
  have "jget p ''version'' = JInt (gc_version row)"
    using verified_policy [OF ok row(1)] row(2) by (auto simp: change_row_of_def sql_int_def split: if_splits)
  with row lin id pay show ?thesis by (intro exI [of _ p] exI [of _ row]) simp
qed

lemma governed_db_same:
  "t_changes e = t_changes d \<Longrightarrow> t_controls e = t_controls d \<Longrightarrow> governed_db e = governed_db d"
  by (simp add: governed_db_def versions_from_one_def envelopes_match_def controls_in_lineage_def lineage_of_def)

lemma lineage_same: "t_changes e = t_changes d \<Longrightarrow> lineage_of e = lineage_of d"
  by (simp add: lineage_of_def fun_eq_iff)

lemma lineage_append: "t_changes e = t_changes d @ [r] \<Longrightarrow>
    lineage_of e = (lineage_of d)(gc_policy_id r := lineage_of d (gc_policy_id r) @ [gc_policy_sha256 r])"
  by (simp add: lineage_of_def fun_eq_iff)

lemma publish_appends:
  assumes ok: "governed_db (cur c)" and start: "settled c"
    and run: "publish H E key gp clk signed payload approvals c = (c', Inr u)"
  shows "governed_db (cur c') \<and> settled c' \<and> (\<exists>p pid sha n parent. dget signed ''payload'' = Some (JObj p) \<and>
    jget p ''policy_id'' = JStr pid \<and> jget p ''policy_sha256'' = JStr sha \<and> jget p ''version'' = JInt n \<and>
    jget p ''parent_sha256'' = opt_str parent \<and> appends pid sha n parent (lineage_of (cur c)) (lineage_of (cur c')))"
proof -
  from publish_Inr [OF run start] obtain p r where p: "dget signed ''payload'' = Some (JObj p)"
    and row: "change_row_of p (publish_envelope H gp signed payload approvals) r" "work c' = None"
    and tabs: "t_changes (cur c') = t_changes (cur c) @ [r]" "t_controls (cur c') = t_controls (cur c)"
    and new: "\<forall>s\<in>set (t_changes (cur c)). gc_policy_sha256 r \<noteq> gc_policy_sha256 s"
    and v: "jget p ''version'' = JInt (gc_version r)"
    and lin: "lineage_check (JObj p) (max_row gc_version (filter (\<lambda>s. gc_policy_id s = gc_policy_id r) (t_changes (cur c)))) = Inr ()"
    by blast
  let ?rows = "filter (\<lambda>s. gc_policy_id s = gc_policy_id r) (t_changes (cur c))"
  have cnt: "map gc_version ?rows = map int [1..<length ?rows + 1]"
    using ok by (simp add: governed_db_def versions_from_one_def Let_def)
  note latest = max_row_counting [OF cnt]
  have len: "length (lineage_of (cur c) (gc_policy_id r)) = length ?rows" by (simp add: lineage_of_def)
  have place: "gc_version r = int (length ?rows) + 1 \<and>
      jget p ''parent_sha256'' = opt_str (last_of (lineage_of (cur c) (gc_policy_id r)))"
  proof (cases ?rows rule: rev_cases)
    case Nil
    with lin latest v show ?thesis
      by (simp add: lineage_check_def need_def differs_def lineage_of_def last_of_def opt_str_def split: if_splits)
  next
    case (snoc xs s)
    with cnt have "gc_version s = int (length ?rows)" by simp
    with lin latest v snoc show ?thesis
      by (simp add: lineage_check_def all_of_Inr differs_def lineage_of_def last_of_def opt_str_def)
  qed
  have parent: "\<not> published (lineage_of (cur c)) (gc_policy_sha256 r)"
    using new by (auto simp: published_def lineage_of_def)
  have "versions_from_one (cur c')"
    using ok place by (auto simp: governed_db_def versions_from_one_def tabs Let_def)
  moreover have "envelopes_match (cur c')"
    using ok row(1) p by (auto simp: governed_db_def envelopes_match_def tabs change_row_of_def governed_payload_def
        publish_envelope_def as_dict_def jindex_obj_def jindex_def jget_def split: option.splits)
  moreover have "controls_in_lineage (cur c')"
    using ok by (auto simp: governed_db_def controls_in_lineage_def lineage_of_def tabs)
  ultimately show ?thesis
    using p row v place parent len lineage_append [OF tabs(1)] settled_idle [OF row(2)]
    unfolding governed_db_def appends_def change_row_of_def by (metis (no_types, lifting))
qed


section \<open>Control\<close>

lemma col_text_Some: "col_text v = Inr (Some s) \<longleftrightarrow> v = JStr s"
  by (cases v) auto

lemma py_eq_str_left: "py_eq (JStr s) v \<longleftrightarrow> v = JStr s"
  by (cases v) auto

lemma governed_lookup:
  assumes "envelopes_match (cur c)" and "change_by_value v c = (c', Inr (Some envelope))"
    and "governed_payload envelope = Inr p" and "same_lineage p payload who = Inr u"
  shows "\<exists>s pid. v = JStr s \<and> jget payload ''policy_id'' = JStr pid \<and> s \<in> set (lineage_of (cur c) pid) \<and> c' = c"
proof -
  from assms(2) obtain s where s: "v = JStr s" "c' = c"
    and "select_one (\<lambda>r. gc_policy_sha256 r = s) (t_changes (cur c)) \<noteq> None \<and>
      map_option gc_envelope (select_one (\<lambda>r. gc_policy_sha256 r = s) (t_changes (cur c))) = Some envelope"
    by (auto simp: change_by_value_def bindS_Inr_iff governed_policy_change_by_sha_def col_text_Some split: option.splits)
  then obtain r where "select_one (\<lambda>r. gc_policy_sha256 r = s) (t_changes (cur c)) = Some r" "gc_envelope r = envelope"
    by auto
  then have r: "r \<in> set (t_changes (cur c))" "gc_policy_sha256 r = s" "gc_envelope r = envelope"
    by (auto dest: select_one_Some)
  with assms(1,3) have "dget p ''policy_id'' = Some (JStr (gc_policy_id r))"
    by (auto simp: envelopes_match_def)
  with assms(4) have "jget payload ''policy_id'' = JStr (gc_policy_id r)"
    by (auto simp: same_lineage_def bindE_Inr_iff jindex_Inr jget_def differs_def py_eq_str_left)
  with s r show ?thesis by (auto simp: lineage_of_def)
qed

lemma change_by_value_state: "change_by_value v c = (c', x) \<Longrightarrow> c' = c"
  by (cases "col_text v")
     (auto simp: change_by_value_def bindS_apply governed_policy_change_by_sha_def split: option.splits)

lemma control_current_Inr:
  assumes ok: "envelopes_match (cur c)" and run: "control_current H gp payload c = (c', Inr current)"
  shows "\<exists>s pid. jget payload ''current_policy_sha256'' = JStr s \<and> jget payload ''policy_id'' = JStr pid \<and>
    s \<in> set (lineage_of (cur c) pid) \<and> c' = c \<and>
    current = select_one (\<lambda>r. pc_policy_id r = pid) (t_controls (cur c)) \<and>
    (\<forall>r. current = Some r \<longrightarrow> pc_active_sha256 r = s)"
proof -
  from run obtain claimed envelope c1 p where claimed: "jindex payload ''current_policy_sha256'' = Inr claimed"
    and look: "change_by_value claimed c = (c1, Inr (Some envelope))" "governed_payload envelope = Inr p"
      "same_lineage p payload ''current policy'' = Inr ()"
    and ctl: "control_by_value (jget payload ''policy_id'') c1 = (c', Inr current)"
    and live: "\<not> differs (active_sha current claimed) claimed"
    by (auto simp: control_current_def policy_control_action_def bindS_Inr_iff split: option.splits if_splits)
  from governed_lookup [OF ok look] obtain s pid where s: "claimed = JStr s" "jget payload ''policy_id'' = JStr pid"
    "s \<in> set (lineage_of (cur c) pid)" "c1 = c" by blast
  with claimed ctl live show ?thesis
    by (auto simp: jindex_Inr jget_def control_by_value_def policy_control_def active_sha_def split: option.splits)
qed

lemma rollback_target_Inr:
  assumes ok: "envelopes_match (cur c)" and run: "rollback_target payload claimed c = (c', Inr v)"
  shows "\<exists>s pid. v = JStr s \<and> jget payload ''policy_id'' = JStr pid \<and> s \<in> set (lineage_of (cur c) pid) \<and> c' = c \<and>
    v \<noteq> claimed"
proof -
  from run obtain envelope c1 p where look:
    "change_by_value (jget payload ''target_policy_sha256'') c = (c1, Inr (Some envelope))"
    "governed_payload envelope = Inr p" "same_lineage p payload ''rollback target'' = Inr ()"
    and v: "v = jget payload ''target_policy_sha256''" "c' = c1" "differs v claimed"
    by (auto simp: rollback_target_def Let_def bindS_Inr_iff split: option.splits if_splits)
  from governed_lookup [OF ok look] v show ?thesis by (auto simp: differs_def py_eq_str_left)
qed

lemma dml_Inr: "dml f c = (c', Inr a) \<longleftrightarrow> (\<exists>w. f (cur c) = Inr (w, a) \<and> c' = c\<lparr>work := Some w\<rparr>)"
  by (auto simp: dml_def split: sum.splits)

lemma apply_policy_control_Inr:
  assumes run: "apply_policy_control pid sha frozen envelope t u c = (c', Inr x)" and start: "settled c"
  shows "\<exists>r. pc_policy_id r = pid \<and> pc_active_sha256 r = sha \<and> pc_frozen r = frozen \<and> work c' = None \<and>
    t_changes (cur c') = t_changes (cur c) \<and> t_controls (cur c') = upsert_control r (t_controls (cur c))"
proof -
  define row where "row = \<lparr> pc_policy_id = pid, pc_active_sha256 = sha, pc_frozen = frozen,
    pc_control = JObj envelope, pc_updated_at = u \<rparr>"
  from run obtain new c1 w where c1: "insert_control_action new c = (c1, Inr ())"
    and w: "w = put_control (upsert_control row (t_controls (cur c1))) (cur c1)"
    and c': "c' = c1\<lparr>disk := w, work := None\<rparr>"
    by (auto simp: apply_policy_control_def on_integrity_raise bindS_Inr_iff dml_Inr row_def split: prod.splits)
  have "untouched (cur c) c1"
    by (rule keeps_tables [OF untouched_inserts(3) start [unfolded settled_def] c1])
  then show ?thesis
    by (intro exI [of _ row]) (simp add: c' w untouched_def put_control_def cur_idle row_def)
qed

section \<open>The simulation\<close>

text \<open>A reader sees, per policy, the lineage and the control in force.\<close>

record governance_view =
  vw_lineage :: lineage
  vw_control :: "string \<Rightarrow> (string \<times> bool) option"

definition view_of :: "db \<Rightarrow> governance_view" where
  "view_of d = \<lparr> vw_lineage = lineage_of d, vw_control = (\<lambda>pid. map_option (\<lambda>r. (pc_active_sha256 r, pc_frozen r))
     (select_one (\<lambda>r. pc_policy_id r = pid) (t_controls d))) \<rparr>"

inductive view_step :: "governance_view \<Rightarrow> governance_view \<Rightarrow> bool" where
  publication: "appends pid sha n parent (vw_lineage v) M \<Longrightarrow> view_step v (v\<lparr>vw_lineage := M\<rparr>)"
| freeze: "sha \<in> set (vw_lineage v pid) \<Longrightarrow> vw_control v pid \<in> {None, Some (sha, False)} \<Longrightarrow>
    view_step v (v\<lparr>vw_control := (vw_control v)(pid \<mapsto> (sha, True))\<rparr>)"
| rollback: "sha \<in> set (vw_lineage v pid) \<Longrightarrow> current \<in> set (vw_lineage v pid) \<Longrightarrow> sha \<noteq> current \<Longrightarrow>
    vw_control v pid \<in> {None, Some (current, frozen)} \<Longrightarrow>
    view_step v (v\<lparr>vw_control := (vw_control v)(pid \<mapsto> (sha, False))\<rparr>)"

lemma select_upsert:
  "select_one (\<lambda>r. pc_policy_id r = k) (upsert_control r tab) =
     (if k = pc_policy_id r then Some r else select_one (\<lambda>r. pc_policy_id r = k) tab)"
proof -
  have rep: "find (\<lambda>r. pc_policy_id r = k) (map (\<lambda>s. if pc_policy_id r = pc_policy_id s then r else s) tab) =
      (if k = pc_policy_id r then (if list_ex (\<lambda>s. pc_policy_id r = pc_policy_id s) tab then Some r else None)
       else find (\<lambda>r. pc_policy_id r = k) tab)"
    by (induction tab) auto
  have app: "find P (tab @ [r]) = (case find P tab of None \<Rightarrow> if P r then Some r else None | Some s \<Rightarrow> Some s)" for P
    by (induction tab) auto
  have none: "\<not> list_ex (\<lambda>s. pc_policy_id r = pc_policy_id s) tab \<Longrightarrow> find (\<lambda>s. pc_policy_id s = pc_policy_id r) tab = None"
    by (auto simp: find_None_iff list_ex_iff)
  show ?thesis
    using rep none
    by (auto simp: upsert_control_def select_one_def control_clash_def [abs_def] app split: option.splits)
qed

lemma view_same: "t_changes e = t_changes d \<Longrightarrow> t_controls e = t_controls d \<Longrightarrow> view_of e = view_of d"
  by (simp add: view_of_def lineage_of_def fun_eq_iff)

lemma set_upsert_control: "set (upsert_control r tab) \<subseteq> insert r (set tab)"
  by (auto simp: upsert_control_def)

lemma lookups_untouched:
  "keeps (untouched D) (change_by_value v)" "keeps (untouched D) (control_by_value v)"
  unfolding change_by_value_def control_by_value_def governed_policy_change_by_sha_def policy_control_def
  by (intro keeps_intros)+

lemma control_reads_untouched:
  "keeps (untouched D) (control_current H gp payload)" "keeps (untouched D) (rollback_target payload claimed)"
  unfolding control_current_def rollback_target_def policy_control_action_def Let_def
  by (intro keeps_intros lookups_untouched)+

lemma fails_clean_pair: "(\<And>x y. fails_clean P (f x y)) \<Longrightarrow> fails_clean P (case r of (x, y) \<Rightarrow> f x y)"
  by (cases r) simp

lemma apply_control_clean_all: "fails_clean (untouched D) (apply_control H E gp clk action approvals)"
  unfolding apply_control_def Let_def
  by (intro fails_clean_bind fails_clean_pair apply_control_clean control_reads_untouched keeps_intros)

lemma apply_control_steps:
  assumes ok: "governed_db (cur c)" and start: "settled c"
    and run: "apply_control H E gp clk action approvals c = (c', Inr u)"
  shows "governed_db (cur c') \<and> settled c' \<and> view_step (view_of (cur c)) (view_of (cur c'))"
proof -
  let ?p = "obj_val action" and ?v = "view_of (cur c)"
  have env: "envelopes_match (cur c)" using ok by (simp add: governed_db_def)
  from run obtain c1 current active frozen c2 pid sha where cc: "control_current H gp ?p c = (c1, Inr current)"
    and choice: "(if jget ?p ''action'' = JStr ''POLICY_FREEZE''
       then bindS (guardS (\<not> (\<exists>r \<in> set_option current. pc_frozen r)) (PermissionError ''policy is already frozen''))
         (\<lambda>_. returnS (jget ?p ''current_policy_sha256'', True))
       else bindS (rollback_target ?p (jget ?p ''current_policy_sha256'')) (\<lambda>sha. returnS (sha, False))) c1 =
       (c2, Inr (active, frozen))"
    and ids: "jget ?p ''policy_id'' = JStr pid" "active = JStr sha"
    and put: "apply_policy_control pid sha frozen (control_envelope H gp ?p approvals active frozen) (clk 1) (clk 2) c2 =
       (c', Inr u)"
    by (auto simp: apply_control_def bindS_Inr_iff Let_def bindE_Inr_iff text_column_Inr simp del: guardS_apply)
  from control_current_Inr [OF env cc] ids(1) obtain s where s: "jget ?p ''current_policy_sha256'' = JStr s"
    "s \<in> set (lineage_of (cur c) pid)" "c1 = c"
    "current = select_one (\<lambda>r. pc_policy_id r = pid) (t_controls (cur c))"
    "\<forall>r. current = Some r \<longrightarrow> pc_active_sha256 r = s" by auto
  have both: "c2 = c \<and> sha \<in> set (lineage_of (cur c) pid) \<and> view_step ?v (?v\<lparr>vw_control := (vw_control ?v)(pid \<mapsto> (sha, frozen))\<rparr>)"
  proof (cases "jget ?p ''action'' = JStr ''POLICY_FREEZE''")
    case True
    with choice s ids have f: "c2 = c" "sha = s" "frozen" "\<forall>r. current = Some r \<longrightarrow> \<not> pc_frozen r"
      by (auto simp: bindS_Inr_iff)
    with s have "vw_control ?v pid \<in> {None, Some (s, False)}"
      by (cases current) (auto simp: view_of_def)
    moreover have "s \<in> set (vw_lineage ?v pid)" using s by (simp add: view_of_def)
    ultimately have "view_step ?v (?v\<lparr>vw_control := (vw_control ?v)(pid \<mapsto> (s, True))\<rparr>)"
      by (rule view_step.freeze [rotated])
    with f s show ?thesis by simp
  next
    case False
    with choice s(3) obtain "rollback_target ?p (jget ?p ''current_policy_sha256'') c = (c2, Inr active)" "\<not> frozen"
      by (auto simp: bindS_Inr_iff)
    with rollback_target_Inr [OF env, of ?p] ids s have t: "c2 = c" "sha \<in> set (lineage_of (cur c) pid)" "sha \<noteq> s"
      "\<not> frozen" by fastforce+
    have "\<exists>fr. vw_control ?v pid \<in> {None, Some (s, fr)}"
      using s by (cases current) (auto simp: view_of_def)
    then obtain fr where "vw_control ?v pid \<in> {None, Some (s, fr)}" by blast
    moreover have "s \<in> set (vw_lineage ?v pid)" "sha \<in> set (vw_lineage ?v pid)" using s t by (simp_all add: view_of_def)
    ultimately have "view_step ?v (?v\<lparr>vw_control := (vw_control ?v)(pid \<mapsto> (sha, False))\<rparr>)"
      using t(3) by (intro view_step.rollback) auto
    with t show ?thesis by simp
  qed
  from apply_policy_control_Inr [OF put] both start obtain r where r: "pc_policy_id r = pid" "pc_active_sha256 r = sha"
    "pc_frozen r = frozen" "work c' = None" "t_changes (cur c') = t_changes (cur c)"
    "t_controls (cur c') = upsert_control r (t_controls (cur c))" by auto
  have "view_of (cur c') = ?v\<lparr>vw_control := (vw_control ?v)(pid \<mapsto> (sha, frozen))\<rparr>"
    using r by (simp add: view_of_def lineage_same [OF r(5)] select_upsert fun_eq_iff)
  moreover have "controls_in_lineage (cur c')"
    using ok r both set_upsert_control [of r "t_controls (cur c)"]
    by (auto simp: governed_db_def controls_in_lineage_def lineage_same [OF r(5)])
  moreover have "versions_from_one (cur c') \<and> envelopes_match (cur c')"
    using ok r(5) by (simp add: governed_db_def versions_from_one_def envelopes_match_def)
  ultimately show ?thesis using both settled_idle [OF r(4)] by (simp add: governed_db_def)
qed


section \<open>Runs\<close>

inductive governed_run :: "hash \<Rightarrow> crypto \<Rightarrow> db conn \<Rightarrow> db conn \<Rightarrow> bool" for H E where
  stay: "governed_run H E c c"
| published: "governed_run H E c s \<Longrightarrow> governed_run H E c (fst (publish H E key gp clk signed payload approvals s))"
| controlled: "governed_run H E c s \<Longrightarrow> governed_run H E c (fst (apply_control H E gp clk action approvals s))"

lemma governed_call:
  assumes ok: "governed_db (cur c)" "settled c"
    and "publish H E key gp clk signed payload approvals c = (c', res) \<or>
      apply_control H E gp clk action approvals c = (c', res)"
  shows "governed_db (cur c') \<and> settled c' \<and> (case res of
      Inl e \<Rightarrow> view_of (cur c') = view_of (cur c) \<and> view_of (disk c') = view_of (disk c)
    | Inr u \<Rightarrow> view_step (view_of (cur c)) (view_of (cur c')))"
proof (cases res)
  case (Inl e)
  have "untouched (cur c) c'"
    using assms(3) ok(2) unfolding settled_def Inl
    by (auto dest: fails_cleanD [OF publish_clean] fails_cleanD [OF apply_control_clean_all])
  then have u: "t_changes (cur c') = t_changes (cur c)" "t_controls (cur c') = t_controls (cur c)"
    "t_changes (disk c') = t_changes (disk c)" "t_controls (disk c') = t_controls (disk c)" "settled c'"
    using ok(2) by (auto simp: untouched_def settled_def)
  with ok(1) show ?thesis by (simp add: Inl governed_db_same [OF u(1,2)] view_same [OF u(1,2)] view_same [OF u(3,4)])
next
  case (Inr u)
  from assms(3) show ?thesis
  proof
    assume "publish H E key gp clk signed payload approvals c = (c', res)"
    then have run: "publish H E key gp clk signed payload approvals c = (c', Inr u)" by (simp add: Inr)
    from publish_appends [OF ok run] obtain pid sha n parent where a: "governed_db (cur c')" "settled c'"
      "appends pid sha n parent (vw_lineage (view_of (cur c))) (lineage_of (cur c'))" by (auto simp: view_of_def)
    have "t_controls (cur c') = t_controls (cur c)" using publish_Inr [OF run ok(2)] by auto
    then have "view_of (cur c') = (view_of (cur c))\<lparr>vw_lineage := lineage_of (cur c')\<rparr>" by (simp add: view_of_def)
    with a Inr show ?thesis by (auto intro: view_step.publication)
  next
    assume "apply_control H E gp clk action approvals c = (c', res)"
    with apply_control_steps [OF ok, of H E gp clk action approvals c' u] Inr show ?thesis by simp
  qed
qed

lemma governed_run_ok: "governed_run H E c s \<Longrightarrow> governed_db (cur c) \<Longrightarrow> settled c \<Longrightarrow> governed_db (cur s) \<and> settled s"
proof (induction rule: governed_run.induct)
  case (published c s key gp clk signed payload approvals)
  then show ?case using governed_call [OF _ _ disjI1 [OF surjective_pairing]] by blast
next
  case (controlled c s gp clk action approvals)
  then show ?case using governed_call [OF _ _ disjI2 [OF surjective_pairing]] by blast
qed simp


section \<open>An example\<close>

text \<open>One governor, and the constant hash, whose digests have the length the verifiers ask for.\<close>

definition lone_governance :: governance_policy where
  "lone_governance = \<lparr> gp_policy_id = ''g'', gp_version = 1, gp_threshold = 1,
     gp_members = [member_from_public_key zero_hash (cy_public demo_crypto ''a'') ''ops''],
     gp_required_roles = [], gp_max_lifetime = 300, gp_allowed_actions = [''POLICY_CHANGE''] \<rparr>"

definition demo_version :: policy_version where
  "demo_version = \<lparr> pn_policy_id = zeros, pn_version = 1, pn_policy_sha256 = zeros, pn_source_ref = ''policy.yaml'',
     pn_parent_sha256 = None, pn_created_at = Fin 1000, pn_metadata = [] \<rparr>"

definition demo_signed :: jdict where
  "demo_signed = signed_dict (sign_policy_version demo_crypto ''k'' demo_version)"

definition demo_change :: jdict where
  "demo_change = policy_change_dict \<lparr> pa_action_id = ''x'', pa_policy_id = JStr zeros, pa_policy_sha256 = JStr zeros,
     pa_version = JInt 1, pa_source_ref = JStr ''policy.yaml'', pa_parent_sha256 = JNull,
     pa_governance_sha256 = zeros, pa_reason = ''first'', pa_issued_at = NInt 1000, pa_expires_at = NInt 1200,
     pa_nonce = ''n'' \<rparr>"

definition lone_vote :: json where
  "lone_vote = JObj (signed_dict (sign_doc demo_crypto ''a'' (plain_vote zero_hash demo_crypto zeros ''a'' ''ops'' ''v'')))"

lemma zero_hash_zeros: "zero_hash s = zeros"
  by (simp add: zero_hash_def zeros_def)

lemma zeros_facts: "length zeros = 64" "zeros \<noteq> []"
proof -
  show "length zeros = 64" by (simp only: zeros_def length_replicate)
  then show "zeros \<noteq> []" by auto
qed

lemma lone_governor: "governor_id zero_hash k = zeros"
  by (simp add: governor_id_def zero_hash_zeros)

lemma lone_governance_valid: "validate_governance_policy zero_hash lone_governance = Inr ()"
  by (simp add: validate_governance_policy_def all_of_Inr lone_governance_def member_from_public_key_def
      lone_governor member_key_def demo_keys zeros_facts)

lemma lone_vote_valid:
  "verify_governance_approval zero_hash demo_crypto lone_governance (Fin 1010) lone_vote =
     Inr (True, ''valid governance approval'')"
  unfolding lone_vote_def
  by (rule plain_vote_valid [OF demo_crypto_correct lone_governance_valid, where m = "member_from_public_key zero_hash (cy_public demo_crypto ''a'') ''ops''"])
     (simp_all add: lone_governance_def member_from_public_key_def lone_governor member_key_def demo_keys zeros_facts)

lemma demo_policy_verifies:
  "verify_policy_version zero_hash demo_crypto (cy_public demo_crypto ''k'') (JObj demo_signed) =
     Inr (True, ''valid signed policy version'')"
  using sign_doc_verifies [OF demo_crypto_correct, of "''k''" "policy_version_dict demo_version"]
  by (simp add: verify_policy_version_def verdict_of_accepts policy_version_guards_def Let_def demo_signed_def
      sign_policy_version_def signed_fields simple_guards has_key_Pass differs_def str_len64_iff is_int_def
      policy_version_dict_def demo_version_def jget_def policy_id_of_def zero_hash_zeros zeros_facts
      del: signature_guard_Pass)

lemma lone_quorum:
  "verify_governance_quorum zero_hash demo_crypto lone_governance (Fin 1010) (JObj demo_change) [lone_vote] =
     Inr (True, ''governance quorum satisfied'')"
proof -
  have dig: "governance_digest zero_hash x = zeros" "governance_policy_digest zero_hash q = zeros" for x q
    by (simp_all add: governance_digest_def governance_policy_digest_def digest_json_def zero_hash_zeros)
  have vote: "fld (fld lone_vote ''payload'') ''action_digest'' = JStr zeros"
    by (simp add: lone_vote_def signed_fields plain_vote_def approval_payload_def jget_def)
  have votes: "\<exists>t. tally_votes zero_hash demo_crypto lone_governance (Fin 1010) zeros no_votes [lone_vote] = (Pass, t) \<and>
      ta_valid t = 1"
    by (simp add: vote_guard_def Let_def lone_vote_valid vote ask_def reject_def count_vote_def no_votes_def)
  have action: "list_all (\<lambda>g. g = Pass) (quorum_action_guards zero_hash lone_governance (Fin 1010) (JObj demo_change))"
    by (simp add: quorum_action_guards_def demo_change_def policy_change_dict_def jget_def dig simple_guards
        differs_def action_texts_def empty_text_def governing_sha_def or_else_def
        numeric_guard_def json_num_def period_guards_def num_of_def Let_def num_lt_def num_le_def round64_numeral
        num_sub_def outlives_def lone_governance_def zeros_facts)
  have policy: "gp_threshold lone_governance = 1" "gp_required_roles lone_governance = []"
    by (simp_all add: lone_governance_def)
  from votes show ?thesis
    unfolding verify_governance_quorum_def open_verdict_accepts quorum_guards_def Let_def dig
    by (auto simp: action lone_governance_valid simple_guards policy simp del: tally_votes.simps)
qed


lemma demo_signed_payload:
  "jget demo_signed ''payload'' = JObj (policy_version_dict demo_version)"
  "dget demo_signed ''payload'' = Some (JObj (policy_version_dict demo_version))"
  by (simp_all add: demo_signed_def sign_policy_version_def signed_fields)

lemma demo_register:
  "\<exists>c'. register_governed_policy_change demo_signed
      (publish_envelope zero_hash lone_governance demo_signed (JObj demo_change) [lone_vote]) [lone_vote]
      noon (Fin 1010) (Fin 1010) fresh = (c', Inr ())"
proof -
  let ?env = "publish_envelope zero_hash lone_governance demo_signed (JObj demo_change) [lone_vote]"
  let ?p = "policy_version_dict demo_version" and ?a = "plain_vote zero_hash demo_crypto zeros ''a'' ''ops'' ''v''"
  have env: "jindex_obj ?env ''governance_action'' = Inr demo_change" "jget ?env ''governance_policy_sha256'' = JStr zeros"
    "dget ?env ''governance_policy_sha256'' \<noteq> None"
    by (simp_all add: publish_envelope_def jindex_obj_def jindex_def jget_def governance_policy_digest_def
        digest_json_def zero_hash_zeros)
  obtain d where d: "lone_vote = JObj d" "jindex_obj d ''payload'' = Inr ?a"
    by (simp add: lone_vote_def jindex_obj_def jindex_def)
  have keys: "need_keys approval_keys ?a = Inr ()"
    by (simp add: approval_keys_def plain_vote_def approval_payload_def jindex_def)
  have "\<exists>r. approval_row_for d ?a (Fin 1010) = Inr r"
    by (simp add: approval_row_for_def plain_vote_def approval_payload_def jindex_def col_real_nn_def sql_int_def
        int64_ok_def not_null_def)
  then obtain r where r: "approval_row_for d ?a (Fin 1010) = Inr r" by blast
  define c1 where "c1 = fresh\<lparr>work := Some (empty_db\<lparr>t_approvals := [r]\<rparr>)\<rparr>"
  have c1: "insert_approvals [lone_vote] noon 0 fresh = (c1, Inr ())"
    by (simp add: d keys r as_dict_def insert_approval_def dml_def ins_def insert_row_def cur_idle c1_def bindS_apply)
       (simp add: empty_db_def)
  have tabs: "t_versions (cur c1) = []" "t_changes (cur c1) = []" by (simp_all add: c1_def empty_db_def)
  then have none: "version_of zeros (cur c1) = None" by (simp add: version_of_def select_one_def)
  have pol: "jget ?p ''policy_sha256'' = JStr zeros" "jget ?p ''policy_id'' = JStr zeros" "jget ?p ''version'' = JInt 1"
    "jget ?p ''source_ref'' = JStr ''policy.yaml''" "jget ?p ''parent_sha256'' = JNull"
    "jindex ?p ''policy_sha256'' = Inr (JStr zeros)" "jindex ?p ''policy_id'' = Inr (JStr zeros)"
    "jindex ?p ''version'' = Inr (JInt 1)" "jindex ?p ''source_ref'' = Inr (JStr ''policy.yaml'')"
    by (simp_all add: policy_version_dict_def demo_version_def jget_def jindex_def opt_str_def)
  have act: "jget demo_change ''action_id'' = JStr ''x''" "jget demo_change ''nonce'' = JStr ''n''"
    "jindex demo_change ''action_id'' = Inr (JStr ''x'')" "jindex demo_change ''nonce'' = Inr (JStr ''n'')"
    by (simp_all add: demo_change_def policy_change_dict_def jget_def jindex_def)
  have "jindex ?env ''governance_policy_sha256'' = Inr (JStr zeros)"
    using env(2,3) by (auto simp: jindex_def jget_def)
  then show ?thesis
    by (simp add: register_governed_policy_change_def on_integrity_raise bindS_apply jindex_obj_def [of demo_signed]
        jindex_def [of demo_signed] demo_signed_payload env c1 pol act tabs none insert_version_def dml_def
        version_row_for_def sql_int_def int64_ok_def ins_def insert_row_def insert_change_def not_null_def
        del: insert_approvals.simps)
qed


lemma demo_publish:
  "\<exists>c'. publish zero_hash demo_crypto (cy_public demo_crypto ''k'') lone_governance noon demo_signed
     (JObj demo_change) [lone_vote] fresh = (c', Inr ())"
proof -
  let ?p = "policy_version_dict demo_version"
  have pol: "jget ?p ''policy_sha256'' = JStr zeros" "jget ?p ''policy_id'' = JStr zeros" "jget ?p ''version'' = JInt 1"
    "jget ?p ''source_ref'' = JStr ''policy.yaml''" "jget ?p ''parent_sha256'' = JNull"
    by (simp_all add: policy_version_dict_def demo_version_def jget_def opt_str_def)
  have checks: "publish_checks zero_hash lone_governance (JObj demo_change) (JObj ?p) = Inr ()"
    by (simp add: publish_checks_def all_of_Inr bound_fields_def binding_check_def pol)
       (simp add: demo_change_def policy_change_dict_def jget_def differs_def governance_policy_digest_def
        digest_json_def zero_hash_zeros)
  have "lineage_check (JObj ?p) None = Inr ()"
    by (simp add: lineage_check_def pol differs_def)
  with demo_register checks show ?thesis
    by (simp add: publish_def bindS_apply demo_policy_verifies lone_quorum permit_def need_def Let_def demo_signed_payload
        pol governed_policy_change_by_sha_def latest_governed_policy_version_def cur_idle)
       (simp add: empty_db_def select_one_def demo_signed_payload pol need_def lineage_check_def differs_def)
qed

lemma governed_fresh: "governed_db (cur fresh)" "settled fresh"
  by (simp_all add: settled_idle cur_idle governed_db_def versions_from_one_def envelopes_match_def
      controls_in_lineage_def empty_db_def)

section \<open>Properties\<close>

text \<open>C34: publication and control refine the abstract governance machine.  Every call of publish or apply keeps
  the tables governed; one that raises leaves the committed and the pending lineage and control as they were;
  one that returns makes exactly one abstract step: it appends the digest as the next version with the last
  digest as its parent, or freezes the digest in force, or moves the control to another digest of the lineage.\<close>

theorem governance_refines:
  assumes "governed_db (cur c)" and "settled c"
    and "publish H E key gp clk signed payload approvals c = (c', res) \<or>
      apply_control H E gp clk action approvals c = (c', res)"
  shows "governed_db (cur c') \<and> settled c' \<and> (case res of
      Inl e \<Rightarrow> view_of (cur c') = view_of (cur c) \<and> view_of (disk c') = view_of (disk c)
    | Inr u \<Rightarrow> view_step (view_of (cur c)) (view_of (cur c')))"
  by (rule governed_call [OF assms])

theorem governance_refines_witness:
  "\<exists>c'. publish zero_hash demo_crypto (cy_public demo_crypto ''k'') lone_governance noon demo_signed
     (JObj demo_change) [lone_vote] fresh = (c', Inr ()) \<and> view_step (view_of (cur fresh)) (view_of (cur c'))"
proof -
  obtain c' where "publish zero_hash demo_crypto (cy_public demo_crypto ''k'') lone_governance noon demo_signed
     (JObj demo_change) [lone_vote] fresh = (c', Inr ())" using demo_publish by blast
  with governance_refines [OF governed_fresh disjI1 [OF this]] show ?thesis by auto
qed

text \<open>C35: over any run of publications and controls, by any callers and in any order, whether they succeed or
  raise, the versions of every policy count 1, 2, 3, ... in the order they were published, and the digest
  a control puts in force is one of the published versions of that policy.\<close>

theorem active_policy_governed:
  assumes "governed_run H E c s" and "governed_db (cur c)" and "settled c"
  shows "map gc_version (filter (\<lambda>r. gc_policy_id r = pid) (t_changes (disk s))) =
      map int [1..<length (lineage_of (disk s) pid) + 1] \<and>
    (\<forall>r\<in>set (t_controls (disk s)). pc_active_sha256 r \<in> set (lineage_of (disk s) (pc_policy_id r)))"
proof -
  from governed_run_ok [OF assms] have "governed_db (cur s)" "settled s" by auto
  then have "governed_db (disk s)"
    using governed_db_same [of "disk s" "cur s"] by (auto simp: settled_def untouched_def)
  then show ?thesis
    by (auto simp: governed_db_def versions_from_one_def controls_in_lineage_def lineage_of_def Let_def)
qed

theorem active_policy_governed_witness:
  "\<exists>s. governed_run zero_hash demo_crypto fresh s \<and> lineage_of (disk s) zeros \<noteq> [] \<and>
     map gc_version (filter (\<lambda>r. gc_policy_id r = zeros) (t_changes (disk s))) =
       map int [1..<length (lineage_of (disk s) zeros) + 1]"
proof -
  obtain c' where run: "publish zero_hash demo_crypto (cy_public demo_crypto ''k'') lone_governance noon demo_signed
     (JObj demo_change) [lone_vote] fresh = (c', Inr ())" using demo_publish by blast
  have "governed_run zero_hash demo_crypto fresh c'"
    using governed_run.published [OF governed_run.stay [of zero_hash demo_crypto fresh]] run by (metis fst_conv)
  moreover from publish_Inr [OF run governed_fresh(2)] obtain p r where
    r: "dget demo_signed ''payload'' = Some (JObj p)" "jget p ''policy_id'' = JStr (gc_policy_id r)"
      "t_changes (cur c') = t_changes (cur fresh) @ [r]" "work c' = None"
    by (auto simp: change_row_of_def)
  have "p = policy_version_dict demo_version" using r(1) by (simp add: demo_signed_payload)
  with r(2) have "gc_policy_id r = zeros" by (simp add: policy_version_dict_def demo_version_def jget_def)
  with r have "lineage_of (disk c') zeros \<noteq> []" by (simp add: lineage_of_def cur_idle)
  ultimately show ?thesis
    using active_policy_governed [OF _ governed_fresh, of zero_hash demo_crypto c' zeros] by auto
qed

end
