(* ===== verification/Pipeline.thy ===== *)
theory Pipeline
  imports Authorization Lineage
begin

text \<open>
  \<open>core/engine.py\<close>, the authorization pipeline: the identity, the decision, the capability, the dynamic
  authority, the plan assessment, the signed policy version, the issue and the stored artifacts, in that
  order.  \<open>evaluate\<close> and \<open>evaluate_action\<close> are in \<open>Evaluate\<close>.
\<close>

section \<open>The engine\<close>

record engine =
  en_policy :: policy
  en_source_ref :: string
  en_require_governed :: bool
  en_authority_policy :: authority_policy
  en_version :: int
  en_parent_sha256 :: "string option"

text \<open>\<open>int(text)\<close>: blanks around, a sign, digits with single underscores between them.\<close>

fun digit_groups :: "bool \<Rightarrow> string \<Rightarrow> bool" where
  "digit_groups after_digit [] \<longleftrightarrow> after_digit"
| "digit_groups after_digit (c # cs) \<longleftrightarrow>
     (if c = CHR ''_'' then after_digit \<and> digit_groups False cs else is_digit_char c \<and> digit_groups True cs)"

definition int_of_text :: "string \<Rightarrow> int res" where
  "int_of_text text = (let s = str_strip text; neg = (s \<noteq> [] \<and> hd s = CHR ''-'');
       u = (if s \<noteq> [] \<and> (hd s = CHR ''-'' \<or> hd s = CHR ''+'') then tl s else s);
       n = digits_value (filter (\<lambda>c. c \<noteq> CHR ''_'') u)
     in if digit_groups False u then Inr (if neg then - n else n) else Inl (ValueError ''int()''))"

text \<open>\<open>int(v)\<close> of a value of the policy document.\<close>

definition int_of_json :: "json \<Rightarrow> int res" where
  "int_of_json v = (case v of JInt i \<Rightarrow> Inr i | JBool b \<Rightarrow> Inr (if b then 1 else 0)
     | JFloat (Fin q) \<Rightarrow> Inr (if q < 0 then - \<lfloor>- q\<rfloor> else \<lfloor>q\<rfloor>)
     | JFloat NaN \<Rightarrow> Inl (ValueError ''int()'') | JFloat _ \<Rightarrow> Inl OverflowError
     | JStr s \<Rightarrow> int_of_text s | _ \<Rightarrow> Inl (TypeError ''int()''))"

definition new_engine :: "policy \<Rightarrow> string \<Rightarrow> int option \<Rightarrow> string option \<Rightarrow> bool \<Rightarrow> authority_policy option \<Rightarrow> engine res" where
  "new_engine p source number parent require ap =
     bindE (case number of Some n \<Rightarrow> Inr n
       | None \<Rightarrow> int_of_json (or_else (jget_or (pol_raw p) ''_verigate_version'' (JInt 1)) (JInt 1))) (\<lambda>n.
     Inr \<lparr> en_policy = p, en_source_ref = source, en_require_governed = require,
       en_authority_policy = (case ap of None \<Rightarrow> default_authority_policy | Some q \<Rightarrow> q),
       en_version = n, en_parent_sha256 = parent \<rparr>)"

text \<open>The connection and the cached signed policy version.\<close>

record engine_state =
  es_conn :: "db conn"
  es_signed :: "jdict option"

type_synonym 'a eng = "(engine_state, 'a) sm"

definition on_db :: "'a st \<Rightarrow> 'a eng" where
  "on_db m = (\<lambda>s. case m (es_conn s) of (c, r) \<Rightarrow> (s\<lparr>es_conn := c\<rparr>, r))"

definition set_signed :: "jdict option \<Rightarrow> unit eng" where
  "set_signed v = (\<lambda>s. (s\<lparr>es_signed := v\<rparr>, Inr ()))"

definition get_signed :: "jdict option eng" where
  "get_signed = (\<lambda>s. (s, Inr (es_signed s)))"

section \<open>The policy in force\<close>

definition governed_match :: "hash \<Rightarrow> engine \<Rightarrow> jdict \<Rightarrow> unit res" where
  "governed_match H N p = (let e = PermissionError ''governed policy artifact does not match active policy'' in
     bindE (jindex p ''policy_sha256'') (\<lambda>sha. bindE (need (sha = JStr (policy_digest H (en_policy N))) e) (\<lambda>_.
     bindE (jindex p ''version'') (\<lambda>v. bindE (need (\<not> differs v (JInt (en_version N))) e) (\<lambda>_.
     bindE (jindex p ''source_ref'') (\<lambda>src. bindE (need (src = JStr (en_source_ref N)) e) (\<lambda>_.
     need (\<not> differs (jget p ''parent_sha256'') (opt_str (en_parent_sha256 N))) e)))))))"

definition control_allows :: "hash \<Rightarrow> engine \<Rightarrow> control_row option \<Rightarrow> unit res" where
  "control_allows H N control = (case control of None \<Rightarrow> Inr ()
     | Some r \<Rightarrow> all_of [
         need (\<not> pc_frozen r) (PermissionError ''governed policy is frozen''),
         need (pc_active_sha256 r = policy_digest H (en_policy N))
           (PermissionError ''policy is not the active governed policy'')])"

definition assert_governed_policy_control :: "hash \<Rightarrow> engine \<Rightarrow> unit st" where
  "assert_governed_policy_control H N =
     bindS (governed_policy_change_by_sha (policy_digest H (en_policy N))) (\<lambda>r. case r of
       None \<Rightarrow> raiseS (PermissionError ''policy version is not governance-approved'')
     | Some v \<Rightarrow>
       bindS (liftS (governed_payload v)) (\<lambda>p.
       bindS (liftS (governed_match H N p)) (\<lambda>_.
       bindS (liftS (jindex p ''policy_id'')) (\<lambda>pid.
       bindS (control_by_value pid) (\<lambda>control. liftS (control_allows H N control))))))"

text \<open>The cache is filled before the version is registered, and emptied when the policy is refused.\<close>

definition make_signed_version :: "hash \<Rightarrow> crypto \<Rightarrow> engine \<Rightarrow> string \<Rightarrow> clock \<Rightarrow> jdict eng" where
  "make_signed_version H E N key clk =
     bindS (liftS (build_policy_version H (en_policy N) (en_source_ref N) (en_version N) (en_parent_sha256 N) []
       (clk 0))) (\<lambda>v.
     let signed = signed_dict (sign_policy_version E key v) in
     bindS (set_signed (Some signed)) (\<lambda>_.
     bindS (on_db (register_policy_version signed (clk 1))) (\<lambda>_. returnS signed)))"

definition signed_policy_version :: "hash \<Rightarrow> crypto \<Rightarrow> engine \<Rightarrow> string \<Rightarrow> clock \<Rightarrow> jdict eng" where
  "signed_policy_version H E N key clk =
     bindS get_signed (\<lambda>cached.
     bindS (case cached of None \<Rightarrow> make_signed_version H E N key clk | Some v \<Rightarrow> returnS v) (\<lambda>signed.
     bindS (if en_require_governed N then catchS (on_db (assert_governed_policy_control H N))
         (\<lambda>e. case e of PermissionError _ \<Rightarrow> Some (bindS (set_signed None) (\<lambda>_. raiseS e)) | _ \<Rightarrow> None)
       else returnS ()) (\<lambda>_. returnS signed)))"

section \<open>Authorization\<close>

definition persist_authorization :: "hash \<Rightarrow> jdict \<Rightarrow> string \<Rightarrow> string option \<Rightarrow> xnum \<Rightarrow> jdict st" where
  "persist_authorization H artifacts intent_id agent_signature t =
     bindS (record_authorization_artifacts H artifacts agent_signature t) (\<lambda>_.
     bindS (liftS (bindE (jindex_obj artifacts ''decision_receipt'') (\<lambda>r. jindex r ''signature''))) (\<lambda>v.
     bindS (update_signature intent_id (str_val v)) (\<lambda>_. returnS artifacts)))"

definition genesis_authority :: "hash \<Rightarrow> action_intent \<Rightarrow> capability \<Rightarrow> string \<Rightarrow> authority_snapshot \<Rightarrow> authority" where
  "genesis_authority H a c identity_id s = \<lparr>
     au_id = ai_agent_id a @ '':'' @ cap_id c @ '':'' @
       (if as_ledger_head_hash s = [] then snapshot_digest H s else as_ledger_head_hash s),
     au_agent_id = ai_agent_id a, au_identity_id = identity_id, au_capability_id = cap_id c,
     au_capability_version = cap_version c, au_capability_sha256 = capability_digest H c,
     au_state = as_state s, au_multiplier = as_multiplier s, au_epoch = 0,
     au_ledger_head_hash = as_ledger_head_hash s, au_effective_from = NFlt (as_evaluated_at s),
     au_expires_at = None, au_parent = None, au_evidence = [],
     au_metadata = [(''source'', JStr ''core.authority_state.AuthoritySnapshot''),
       (''successes'', JInt (as_successes s)), (''adverse_events'', JInt (as_adverse_events s)),
       (''critical_events'', JInt (as_critical_events s)), (''reason'', JStr (as_reason s))] \<rparr>"

text \<open>The payload of the only node is the action's dictionary, which names its id and timestamp.\<close>

definition genesis_assessment :: "hash \<Rightarrow> num \<Rightarrow> action_intent \<Rightarrow> capability \<Rightarrow> authority_snapshot \<Rightarrow>
    assessment option res" where
  "genesis_assessment H now a c s = (case cap_identity_id c of
     None \<Rightarrow> Inr None
   | Some identity_id \<Rightarrow>
       bindE (add_action H (new_builder (''intent:'' @ ai_intent_id a)) a None) (\<lambda>b.
       bindE (build b) (\<lambda>g.
       bindE (new_plan H g (genesis_authority H a c identity_id s) c) (\<lambda>pl.
       bindE (assess_node H (\<lambda>_. now) (\<lambda>_. []) (\<lambda>_. now) pl (ai_intent_id a)) (\<lambda>x. Inr (Some x))))))"

text \<open>The clocks of the stages: \<open>clk 0\<close> of the identity, 1 of the evaluation, 2 of the capability chain, 3 of
  its other checks, 4 of the authority, 5 of the plan, 6 of the signed policy, 7 of the issue, 8 of the artifacts.\<close>

definition pipeline_identity :: "crypto \<Rightarrow> (nat \<Rightarrow> clock) \<Rightarrow> action_intent \<Rightarrow> string option \<Rightarrow> string option \<Rightarrow>
    agent_identity option st" where
  "pipeline_identity E clk a identity_id agent_signature = (case identity_id of
     None \<Rightarrow> returnS None
   | Some i \<Rightarrow> (case given agent_signature of
       None \<Rightarrow> raiseS (ValueError ''agent signature is required for identity-bound authorization'')
     | Some sig \<Rightarrow> bindS (identity_authorize_action E i a sig (clk 0 0)) (\<lambda>x. returnS (Some x))))"

definition pipeline_authority :: "hash \<Rightarrow> engine \<Rightarrow> (nat \<Rightarrow> clock) \<Rightarrow> action_intent \<Rightarrow> string option \<Rightarrow> string option \<Rightarrow>
    guardrail_decision \<Rightarrow> (capability \<times> authority_snapshot) option st" where
  "pipeline_authority H N clk a capability_id identity_id d = (case capability_id of
     None \<Rightarrow> returnS None
   | Some i \<Rightarrow> if gd_decision d \<noteq> ALLOW then returnS None else
       bindS (capability_authorize i a identity_id (clk 2) (clk 3 0) (clk 3 1)) (\<lambda>c.
       bindS (assert_action H (en_authority_policy N) c a (clk 4 0) (clk 4 1)) (\<lambda>s. returnS (Some (c, s)))))"

definition pipeline_args :: "engine \<Rightarrow> action_intent \<Rightarrow> agent_identity option \<Rightarrow>
    (capability \<times> authority_snapshot) option \<Rightarrow> jdict \<Rightarrow> assessment option \<Rightarrow> issue_args" where
  "pipeline_args N a i bound signed x = \<lparr> is_nonce = Some (ai_intent_id a), is_ttl = JInt 300,
     is_capability = map_option fst bound, is_capability_registry = True, is_identity = i,
     is_identity_registry = True, is_authority = map_option snd bound,
     is_authority_policy = (if bound = None then None else Some (en_authority_policy N)),
     is_policy = (if bound = None then None else Some (en_policy N)), is_signed_policy = Some signed,
     is_assessment = x \<rparr>"

text \<open>\<open>now\<close> is the integer clock of the authorization; \<open>decision\<close> is None when the pipeline evaluates itself.\<close>

definition authorize_control_plane :: "hash \<Rightarrow> crypto \<Rightarrow> engine \<Rightarrow> string \<Rightarrow> (nat \<Rightarrow> clock) \<Rightarrow> int \<Rightarrow> action_intent \<Rightarrow>
    string option \<Rightarrow> string option \<Rightarrow> string option \<Rightarrow> guardrail_decision option \<Rightarrow> jdict eng" where
  "authorize_control_plane H E N key clk now a capability_id identity_id agent_signature decision =
     bindS (on_db (pipeline_identity E clk a identity_id agent_signature)) (\<lambda>identity.
     bindS (case decision of Some d \<Rightarrow> returnS d
       | None \<Rightarrow> on_db (evaluate_action H (en_policy N) (clk 1) a)) (\<lambda>d.
     bindS (on_db (pipeline_authority H N clk a capability_id identity_id d)) (\<lambda>bound.
     bindS (liftS (case bound of None \<Rightarrow> Inr None
       | Some (c, s) \<Rightarrow> genesis_assessment H (NFlt (clk 5 0)) a c s)) (\<lambda>x.
     bindS (signed_policy_version H E N key (clk 6)) (\<lambda>signed.
     bindS (on_db (issue H E key (clk 7) now a d (policy_digest H (en_policy N))
       (pipeline_args N a identity bound signed x))) (\<lambda>(receipt, execution).
     on_db (persist_authorization H (receipt_pair receipt execution) (ai_intent_id a) agent_signature (clk 8 0))))))))"

definition authorize_action :: "hash \<Rightarrow> crypto \<Rightarrow> engine \<Rightarrow> string \<Rightarrow> (nat \<Rightarrow> clock) \<Rightarrow> int \<Rightarrow> action_intent \<Rightarrow> string \<Rightarrow>
    string \<Rightarrow> string \<Rightarrow> jdict eng" where
  "authorize_action H E N key clk now a capability_id identity_id agent_signature =
     authorize_control_plane H E N key clk now a (Some capability_id) (Some identity_id) (Some agent_signature) None"

definition authorize :: "hash \<Rightarrow> crypto \<Rightarrow> engine \<Rightarrow> string \<Rightarrow> (nat \<Rightarrow> clock) \<Rightarrow> payment_intent \<Rightarrow> jdict eng" where
  "authorize H E N key clk i = (let a = as_action_intent i in
     bindS (on_db (evaluate H (en_policy N) (clk 1) i)) (\<lambda>d.
     bindS (signed_policy_version H E N key (clk 6)) (\<lambda>signed.
     bindS (liftS (issue_decision_receipt H E key a d (policy_digest H (en_policy N)) (Some signed))) (\<lambda>artifacts.
     on_db (persist_authorization H artifacts (pi_intent_id i) None (clk 8 0))))))"

definition authorize_with_capability :: "hash \<Rightarrow> crypto \<Rightarrow> engine \<Rightarrow> string \<Rightarrow> (nat \<Rightarrow> clock) \<Rightarrow> int \<Rightarrow>
    payment_intent \<Rightarrow> string \<Rightarrow> jdict eng" where
  "authorize_with_capability H E N key clk now i capability_id =
     bindS (on_db (evaluate H (en_policy N) (clk 1) i)) (\<lambda>d.
     authorize_control_plane H E N key clk now (as_action_intent i) (Some capability_id) None None (Some d))"

definition authorize_with_identity :: "hash \<Rightarrow> crypto \<Rightarrow> engine \<Rightarrow> string \<Rightarrow> (nat \<Rightarrow> clock) \<Rightarrow> int \<Rightarrow> payment_intent \<Rightarrow>
    string \<Rightarrow> string \<Rightarrow> string \<Rightarrow> jdict eng" where
  "authorize_with_identity H E N key clk now i capability_id identity_id agent_signature =
     bindS (on_db (evaluate H (en_policy N) (clk 1) i)) (\<lambda>d.
     authorize_control_plane H E N key clk now (as_action_intent i) (Some capability_id) (Some identity_id)
       (Some agent_signature) (Some d))"

end
