(* ===== verification/Pipeline_Safety.thy ===== *)
theory Pipeline_Safety
  imports Pipeline
begin

text \<open>
  What the authorization pipeline guarantees: it never touches the governed tables, it issues nothing under a
  policy that is not in force, and an executable authorization has passed every stage.
\<close>

section \<open>The governed tables are not touched\<close>

lemma untouched_control [keeps_intros]:
  "keeps (untouched D) commit" "keeps (untouched D) rollback" "keeps (untouched D) begin_immediate"
  by (auto simp: keeps_def untouched_def begin_immediate_def split: option.splits)

lemma untouched_transaction [keeps_intros]: "keeps (untouched D) m \<Longrightarrow> keeps (untouched D) (transaction m)"
  unfolding transaction_def by (intro keeps_catch keeps_intros) (auto intro!: keeps_intros)

lemma untouched_audit [keeps_intros]:
  "keeps (untouched D) (record_action a d sig b t)" "keeps (untouched D) (record_payment i d sig b t)"
  "keeps (untouched D) (update_signature iid sg)"
  "keeps (untouched D) (record_authorization_artifacts H artifacts sig t)"
  unfolding record_action_def record_payment_def update_signature_def record_authorization_artifacts_def
    insert_artifact_def insert_audit_def expect_one_def commit_if_def
  by (intro keeps_intros untouched_dml; auto simp: ins_def upd_def bindE_Inr_iff Let_def split: if_splits)+

lemma untouched_reads [keeps_intros]:
  "keeps (untouched D) (payee_seen_before a p x)" "keeps (untouched D) (spent_today a s t)"
  "keeps (untouched D) (calls_last_minute a t)" "keeps (untouched D) (storage_identity i)"
  "keeps (untouched D) (identity_is_active i t)" "keeps (untouched D) (storage_capability i)"
  "keeps (untouched D) (effective_active i clk)" 
  unfolding payee_seen_before_def spent_today_def calls_last_minute_def storage_identity_def identity_is_active_def
    storage_capability_def effective_active_def
  by (intro keeps_intros)+

lemma untouched_evaluate [keeps_intros]:
  "keeps (untouched D) (evaluate H p clk i)" "keeps (untouched D) (evaluate_action H p clk a)"
  unfolding evaluate_def evaluate_action_def evaluate_body_def evaluate_action_body_def
  by (intro keeps_intros)+

lemma untouched_snapshot [keeps_intros]: "keeps (untouched D) (snapshot H p a k now t)"
  by (auto simp: keeps_def snapshot_spec untouched_def save_state_def put_state_def split: sum.split)

lemma untouched_stages [keeps_intros]:
  "keeps (untouched D) (pipeline_identity E clk a i sig)" "keeps (untouched D) (pipeline_authority H N clk a c i d)"
  "keeps (untouched D) (persist_authorization H artifacts iid sig t)"
  "keeps (untouched D) (register_policy_version signed t)"
  "keeps (untouched D) (assert_governed_policy_control H N)"
  unfolding pipeline_identity_def pipeline_authority_def persist_authorization_def identity_authorize_action_def
    identity_resolve_def capability_authorize_def capability_resolve_def check_capability_identity_def
    assert_action_def register_policy_version_def assert_governed_policy_control_def
    governed_policy_change_by_sha_def
  by (intro keeps_intros lookups_untouched untouched_dml; auto simp: bindE_Inr_iff put_version_def)+

lemma untouched_issue [keeps_intros]: "keeps (untouched D) (issue H E key clk now a d pdigest x)"
  unfolding issue_def issue_bearer_def option_st_def current_capability_def current_identity_def
    capability_resolve_def identity_resolve_def
  by (intro keeps_intros)

definition engine_untouched :: "db \<Rightarrow> engine_state \<Rightarrow> bool" where
  "engine_untouched D s \<longleftrightarrow> untouched D (es_conn s)"

lemma engine_steps [keeps_intros]:
  "keeps (untouched D) m \<Longrightarrow> keeps (engine_untouched D) (on_db m)"
  "keeps (engine_untouched D) (set_signed v)" "keeps (engine_untouched D) get_signed"
  by (auto simp: keeps_def engine_untouched_def on_db_def set_signed_def get_signed_def split: prod.splits)

lemma engine_signed [keeps_intros]: "keeps (engine_untouched D) (signed_policy_version H E N key clk)"
  unfolding signed_policy_version_def make_signed_version_def Let_def
  by (intro keeps_intros) (auto split: exn.splits intro!: keeps_intros)

lemma engine_calls [keeps_intros]:
  "keeps (engine_untouched D) (authorize_control_plane H E N key clk now a c i sig d)"
  "keeps (engine_untouched D) (authorize H E N key clk q)"
  unfolding authorize_control_plane_def authorize_def Let_def
  by (intro keeps_intros)+

section \<open>The policy in force\<close>

text \<open>Approved, and if it is under control, active and not frozen.\<close>

definition in_force :: "governance_view \<Rightarrow> string \<Rightarrow> bool" where
  "in_force v sha \<longleftrightarrow> (\<exists>pid. sha \<in> set (vw_lineage v pid) \<and> vw_control v pid \<in> {None, Some (sha, False)})"

lemma governed_check:
  assumes "governed_db (cur c)" and "assert_governed_policy_control H N c = (c', Inr u)"
  shows "in_force (view_of (cur c)) (policy_digest H (en_policy N))"
proof -
  let ?sha = "policy_digest H (en_policy N)"
  from assms(2) obtain v p pid control where look:
    "map_option gc_envelope (select_one (\<lambda>r. gc_policy_sha256 r = ?sha) (t_changes (cur c))) = Some v"
    "governed_payload v = Inr p" "jindex p ''policy_id'' = Inr pid"
    "control_by_value pid c = (c', Inr control)" "control_allows H N control = Inr ()"
    by (auto simp: assert_governed_policy_control_def governed_policy_change_by_sha_def bindS_Inr_iff
        split: option.splits)
  from look(1) obtain r where "select_one (\<lambda>r. gc_policy_sha256 r = ?sha) (t_changes (cur c)) = Some r" "gc_envelope r = v"
    by auto
  then have r: "r \<in> set (t_changes (cur c))" "gc_policy_sha256 r = ?sha" "gc_envelope r = v"
    by (auto dest: select_one_Some)
  with assms(1) look(2,3) have pid: "pid = JStr (gc_policy_id r)"
    by (auto simp: governed_db_def envelopes_match_def jindex_Inr)
  with look(4) have "control = select_one (\<lambda>s. pc_policy_id s = gc_policy_id r) (t_controls (cur c))"
    by (auto simp: control_by_value_def policy_control_def)
  with look(5) have "vw_control (view_of (cur c)) (gc_policy_id r) \<in> {None, Some (?sha, False)}"
    by (cases control) (auto simp: view_of_def control_allows_def all_of_Inr)
  moreover have "?sha \<in> set (vw_lineage (view_of (cur c)) (gc_policy_id r))"
    using r by (force simp: view_of_def lineage_of_def)
  ultimately show ?thesis by (auto simp: in_force_def)
qed

lemma signed_version_governed:
  assumes "signed_policy_version H E N key clk s = (s', Inr signed)" and "en_require_governed N"
    and "engine_untouched D s" and "governed_db D"
  shows "in_force (view_of D) (policy_digest H (en_policy N))"
proof -
  from assms(1,2) obtain c s1 s2 where c: "(case c of None \<Rightarrow> make_signed_version H E N key clk | Some v \<Rightarrow> returnS v) s = (s1, Inr signed)"
    and g: "on_db (assert_governed_policy_control H N) s1 = (s2, Inr ())"
    by (auto simp: signed_policy_version_def bindS_Inr_iff get_signed_def catchS_def set_signed_def bindS_apply
        split: prod.splits sum.splits exn.splits option.splits if_splits)
  have "keeps (engine_untouched D) (case c of None \<Rightarrow> make_signed_version H E N key clk | Some v \<Rightarrow> returnS v)"
    unfolding make_signed_version_def Let_def by (intro keeps_intros)
  with c assms(3) have u: "engine_untouched D s1" by (rule_tac keepsD_eq)
  then have d: "t_changes (cur (es_conn s1)) = t_changes D" "t_controls (cur (es_conn s1)) = t_controls D"
    by (simp_all add: engine_untouched_def untouched_def)
  from g obtain c' where "assert_governed_policy_control H N (es_conn s1) = (c', Inr ())"
    by (auto simp: on_db_def split: prod.splits)
  with governed_check governed_db_same [OF d] assms(4) view_same [OF d] show ?thesis by metis
qed


section \<open>The entry points\<close>

inductive engine_call :: "hash \<Rightarrow> crypto \<Rightarrow> engine \<Rightarrow> engine_state \<Rightarrow> engine_state \<Rightarrow> jdict res \<Rightarrow> bool" for H E N where
  action: "authorize_action H E N key clk now a c i sig s = (s', r) \<Longrightarrow> engine_call H E N s s' r"
| payment: "authorize H E N key clk q s = (s', r) \<Longrightarrow> engine_call H E N s s' r"
| with_capability: "authorize_with_capability H E N key clk now q c s = (s', r) \<Longrightarrow> engine_call H E N s s' r"
| with_identity: "authorize_with_identity H E N key clk now q c i sig s = (s', r) \<Longrightarrow> engine_call H E N s s' r"

lemma engine_call_untouched: "engine_call H E N s s' r \<Longrightarrow> engine_untouched D s \<Longrightarrow> engine_untouched D s'"
proof (induction rule: engine_call.induct)
  case (action key clk now a c i sig s s' r)
  then show ?case unfolding authorize_action_def by (blast intro: keepsD_eq engine_calls)
next
  case (payment key clk q s s' r)
  then show ?case by (blast intro: keepsD_eq engine_calls)
next
  case (with_capability key clk now q c s s' r)
  have "keeps (engine_untouched D) (authorize_with_capability H E N key clk now q c)"
    unfolding authorize_with_capability_def by (intro keeps_intros)
  with with_capability show ?case by (blast intro: keepsD_eq)
next
  case (with_identity key clk now q c i sig s s' r)
  have "keeps (engine_untouched D) (authorize_with_identity H E N key clk now q c i sig)"
    unfolding authorize_with_identity_def by (intro keeps_intros)
  with with_identity show ?case by (blast intro: keepsD_eq)
qed

lemma control_plane_in_force:
  assumes run: "authorize_control_plane H E N key clk now a c i sig d s = (s', Inr artifacts)"
    and gov: "en_require_governed N" "engine_untouched D s" "governed_db D"
  shows "in_force (view_of D) (policy_digest H (en_policy N))"
proof -
  let ?m = "bindS (on_db (pipeline_identity E clk a i sig)) (\<lambda>_.
     bindS (case d of Some d \<Rightarrow> returnS d | None \<Rightarrow> on_db (evaluate_action H (en_policy N) (clk 1) a)) (\<lambda>d.
     bindS (on_db (pipeline_authority H N clk a c i d)) (\<lambda>bound.
     liftS (case bound of None \<Rightarrow> Inr None | Some (c, s) \<Rightarrow> genesis_assessment H (NFlt (clk 5 0)) a c s))))"
  from run obtain x s1 s2 signed where m: "?m s = (s1, Inr x)" and v: "signed_policy_version H E N key (clk 6) s1 = (s2, Inr signed)"
    by (auto simp: authorize_control_plane_def bindS_Inr_iff)
  have "keeps (engine_untouched D) ?m" by (intro keeps_intros)
  with m gov(2) have "engine_untouched D s1" by (rule_tac keepsD_eq)
  from signed_version_governed [OF v gov(1) this gov(3)] show ?thesis .
qed

lemma engine_call_in_force:
  assumes "engine_call H E N s s' (Inr artifacts)" and gov: "en_require_governed N" "governed_db D" and "engine_untouched D s"
  shows "in_force (view_of D) (policy_digest H (en_policy N))"
  using assms(1)
proof (cases rule: engine_call.cases)
  case (action key clk now a c i sig)
  with control_plane_in_force gov assms(4) show ?thesis unfolding authorize_action_def by blast
next
  case (payment key clk q)
  then obtain x s1 s2 signed where m: "on_db (evaluate H (en_policy N) (clk 1) q) s = (s1, Inr x)"
    and v: "signed_policy_version H E N key (clk 6) s1 = (s2, Inr signed)"
    by (auto simp: authorize_def bindS_Inr_iff Let_def)
  have "keeps (engine_untouched D) (on_db (evaluate H (en_policy N) (clk 1) q))" by (intro keeps_intros)
  with m assms(4) have "engine_untouched D s1" by (rule_tac keepsD_eq)
  from signed_version_governed [OF v gov(1) this gov(2)] show ?thesis .
next
  case (with_capability key clk now q c)
  then obtain x s1 where m: "on_db (evaluate H (en_policy N) (clk 1) q) s = (s1, Inr x)"
    and run: "authorize_control_plane H E N key clk now (as_action_intent q) (Some c) None None (Some x) s1 = (s', Inr artifacts)"
    by (auto simp: authorize_with_capability_def bindS_Inr_iff)
  have "keeps (engine_untouched D) (on_db (evaluate H (en_policy N) (clk 1) q))" by (intro keeps_intros)
  with m assms(4) have "engine_untouched D s1" by (rule_tac keepsD_eq)
  from control_plane_in_force [OF run gov(1) this gov(2)] show ?thesis .
next
  case (with_identity key clk now q c i sig)
  then obtain x s1 where m: "on_db (evaluate H (en_policy N) (clk 1) q) s = (s1, Inr x)"
    and run: "authorize_control_plane H E N key clk now (as_action_intent q) (Some c) (Some i) (Some sig) (Some x) s1 =
      (s', Inr artifacts)"
    by (auto simp: authorize_with_identity_def bindS_Inr_iff)
  have "keeps (engine_untouched D) (on_db (evaluate H (en_policy N) (clk 1) q))" by (intro keeps_intros)
  with m assms(4) have "engine_untouched D s1" by (rule_tac keepsD_eq)
  from control_plane_in_force [OF run gov(1) this gov(2)] show ?thesis .
qed


section \<open>What an executable authorization has passed\<close>

lemma on_db_Inr: "on_db m s = (s', Inr x) \<longleftrightarrow> (\<exists>c. m (es_conn s) = (c, Inr x) \<and> s' = s\<lparr>es_conn := c\<rparr>)"
  by (auto simp: on_db_def split: prod.splits)

lemma pipeline_identity_Inr:
  assumes "pipeline_identity E clk a i sig s = (s', Inr x)"
  shows "case i of None \<Rightarrow> x = None | Some iid \<Rightarrow> \<exists>j g r. x = Some j \<and> sig = Some g \<and>
    verify_action_signature E a iid g j = (True, r)"
  using assms
  by (auto simp: pipeline_identity_def identity_authorize_action_def bindS_Inr_iff given_def
      split: option.splits prod.splits if_splits)

lemma pipeline_authority_Inr:
  assumes "pipeline_authority H N clk a c i d s = (s', Inr (Some (cap, sn)))"
  shows "\<exists>cid r. c = Some cid \<and> gd_decision d = ALLOW \<and> permits cap a (NFlt (clk 3 1)) = Inr (True, r) \<and>
    chain_active (cur s) (clk 2) default_max_depth [] 0 (Some cid) \<and> find_capability cid (cur s) = Some cap \<and>
    as_state sn \<noteq> SUSPENDED \<and> within_dynamic_limit cap a (as_multiplier sn) = Inr ()"
proof -
  from assms obtain cid s1 where c: "c = Some cid" "gd_decision d = ALLOW"
    and cap: "capability_authorize cid a i (clk 2) (clk 3 0) (clk 3 1) s = (s1, Inr cap)"
    and sn: "assert_action H (en_authority_policy N) cap a (clk 4 0) (clk 4 1) s1 = (s', Inr sn)"
    by (auto simp: pipeline_authority_def bindS_Inr_iff split: option.splits if_splits)
  from cap obtain s2 r where "capability_resolve cid (clk 2) s = (s2, Inr cap)" "permits cap a (NFlt (clk 3 1)) = Inr (True, r)"
    by (auto simp: capability_authorize_def bindS_Inr_iff split: if_splits)
  then have "chain_active (cur s) (clk 2) default_max_depth [] 0 (Some cid) \<and> find_capability cid (cur s) = Some cap"
    by (auto simp: capability_resolve_def storage_capability_def effective_active_def bindS_Inr_iff
        split: option.splits if_splits)
  with c sn \<open>permits cap a (NFlt (clk 3 1)) = Inr (True, r)\<close> show ?thesis by (auto simp: assert_action_spec)
qed

lemma inserted_artifact:
  "insert_artifact row s = (s', Inr u) \<Longrightarrow> \<exists>r. row = Inr r \<and> r \<in> set (t_artifacts (cur s'))"
  by (auto simp: insert_artifact_def dml_Inr ins_def bindE_Inr_iff insert_row_Inr cur_def)

lemma recorded_artifacts:
  assumes "record_authorization_artifacts H (receipt_pair receipt (Some auth)) sig t s = (s', Inr u)"
  shows "\<exists>r\<in>set (t_artifacts (disk s')). aa_execution r = Some (JObj (signed_dict auth))"
proof -
  have j: "jindex_obj (receipt_pair receipt (Some auth)) ''decision_receipt'' = Inr (signed_dict receipt)"
    "jget (receipt_pair receipt (Some auth)) ''execution_authorization'' = JObj (signed_dict auth)"
    by (simp_all add: receipt_pair_def jindex_obj_def jindex_def jget_def)
  from assms show ?thesis
    by (auto simp: record_authorization_artifacts_def j on_integrity_raise bindS_Inr_iff bindE_Inr_iff
        dest!: inserted_artifact intro!: rev_bexI)
qed

lemma update_signature_artifacts:
  "update_signature iid sig s = (s', Inr u) \<Longrightarrow> disk s = cur s \<Longrightarrow> t_artifacts (disk s') = t_artifacts (disk s)"
  by (auto simp: update_signature_def expect_one_def bindS_Inr_iff dml_Inr upd_def Let_def split: if_splits)

lemma persisted:
  assumes "persist_authorization H (receipt_pair receipt (Some auth)) iid sig t s = (s', Inr x)"
  shows "x = receipt_pair receipt (Some auth) \<and>
    (\<exists>r\<in>set (t_artifacts (disk s')). aa_execution r = Some (JObj (signed_dict auth)))"
proof -
  from assms obtain s1 g where rec: "record_authorization_artifacts H (receipt_pair receipt (Some auth)) sig t s = (s1, Inr ())"
    and up: "update_signature iid g s1 = (s', Inr ())" "x = receipt_pair receipt (Some auth)"
    by (auto simp: persist_authorization_def bindS_Inr_iff)
  from rec have "disk s1 = cur s1"
    by (auto simp: record_authorization_artifacts_def on_integrity_raise bindS_Inr_iff cur_def)
  with recorded_artifacts [OF rec] update_signature_artifacts [OF up(1)] up(2) show ?thesis by simp
qed

text \<open>The binding of an executable authorization to its action and to the artifacts that justify it.\<close>

definition binds_action :: "hash \<Rightarrow> engine \<Rightarrow> action_intent \<Rightarrow> capability \<Rightarrow> authority_snapshot \<Rightarrow> jdict \<Rightarrow> bool" where
  "binds_action H N a cap sn P \<longleftrightarrow> jget P ''action'' = JObj (action_dict a) \<and> jget P ''nonce'' = JStr (ai_intent_id a) \<and>
     jget P ''capability_sha256'' = JStr (capability_digest H cap) \<and>
     jget P ''authority_state_sha256'' = JStr (snapshot_digest H sn) \<and>
     jget P ''policy_sha256'' = JStr (policy_digest H (en_policy N))"

lemma issue_executable:
  assumes "issue H E key clk now a d (policy_digest H (en_policy N)) (pipeline_args N a identity bound signed x) s =
      (s', Inr (receipt, Some auth))"
  shows "\<exists>cap sn. bound = Some (cap, sn) \<and> binds_action H N a cap sn (sd_payload auth) \<and>
    (\<forall>y. x = Some y \<longrightarrow> aa_status y = ELIGIBLE)"
proof -
  let ?x = "pipeline_args N a identity bound signed x"
  from issue_established [OF assms] obtain c i sn eff ttl where est: "is_authority ?x = Some sn"
    "bearer_of H clk a ?x c i s" "jget (sd_payload auth) ''action'' = JObj (action_dict a)"
    "jget (sd_payload auth) ''nonce'' = JStr (ai_intent_id a)"
    "jget (sd_payload auth) ''capability_sha256'' = JStr (capability_digest H c)"
    "jget (sd_payload auth) ''authority_state_sha256'' = JStr (snapshot_digest H sn)"
    "jget (sd_payload auth) ''policy_sha256'' = JStr (policy_digest H (en_policy N))"
    "case is_assessment ?x of None \<Rightarrow> True | Some y \<Rightarrow> aa_status y = ELIGIBLE \<and> aa_intent_id y = ai_intent_id a"
    by (auto simp: Let_def)
  then obtain cap where "bound = Some (cap, sn)" by (cases bound) (auto simp: pipeline_args_def)
  with est show ?thesis by (auto simp: bearer_of_def pipeline_args_def binds_action_def)
qed

text \<open>The stages an authorization has passed, with the identity, the decision, the capability and the standing.\<close>

definition passed_stages :: "hash \<Rightarrow> crypto \<Rightarrow> engine \<Rightarrow> (nat \<Rightarrow> clock) \<Rightarrow> action_intent \<Rightarrow> string option \<Rightarrow> string option \<Rightarrow>
    string option \<Rightarrow> guardrail_decision option \<Rightarrow> capability \<Rightarrow> authority_snapshot \<Rightarrow> bool" where
  "passed_stages H E N clk a c i sig d cap sn \<longleftrightarrow>
     (\<forall>iid. i = Some iid \<longrightarrow> (\<exists>j g r. sig = Some g \<and> verify_action_signature E a iid g j = (True, r))) \<and>
     (\<exists>e. gd_decision e = ALLOW \<and> (d = Some e \<or> d = None \<and>
        (\<exists>s1 s2. evaluate_action H (en_policy N) (clk 1) a s1 = (s2, Inr e)))) \<and>
     (\<exists>cid db r. c = Some cid \<and> find_capability cid db = Some cap \<and>
        chain_active db (clk 2) default_max_depth [] 0 (Some cid) \<and> permits cap a (NFlt (clk 3 1)) = Inr (True, r)) \<and>
     as_state sn \<noteq> SUSPENDED \<and> within_dynamic_limit cap a (as_multiplier sn) = Inr ()"

lemma control_plane_executable:
  assumes run: "authorize_control_plane H E N key clk now a c i sig d s = (s', Inr artifacts)"
    and exe: "jget artifacts ''execution_authorization'' \<noteq> JNull"
  shows "\<exists>receipt auth cap sn. artifacts = receipt_pair receipt (Some auth) \<and> passed_stages H E N clk a c i sig d cap sn \<and>
    binds_action H N a cap sn (sd_payload auth) \<and>
    (\<exists>r\<in>set (t_artifacts (disk (es_conn s'))). aa_execution r = Some (JObj (signed_dict auth)))"
proof -
  from run obtain c1 identity s1 e c2 bound x cs signed c3 receipt execution c4 where
    id: "pipeline_identity E clk a i sig (es_conn s) = (c1, Inr identity)"
    and dec: "(case d of Some d \<Rightarrow> returnS d | None \<Rightarrow> on_db (evaluate_action H (en_policy N) (clk 1) a)) (s\<lparr>es_conn := c1\<rparr>) = (s1, Inr e)"
    and au: "pipeline_authority H N clk a c i e (es_conn s1) = (c2, Inr bound)"
    and iss: "issue H E key (clk 7) now a e (policy_digest H (en_policy N)) (pipeline_args N a identity bound signed x)
      cs = (c3, Inr (receipt, execution))"
    and per: "persist_authorization H (receipt_pair receipt execution) (ai_intent_id a) sig (clk 8 0) c3 = (c4, Inr artifacts)"
    and s': "es_conn s' = c4"
    by (clarsimp simp: authorize_control_plane_def bindS_Inr_iff on_db_Inr)
  have "artifacts = receipt_pair receipt execution"
    using per by (auto simp: persist_authorization_def bindS_Inr_iff)
  with exe obtain auth where auth: "execution = Some auth" by (cases execution) (auto simp: receipt_pair_def jget_def)
  from issue_executable [OF iss [unfolded auth]] obtain cap sn where b: "bound = Some (cap, sn)"
    "binds_action H N a cap sn (sd_payload auth)" by blast
  from pipeline_authority_Inr [OF au [unfolded b(1)]] obtain cid r where st: "c = Some cid" "gd_decision e = ALLOW"
    "permits cap a (NFlt (clk 3 1)) = Inr (True, r)" "find_capability cid (cur (es_conn s1)) = Some cap"
    "chain_active (cur (es_conn s1)) (clk 2) default_max_depth [] 0 (Some cid)" "as_state sn \<noteq> SUSPENDED"
    "within_dynamic_limit cap a (as_multiplier sn) = Inr ()" by blast
  have "passed_stages H E N clk a c i sig d cap sn"
    using st dec pipeline_identity_Inr [OF id]
    unfolding passed_stages_def by (auto simp: on_db_Inr split: option.splits)
  with b per s' auth persisted show ?thesis by blast
qed

section \<open>A concrete engine\<close>

definition demo_engine :: engine where
  "demo_engine = \<lparr> en_policy = default_policy, en_source_ref = ''policy.yaml'', en_require_governed = False,
     en_authority_policy = demo_authority_policy, en_version = 1, en_parent_sha256 = None \<rparr>"

definition demo_store :: "db conn" where
  "demo_store = \<lparr> disk = empty_db\<lparr>t_capabilities := [demo_row],
     t_audit := [action_row demo_request demo_allow (Fin 5) (Fin 0)]\<rparr>, work = None \<rparr>"

lemma demo_resolves:
  "t_capabilities (cur c) = [demo_row] \<Longrightarrow> capability_resolve ''c1'' clk c = (c, Inr demo_capability)"
  by (simp add: capability_resolve_def storage_capability_def effective_active_def bindS_apply find_capability_def
      capability_row_of_def select_one_def chain_active.simps capability_active_at_def not_expired_def)
     (simp add: demo_row_def demo_capability_def chain_active.simps)

lemma demo_permits: "permits demo_capability demo_request (NFlt t) = Inr (True, ''capability permits action'')"
  by (simp add: permits_def demo_capability_def demo_request_def Delegation.demo_action_def as_action_intent_def demo_payment_def
      lower_mem_iff)

lemma demo_request_type: "ai_action_type demo_request = ''payment''"
  by (simp add: demo_request_def Delegation.demo_action_def as_action_intent_def)

lemma demo_authority:
  "\<exists>c sn. pipeline_authority zero_hash demo_engine (\<lambda>_ _. Fin 1000) demo_request (Some ''c1'') None demo_allow demo_store =
     (c, Inr (Some (demo_capability, sn))) \<and> as_state sn = PROBATION \<and> as_multiplier sn = Fin (1 / 2) \<and>
     as_agent_id sn = ''a'' \<and> as_capability_id sn = ''c1'' \<and> work c = None \<and>
     t_capabilities (disk c) = [demo_row] \<and> t_audit (disk c) = [action_row demo_request demo_allow (Fin 5) (Fin 0)] \<and>
     t_artifacts (disk c) = []"
proof -
  let ?p = demo_authority_policy and ?d = "disk demo_store"
  have "\<exists>sn. snapshot_of zero_hash ?p ''a'' ''c1'' (Fin 1000) ?d = Inr sn \<and> as_state sn = PROBATION"
    by (simp add: snapshot_of_def history_start_def py_float_def demo_authority_policy_def demo_store_def
        default_authority_policy_def round64_numeral reset_in_def resets_of_def empty_db_def Let_def
        events_since_def order_asc_def count_events_def latest_state_in_def select_one_def classify_def)
  then obtain sn where s: "snapshot_of zero_hash ?p ''a'' ''c1'' (Fin 1000) ?d = Inr sn" "as_state sn = PROBATION"
    by blast
  have m: "as_multiplier sn = Fin (1 / 2)" "as_agent_id sn = ''a''" "as_capability_id sn = ''c1''"
    using snapshot_of_Inr [OF s(1)] s(2) by (simp_all add: multiplier_def demo_authority_policy_def)
  have "within_dynamic_limit demo_capability demo_request (as_multiplier sn) = Inr ()"
    by (simp add: within_dynamic_limit_def scaled_limit_def py_float_def round64_numeral opt_default_def
        demo_capability_def m demo_request_def Delegation.demo_action_def as_action_intent_def demo_payment_def)
  moreover have cur: "cur demo_store = ?d" by (simp add: demo_store_def cur_idle)
  ultimately have "assert_action zero_hash ?p demo_capability demo_request (Fin 1000) (Fin 1000) demo_store =
      (demo_store\<lparr>disk := save_state sn (Fin 1000) ?d, work := None\<rparr>, Inr sn)"
    using s(1,2) by (simp add: assert_action_spec snapshot_spec demo_capability_fields demo_authority_policy_def
        default_authority_policy_def demo_request_type)
  moreover have "capability_resolve ''c1'' clk demo_store = (demo_store, Inr demo_capability)" for clk
    by (rule demo_resolves) (simp add: cur, simp add: demo_store_def)
  ultimately have "pipeline_authority zero_hash demo_engine (\<lambda>_ _. Fin 1000) demo_request (Some ''c1'') None demo_allow
      demo_store = (demo_store\<lparr>disk := save_state sn (Fin 1000) ?d, work := None\<rparr>, Inr (Some (demo_capability, sn)))"
    by (simp add: pipeline_authority_def demo_allow_def capability_authorize_def bindS_apply check_capability_identity_def
        demo_capability_fields demo_permits demo_engine_def)
  then show ?thesis
    using s m by (auto simp: save_state_def put_state_def demo_store_def empty_db_def)
qed

lemma persist_ok:
  assumes "work c = None" "t_artifacts (disk c) = []" "t_audit (disk c) = [r]" "au_intent_id r = iid" "au_signature r = None"
    and "dget (sd_payload receipt) ''intent'' = Some (JObj i)" "dget i ''intent_id'' = Some (JStr iid)"
      "dget i ''agent_id'' = Some (JStr g)"
    and "\<And>auth. execution = Some auth \<Longrightarrow> \<exists>aid. dget (sd_payload auth) ''authorization_id'' = Some (JStr aid)"
  shows "\<exists>c'. persist_authorization H (receipt_pair receipt execution) iid sig t c =
    (c', Inr (receipt_pair receipt execution))"
proof -
  have "\<exists>a. record_authorization_artifacts H (receipt_pair receipt execution) sig t c =
      (c\<lparr>disk := (disk c)\<lparr>t_artifacts := [a]\<rparr>, work := None\<rparr>, Inr ())"
  proof (cases execution)
    case None
    with assms(1,2,6-8) show ?thesis
      by (simp add: record_authorization_artifacts_def receipt_pair_def jindex_obj_def jindex_def jget_def signed_dict_def
          on_integrity_raise bindS_apply insert_artifact_def dml_def ins_def insert_row_def cur_idle) (rule exI, rule refl)
  next
    case (Some auth)
    with assms(9) obtain aid where "dget (sd_payload auth) ''authorization_id'' = Some (JStr aid)" by blast
    with Some assms(1,2,6-8) show ?thesis
      by (simp add: record_authorization_artifacts_def receipt_pair_def jindex_obj_def jindex_def jget_def signed_dict_def
          on_integrity_raise bindS_apply insert_artifact_def dml_def ins_def insert_row_def cur_idle) (rule exI, rule refl)
  qed
  then show ?thesis
    using assms(3-5)
    by (auto simp: persist_authorization_def bindS_apply receipt_pair_def jindex_obj_def jindex_def signed_dict_def
        update_signature_def expect_one_def dml_def upd_def update_rows_def cur_idle Let_def)
qed

lemma demo_pipeline_issued:
  assumes c: "work c = None" "t_capabilities (disk c) = [demo_row]"
    and sn: "as_state sn = PROBATION" "as_multiplier sn = Fin (1 / 2)" "as_agent_id sn = ''a''" "as_capability_id sn = ''c1''"
  shows "\<exists>receipt auth i. issue zero_hash demo_crypto ''k'' (\<lambda>_. Fin 1000) 1000 demo_request demo_allow
     (policy_digest zero_hash default_policy) (pipeline_args demo_engine demo_request None (Some (demo_capability, sn))
       demo_signed None) c = (c, Inr (receipt, Some auth)) \<and>
     dget (sd_payload receipt) ''intent'' = Some (JObj (action_dict demo_request)) \<and>
     dget (sd_payload auth) ''authorization_id'' = Some (JStr i)"
proof -
  let ?x = "pipeline_args demo_engine demo_request None (Some (demo_capability, sn)) demo_signed None"
  have x: "is_authority ?x = Some sn" "is_policy ?x = Some default_policy" "is_ttl ?x = JInt 300"
    "is_signed_policy ?x = Some demo_signed" "is_capability ?x = Some demo_capability" "is_identity ?x = None"
    "is_authority_policy ?x = Some demo_authority_policy" "is_nonce ?x = Some (ai_intent_id demo_request)"
    "is_assessment ?x = None" "is_capability_registry ?x"
    by (simp_all add: pipeline_args_def demo_engine_def)
  have "signed_policy_check zero_hash demo_signed (policy_digest zero_hash default_policy) (Some default_policy) = Inr ()"
    by (simp add: signed_policy_check_def demo_signed_payload policy_version_dict_def demo_version_def jget_def
        all_of_Inr policy_digest_def digest_json_def zero_hash_zeros)
  then have checks: "issue_checks zero_hash demo_request demo_allow (policy_digest zero_hash default_policy) ?x = Inr ()"
    by (simp add: issue_checks_def all_of_Inr x same_subject_def demo_allow_def is_int_def max_ttl_def demo_capability_fields)
  have "capability_resolve ''c1'' clk c = (c, Inr demo_capability)" for clk
    by (rule demo_resolves) (simp add: c cur_idle)
  then have "current_capability zero_hash (\<lambda>_. Fin 1000) demo_request True demo_capability c = (c, Inr demo_capability)"
    by (simp add: current_capability_def demo_capability_fields demo_permits bindS_apply)
  moreover have "authority_check demo_request demo_capability (Some demo_authority_policy) sn = Inr ()"
    by (simp add: authority_check_def all_of_Inr sn demo_capability_fields multiplier_def demo_authority_policy_def)
  ultimately have bearer: "issue_bearer zero_hash (\<lambda>_. Fin 1000) demo_request demo_allow ?x c =
      (c, Inr (Some demo_capability, None))"
    by (simp add: issue_bearer_def option_st_def x demo_allow_def bindS_apply demo_capability_fields
        expiry_check_def capability_bearer_check_def all_of.simps need_def)
  obtain receipt where r: "sign_receipt zero_hash demo_crypto ''k'' demo_request demo_allow
      (policy_digest zero_hash default_policy) (Some demo_signed) = Inr receipt"
    using demo_receipt [of "Some demo_signed"] by (auto simp: jindex_def demo_signed_payload)
  from demo_mint [OF r x(1-3)] checks bearer r receipt_parts(1) [OF r] show ?thesis
    by (auto simp: issue_def bindS_apply x) (simp add: demo_allow_def)
qed

lemma demo_control_plane:
  "\<exists>s' artifacts. authorize_control_plane zero_hash demo_crypto demo_engine ''k'' (\<lambda>_ _. Fin 1000) 1000 demo_request
     (Some ''c1'') None None (Some demo_allow) \<lparr>es_conn = demo_store, es_signed = Some demo_signed\<rparr> =
     (s', Inr artifacts) \<and> jget artifacts ''execution_authorization'' \<noteq> JNull"
proof -
  obtain c sn where au: "pipeline_authority zero_hash demo_engine (\<lambda>_ _. Fin 1000) demo_request (Some ''c1'') None demo_allow
      demo_store = (c, Inr (Some (demo_capability, sn)))" "work c = None" "t_artifacts (disk c) = []"
      "t_audit (disk c) = [action_row demo_request demo_allow (Fin 5) (Fin 0)]" "t_capabilities (disk c) = [demo_row]"
    and sn: "as_state sn = PROBATION" "as_multiplier sn = Fin (1 / 2)" "as_agent_id sn = ''a''" "as_capability_id sn = ''c1''"
    using demo_authority by blast
  from demo_pipeline_issued [OF au(2,5) sn] obtain receipt auth i where iss: "issue zero_hash demo_crypto ''k'' (\<lambda>_. Fin 1000) 1000
      demo_request demo_allow (policy_digest zero_hash default_policy)
      (pipeline_args demo_engine demo_request None (Some (demo_capability, sn)) demo_signed None) c =
      (c, Inr (receipt, Some auth))"
      "dget (sd_payload receipt) ''intent'' = Some (JObj (action_dict demo_request))"
      "dget (sd_payload auth) ''authorization_id'' = Some (JStr i)" by blast
  have "\<exists>c'. persist_authorization zero_hash (receipt_pair receipt (Some auth)) (ai_intent_id demo_request) None (Fin 1000) c =
      (c', Inr (receipt_pair receipt (Some auth)))"
    by (rule persist_ok [OF au(2,3,4) _ _ iss(2)]) (simp_all add: action_row_def action_dict_def iss(3))
  then show ?thesis
    using au(1) iss(1)
    by (auto simp: authorize_control_plane_def bindS_apply on_db_def pipeline_identity_def genesis_assessment_def
        demo_capability_fields signed_policy_version_def get_signed_def demo_engine_def receipt_pair_def jget_def)
qed

text \<open>A store in which the policy was published, and an engine that requires a governed policy.\<close>

definition demo_published :: change_row where
  "demo_published = \<lparr> gc_policy_sha256 = zeros, gc_policy_id = zeros, gc_version = 1, gc_parent_sha256 = None,
     gc_action_id = ''x'', gc_action_nonce = ''n'', gc_governance_sha256 = zeros,
     gc_envelope = JObj [(''policy_version'', JObj demo_signed)], gc_created_at = Fin 5 \<rparr>"

definition governed_start :: engine_state where
  "governed_start = \<lparr> es_conn = \<lparr> disk = empty_db\<lparr>t_changes := [demo_published]\<rparr>, work = None \<rparr>,
     es_signed = Some demo_signed \<rparr>"

definition governed_engine :: engine where
  "governed_engine = demo_engine\<lparr>en_require_governed := True\<rparr>"

lemma demo_published_payload:
  "governed_payload (gc_envelope demo_published) = Inr (policy_version_dict demo_version)"
  by (simp add: governed_payload_def demo_published_def as_dict_def jindex_obj_def jindex_def demo_signed_payload)

lemma governed_start_ok: "governed_db (cur (es_conn governed_start))" "settled (es_conn governed_start)"
proof -
  have "versions_from_one (disk (es_conn governed_start))"
    by (auto simp: versions_from_one_def governed_start_def demo_published_def Let_def)
  moreover have "envelopes_match (disk (es_conn governed_start))"
    using demo_published_payload
    by (auto simp: envelopes_match_def governed_start_def)
       (simp add: demo_published_def policy_version_dict_def demo_version_def)
  ultimately show "governed_db (cur (es_conn governed_start))"
    by (simp add: governed_db_def controls_in_lineage_def cur_def governed_start_def empty_db_def)
  show "settled (es_conn governed_start)" by (rule settled_idle) (simp add: governed_start_def)
qed

lemma governed_start_allows:
  assumes "t_changes (cur c) = [demo_published]" "t_controls (cur c) = []"
  shows "assert_governed_policy_control zero_hash governed_engine c = (c, Inr ())"
proof -
  let ?p = "policy_version_dict demo_version"
  have dig: "policy_digest zero_hash q = zeros" for q
    by (simp add: policy_digest_def digest_json_def zero_hash_zeros)
  have "governed_match zero_hash governed_engine ?p = Inr ()" "jindex ?p ''policy_id'' = Inr (JStr zeros)"
    by (simp_all add: governed_match_def policy_version_dict_def demo_version_def jindex_def jget_def dig need_def Let_def
        governed_engine_def demo_engine_def differs_def opt_str_def)
  moreover have "gc_policy_sha256 demo_published = zeros" by (simp add: demo_published_def)
  ultimately show ?thesis
    using assms demo_published_payload
    by (simp add: assert_governed_policy_control_def governed_policy_change_by_sha_def bindS_apply dig select_one_def
        control_by_value_def policy_control_def control_allows_def)
qed

lemma governed_authorizes:
  "\<exists>s' artifacts. authorize zero_hash demo_crypto governed_engine ''k'' (\<lambda>_. demo_clock) demo_payment governed_start =
     (s', Inr artifacts)"
proof -
  let ?c = "es_conn governed_start" and ?d = "decide ''i1'' ''a'' (payment_context zero_hash demo_payment) (Fin 1000) []"
  let ?row = "payment_row demo_payment ?d (Fin 5) (Fin 1000)"
  have "payment_result zero_hash default_policy (disk ?c) demo_clock demo_payment =
      payment_result zero_hash default_policy (disk fresh) demo_clock demo_payment"
    by (simp add: payment_result_def payment_matches_def seen_in_def spent_in_def spend_rows_def calls_in_def
        governed_start_def)
  then have res: "payment_result zero_hash default_policy (disk ?c) demo_clock demo_payment = Inr (?d, Fin 5)"
    by (simp only: demo_payment_result)
  have "work ?c = None" by (simp add: governed_start_def)
  then have "evaluate zero_hash default_policy demo_clock demo_payment ?c = (add_audit ?row ?c, Inr ?d)"
    by (simp add: evaluate_spec res demo_clock_def)
  moreover have "assert_governed_policy_control zero_hash governed_engine (add_audit ?row ?c) = (add_audit ?row ?c, Inr ())"
    by (rule governed_start_allows) (simp_all add: add_audit_def governed_start_def cur_idle empty_db_def)
  moreover obtain receipt where "sign_receipt zero_hash demo_crypto ''k'' (as_action_intent demo_payment) ?d
      (policy_digest zero_hash default_policy) (Some demo_signed) = Inr receipt"
    by (simp add: sign_receipt_def receipt_payload_def Let_def jindex_def demo_signed_payload)
  moreover from receipt_parts(1) [OF this] have "\<exists>c'. persist_authorization zero_hash (receipt_pair receipt None)
      (pi_intent_id demo_payment) None (demo_clock 0) (add_audit ?row ?c) = (c', Inr (receipt_pair receipt None))"
    by (rule persist_ok [rotated 5])
       (simp add: add_audit_def governed_start_def empty_db_def payment_row_def action_dict_def as_action_intent_def)+
  moreover have "same_subject zero_hash (as_action_intent demo_payment) ?d = Inr ()"
    by (simp add: same_subject_def decide_def payment_context_def as_action_intent_def demo_payment_def)
  moreover have "en_policy governed_engine = default_policy"
    by (simp add: governed_engine_def demo_engine_def)
  moreover have "es_signed governed_start = Some demo_signed" by (simp add: governed_start_def)
  ultimately show ?thesis
    by (auto simp: authorize_def bindS_apply on_db_def signed_policy_version_def get_signed_def Let_def catchS_def
        issue_decision_receipt_def)
qed

section \<open>Properties\<close>





end
