(* ===== verification/Spec2Isabelle.thy ===== *)
theory Spec2Isabelle
  imports Rate_Limit Delegation Authority_Levels Storage_Outcome Receipt_Boundary Router_Safety Pipeline_Safety
begin

text \<open>
  VeriGate.
\<close>

end
